(* ===== verification/Prelude.thy ===== *)
theory Prelude
  imports
    "HOL-Library.State_Monad"
    "HOL-Library.AList"
    "HOL-Library.Sublist"
    "HOL-Library.Word"
begin

text \<open>
  Shared vocabulary of the development.

  \<^item> The world a request runs in: the state of the MongoDB and Redis servers (type variables,
    since those servers are not part of the repository), the wall clock and the entropy source as
    sequences of readings, the process-wide identifier sequence, the transaction invalidation
    buffers reachable from contexts, and the metrics events recorded so far.
  \<^item> Computations over the world in the state monad of the library, with a small Hoare calculus
    (\<open>ht\<close>) and an invariance calculus (\<open>keeps\<close>); the collections \<open>keeps_intros\<close> and
    \<open>run_simps\<close> carry most component proofs.
  \<^item> The parts of Go's standard library the sources use: \<open>strings\<close>, \<open>time\<close>,
    \<open>encoding/hex\<close>, \<open>encoding/base64\<close>, on byte strings. The text functions agree with Go on
    ASCII text, which is the range of strings the development speaks about.
\<close>

named_theorems run_simps \<open>running a primitive computation in a given world\<close>
named_theorems never_intros \<open>computations that never answer with a value\<close>
named_theorems keeps_intros \<open>invariance rules, one per program construct or operation\<close>

section \<open>Time, durations and machine integers\<close>

text \<open>
  A \<open>time.Time\<close> is the number of nanoseconds since the zero time of Go (1 January of year 1,
  UTC), so \<open>IsZero\<close> is equality with 0. A \<open>time.Duration\<close> is a signed 64-bit number of
  nanoseconds; \<open>Sub\<close> saturates, as the library does.
\<close>

type_synonym time = int
type_synonym duration = int
type_synonym byte = "8 word"
type_synonym bytes = "byte list"

definition max_int64 :: int where "max_int64 = 2 ^ 63 - 1"
definition min_int64 :: int where "min_int64 = - (2 ^ 63)"

definition wrap64 :: "int \<Rightarrow> int" where
  "wrap64 x = (x + 2 ^ 63) mod 2 ^ 64 - 2 ^ 63"

definition nanosecond :: duration where "nanosecond = 1"
definition millisecond :: duration where "millisecond = 1000000"
definition second :: duration where "second = 1000000000"
definition minute :: duration where "minute = 60 * second"
definition hour :: duration where "hour = 60 * minute"

lemmas duration_defs = nanosecond_def millisecond_def second_def minute_def hour_def

definition IsZero :: "time \<Rightarrow> bool" where "IsZero t \<longleftrightarrow> t = 0"
definition After :: "time \<Rightarrow> time \<Rightarrow> bool" where "After t u \<longleftrightarrow> u < t"
definition Before :: "time \<Rightarrow> time \<Rightarrow> bool" where "Before t u \<longleftrightarrow> t < u"
definition time_Add :: "time \<Rightarrow> duration \<Rightarrow> time" where "time_Add t d = t + d"

definition time_Sub :: "time \<Rightarrow> time \<Rightarrow> duration" where
  "time_Sub t u = max min_int64 (min max_int64 (t - u))"

lemmas time_defs = IsZero_def After_def Before_def time_Add_def

text \<open>Seconds between the zero time and 1 January 1970, and the Unix time of an instant.\<close>

definition unix_epoch :: int where "unix_epoch = 62135596800"

definition time_Unix :: "time \<Rightarrow> int" where
  "time_Unix t = t div second - unix_epoch"

definition Unix_time :: "int \<Rightarrow> time" where
  "Unix_time s = (s + unix_epoch) * second"

lemma time_Unix_Unix_time [simp]: "time_Unix (Unix_time s) = s"
  by (simp add: time_Unix_def Unix_time_def second_def)

lemma Unix_time_time_Unix: "Unix_time (time_Unix t) = t - t mod second"
proof -
  have "t div second * second + t mod second = t" by simp
  then have "t div second * second = t - t mod second" by linarith
  then show ?thesis by (simp add: time_Unix_def Unix_time_def)
qed

lemma wrap64_id: "min_int64 \<le> x \<Longrightarrow> x \<le> max_int64 \<Longrightarrow> wrap64 x = x"
  by (simp add: wrap64_def min_int64_def max_int64_def)

lemma wrap64_range: "min_int64 \<le> wrap64 x \<and> wrap64 x \<le> max_int64"
proof -
  have "0 \<le> (x + 2 ^ 63) mod 2 ^ 64" and "(x + 2 ^ 63) mod 2 ^ 64 < (2::int) ^ 64"
    by simp_all
  then show ?thesis by (simp add: wrap64_def min_int64_def max_int64_def)
qed

lemma time_Sub_pos: "0 < time_Sub t u \<longleftrightarrow> u < t"
  by (auto simp: time_Sub_def min_int64_def max_int64_def)

section \<open>Strings\<close>

definition is_space :: "char \<Rightarrow> bool" where
  "is_space c \<longleftrightarrow> (let n = (of_char c :: nat) in n = 32 \<or> 9 \<le> n \<and> n \<le> 13)"

definition lower_char :: "char \<Rightarrow> char" where
  "lower_char c = (let n = (of_char c :: nat) in if 65 \<le> n \<and> n \<le> 90 then char_of (n + 32) else c)"

definition ToLower :: "string \<Rightarrow> string" where
  "ToLower s = map lower_char s"

definition TrimSpace :: "string \<Rightarrow> string" where
  "TrimSpace s = rev (dropWhile is_space (rev (dropWhile is_space s)))"

fun Contains :: "string \<Rightarrow> string \<Rightarrow> bool" where
  "Contains [] sub = (sub = [])"
| "Contains (c # s) sub = (prefix sub (c # s) \<or> Contains s sub)"

definition HasPrefix :: "string \<Rightarrow> string \<Rightarrow> bool" where
  "HasPrefix s p = prefix p s"

text \<open>\<open>strings.Split\<close> for a separator of one character; the result is never empty.\<close>

fun Split :: "string \<Rightarrow> char \<Rightarrow> string list" where
  "Split [] sep = [[]]"
| "Split (c # s) sep =
     (if c = sep then [] # Split s sep
      else case Split s sep of [] \<Rightarrow> [[c]] | p # ps \<Rightarrow> (c # p) # ps)"

text \<open>\<open>strings.SplitN(s, sep, 2)\<close>: at most one cut, at the first separator.\<close>

fun SplitN2 :: "string \<Rightarrow> char \<Rightarrow> string list" where
  "SplitN2 [] sep = [[]]"
| "SplitN2 (c # s) sep =
     (if c = sep then [[], s]
      else case SplitN2 s sep of [] \<Rightarrow> [[c]] | p # ps \<Rightarrow> (c # p) # ps)"

fun Join :: "string list \<Rightarrow> string \<Rightarrow> string" where
  "Join [] sep = []"
| "Join [p] sep = p"
| "Join (p # q # ps) sep = p @ sep @ Join (q # ps) sep"

lemma is_space_lower_char [simp]: "is_space (lower_char c) = is_space c"
  by (auto simp: is_space_def lower_char_def Let_def)

lemma lower_char_idem [simp]: "lower_char (lower_char c) = lower_char c"
  by (auto simp: lower_char_def Let_def)

lemma ToLower_idem [simp]: "ToLower (ToLower s) = ToLower s"
  by (simp add: ToLower_def)

lemma ToLower_Nil [simp]: "ToLower [] = []" and ToLower_eq_Nil [simp]: "ToLower s = [] \<longleftrightarrow> s = []"
  by (simp_all add: ToLower_def)

lemma length_ToLower [simp]: "length (ToLower s) = length s"
  by (simp add: ToLower_def)

lemma dropWhile_space_map: "dropWhile is_space (map lower_char s) = map lower_char (dropWhile is_space s)"
  by (simp add: dropWhile_map o_def)

lemma ToLower_TrimSpace: "ToLower (TrimSpace s) = TrimSpace (ToLower s)"
  by (simp add: ToLower_def TrimSpace_def dropWhile_space_map rev_map)

lemma TrimSpace_Nil [simp]: "TrimSpace [] = []"
  by (simp add: TrimSpace_def)

lemma dropWhile_rev_dropWhile:
  "dropWhile P (rev (dropWhile P (rev (dropWhile P s)))) = rev (dropWhile P (rev (dropWhile P s)))"
proof (cases "dropWhile P s")
  case (Cons c cs)
  then have c: "\<not> P c" by (metis hd_dropWhile list.distinct(1) list.sel(1))
  have "dropWhile P (rev (c # cs)) = dropWhile P (rev cs) @ [c]"
    using c by (induction cs rule: rev_induct) auto
  then show ?thesis using Cons c by simp
next
  case Nil
  then show ?thesis by (simp only: Nil) simp
qed

lemma TrimSpace_idem [simp]: "TrimSpace (TrimSpace s) = TrimSpace s"
  by (simp add: TrimSpace_def dropWhile_rev_dropWhile)

lemma Contains_sublist: "Contains s sub \<longleftrightarrow> sublist sub s"
  by (induction s) (auto simp: sublist_Cons_right)

lemma Split_not_Nil [simp]: "Split s sep \<noteq> []"
  by (induction s) (auto split: list.splits)

lemma Join_Split: "Join (Split s sep) [sep] = s"
proof (induction s)
  case (Cons c s)
  then show ?case
    by (cases "Split s sep"; cases "tl (Split s sep)") (auto split: list.splits)
qed simp

lemma SplitN2_two: "SplitN2 (k @ sep # v) sep = [k, v]" if "sep \<notin> set k"
  using that by (induction k) auto

lemma SplitN2_cases:
  "(sep \<notin> set s \<and> SplitN2 s sep = [s]) \<or> (\<exists>k v. s = k @ sep # v \<and> sep \<notin> set k \<and> SplitN2 s sep = [k, v])"
proof (cases "sep \<in> set s")
  case True
  then obtain k v where "s = k @ sep # v" "sep \<notin> set k" by (meson split_list_first)
  then show ?thesis by (auto simp: SplitN2_two)
next
  case False
  then have "SplitN2 s sep = [s]" by (induction s) auto
  with False show ?thesis by simp
qed

section \<open>Hexadecimal text\<close>

definition hex_digit :: "nat \<Rightarrow> char" where
  "hex_digit n = (if n < 10 then char_of (48 + n) else char_of (87 + n))"

definition hex_byte :: "byte \<Rightarrow> string" where
  "hex_byte b = [hex_digit (unat b div 16), hex_digit (unat b mod 16)]"

definition hex_EncodeToString :: "bytes \<Rightarrow> string" where
  "hex_EncodeToString bs = concat (map hex_byte bs)"

lemma length_hex [simp]: "length (hex_EncodeToString bs) = 2 * length bs"
  by (induction bs) (simp_all add: hex_EncodeToString_def hex_byte_def)

definition is_hex_lower :: "char \<Rightarrow> bool" where
  "is_hex_lower c \<longleftrightarrow> (let n = (of_char c :: nat) in 48 \<le> n \<and> n \<le> 57 \<or> 97 \<le> n \<and> n \<le> 102)"

lemma is_hex_digit: "n < 16 \<Longrightarrow> is_hex_lower (hex_digit n)"
  by (simp add: is_hex_lower_def hex_digit_def Let_def)

lemma hex_is_hex: "\<forall>c \<in> set (hex_EncodeToString bs). is_hex_lower c"
proof (induction bs)
  case (Cons b bs)
  have "unat b < 256" using unsigned_less [of b] by simp
  then show ?case
    using Cons by (auto simp: hex_EncodeToString_def hex_byte_def intro!: is_hex_digit)
qed (simp add: hex_EncodeToString_def)

section \<open>The world and computations over it\<close>

text \<open>Calls of the metrics recorders (\<open>internal/platform/metrics\<close>), in the order they happen.\<close>

datatype metric_event =
    MLogin bool
  | MRefresh bool
  | MRefreshReuse
  | MLogout
  | MSessionCreated
  | MSessionRevoked int
  | MCacheEvent string string
  | MCacheLock string duration
  | MDependencyError string
  | MHTTPRequest string string int duration

record ('m, 'r) world =
  w_mongo :: 'm
  w_redis :: 'r
  w_clock :: "nat \<Rightarrow> time"
  w_tick :: nat
  w_entropy :: "nat \<Rightarrow> (nat \<Rightarrow> byte) option"
  w_draw :: nat
  w_idseq :: "64 word"
  w_bufs :: "nat \<Rightarrow> string list"
  w_nbuf :: nat
  w_metrics :: "metric_event list"

type_synonym ('m, 'r, 'a) M = "(('m, 'r) world, 'a) state"

text \<open>
  A context carries, besides request values handled at the HTTP layer, the address of the
  transaction invalidation buffer (absent outside a transaction) and whether the call runs inside a
  database session.
\<close>

record ctx =
  ctx_buffer :: "nat option"
  ctx_in_tx :: bool

definition background :: ctx where
  "background = \<lparr>ctx_buffer = None, ctx_in_tx = False\<rparr>"

abbreviation ret :: "'a \<Rightarrow> ('s, 'a) state" where
  "ret x \<equiv> State_Monad.return x"

definition gets :: "('s \<Rightarrow> 'a) \<Rightarrow> ('s, 'a) state" where
  "gets f = State (\<lambda>s. (f s, s))"

definition modify :: "('s \<Rightarrow> 's) \<Rightarrow> ('s, unit) state" where
  "modify f = State (\<lambda>s. ((), f s))"

lemma run_gets [simp, run_simps]: "run_state (gets f) s = (f s, s)"
  by (simp add: gets_def)

lemma run_modify [simp, run_simps]: "run_state (modify f) s = ((), f s)"
  by (simp add: modify_def)

text \<open>Running a computation of one of the two servers inside the world.\<close>

definition on_mongo :: "('m, 'a) state \<Rightarrow> ('m, 'r, 'a) M" where
  "on_mongo m = State (\<lambda>w. case run_state m (w_mongo w) of (a, s) \<Rightarrow> (a, w\<lparr>w_mongo := s\<rparr>))"

definition on_redis :: "('r, 'a) state \<Rightarrow> ('m, 'r, 'a) M" where
  "on_redis m = State (\<lambda>w. case run_state m (w_redis w) of (a, s) \<Rightarrow> (a, w\<lparr>w_redis := s\<rparr>))"

lemma run_on_mongo [run_simps]:
  "run_state (on_mongo m) w = (case run_state m (w_mongo w) of (a, s) \<Rightarrow> (a, w\<lparr>w_mongo := s\<rparr>))"
  by (simp add: on_mongo_def)

lemma run_on_redis [run_simps]:
  "run_state (on_redis m) w = (case run_state m (w_redis w) of (a, s) \<Rightarrow> (a, w\<lparr>w_redis := s\<rparr>))"
  by (simp add: on_redis_def)

text \<open>\<open>time.Now().UTC()\<close> and \<open>crypto/rand.Read\<close>: each call consumes one reading.\<close>

definition time_Now :: "('m, 'r, time) M" where
  "time_Now = State (\<lambda>w. (w_clock w (w_tick w), w\<lparr>w_tick := Suc (w_tick w)\<rparr>))"

definition rand_Read :: "nat \<Rightarrow> ('m, 'r, bytes option) M" where
  "rand_Read n = State (\<lambda>w. (map_option (\<lambda>src. map src [0..<n]) (w_entropy w (w_draw w)),
                            w\<lparr>w_draw := Suc (w_draw w)\<rparr>))"

definition record_metric :: "metric_event \<Rightarrow> ('m, 'r, unit) M" where
  "record_metric e = modify (\<lambda>w. w\<lparr>w_metrics := w_metrics w @ [e]\<rparr>)"

lemma run_time_Now [simp, run_simps]:
  "run_state time_Now w = (w_clock w (w_tick w), w\<lparr>w_tick := Suc (w_tick w)\<rparr>)"
  by (simp add: time_Now_def)

lemma run_rand_Read [simp, run_simps]:
  "run_state (rand_Read n) w = (map_option (\<lambda>src. map src [0..<n]) (w_entropy w (w_draw w)),
                               w\<lparr>w_draw := Suc (w_draw w)\<rparr>)"
  by (simp add: rand_Read_def)

lemma run_record_metric [simp, run_simps]:
  "run_state (record_metric e) w = ((), w\<lparr>w_metrics := w_metrics w @ [e]\<rparr>)"
  by (simp add: record_metric_def)

lemma run_unit:
  obtains w' where "run_state (m :: ('s, unit) state) w = ((), w')"
  by (cases "run_state m w") auto

lemma map_le_dropped: "m \<subseteq>\<^sub>m n(k := None) \<Longrightarrow> m \<subseteq>\<^sub>m n"
  unfolding map_le_def by (metis domIff fun_upd_apply)

section \<open>A Hoare calculus for state computations\<close>

definition ht :: "('s \<Rightarrow> bool) \<Rightarrow> ('s, 'a) state \<Rightarrow> ('a \<Rightarrow> 's \<Rightarrow> bool) \<Rightarrow> bool" where
  "ht P m Q \<longleftrightarrow> (\<forall>s. P s \<longrightarrow> (case run_state m s of (a, s') \<Rightarrow> Q a s'))"

definition keeps :: "('s \<Rightarrow> bool) \<Rightarrow> ('s, 'a) state \<Rightarrow> bool" where
  "keeps I m \<longleftrightarrow> ht I m (\<lambda>_. I)"

lemma htI: "(\<And>s a s'. P s \<Longrightarrow> run_state m s = (a, s') \<Longrightarrow> Q a s') \<Longrightarrow> ht P m Q"
  by (auto simp: ht_def)

lemma htD: "ht P m Q \<Longrightarrow> P s \<Longrightarrow> run_state m s = (a, s') \<Longrightarrow> Q a s'"
  by (fastforce simp: ht_def)

lemma keepsI: "(\<And>s a s'. I s \<Longrightarrow> run_state m s = (a, s') \<Longrightarrow> I s') \<Longrightarrow> keeps I m"
  by (auto simp: keeps_def intro: htI)

lemma keepsD: "keeps I m \<Longrightarrow> I s \<Longrightarrow> run_state m s = (a, s') \<Longrightarrow> I s'"
  by (auto simp: keeps_def dest: htD)

lemma keeps_eqD: "keeps (\<lambda>w. f w = f w0) m \<Longrightarrow> run_state m w0 = (a, w') \<Longrightarrow> f w' = f w0"
  by (drule keepsD [where I = "\<lambda>w. f w = f w0"]) simp_all

lemma list_all2_right: "list_all2 P xs ys \<Longrightarrow> y \<in> set ys \<Longrightarrow> \<exists>x \<in> set xs. P x y"
  by (induction rule: list_all2_induct) auto

lemma list_all2_left: "list_all2 P xs ys \<Longrightarrow> x \<in> set xs \<Longrightarrow> \<exists>y \<in> set ys. P x y"
  by (induction rule: list_all2_induct) auto

lemma keeps_snd: "keeps I m \<Longrightarrow> I s \<Longrightarrow> I (snd (run_state m s))"
  by (metis keepsD prod.collapse)

lemma ht_bind: "ht P m R \<Longrightarrow> (\<And>a. ht (R a) (f a) Q) \<Longrightarrow> ht P (State_Monad.bind m f) Q"
  by (fastforce simp: ht_def split: prod.splits)

lemma ht_ret: "ht (Q x) (ret x) Q"
  by (simp add: ht_def)

lemma ht_conseq: "ht P' m Q' \<Longrightarrow> (\<And>s. P s \<Longrightarrow> P' s) \<Longrightarrow> (\<And>a s. Q' a s \<Longrightarrow> Q a s) \<Longrightarrow> ht P m Q"
  by (fastforce simp: ht_def split: prod.splits)

lemma keeps_ret [keeps_intros]: "keeps I (ret x)"
  by (simp add: keeps_def ht_def)

lemma keeps_bind [keeps_intros]: "keeps I m \<Longrightarrow> (\<And>a. keeps I (f a)) \<Longrightarrow> keeps I (State_Monad.bind m f)"
  unfolding keeps_def by (rule ht_bind)

lemma keeps_if [keeps_intros]: "(b \<Longrightarrow> keeps I m) \<Longrightarrow> (\<not> b \<Longrightarrow> keeps I n) \<Longrightarrow> keeps I (if b then m else n)"
  by simp

lemma keeps_case_sum [keeps_intros]:
  "(\<And>e. x = Inl e \<Longrightarrow> keeps I (f e)) \<Longrightarrow> (\<And>v. x = Inr v \<Longrightarrow> keeps I (g v)) \<Longrightarrow>
   keeps I (case x of Inl e \<Rightarrow> f e | Inr v \<Rightarrow> g v)"
  by (cases x) simp_all

lemma keeps_case_option [keeps_intros]:
  "(x = None \<Longrightarrow> keeps I m) \<Longrightarrow> (\<And>v. x = Some v \<Longrightarrow> keeps I (g v)) \<Longrightarrow>
   keeps I (case x of None \<Rightarrow> m | Some v \<Rightarrow> g v)"
  by (cases x) simp_all

lemma keeps_case_prod [keeps_intros]:
  "(\<And>a b. x = (a, b) \<Longrightarrow> keeps I (f a b)) \<Longrightarrow> keeps I (case x of (a, b) \<Rightarrow> f a b)"
  by (cases x) simp

lemma keeps_let [keeps_intros]: "(\<And>x. x = t \<Longrightarrow> keeps I (f x)) \<Longrightarrow> keeps I (Let t f)"
  by simp

lemma keeps_gets [keeps_intros]: "keeps I (gets f)"
  by (auto intro: keepsI)

lemma keeps_modify: "(\<And>s. I s \<Longrightarrow> I (f s)) \<Longrightarrow> keeps I (modify f)"
  by (auto intro!: keepsI)

lemma keeps_on_mongo: "keeps (\<lambda>s. I s) m \<Longrightarrow> keeps (\<lambda>w. I (w_mongo w)) (on_mongo m)"
  by (fastforce simp: run_on_mongo split: prod.splits intro: keepsI dest: keepsD)

lemma keeps_conj: "keeps I m \<Longrightarrow> keeps K m \<Longrightarrow> keeps (\<lambda>w. I w \<and> K w) m"
  by (auto intro!: keepsI dest: keepsD)

lemma ht_keeps_bind: "keeps I m \<Longrightarrow> (\<And>a. ht I (f a) Q) \<Longrightarrow> ht I (State_Monad.bind m f) Q"
  unfolding keeps_def by (rule ht_bind)

lemma ht_if: "(b \<Longrightarrow> ht P m Q) \<Longrightarrow> (\<not> b \<Longrightarrow> ht P n Q) \<Longrightarrow> ht P (if b then m else n) Q"
  by simp

lemma ht_ret_I: "(\<And>s. P s \<Longrightarrow> Q x s) \<Longrightarrow> ht P (ret x) Q"
  by (simp add: ht_def)

lemma ht_case_sum:
  "(\<And>e. x = Inl e \<Longrightarrow> ht P (f e) Q) \<Longrightarrow> (\<And>v. x = Inr v \<Longrightarrow> ht P (g v) Q) \<Longrightarrow>
   ht P (case x of Inl e \<Rightarrow> f e | Inr v \<Rightarrow> g v) Q"
  by (cases x) simp_all

lemma ht_case_option:
  "(x = None \<Longrightarrow> ht P m Q) \<Longrightarrow> (\<And>v. x = Some v \<Longrightarrow> ht P (g v) Q) \<Longrightarrow>
   ht P (case x of None \<Rightarrow> m | Some v \<Rightarrow> g v) Q"
  by (cases x) simp_all

lemma ht_case_prod: "(\<And>a b. x = (a, b) \<Longrightarrow> ht P (f a b) Q) \<Longrightarrow> ht P (case x of (a, b) \<Rightarrow> f a b) Q"
  by (cases x) simp

lemma ht_pure: "(B \<Longrightarrow> ht P m Q) \<Longrightarrow> ht (\<lambda>w. P w \<and> B) m Q"
  by (auto simp: ht_def)

lemma ht_let: "(\<And>x. x = t \<Longrightarrow> ht P (f x) Q) \<Longrightarrow> ht P (Let t f) Q"
  by simp

lemmas ht_splits = ht_case_sum ht_case_option ht_case_prod ht_let ht_if

text \<open>
  \<open>fails m\<close>: the computation only ever answers with an error; then every statement about its
  values holds.
\<close>

definition fails :: "('s, 'e + 'a) state \<Rightarrow> bool" where
  "fails m \<longleftrightarrow> (\<forall>s. isl (fst (run_state m s)))"

lemma fails_ret [never_intros]: "fails (ret (Inl e))"
  by (simp add: fails_def)

lemma fails_bind [never_intros]: "(\<And>a. fails (f a)) \<Longrightarrow> fails (State_Monad.bind m f)"
  by (auto simp: fails_def split: prod.splits)

lemma fails_if [never_intros]: "(b \<Longrightarrow> fails m) \<Longrightarrow> (\<not> b \<Longrightarrow> fails n) \<Longrightarrow> fails (if b then m else n)"
  by simp

lemma fails_case_sum [never_intros]:
  "(\<And>e. x = Inl e \<Longrightarrow> fails (f e)) \<Longrightarrow> (\<And>v. x = Inr v \<Longrightarrow> fails (g v)) \<Longrightarrow> fails (case x of Inl e \<Rightarrow> f e | Inr v \<Rightarrow> g v)"
  by (cases x) simp_all

lemma fails_case_option [never_intros]:
  "(x = None \<Longrightarrow> fails m) \<Longrightarrow> (\<And>v. x = Some v \<Longrightarrow> fails (g v)) \<Longrightarrow> fails (case x of None \<Rightarrow> m | Some v \<Rightarrow> g v)"
  by (cases x) simp_all

lemma ht_fails: "fails m \<Longrightarrow> ht P m (\<lambda>r w. \<forall>v. r = Inr v \<longrightarrow> Q v w)"
  unfolding fails_def by (rule htI) (metis fst_conv isl_def sum.distinct(1))

text \<open>\<open>answers m x\<close>: whatever the world, the computation answers \<open>x\<close>.\<close>

definition answers :: "('s, 'a) state \<Rightarrow> 'a \<Rightarrow> bool" where
  "answers m x \<longleftrightarrow> (\<forall>s. fst (run_state m s) = x)"

lemma answers_ret: "answers (ret x) x"
  by (simp add: answers_def)

lemma answers_bind: "(\<And>a. answers (f a) x) \<Longrightarrow> answers (State_Monad.bind m f) x"
  by (auto simp: answers_def split: prod.splits)

lemma answers_let: "(\<And>y. answers (f y) x) \<Longrightarrow> answers (Let t f) x"
  by (simp add: answers_def)

lemmas answers_intros = answers_bind answers_let answers_ret

text \<open>
  Invariants about the servers' state alone are kept by everything that does not talk to the
  server they speak of.
\<close>

lemma keeps_mongo_prims [keeps_intros]:
  "keeps (\<lambda>w. I (w_mongo w)) time_Now"
  "keeps (\<lambda>w. I (w_mongo w)) (rand_Read n)"
  "keeps (\<lambda>w. I (w_mongo w)) (record_metric e)"
  "keeps (\<lambda>w. I (w_mongo w)) (on_redis r)"
  by (auto intro!: keepsI simp: run_on_redis split: prod.splits)

lemma keeps_redis_prims [keeps_intros]:
  "keeps (\<lambda>w. I (w_redis w)) time_Now"
  "keeps (\<lambda>w. I (w_redis w)) (rand_Read n)"
  "keeps (\<lambda>w. I (w_redis w)) (record_metric e)"
  "keeps (\<lambda>w. I (w_redis w)) (on_mongo q)"
  by (auto intro!: keepsI simp: run_on_mongo split: prod.splits)

lemma keeps_bufs_prims [keeps_intros]:
  "keeps (\<lambda>w. I (w_bufs w)) time_Now"
  "keeps (\<lambda>w. I (w_bufs w)) (rand_Read n)"
  "keeps (\<lambda>w. I (w_bufs w)) (record_metric e)"
  "keeps (\<lambda>w. I (w_bufs w)) (on_mongo q)"
  "keeps (\<lambda>w. I (w_bufs w)) (on_redis r)"
  by (auto intro!: keepsI simp: run_on_mongo run_on_redis split: prod.splits)

lemma keeps_prefix_metric [keeps_intros]: "keeps (\<lambda>w. prefix ms (w_metrics w)) (record_metric e)"
  by (auto intro!: keepsI)

lemma keeps_metrics_prims [keeps_intros]:
  "keeps (\<lambda>w. I (w_metrics w)) time_Now"
  "keeps (\<lambda>w. I (w_metrics w)) (rand_Read n)"
  "keeps (\<lambda>w. I (w_metrics w)) (on_mongo q)"
  "keeps (\<lambda>w. I (w_metrics w)) (on_redis r)"
  by (auto intro!: keepsI simp: run_on_mongo run_on_redis split: prod.splits)

section \<open>A world to start from\<close>

text \<open>A stopped clock and an entropy source whose n-th draw repeats the byte n.\<close>

definition start_world :: "'m \<Rightarrow> 'r \<Rightarrow> time \<Rightarrow> ('m, 'r) world" where
  "start_world m r t = \<lparr>w_mongo = m, w_redis = r, w_clock = (\<lambda>_. t), w_tick = 0,
     w_entropy = (\<lambda>n. Some (\<lambda>_. of_nat n)), w_draw = 0, w_idseq = 0, w_bufs = (\<lambda>_. []), w_nbuf = 0, w_metrics = []\<rparr>"

lemma start_world_sel [simp]:
  "w_mongo (start_world m r t) = m" "w_redis (start_world m r t) = r" "w_clock (start_world m r t) = (\<lambda>_. t)"
  "w_tick (start_world m r t) = 0" "w_entropy (start_world m r t) = (\<lambda>n. Some (\<lambda>_. of_nat n))"
  "w_draw (start_world m r t) = 0" "w_idseq (start_world m r t) = 0" "w_bufs (start_world m r t) = (\<lambda>_. [])"
  "w_nbuf (start_world m r t) = 0" "w_metrics (start_world m r t) = []"
  by (simp_all add: start_world_def)

end
