(* ===== verification/Errors.thy ===== *)
theory Errors
  imports Prelude
begin

text \<open>
  The error values of the program: \<open>internal/platform/errors\<close> (\<open>AppError\<close>, its codes, the
  conversion \<open>FromError\<close>), the sentinels of the other packages, and the parts of the standard
  \<open>errors\<close> package the code relies on (\<open>Is\<close>, \<open>As\<close>, \<open>Unwrap\<close>).

  An error is a value of the datatype \<open>err\<close>: a sentinel (compared by identity), a
  \<open>fmt.Errorf\<close> text with an optional wrapped error, an error of a driver with the capabilities the
  code asks for (a \<open>Timeout\<close> method, being a \<open>net.Error\<close>, carrying server error codes), an
  \<open>AppError\<close>, or a panic. A captured stack is text for the log; the text \<open>debug.Stack()\<close> returns
  (empty when capturing is switched off) is an argument of the functions that capture it.
\<close>

section \<open>Codes and HTTP statuses\<close>

datatype code =
    CodeInternal | CodeValidation | CodeUnauthorized | CodeForbidden | CodeNotFound | CodeConflict
  | CodeTokenExpired | CodeTokenRevoked | CodeDependency | CodeRateLimited | CodeRequestTooLarge
  | CodeTimeout | OtherCode string

fun code_string :: "code \<Rightarrow> string" where
  "code_string CodeInternal = ''INTERNAL_ERROR''"
| "code_string CodeValidation = ''VALIDATION_ERROR''"
| "code_string CodeUnauthorized = ''UNAUTHORIZED''"
| "code_string CodeForbidden = ''FORBIDDEN''"
| "code_string CodeNotFound = ''NOT_FOUND''"
| "code_string CodeConflict = ''CONFLICT''"
| "code_string CodeTokenExpired = ''TOKEN_EXPIRED''"
| "code_string CodeTokenRevoked = ''TOKEN_REVOKED''"
| "code_string CodeDependency = ''DEPENDENCY_ERROR''"
| "code_string CodeRateLimited = ''RATE_LIMITED''"
| "code_string CodeRequestTooLarge = ''REQUEST_TOO_LARGE''"
| "code_string CodeTimeout = ''TIMEOUT''"
| "code_string (OtherCode s) = s"

fun StatusForCode :: "code \<Rightarrow> int" where
  "StatusForCode CodeValidation = 400"
| "StatusForCode CodeUnauthorized = 401"
| "StatusForCode CodeForbidden = 403"
| "StatusForCode CodeNotFound = 404"
| "StatusForCode CodeConflict = 409"
| "StatusForCode CodeTokenExpired = 401"
| "StatusForCode CodeTokenRevoked = 401"
| "StatusForCode CodeDependency = 503"
| "StatusForCode CodeRateLimited = 429"
| "StatusForCode CodeRequestTooLarge = 413"
| "StatusForCode CodeTimeout = 504"
| "StatusForCode _ = 500"

section \<open>Error values\<close>

datatype sentinel =
    AppErrNotFound | AppErrUnauthorized | AppErrForbidden | AppErrConflict | AppErrValidation
  | AppErrTokenRevoked | AppErrTokenExpired
  | DbErrNotFound | DbErrConflict
  | ErrCacheMiss | ErrLockNotAcquired
  | DeadlineExceeded | Canceled
  | MongoErrNoDocuments | RedisNil | JwtErrTokenExpired

fun sentinel_text :: "sentinel \<Rightarrow> string" where
  "sentinel_text AppErrNotFound = ''not found''"
| "sentinel_text AppErrUnauthorized = ''unauthorized''"
| "sentinel_text AppErrForbidden = ''forbidden''"
| "sentinel_text AppErrConflict = ''conflict''"
| "sentinel_text AppErrValidation = ''validation failed''"
| "sentinel_text AppErrTokenRevoked = ''token revoked''"
| "sentinel_text AppErrTokenExpired = ''token expired''"
| "sentinel_text DbErrNotFound = ''document not found''"
| "sentinel_text DbErrConflict = ''document conflict''"
| "sentinel_text ErrCacheMiss = ''cache miss''"
| "sentinel_text ErrLockNotAcquired = ''cache lock not acquired''"
| "sentinel_text DeadlineExceeded = ''context deadline exceeded''"
| "sentinel_text Canceled = ''context canceled''"
| "sentinel_text MongoErrNoDocuments = ''mongo: no documents in result''"
| "sentinel_text RedisNil = ''redis: nil''"
| "sentinel_text JwtErrTokenExpired = ''token is expired''"

datatype meta_value = MetaString string | MetaInt int

record ValidationDetail =
  vd_Field :: string
  vd_Reason :: string
  vd_Meta :: "(string \<times> meta_value) list"

text \<open>
  \<open>External msg timeout net codes cause\<close>: \<open>timeout\<close> is the answer of the error's
  \<open>Timeout()\<close> method if it has one, \<open>net\<close> says that it is a \<open>net.Error\<close>, \<open>codes\<close> are the
  server codes its \<open>HasErrorCode\<close> method knows, if it has one.
\<close>

datatype err =
    Sentinel sentinel
  | Errorf string "err option"
  | External string "bool option" bool "int list option" "err option"
  | AppErr AppError
  | GoPanic string
and AppError =
    AppError (Code: code) (Message: string) (SafeMessage: string) (HTTPStatus: int)
      (Cause: "err option") (Details: "ValidationDetail list") (Op: string) (Stack: string)
      (Retryable: bool)

text \<open>The dereference of a nil pointer.\<close>

definition nil_deref :: err where
  "nil_deref = GoPanic ''invalid memory address or nil pointer dereference''"

section \<open>The \<open>errors\<close> package\<close>

fun errors_Is :: "err \<Rightarrow> sentinel \<Rightarrow> bool" where
  "errors_Is (Sentinel s) t = (s = t)"
| "errors_Is (Errorf m None) t = False"
| "errors_Is (Errorf m (Some e)) t = errors_Is e t"
| "errors_Is (External m tm nt cs None) t = False"
| "errors_Is (External m tm nt cs (Some e)) t = errors_Is e t"
| "errors_Is (AppErr (AppError c m sm h None ds op st r)) t = False"
| "errors_Is (AppErr (AppError c m sm h (Some e) ds op st r)) t = errors_Is e t"
| "errors_Is (GoPanic m) t = False"

fun errors_As_AppError :: "err \<Rightarrow> AppError option" where
  "errors_As_AppError (AppErr a) = Some a"
| "errors_As_AppError (Errorf m (Some e)) = errors_As_AppError e"
| "errors_As_AppError (External m tm nt cs (Some e)) = errors_As_AppError e"
| "errors_As_AppError _ = None"

text \<open>\<open>errors.As\<close> with the interface \<open>Timeout() bool\<close>: the answer of the first error that has it.\<close>

fun errors_As_Timeout :: "err \<Rightarrow> bool option" where
  "errors_As_Timeout (Sentinel s) = (if s = DeadlineExceeded then Some True else None)"
| "errors_As_Timeout (Errorf m (Some e)) = errors_As_Timeout e"
| "errors_As_Timeout (External m (Some b) nt cs c) = Some b"
| "errors_As_Timeout (External m None nt cs (Some e)) = errors_As_Timeout e"
| "errors_As_Timeout (AppErr (AppError c m sm h (Some e) ds op st r)) = errors_As_Timeout e"
| "errors_As_Timeout _ = None"

fun errors_As_NetTimeout :: "err \<Rightarrow> bool option" where
  "errors_As_NetTimeout (Sentinel s) = (if s = DeadlineExceeded then Some True else None)"
| "errors_As_NetTimeout (Errorf m (Some e)) = errors_As_NetTimeout e"
| "errors_As_NetTimeout (External m (Some b) True cs c) = Some b"
| "errors_As_NetTimeout (External m tm nt cs (Some e)) = errors_As_NetTimeout e"
| "errors_As_NetTimeout (AppErr (AppError c m sm h (Some e) ds op st r)) = errors_As_NetTimeout e"
| "errors_As_NetTimeout _ = None"

fun errors_As_Codes :: "err \<Rightarrow> int list option" where
  "errors_As_Codes (Errorf m (Some e)) = errors_As_Codes e"
| "errors_As_Codes (External m tm nt (Some cs) c) = Some cs"
| "errors_As_Codes (External m tm nt None (Some e)) = errors_As_Codes e"
| "errors_As_Codes (AppErr (AppError c m sm h (Some e) ds op st r)) = errors_As_Codes e"
| "errors_As_Codes _ = None"

section \<open>\<open>AppError\<close>\<close>

definition New :: "code \<Rightarrow> string \<Rightarrow> int \<Rightarrow> AppError" where
  "New c safeMessage status = AppError c safeMessage safeMessage status None [] [] [] False"

fun WithOp :: "AppError \<Rightarrow> string \<Rightarrow> AppError" where
  "WithOp (AppError c m sm h cause ds op st r) op' = AppError c m sm h cause ds op' st r"

definition AppError_Error :: "AppError \<Rightarrow> string" where
  "AppError_Error e =
     (if Op e \<noteq> [] \<and> Message e \<noteq> [] then Op e @ '': '' @ Message e
      else if Message e \<noteq> [] then Message e
      else code_string (Code e))"

fun err_Error :: "err \<Rightarrow> string" where
  "err_Error (Sentinel s) = sentinel_text s"
| "err_Error (Errorf m c) = m"
| "err_Error (External m tm nt cs c) = m"
| "err_Error (AppErr a) = AppError_Error a"
| "err_Error (GoPanic m) = m"

definition Wrap :: "string \<Rightarrow> string \<Rightarrow> err option \<Rightarrow> code \<Rightarrow> string \<Rightarrow> int \<Rightarrow> AppError" where
  "Wrap stack op e c safeMessage status =
     (case e of
        None \<Rightarrow> New c safeMessage status
      | Some e' \<Rightarrow> AppError c (err_Error e') safeMessage status (Some e') [] op stack False)"

definition Dependency :: "string \<Rightarrow> err \<Rightarrow> AppError" where
  "Dependency op e =
     AppError CodeDependency (err_Error e) ''Dependency unavailable'' 503 (Some e) [] op [] True"

definition Validation :: "string \<Rightarrow> ValidationDetail list \<Rightarrow> AppError" where
  "Validation message details = AppError CodeValidation message message 400 None details [] [] False"

definition TokenExpired :: "string \<Rightarrow> AppError" where
  "TokenExpired message =
     AppError CodeTokenExpired (if message = [] then ''Token expired'' else message) ''Unauthorized'' 401
       (Some (Sentinel AppErrTokenExpired)) [] [] [] False"

definition TokenRevoked :: "string \<Rightarrow> AppError" where
  "TokenRevoked message =
     AppError CodeTokenRevoked (if message = [] then ''Token revoked'' else message) ''Unauthorized'' 401
       (Some (Sentinel AppErrTokenRevoked)) [] [] [] False"

definition FromError :: "string \<Rightarrow> err \<Rightarrow> AppError" where
  "FromError stack e =
     (case errors_As_AppError e of
        Some a \<Rightarrow> a
      | None \<Rightarrow>
          if errors_Is e AppErrNotFound then New CodeNotFound ''Not found'' 404
          else if errors_Is e AppErrUnauthorized then New CodeUnauthorized ''Unauthorized'' 401
          else if errors_Is e AppErrForbidden then New CodeForbidden ''Forbidden'' 403
          else if errors_Is e AppErrConflict then New CodeConflict ''Conflict'' 409
          else if errors_Is e AppErrValidation then Validation ''Validation failed'' []
          else if errors_Is e AppErrTokenExpired then TokenExpired (err_Error e)
          else if errors_Is e AppErrTokenRevoked then TokenRevoked (err_Error e)
          else Wrap stack [] (Some e) CodeInternal ''Internal server error'' 500)"

section \<open>Lemmas\<close>

lemmas app_error_defs = New_def Dependency_def Validation_def TokenExpired_def TokenRevoked_def

definition app_sentinels :: "sentinel set" where
  "app_sentinels = {AppErrNotFound, AppErrUnauthorized, AppErrForbidden, AppErrConflict,
     AppErrValidation, AppErrTokenExpired, AppErrTokenRevoked}"

lemma WithOp_fields [simp]:
  "Code (WithOp a op) = Code a" "SafeMessage (WithOp a op) = SafeMessage a"
  "HTTPStatus (WithOp a op) = HTTPStatus a" "Cause (WithOp a op) = Cause a"
  "Details (WithOp a op) = Details a" "Op (WithOp a op) = op" "Retryable (WithOp a op) = Retryable a"
  "Message (WithOp a op) = Message a" "Stack (WithOp a op) = Stack a"
  by (cases a; simp)+

lemma errors_Is_WithOp [simp]: "errors_Is (AppErr (WithOp a op)) t = errors_Is (AppErr a) t"
  by (cases a; cases "Cause a") auto

lemma errors_Is_New [simp]: "\<not> errors_Is (AppErr (New c m s)) t"
  by (simp add: New_def)

lemma errors_Is_end: "errors_Is e s \<Longrightarrow> errors_Is e t \<longleftrightarrow> t = s"
  by (induction e s rule: errors_Is.induct) auto

lemma errors_Is_As:
  "errors_As_AppError e = Some a \<Longrightarrow> errors_Is (AppErr a) t = errors_Is e t"
  by (induction e rule: errors_As_AppError.induct) auto

lemma FromError_AppErr [simp]: "FromError stack (AppErr a) = a"
  by (simp add: FromError_def)

text \<open>
  The sentinels of the database layer survive the conversion to an \<open>AppError\<close>: the chain of the
  result ends in the same sentinel, so \<open>errors.Is\<close> still finds it after any number of conversions.
\<close>

lemma errors_Is_FromError:
  assumes "t \<notin> app_sentinels"
  shows "errors_Is (AppErr (FromError stack e)) t = errors_Is e t"
proof (cases "errors_As_AppError e")
  case (Some a)
  then show ?thesis by (simp add: FromError_def errors_Is_As)
next
  case None
  show ?thesis
  proof (cases "\<exists>s \<in> app_sentinels. errors_Is e s")
    case True
    then obtain s where s: "s \<in> app_sentinels" "errors_Is e s" by blast
    then have "\<not> errors_Is e t" using assms by (metis errors_Is_end)
    moreover have "\<not> errors_Is (AppErr (FromError stack e)) t"
      using None assms s
      by (auto simp: FromError_def app_error_defs app_sentinels_def)
    ultimately show ?thesis by simp
  next
    case False
    then show ?thesis using None by (auto simp: FromError_def Wrap_def app_sentinels_def)
  qed
qed

lemma FromError_no_app:
  assumes "errors_As_AppError e = None" "\<And>s. s \<in> app_sentinels \<Longrightarrow> \<not> errors_Is e s"
  shows "FromError stack e = AppError CodeInternal (err_Error e) ''Internal server error'' 500 (Some e) [] [] stack False"
  using assms by (auto simp: FromError_def Wrap_def app_sentinels_def)

section \<open>Properties\<close>

text \<open>
  C40. \<open>FromError\<close> and the code table agree: an error that carries no \<open>AppError\<close> is converted to
  one whose HTTP status is the status \<open>StatusForCode\<close> gives its code, and whose client-visible
  message is one of the fixed texts of the package, whatever the internal error says.
\<close>

theorem FromError_status_and_message:
  assumes "errors_As_AppError e = None"
  shows "HTTPStatus (FromError stack e) = StatusForCode (Code (FromError stack e)) \<and>
         SafeMessage (FromError stack e) \<in> {''Not found'', ''Unauthorized'', ''Forbidden'', ''Conflict'',
           ''Validation failed'', ''Internal server error''}"
  using assms by (simp add: FromError_def Wrap_def app_error_defs)

theorem FromError_status_and_message_witness:
  "errors_As_AppError (Sentinel DbErrNotFound) = None \<and>
   HTTPStatus (FromError [] (Sentinel DbErrNotFound)) = StatusForCode (Code (FromError [] (Sentinel DbErrNotFound)))"
  using FromError_status_and_message [of "Sentinel DbErrNotFound" "[]"] by simp

text \<open>
  Converting an error with \<open>FromError\<close> and naming the operation keeps the identity of every
  sentinel of the lower layers: \<open>errors.Is\<close> answers the same before and after, for every sentinel
  that is not one of the package's own.
\<close>

lemma opError_keeps_sentinels:
  assumes "t \<notin> app_sentinels"
  shows "errors_Is (AppErr (WithOp (FromError stack e) op)) t = errors_Is e t"
  using errors_Is_FromError [OF assms] by simp

end
