(* ===== verification/Domain.thy ===== *)
theory Domain
  imports Errors
begin

text \<open>
  The domain packages: \<open>internal/domain/user\<close>, \<open>internal/domain/auth\<close>,
  \<open>internal/domain/common\<close> (entities, normalisation, pagination), and the identifiers generated
  at run time (\<open>newID\<close> of \<open>internal/app/auth\<close> and its siblings).
\<close>

unbundle bit_operations_syntax

section \<open>Users\<close>

type_synonym Role = string
type_synonym Status = string

definition RoleUser :: Role where "RoleUser = ''user''"
definition RoleAdmin :: Role where "RoleAdmin = ''admin''"
definition StatusActive :: Status where "StatusActive = ''active''"
definition StatusDisabled :: Status where "StatusDisabled = ''disabled''"

record User =
  u_ID :: string
  u_Email :: string
  u_PasswordHash :: string
  u_Name :: string
  u_Roles :: "Role list"
  u_Status :: Status
  u_FailedLoginAttempts :: int
  u_LockedUntil :: "time option"
  u_CreatedAt :: time
  u_UpdatedAt :: time
  u_LastLoginAt :: "time option"

definition NormalizeEmail :: "string \<Rightarrow> string" where
  "NormalizeEmail email = ToLower (TrimSpace email)"

definition User_New :: "string \<Rightarrow> string \<Rightarrow> string \<Rightarrow> time \<Rightarrow> User" where
  "User_New email passwordHash name now =
     \<lparr>u_ID = [], u_Email = NormalizeEmail email, u_PasswordHash = passwordHash, u_Name = TrimSpace name,
      u_Roles = [RoleUser], u_Status = StatusActive, u_FailedLoginAttempts = 0, u_LockedUntil = None,
      u_CreatedAt = now, u_UpdatedAt = now, u_LastLoginAt = None\<rparr>"

fun has_role :: "Role list \<Rightarrow> Role \<Rightarrow> bool" where
  "has_role [] role = False"
| "has_role (current # rs) role = (if current = role then True else has_role rs role)"

definition HasRole :: "User \<Rightarrow> Role \<Rightarrow> bool" where
  "HasRole u role = has_role (u_Roles u) role"

definition IsLocked :: "User \<Rightarrow> time \<Rightarrow> bool" where
  "IsLocked u now = (case u_LockedUntil u of None \<Rightarrow> False | Some t \<Rightarrow> After t now)"

section \<open>Sessions, history, audit log\<close>

record Session =
  s_ID :: string
  s_UserID :: string
  s_RefreshTokenHash :: string
  s_RefreshTokenExpiresAt :: time
  s_DeviceID :: string
  s_DeviceName :: string
  s_UserAgent :: string
  s_IP :: string
  s_TokenFamilyID :: string
  s_RevokedAt :: "time option"
  s_RevokedReason :: string
  s_LastSeenAt :: time
  s_CreatedAt :: time
  s_UpdatedAt :: time

record LoginHistory =
  lh_ID :: string
  lh_UserID :: string
  lh_Email :: string
  lh_Success :: bool
  lh_FailureReason :: string
  lh_IP :: string
  lh_UserAgent :: string
  lh_DeviceID :: string
  lh_CreatedAt :: time

record DeviceSession =
  ds_SessionID :: string
  ds_DeviceID :: string
  ds_DeviceName :: string
  ds_UserAgent :: string
  ds_IP :: string
  ds_LastSeenAt :: time
  ds_CreatedAt :: time
  ds_Current :: bool
  ds_RevokedAt :: "time option"
  ds_RevokeReason :: string

text \<open>A \<open>map[string]string\<close> is an association list with distinct keys.\<close>

record AuditLog =
  al_ID :: string
  al_ActorUserID :: string
  al_Action :: string
  al_ResourceType :: string
  al_ResourceID :: string
  al_IP :: string
  al_UserAgent :: string
  al_RequestID :: string
  al_Metadata :: "(string \<times> string) list"
  al_CreatedAt :: time

record ErrorEvent =
  ee_RequestID :: string
  ee_ErrorCode :: string
  ee_Operation :: string
  ee_Message :: string
  ee_Cause :: string
  ee_Stack :: string
  ee_Path :: string
  ee_Method :: string
  ee_Status :: int
  ee_UserID :: string
  ee_CreatedAt :: time

record RequestMeta =
  m_RequestID :: string
  m_IP :: string
  m_UserAgent :: string
  m_DeviceID :: string
  m_DeviceName :: string

definition no_meta :: RequestMeta where
  "no_meta = \<lparr>m_RequestID = [], m_IP = [], m_UserAgent = [], m_DeviceID = [], m_DeviceName = []\<rparr>"

record RegisterInput =
  ri_Email :: string
  ri_Password :: string
  ri_Name :: string

record LoginInput =
  li_Email :: string
  li_Password :: string

record AuthResult =
  ar_User :: User
  ar_SessionID :: string
  ar_Session :: DeviceSession
  ar_AccessToken :: string
  ar_AccessTokenExpiresAt :: time
  ar_RefreshToken :: string
  ar_RefreshTokenExpiresAt :: time

record AccessClaims =
  ac_UserID :: string
  ac_SessionID :: string
  ac_TokenID :: string
  ac_Roles :: "string list"
  ac_IssuedAt :: time
  ac_ExpiresAt :: time
  ac_KeyID :: string

record RevokedToken =
  rt_TokenID :: string
  rt_UserID :: string
  rt_SessionID :: string
  rt_ExpiresAt :: time
  rt_RevokedAt :: time

record ErrorEventFilter =
  ef_ErrorCode :: string
  ef_RequestID :: string
  ef_Operation :: string
  ef_Status :: int
  ef_From :: time
  ef_To :: time

record AuditLogFilter =
  af_ActorUserID :: string
  af_Action :: string
  af_ResourceType :: string
  af_ResourceID :: string
  af_RequestID :: string
  af_From :: time
  af_To :: time

definition IsActive :: "Session \<Rightarrow> time \<Rightarrow> bool" where
  "IsActive s now \<longleftrightarrow> s_RevokedAt s = None \<and> After (s_RefreshTokenExpiresAt s) now"

text \<open>
  The regular expression \<open>uuidV4Pattern\<close> (case-insensitive, anchored at both ends) as the list of
  its 36 character classes.
\<close>

definition hex_class :: "char \<Rightarrow> bool" where
  "hex_class c = is_hex_lower (lower_char c)"

definition variant_class :: "char \<Rightarrow> bool" where
  "variant_class c \<longleftrightarrow> lower_char c \<in> set ''89ab''"

definition uuid_classes :: "(char \<Rightarrow> bool) list" where
  "uuid_classes = replicate 8 hex_class @ [\<lambda>c. c = CHR ''-''] @ replicate 4 hex_class @ [\<lambda>c. c = CHR ''-'']
     @ [\<lambda>c. c = CHR ''4''] @ replicate 3 hex_class @ [\<lambda>c. c = CHR ''-'']
     @ [variant_class] @ replicate 3 hex_class @ [\<lambda>c. c = CHR ''-''] @ replicate 12 hex_class"

definition uuidV4Pattern :: "string \<Rightarrow> bool" where
  "uuidV4Pattern s = list_all2 (\<lambda>p c. p c) uuid_classes s"

definition NormalizeDeviceID :: "string \<Rightarrow> string" where
  "NormalizeDeviceID deviceID =
     (let d = TrimSpace deviceID
      in if length d > 64 then [] else if \<not> uuidV4Pattern d then [] else ToLower d)"

section \<open>Pagination\<close>

text \<open>\<open>internal/domain/monitoring/entity.go\<close>: the counters of the authentication statistics.\<close>

record AuthStats =
  as_LoginSuccessCount :: int
  as_LoginFailureCount :: int
  as_ActiveSessionCount :: int
  as_RevokedSessionCount :: int
  as_RefreshCount :: int
  as_LogoutCount :: int
  as_From :: time
  as_To :: time

record Pagination =
  pg_Limit :: int
  pg_Offset :: int
  pg_Cursor :: string

definition Normalized :: "Pagination \<Rightarrow> int \<Rightarrow> int \<Rightarrow> Pagination" where
  "Normalized p defaultLimit maxLimit =
     (let defaultLimit = (if defaultLimit \<le> 0 then 20 else defaultLimit);
          maxLimit = (if maxLimit \<le> 0 then 100 else maxLimit);
          p = (if pg_Limit p \<le> 0 then p\<lparr>pg_Limit := defaultLimit\<rparr> else p);
          p = (if pg_Limit p > maxLimit then p\<lparr>pg_Limit := maxLimit\<rparr> else p);
          p = (if pg_Offset p < 0 then p\<lparr>pg_Offset := 0\<rparr> else p)
      in p)"

section \<open>Identifiers\<close>

text \<open>The version and variant bits of a random UUID and its textual layout.\<close>

definition uuid_of_bytes :: "bytes \<Rightarrow> string" where
  "uuid_of_bytes b0 =
     (let b1 = b0[6 := (b0 ! 6 AND 0x0f) OR 0x40];
          b = b1[8 := (b1 ! 8 AND 0x3f) OR 0x80]
      in hex_EncodeToString (take 4 b) @ ''-'' @ hex_EncodeToString (take 2 (drop 4 b)) @ ''-''
         @ hex_EncodeToString (take 2 (drop 6 b)) @ ''-'' @ hex_EncodeToString (take 2 (drop 8 b)) @ ''-''
         @ hex_EncodeToString (take 6 (drop 10 b)))"

definition le_bytes64 :: "64 word \<Rightarrow> bytes" where
  "le_bytes64 x = map (\<lambda>i. ucast (drop_bit (8 * i) x)) [0..<8]"

definition UnixNano :: "time \<Rightarrow> 64 word" where
  "UnixNano t = word_of_int (t - unix_epoch * second)"

text \<open>
  \<open>newID\<close>: a random UUID, or, when the entropy source fails, the clock and a process-wide
  sequence number in hexadecimal.
\<close>

definition newID :: "('m, 'r, string) M" where
  "newID = do {
     r \<leftarrow> rand_Read 16;
     case r of
       Some b \<Rightarrow> ret (uuid_of_bytes b)
     | None \<Rightarrow> do {
         modify (\<lambda>w. w\<lparr>w_idseq := w_idseq w + 1\<rparr>);
         sq \<leftarrow> gets w_idseq;
         now \<leftarrow> time_Now;
         ret (hex_EncodeToString (le_bytes64 (UnixNano now) @ le_bytes64 sq))
       }
   }"

definition resultDeviceID :: "string \<Rightarrow> ('m, 'r, string) M" where
  "resultDeviceID deviceID =
     (let normalized = NormalizeDeviceID deviceID in if normalized \<noteq> [] then ret normalized else newID)"

section \<open>Lemmas\<close>

lemma NormalizeEmail_idem [simp]: "NormalizeEmail (NormalizeEmail e) = NormalizeEmail e"
  by (simp add: NormalizeEmail_def ToLower_TrimSpace)

lemma HasRole_set [simp]: "HasRole u r \<longleftrightarrow> r \<in> set (u_Roles u)"
proof -
  have "has_role rs r \<longleftrightarrow> r \<in> set rs" for rs by (induction rs) auto
  then show ?thesis by (simp add: HasRole_def)
qed

lemma hex_class_lower [simp]: "hex_class (lower_char c) = hex_class c"
  by (simp add: hex_class_def)

lemma variant_class_lower [simp]: "variant_class (lower_char c) = variant_class c"
  by (simp add: variant_class_def)

lemma lower_char_dash [simp]: "lower_char CHR ''-'' = CHR ''-''" "lower_char CHR ''4'' = CHR ''4''"
  by (simp_all add: lower_char_def)

lemma uuid_classes_lower: "p \<in> set uuid_classes \<Longrightarrow> p c \<Longrightarrow> p (lower_char c)"
  by (auto simp: uuid_classes_def)

lemma uuidV4Pattern_lower: "uuidV4Pattern s \<Longrightarrow> uuidV4Pattern (ToLower s)"
  unfolding uuidV4Pattern_def ToLower_def list.rel_map(2)
  by (erule list.rel_mono_strong) (rule uuid_classes_lower)

lemma uuidV4Pattern_length: "uuidV4Pattern s \<Longrightarrow> length s = 36"
  unfolding uuidV4Pattern_def by (drule list_all2_lengthD) (simp add: uuid_classes_def)

lemma uuidV4Pattern_no_space: "uuidV4Pattern s \<Longrightarrow> TrimSpace s = s"
proof -
  assume u: "uuidV4Pattern s"
  have ns: "\<not> is_space c" if "p \<in> set uuid_classes" "p c" for p c
    using that
    by (auto simp: uuid_classes_def hex_class_def variant_class_def is_hex_lower_def is_space_def
        lower_char_def Let_def split: if_splits)
  have "\<forall>c \<in> set s. \<not> is_space c"
    using u ns unfolding uuidV4Pattern_def by (metis (no_types, lifting) in_set_conv_nth list_all2_conv_all_nth)
  then have "dropWhile is_space s = s" "dropWhile is_space (rev s) = rev s"
    by (metis dropWhile_eq_self_iff hd_in_set, metis dropWhile_eq_self_iff hd_in_set set_rev)
  then show ?thesis by (simp add: TrimSpace_def)
qed

lemma NormalizeDeviceID_cases:
  "NormalizeDeviceID d = [] \<or> (NormalizeDeviceID d = ToLower (TrimSpace d) \<and> uuidV4Pattern (NormalizeDeviceID d))"
  by (auto simp: NormalizeDeviceID_def Let_def uuidV4Pattern_lower)

lemma NormalizeDeviceID_uuid: "uuidV4Pattern d \<Longrightarrow> NormalizeDeviceID d = ToLower d"
  by (simp add: NormalizeDeviceID_def uuidV4Pattern_no_space uuidV4Pattern_length)

lemma hex_lower_classes: "is_hex_lower c \<Longrightarrow> hex_class c \<and> lower_char c = c"
  by (auto simp: is_hex_lower_def hex_class_def lower_char_def Let_def)

lemma list_all2_replicate: "list_all2 (\<lambda>p c. p c) (replicate n q) s \<longleftrightarrow> length s = n \<and> (\<forall>c \<in> set s. q c)"
  by (induction n arbitrary: s) (auto simp: list_all2_Cons1 length_Suc_conv)

lemma version_nibble: "unat ((b AND 0x0f) OR 0x40 :: byte) div 16 = 4"
proof -
  have "unat (drop_bit 4 ((b AND 0x0f) OR 0x40)) = 4"
    by (simp only: drop_bit_or drop_bit_and) simp
  then show ?thesis by (simp add: drop_bit_eq_div unat_div)
qed

lemma variant_nibble: "unat ((b AND 0x3f) OR 0x80 :: byte) div 16 \<in> {8, 9, 10, 11}"
proof -
  define y where "y = (drop_bit 4 b AND 3 :: byte)"
  have "y = take_bit 2 (drop_bit 4 b)" by (simp add: y_def take_bit_eq_mask mask_eq_exp_minus_1)
  then have "unat y = take_bit 2 (unat (drop_bit 4 b))" by (simp only: unsigned_take_bit_eq)
  then have "unat y < 4" using take_bit_nat_less_exp [of 2 "unat (drop_bit 4 b)"] by simp
  then consider "unat y = 0" | "unat y = 1" | "unat y = 2" | "unat y = 3" by linarith
  then have "y \<in> {0, 1, 2, 3}" by cases (simp_all add: word_unat_eq_iff)
  moreover have "drop_bit 4 ((b AND 0x3f) OR 0x80) = (y OR 8)"
    by (simp only: drop_bit_or drop_bit_and y_def) simp
  ultimately have "unat (drop_bit 4 ((b AND 0x3f) OR 0x80)) \<in> {8, 9, 10, 11}" by auto
  then show ?thesis by (simp add: drop_bit_eq_div unat_div)
qed

lemma hex_all2: "list_all2 (\<lambda>p c. p c) (replicate (2 * length bs) hex_class) (hex_EncodeToString bs)"
  using hex_is_hex [of bs] hex_lower_classes by (auto simp: list_all2_replicate)

lemma hex_lower_ToLower: "ToLower (hex_EncodeToString bs) = hex_EncodeToString bs"
  using hex_is_hex [of bs] hex_lower_classes by (simp add: ToLower_def map_idI)

lemma hex_byte_digits: "hex_class (hex_digit (unat b mod 16))" "is_hex_lower (hex_digit (unat b mod 16))"
  using hex_lower_classes is_hex_digit [of "unat b mod 16"] by simp_all

lemma hex_digit_values:
  "hex_digit 4 = CHR ''4''" "hex_digit 8 = CHR ''8''" "hex_digit 9 = CHR ''9''"
  "hex_digit 10 = CHR ''a''" "hex_digit 11 = CHR ''b''"
  by code_simp+

lemma version_hex:
  "list_all2 (\<lambda>p c. p c) ((\<lambda>c. c = CHR ''4'') # replicate 3 hex_class) (hex_EncodeToString [(b AND 0x0f) OR 0x40, b'])"
proof -
  have "hex_EncodeToString [(b AND 0x0f) OR 0x40, b'] =
        CHR ''4'' # hex_digit (unat ((b AND 0x0f) OR 0x40) mod 16) # hex_EncodeToString [b']"
    using version_nibble [of b] by (simp add: hex_EncodeToString_def hex_byte_def hex_digit_values)
  moreover have "list_all2 (\<lambda>p c. p c) (replicate 2 hex_class) (hex_EncodeToString [b'])"
    using hex_all2 [of "[b']"] by simp
  ultimately show ?thesis by (simp add: numeral_3_eq_3 numeral_2_eq_2 hex_byte_digits)
qed

lemma variant_hex:
  "list_all2 (\<lambda>p c. p c) (variant_class # replicate 3 hex_class) (hex_EncodeToString [(b AND 0x3f) OR 0x80, b'])"
proof -
  have "variant_class (hex_digit (unat ((b AND 0x3f) OR 0x80) div 16))"
    using variant_nibble [of b] by (auto simp: variant_class_def hex_digit_values lower_char_def)
  moreover have "list_all2 (\<lambda>p c. p c) (replicate 2 hex_class) (hex_EncodeToString [b'])"
    using hex_all2 [of "[b']"] by simp
  ultimately show ?thesis
    by (simp add: hex_EncodeToString_def hex_byte_def numeral_3_eq_3 numeral_2_eq_2 hex_byte_digits)
qed

lemma uuid_of_bytes_pattern:
  assumes "length b = 16"
  shows "uuidV4Pattern (uuid_of_bytes b)" "ToLower (uuid_of_bytes b) = uuid_of_bytes b"
proof -
  obtain c0 c1 c2 c3 c4 c5 c6 c7 c8 c9 c10 c11 c12 c13 c14 c15 where
    b: "b = [c0, c1, c2, c3, c4, c5, c6, c7, c8, c9, c10, c11, c12, c13, c14, c15]"
    using assms by (auto simp: length_Suc_conv eval_nat_numeral)
  have u: "uuid_of_bytes b =
    hex_EncodeToString [c0, c1, c2, c3] @ [CHR ''-''] @ hex_EncodeToString [c4, c5] @ [CHR ''-'']
    @ hex_EncodeToString [(c6 AND 0x0f) OR 0x40, c7] @ [CHR ''-'']
    @ hex_EncodeToString [(c8 AND 0x3f) OR 0x80, c9] @ [CHR ''-''] @ hex_EncodeToString [c10, c11, c12, c13, c14, c15]"
    by (simp add: uuid_of_bytes_def b Let_def)
  have classes: "uuid_classes = replicate (2 * length [c0, c1, c2, c3]) hex_class @ [\<lambda>c. c = CHR ''-'']
    @ replicate (2 * length [c4, c5]) hex_class @ [\<lambda>c. c = CHR ''-''] @ ((\<lambda>c. c = CHR ''4'') # replicate 3 hex_class)
    @ [\<lambda>c. c = CHR ''-''] @ (variant_class # replicate 3 hex_class) @ [\<lambda>c. c = CHR ''-'']
    @ replicate (2 * length [c10, c11, c12, c13, c14, c15]) hex_class"
    by (simp add: uuid_classes_def)
  show "uuidV4Pattern (uuid_of_bytes b)"
    unfolding uuidV4Pattern_def classes u
    by (intro list_all2_appendI hex_all2 version_hex variant_hex) simp_all
  show "ToLower (uuid_of_bytes b) = uuid_of_bytes b"
    unfolding u by (simp add: ToLower_def map_append hex_lower_ToLower [unfolded ToLower_def])
qed

section \<open>Properties\<close>

text \<open>
  An identifier generated while the entropy source works is a canonical version 4 UUID: it is
  accepted by the device-identifier pattern and normalises to itself, so a device identifier that
  the service generates for a client is stored unchanged by the session repository.
\<close>

lemma newID_is_canonical_uuid:
  assumes "w_entropy w (w_draw w) = Some src"
  shows "uuidV4Pattern (fst (run_state newID w)) \<and>
         NormalizeDeviceID (fst (run_state newID w)) = fst (run_state newID w)"
proof -
  have "fst (run_state newID w) = uuid_of_bytes (map src [0..<16])"
    using assms by (simp add: newID_def)
  then show ?thesis by (simp add: uuid_of_bytes_pattern NormalizeDeviceID_uuid)
qed

definition zero_world :: "(unit, unit) world" where
  "zero_world = \<lparr>w_mongo = (), w_redis = (), w_clock = (\<lambda>_. 0), w_tick = 0, w_entropy = (\<lambda>_. Some (\<lambda>_. 0)),
     w_draw = 0, w_idseq = 0, w_bufs = (\<lambda>_. []), w_nbuf = 0, w_metrics = []\<rparr>"

lemma newID_is_canonical_uuid_witness:
  "w_entropy zero_world (w_draw zero_world) = Some (\<lambda>_. 0) \<and> uuidV4Pattern (fst (run_state newID zero_world))"
  using newID_is_canonical_uuid [of zero_world "\<lambda>_. 0"] by (simp add: zero_world_def)

text \<open>
  Normalising pagination parameters always yields a limit between 1 and the effective maximum
  and a non-negative offset, and normalising twice (as the HTTP handler and the repositories do) is
  the same as normalising once.
\<close>

lemma Normalized_bounds_idempotent:
  "1 \<le> pg_Limit (Normalized p d m) \<and> pg_Limit (Normalized p d m) \<le> (if m \<le> 0 then 100 else m) \<and>
   0 \<le> pg_Offset (Normalized p d m) \<and> Normalized (Normalized p d m) d m = Normalized p d m"
  by (simp add: Normalized_def Let_def)

end
