(* ===== verification/Database.thy ===== *)
theory Database
  imports Domain
begin

text \<open>
  \<open>internal/platform/database\<close> without the cache: options and their validation, the error
  classification, the \<open>Database\<close> interface and its MongoDB implementation.

  The MongoDB driver and server are not part of the repository: the driver is a record of
  computations over an abstract server state, a parameter of every definition that talks to it.
  What the code relies on is the locale \<open>mongo_server\<close>, which states the documented effect of each
  driver call on the collections; \<open>mem_driver\<close> is a server kept in memory that satisfies it.
\<close>

section \<open>Documents, queries, updates\<close>

text \<open>
  BSON values as far as the program writes them. A date is a number of milliseconds (the resolution
  of the format), counted from Go's zero time.
\<close>

datatype bson =
    BString string
  | BInt int
  | BBool bool
  | BDate int
  | BStrings "string list"
  | BBytes bytes
  | BStringMap "(string \<times> string) list"

type_synonym doc = "(string \<times> bson) list"

definition bson_date :: "time \<Rightarrow> bson" where
  "bson_date t = BDate (t div millisecond)"

definition date_time :: "int \<Rightarrow> time" where
  "date_time ms = ms * millisecond"

definition trunc_ms :: "time \<Rightarrow> time" where
  "trunc_ms t = t div millisecond * millisecond"

lemma trunc_ms_idem [simp]: "trunc_ms (trunc_ms t) = trunc_ms t"
  by (simp add: trunc_ms_def millisecond_def)

lemma trunc_ms_le: "trunc_ms t \<le> t"
  by (simp add: trunc_ms_def millisecond_def)

text \<open>Query operators: plain equality, \<open>$exists\<close>, \<open>$gt\<close>, \<open>$gte\<close>, \<open>$lte\<close>, \<open>$in\<close>; and \<open>$expr\<close> with \<open>$lt\<close>.\<close>

datatype cond = CEq bson | CExists bool | CGt bson | CGte bson | CLte bson | CIn "bson list"

datatype clause = On string "cond list" | ExprLt string string

type_synonym query = "clause list"

datatype update_op =
    USet "(string \<times> bson) list"
  | UUnset "string list"
  | UInc string int
  | UAddToSet string string

type_synonym update = "update_op list"

text \<open>
  A filter handed to the database layer is a query, or a value with its own \<open>MarshalBSON\<close>, which
  reads the clock when the driver encodes it; the latter may implement \<open>CacheableFilter\<close>.
\<close>

datatype filter = Query query | Marshaler "string list option" "time \<Rightarrow> query"

definition encode_filter :: "filter \<Rightarrow> ('m, 'r, query) M" where
  "encode_filter f = (case f of Query q \<Rightarrow> ret q | Marshaler _ g \<Rightarrow> do { now \<leftarrow> time_Now; ret (g now) })"

definition is_CacheableFilter :: "filter \<Rightarrow> bool" where
  "is_CacheableFilter f = (case f of Marshaler (Some _) _ \<Rightarrow> True | _ \<Rightarrow> False)"

section \<open>Options\<close>

text \<open>\<open>ro_Sort\<close> is the \<open>bson.M\<close> of the source, if any, with its keys.\<close>

record ReadOptions =
  ro_CacheKey :: string
  ro_CacheTTL :: duration
  ro_LockOnMiss :: bool
  ro_Limit :: int
  ro_Offset :: int
  ro_Sort :: "(string \<times> int) list option"

record WriteOptions =
  wo_LockKey :: string
  wo_InvalidateKeys :: "string list"
  wo_StrictLock :: bool

definition read_opts :: ReadOptions where
  "read_opts = \<lparr>ro_CacheKey = [], ro_CacheTTL = 0, ro_LockOnMiss = False, ro_Limit = 0, ro_Offset = 0, ro_Sort = None\<rparr>"

definition write_opts :: WriteOptions where
  "write_opts = \<lparr>wo_LockKey = [], wo_InvalidateKeys = [], wo_StrictLock = False\<rparr>"

definition ReadOptions_Validate :: "ReadOptions \<Rightarrow> err option" where
  "ReadOptions_Validate o' =
     (if ro_CacheKey o' = [] \<and> (ro_CacheTTL o' > 0 \<or> ro_LockOnMiss o')
      then Some (Errorf ''read cache options require CacheKey'' None)
      else if ro_CacheKey o' \<noteq> [] \<and> ro_CacheTTL o' \<le> 0
      then Some (Errorf ''CacheTTL must be positive when CacheKey is set'' None)
      else None)"

definition WriteOptions_Validate :: "WriteOptions \<Rightarrow> err option" where
  "WriteOptions_Validate o' =
     (if wo_StrictLock o' \<and> wo_LockKey o' = [] then Some (Errorf ''StrictLock requires LockKey'' None) else None)"

section \<open>Error classification\<close>

definition isTimeoutError :: "err \<Rightarrow> bool" where
  "isTimeoutError e =
     (if errors_Is e DeadlineExceeded then True
      else if errors_As_Timeout e = Some True then True
      else if errors_As_NetTimeout e = Some True then True
      else False)"

text \<open>\<open>dependencyError\<close> on a non-nil error; a nil error stays nil.\<close>

definition dependencyError :: "string \<Rightarrow> err \<Rightarrow> err" where
  "dependencyError op e = (if \<not> isTimeoutError e then e else AppErr (Dependency op e))"

definition IsDuplicateKeyError :: "err \<Rightarrow> bool" where
  "IsDuplicateKeyError e =
     (if (case errors_As_Codes e of None \<Rightarrow> False | Some cs \<Rightarrow> 11000 \<in> set cs) then True
      else if errors_Is e DbErrConflict then True
      else Contains (ToLower (err_Error e)) ''duplicate key'')"

section \<open>The driver and the \<open>Database\<close> interface\<close>

text \<open>
  \<open>drv_Find\<close> answers with the error of \<open>Find\<close>, or with what \<open>cursor.All\<close> returns for the cursor.
\<close>

record find_options =
  fo_Limit :: "int option"
  fo_Skip :: "int option"
  fo_Sort :: "(string \<times> int) list option"

record 'm mongo_driver =
  drv_FindOne :: "ctx \<Rightarrow> string \<Rightarrow> query \<Rightarrow> ('m, err + doc) state"
  drv_Find :: "ctx \<Rightarrow> string \<Rightarrow> query \<Rightarrow> find_options \<Rightarrow> ('m, err + (err + doc list)) state"
  drv_InsertOne :: "ctx \<Rightarrow> string \<Rightarrow> doc \<Rightarrow> ('m, err option) state"
  drv_UpdateOne :: "ctx \<Rightarrow> string \<Rightarrow> query \<Rightarrow> update \<Rightarrow> ('m, err + int) state"
  drv_UpdateMany :: "ctx \<Rightarrow> string \<Rightarrow> query \<Rightarrow> update \<Rightarrow> ('m, err + int) state"
  drv_DeleteOne :: "ctx \<Rightarrow> string \<Rightarrow> query \<Rightarrow> ('m, err + int) state"
  drv_CountDocuments :: "ctx \<Rightarrow> string \<Rightarrow> query \<Rightarrow> ('m, err + int) state"
  drv_Ping :: "ctx \<Rightarrow> ('m, err option) state"
  drv_Disconnect :: "ctx \<Rightarrow> ('m, err option) state"

record ('m, 'r) Database =
  db_FindOne :: "ctx \<Rightarrow> string \<Rightarrow> filter \<Rightarrow> ReadOptions \<Rightarrow> ('m, 'r, err + doc) M"
  db_FindMany :: "ctx \<Rightarrow> string \<Rightarrow> filter \<Rightarrow> ReadOptions \<Rightarrow> ('m, 'r, err + doc list) M"
  db_InsertOne :: "ctx \<Rightarrow> string \<Rightarrow> doc \<Rightarrow> WriteOptions \<Rightarrow> ('m, 'r, err option) M"
  db_UpdateOne :: "ctx \<Rightarrow> string \<Rightarrow> filter \<Rightarrow> update \<Rightarrow> WriteOptions \<Rightarrow> ('m, 'r, err option) M"
  db_UpdateMany :: "ctx \<Rightarrow> string \<Rightarrow> filter \<Rightarrow> update \<Rightarrow> WriteOptions \<Rightarrow> ('m, 'r, err option) M"
  db_DeleteOne :: "ctx \<Rightarrow> string \<Rightarrow> filter \<Rightarrow> WriteOptions \<Rightarrow> ('m, 'r, err option) M"
  db_Count :: "ctx \<Rightarrow> string \<Rightarrow> filter \<Rightarrow> ('m, 'r, err + int) M"
  db_Ping :: "ctx \<Rightarrow> ('m, 'r, err option) M"
  db_Close :: "ctx \<Rightarrow> ('m, 'r, err option) M"

section \<open>\<open>MongoDatabase\<close>\<close>

definition Mongo_FindOne :: "'m mongo_driver \<Rightarrow> ctx \<Rightarrow> string \<Rightarrow> filter \<Rightarrow> ReadOptions \<Rightarrow> ('m, 'r, err + doc) M" where
  "Mongo_FindOne drv cx c f opts =
     (case ReadOptions_Validate opts of
        Some e \<Rightarrow> ret (Inl e)
      | None \<Rightarrow> do {
          q \<leftarrow> encode_filter f;
          r \<leftarrow> on_mongo (drv_FindOne drv cx c q);
          ret (case r of
                 Inr d \<Rightarrow> Inr d
               | Inl e \<Rightarrow> if errors_Is e MongoErrNoDocuments then Inl (Sentinel DbErrNotFound)
                          else Inl (dependencyError ''MongoDatabase.FindOne'' e))
        })"

definition find_options_of :: "ReadOptions \<Rightarrow> find_options" where
  "find_options_of opts =
     \<lparr>fo_Limit = (if ro_Limit opts > 0 then Some (ro_Limit opts) else None),
      fo_Skip = (if ro_Offset opts > 0 then Some (ro_Offset opts) else None),
      fo_Sort = ro_Sort opts\<rparr>"

definition Mongo_FindMany :: "'m mongo_driver \<Rightarrow> ctx \<Rightarrow> string \<Rightarrow> filter \<Rightarrow> ReadOptions \<Rightarrow> ('m, 'r, err + doc list) M" where
  "Mongo_FindMany drv cx c f opts =
     (case ReadOptions_Validate opts of
        Some e \<Rightarrow> ret (Inl e)
      | None \<Rightarrow> do {
          q \<leftarrow> encode_filter f;
          r \<leftarrow> on_mongo (drv_Find drv cx c q (find_options_of opts));
          ret (case r of
                 Inl e \<Rightarrow> Inl e
               | Inr (Inl e) \<Rightarrow> Inl (dependencyError ''MongoDatabase.FindMany'' e)
               | Inr (Inr ds) \<Rightarrow> Inr ds)
        })"

definition Mongo_InsertOne :: "'m mongo_driver \<Rightarrow> ctx \<Rightarrow> string \<Rightarrow> doc \<Rightarrow> WriteOptions \<Rightarrow> ('m, 'r, err option) M" where
  "Mongo_InsertOne drv cx c d opts =
     (case WriteOptions_Validate opts of
        Some e \<Rightarrow> ret (Some e)
      | None \<Rightarrow> do {
          r \<leftarrow> on_mongo (drv_InsertOne drv cx c d);
          ret (map_option (dependencyError ''MongoDatabase.InsertOne'') r)
        })"

text \<open>The shared tail of \<open>UpdateOne\<close>, \<open>UpdateMany\<close> and \<open>DeleteOne\<close>: no document affected is \<open>ErrNotFound\<close>.\<close>

definition affected :: "string \<Rightarrow> err + int \<Rightarrow> err option" where
  "affected op r = (case r of Inl e \<Rightarrow> Some (dependencyError op e)
                            | Inr n \<Rightarrow> if n = 0 then Some (Sentinel DbErrNotFound) else None)"

definition Mongo_UpdateOne :: "'m mongo_driver \<Rightarrow> ctx \<Rightarrow> string \<Rightarrow> filter \<Rightarrow> update \<Rightarrow> WriteOptions \<Rightarrow> ('m, 'r, err option) M" where
  "Mongo_UpdateOne drv cx c f u opts =
     (case WriteOptions_Validate opts of
        Some e \<Rightarrow> ret (Some e)
      | None \<Rightarrow> do {
          q \<leftarrow> encode_filter f;
          r \<leftarrow> on_mongo (drv_UpdateOne drv cx c q u);
          ret (affected ''MongoDatabase.UpdateOne'' r)
        })"

definition Mongo_UpdateMany :: "'m mongo_driver \<Rightarrow> ctx \<Rightarrow> string \<Rightarrow> filter \<Rightarrow> update \<Rightarrow> WriteOptions \<Rightarrow> ('m, 'r, err option) M" where
  "Mongo_UpdateMany drv cx c f u opts =
     (case WriteOptions_Validate opts of
        Some e \<Rightarrow> ret (Some e)
      | None \<Rightarrow> do {
          q \<leftarrow> encode_filter f;
          r \<leftarrow> on_mongo (drv_UpdateMany drv cx c q u);
          ret (affected ''MongoDatabase.UpdateMany'' r)
        })"

definition Mongo_DeleteOne :: "'m mongo_driver \<Rightarrow> ctx \<Rightarrow> string \<Rightarrow> filter \<Rightarrow> WriteOptions \<Rightarrow> ('m, 'r, err option) M" where
  "Mongo_DeleteOne drv cx c f opts =
     (case WriteOptions_Validate opts of
        Some e \<Rightarrow> ret (Some e)
      | None \<Rightarrow> do {
          q \<leftarrow> encode_filter f;
          r \<leftarrow> on_mongo (drv_DeleteOne drv cx c q);
          ret (affected ''MongoDatabase.DeleteOne'' r)
        })"

definition Mongo_Count :: "'m mongo_driver \<Rightarrow> ctx \<Rightarrow> string \<Rightarrow> filter \<Rightarrow> ('m, 'r, err + int) M" where
  "Mongo_Count drv cx c f = do {
     q \<leftarrow> encode_filter f;
     r \<leftarrow> on_mongo (drv_CountDocuments drv cx c q);
     ret (map_sum (dependencyError ''MongoDatabase.Count'') id r)
   }"

definition Mongo_Ping :: "'m mongo_driver \<Rightarrow> ctx \<Rightarrow> ('m, 'r, err option) M" where
  "Mongo_Ping drv cx = do {
     r \<leftarrow> on_mongo (drv_Ping drv cx);
     ret (map_option (dependencyError ''MongoDatabase.Ping'') r)
   }"

definition Mongo_Close :: "'m mongo_driver \<Rightarrow> ctx \<Rightarrow> ('m, 'r, err option) M" where
  "Mongo_Close drv cx = on_mongo (drv_Disconnect drv cx)"

definition MongoDatabase :: "'m mongo_driver \<Rightarrow> ('m, 'r) Database" where
  "MongoDatabase drv =
     \<lparr>db_FindOne = Mongo_FindOne drv, db_FindMany = Mongo_FindMany drv, db_InsertOne = Mongo_InsertOne drv,
      db_UpdateOne = Mongo_UpdateOne drv, db_UpdateMany = Mongo_UpdateMany drv, db_DeleteOne = Mongo_DeleteOne drv,
      db_Count = Mongo_Count drv, db_Ping = Mongo_Ping drv, db_Close = Mongo_Close drv\<rparr>"

text \<open>
  Transactions. The driver's session is two parameters: starting it may fail, and
  \<open>WithTransaction\<close> runs the callback in a transaction context and answers with its result or an
  error of its own. The value the callback leaves in a captured variable is the right component of
  its result.
\<close>

record ('m, 'r, 'a) tx_driver =
  txd_StartSession :: "('m, err option) state"
  txd_WithTransaction :: "ctx \<Rightarrow> (ctx \<Rightarrow> ('m, 'r, err + 'a) M) \<Rightarrow> ('m, 'r, err + 'a) M"

type_synonym ('m, 'r, 'a) TransactionRunner = "ctx \<Rightarrow> (ctx \<Rightarrow> ('m, 'r, err + 'a) M) \<Rightarrow> ('m, 'r, err + 'a) M"

definition Mongo_RunInTransaction :: "('m, 'r, 'a) tx_driver \<Rightarrow> ('m, 'r, 'a) TransactionRunner" where
  "Mongo_RunInTransaction txd cx fn = do {
     s \<leftarrow> on_mongo (txd_StartSession txd);
     case s of
       Some e \<Rightarrow> ret (Inl (dependencyError ''MongoDatabase.RunInTransaction'' e))
     | None \<Rightarrow> do {
         r \<leftarrow> txd_WithTransaction txd cx fn;
         ret (map_sum (dependencyError ''MongoDatabase.RunInTransaction'') id r)
       }
   }"

lemmas mongo_op_defs = Mongo_FindOne_def Mongo_FindMany_def Mongo_InsertOne_def Mongo_UpdateOne_def
  Mongo_UpdateMany_def Mongo_DeleteOne_def Mongo_Count_def Mongo_Ping_def Mongo_Close_def

lemma MongoDatabase_sel [simp]:
  "db_FindOne (MongoDatabase drv) = Mongo_FindOne drv" "db_FindMany (MongoDatabase drv) = Mongo_FindMany drv"
  "db_InsertOne (MongoDatabase drv) = Mongo_InsertOne drv" "db_UpdateOne (MongoDatabase drv) = Mongo_UpdateOne drv"
  "db_UpdateMany (MongoDatabase drv) = Mongo_UpdateMany drv" "db_DeleteOne (MongoDatabase drv) = Mongo_DeleteOne drv"
  "db_Count (MongoDatabase drv) = Mongo_Count drv" "db_Ping (MongoDatabase drv) = Mongo_Ping drv"
  "db_Close (MongoDatabase drv) = Mongo_Close drv"
  by (simp_all add: MongoDatabase_def)

lemma keeps_encode_filter [keeps_intros]: "keeps I time_Now \<Longrightarrow> keeps I (encode_filter f)"
  by (auto simp: encode_filter_def split: filter.splits intro: keeps_intros)

text \<open>The operations of \<open>MongoDatabase\<close> keep whatever the driver calls and the clock keep.\<close>

lemma keeps_mongo_ops:
  assumes "\<And>m :: ('m, err + doc) state. keeps I (on_mongo m)"
    and "\<And>m :: ('m, err + err + doc list) state. keeps I (on_mongo m)"
    and "\<And>m :: ('m, err + int) state. keeps I (on_mongo m)"
    and "\<And>m :: ('m, err option) state. keeps I (on_mongo m)"
    and "keeps I time_Now"
  shows "keeps I (Mongo_FindOne drv cx c f ro)" "keeps I (Mongo_FindMany drv cx c f ro)"
    "keeps I (Mongo_InsertOne drv cx c d wo)" "keeps I (Mongo_UpdateOne drv cx c f u wo)"
    "keeps I (Mongo_UpdateMany drv cx c f u wo)" "keeps I (Mongo_DeleteOne drv cx c f wo)"
    "keeps I (Mongo_Count drv cx c f)" "keeps I (Mongo_Ping drv cx)"
  unfolding mongo_op_defs by (intro keeps_intros assms)+

lemma keeps_mongo_ops_frame [keeps_intros]:
  "keeps (\<lambda>w. J (w_redis w)) (Mongo_FindOne drv cx c f ro)" "keeps (\<lambda>w. J (w_redis w)) (Mongo_FindMany drv cx c f ro)"
  "keeps (\<lambda>w. J (w_redis w)) (Mongo_InsertOne drv cx c d wo)" "keeps (\<lambda>w. J (w_redis w)) (Mongo_UpdateOne drv cx c f u wo)"
  "keeps (\<lambda>w. J (w_redis w)) (Mongo_UpdateMany drv cx c f u wo)" "keeps (\<lambda>w. J (w_redis w)) (Mongo_DeleteOne drv cx c f wo)"
  "keeps (\<lambda>w. K (w_metrics w)) (Mongo_FindOne drv cx c f ro)" "keeps (\<lambda>w. K (w_metrics w)) (Mongo_FindMany drv cx c f ro)"
  "keeps (\<lambda>w. K (w_metrics w)) (Mongo_InsertOne drv cx c d wo)" "keeps (\<lambda>w. K (w_metrics w)) (Mongo_UpdateOne drv cx c f u wo)"
  "keeps (\<lambda>w. K (w_metrics w)) (Mongo_UpdateMany drv cx c f u wo)" "keeps (\<lambda>w. K (w_metrics w)) (Mongo_DeleteOne drv cx c f wo)"
  "keeps (\<lambda>w. L (w_bufs w)) (Mongo_FindOne drv cx c f ro)" "keeps (\<lambda>w. L (w_bufs w)) (Mongo_FindMany drv cx c f ro)"
  "keeps (\<lambda>w. L (w_bufs w)) (Mongo_InsertOne drv cx c d wo)" "keeps (\<lambda>w. L (w_bufs w)) (Mongo_UpdateOne drv cx c f u wo)"
  "keeps (\<lambda>w. L (w_bufs w)) (Mongo_UpdateMany drv cx c f u wo)" "keeps (\<lambda>w. L (w_bufs w)) (Mongo_DeleteOne drv cx c f wo)"
  by (intro keeps_mongo_ops keeps_redis_prims keeps_metrics_prims keeps_bufs_prims)+

lemma errors_Is_dependencyError [simp]: "errors_Is (dependencyError op e) t = errors_Is e t"
  by (simp add: dependencyError_def Dependency_def)

end
