(* ===== verification/Mongo_Server.thy ===== *)
theory Mongo_Server
  imports Database "HOL-Library.Multiset"
begin

text \<open>
  What the program relies on of the MongoDB server, as the locale \<open>mongo_server\<close>: the documented
  effect of each driver call on the collections. A call that answers with an error may have been
  carried out or not, unless the documentation says otherwise. \<open>mem_driver\<close> is a server in memory,
  used wherever a concrete driver is needed; it satisfies the locale.

  The unique indexes are those \<open>bootstrap.EnsureIndexes\<close> creates (\<open>internal/bootstrap/indexes.go\<close>).
\<close>

section \<open>Query matching and updates\<close>

fun bson_less :: "bson \<Rightarrow> bson \<Rightarrow> bool" where
  "bson_less (BDate a) (BDate b) = (a < b)"
| "bson_less (BInt a) (BInt b) = (a < b)"
| "bson_less _ _ = False"

fun cond_holds :: "bson option \<Rightarrow> cond \<Rightarrow> bool" where
  "cond_holds v (CEq b) = (v = Some b)"
| "cond_holds v (CExists b) = ((v \<noteq> None) = b)"
| "cond_holds v (CGt b) = (case v of None \<Rightarrow> False | Some x \<Rightarrow> bson_less b x)"
| "cond_holds v (CGte b) = (case v of None \<Rightarrow> False | Some x \<Rightarrow> x = b \<or> bson_less b x)"
| "cond_holds v (CLte b) = (case v of None \<Rightarrow> False | Some x \<Rightarrow> x = b \<or> bson_less x b)"
| "cond_holds v (CIn bs) = (case v of None \<Rightarrow> False | Some x \<Rightarrow> x \<in> set bs)"

fun clause_holds :: "doc \<Rightarrow> clause \<Rightarrow> bool" where
  "clause_holds d (On k cs) = (\<forall>c \<in> set cs. cond_holds (map_of d k) c)"
| "clause_holds d (ExprLt a b) =
     (case (map_of d a, map_of d b) of (Some x, Some y) \<Rightarrow> bson_less x y | _ \<Rightarrow> False)"

definition matches :: "query \<Rightarrow> doc \<Rightarrow> bool" where
  "matches q d = (\<forall>c \<in> set q. clause_holds d c)"

fun apply_op :: "doc \<Rightarrow> update_op \<Rightarrow> doc" where
  "apply_op d (USet kvs) = fold (\<lambda>(k, v) d. AList.update k v d) kvs d"
| "apply_op d (UUnset ks) = fold AList.delete ks d"
| "apply_op d (UInc k n) =
     AList.update k (case map_of d k of Some (BInt i) \<Rightarrow> BInt (i + n) | _ \<Rightarrow> BInt n) d"
| "apply_op d (UAddToSet k s) =
     AList.update k (case map_of d k of Some (BStrings xs) \<Rightarrow> BStrings (if s \<in> set xs then xs else xs @ [s])
                                      | _ \<Rightarrow> BStrings [s]) d"

definition apply_update :: "update \<Rightarrow> doc \<Rightarrow> doc" where
  "apply_update u d = fold (\<lambda>o' d. apply_op d o') u d"

definition updated_one :: "query \<Rightarrow> update \<Rightarrow> doc list \<Rightarrow> doc list \<Rightarrow> bool" where
  "updated_one q u ds ds' \<longleftrightarrow>
     (\<exists>pre d post. ds = pre @ d # post \<and> matches q d \<and> ds' = pre @ apply_update u d # post)"

definition updated_some :: "query \<Rightarrow> update \<Rightarrow> doc list \<Rightarrow> doc list \<Rightarrow> bool" where
  "updated_some q u ds ds' \<longleftrightarrow> list_all2 (\<lambda>d d'. d' = d \<or> matches q d \<and> d' = apply_update u d) ds ds'"

definition deleted_one :: "query \<Rightarrow> doc list \<Rightarrow> doc list \<Rightarrow> bool" where
  "deleted_one q ds ds' \<longleftrightarrow> (\<exists>pre d post. ds = pre @ d # post \<and> matches q d \<and> ds' = pre @ post)"

definition updated_all :: "query \<Rightarrow> update \<Rightarrow> doc list \<Rightarrow> doc list" where
  "updated_all q u ds = map (\<lambda>d. if matches q d then apply_update u d else d) ds"

lemma updated_one_some: "updated_one q u ds ds' \<Longrightarrow> updated_some q u ds ds'"
  by (auto simp: updated_one_def updated_some_def intro!: list_all2_appendI list_all2_refl)

lemma updated_some_refl: "updated_some q u ds ds"
  by (auto simp: updated_some_def intro: list_all2_refl)

lemma updated_all_some: "updated_some q u ds (updated_all q u ds)"
  by (auto simp: updated_some_def updated_all_def list_all2_map2 intro: list_all2_refl)

section \<open>Indexes\<close>

definition unique_fields :: "string \<Rightarrow> string list" where
  "unique_fields c =
     ''_id'' # (if c = ''users'' then [''email'']
                else if c = ''sessions'' then [''refresh_token_hash'']
                else if c = ''outbox_events'' then [''idempotency_key'']
                else if c = ''schema_migrations'' then [''version'']
                else [])"

definition uniq :: "string \<Rightarrow> doc list \<Rightarrow> bool" where
  "uniq c ds = (\<forall>f \<in> set (unique_fields c). distinct (map (\<lambda>d. map_of d f) ds))"

definition clashes :: "string \<Rightarrow> doc \<Rightarrow> doc \<Rightarrow> bool" where
  "clashes c d e = (\<exists>f \<in> set (unique_fields c). map_of d f = map_of e f)"

text \<open>Results of a find: the matching documents in the order asked for, after skip and limit.\<close>

definition date_of :: "string \<Rightarrow> doc \<Rightarrow> int" where
  "date_of k d = (case map_of d k of Some (BDate n) \<Rightarrow> n | _ \<Rightarrow> 0)"

definition page :: "find_options \<Rightarrow> doc list \<Rightarrow> doc list" where
  "page fo ds =
     (let ds = (case fo_Skip fo of None \<Rightarrow> ds | Some n \<Rightarrow> drop (nat n) ds)
      in case fo_Limit fo of None \<Rightarrow> ds | Some n \<Rightarrow> take (nat n) ds)"

definition in_order :: "(string \<times> int) list option \<Rightarrow> doc list \<Rightarrow> bool" where
  "in_order so ds =
     (case so of Some [(k, dir)] \<Rightarrow> sorted_wrt (\<lambda>a b. dir * date_of k a \<le> dir * date_of k b) ds | _ \<Rightarrow> True)"

section \<open>The contract\<close>

locale mongo_server =
  fixes drv :: "'m mongo_driver"
    and colls :: "'m \<Rightarrow> string \<Rightarrow> doc list"
  assumes find_one_frame: "run_state (drv_FindOne drv cx c q) m = (r, m') \<Longrightarrow> colls m' = colls m"
    and find_one_ok: "run_state (drv_FindOne drv cx c q) m = (Inr d, m') \<Longrightarrow> d \<in> set (colls m c) \<and> matches q d"
    and find_one_none: "run_state (drv_FindOne drv cx c q) m = (Inl e, m') \<Longrightarrow> errors_Is e MongoErrNoDocuments \<Longrightarrow>
          d \<in> set (colls m c) \<Longrightarrow> \<not> matches q d"
    and find_frame: "run_state (drv_Find drv cx c q fo) m = (f, m') \<Longrightarrow> colls m' = colls m"
    and find_ok: "run_state (drv_Find drv cx c q fo) m = (Inr (Inr ds), m') \<Longrightarrow>
          \<exists>all. mset all = mset (List.filter (matches q) (colls m c)) \<and> in_order (fo_Sort fo) all \<and> ds = page fo all"
    and insert_ok: "run_state (drv_InsertOne drv cx c d) m = (None, m') \<Longrightarrow>
          colls m' = (colls m)(c := colls m c @ [d])"
    and insert_err: "run_state (drv_InsertOne drv cx c d) m = (Some e, m') \<Longrightarrow>
          colls m' = colls m \<or> colls m' = (colls m)(c := colls m c @ [d])"
    and insert_dup: "run_state (drv_InsertOne drv cx c d) m = (i, m') \<Longrightarrow> d' \<in> set (colls m c) \<Longrightarrow> clashes c d d' \<Longrightarrow>
          i \<noteq> None \<and> colls m' = colls m"
    and update_one_ok: "run_state (drv_UpdateOne drv cx c q u) m = (Inr n, m') \<Longrightarrow>
          (n = 0 \<and> colls m' = colls m \<and> (\<forall>d \<in> set (colls m c). \<not> matches q d)) \<or>
          (n = 1 \<and> (\<exists>ds. updated_one q u (colls m c) ds \<and> colls m' = (colls m)(c := ds)))"
    and update_one_err: "run_state (drv_UpdateOne drv cx c q u) m = (Inl e, m') \<Longrightarrow>
          colls m' = colls m \<or> (\<exists>ds. updated_one q u (colls m c) ds \<and> colls m' = (colls m)(c := ds))"
    and update_many_ok: "run_state (drv_UpdateMany drv cx c q u) m = (Inr n, m') \<Longrightarrow>
          n = int (length (List.filter (matches q) (colls m c))) \<and> colls m' = (colls m)(c := updated_all q u (colls m c))"
    and update_many_err: "run_state (drv_UpdateMany drv cx c q u) m = (Inl e, m') \<Longrightarrow>
          \<exists>ds. updated_some q u (colls m c) ds \<and> colls m' = (colls m)(c := ds)"
    and delete_one: "run_state (drv_DeleteOne drv cx c q) m = (k, m') \<Longrightarrow>
          colls m' = colls m \<or> (\<exists>ds. deleted_one q (colls m c) ds \<and> colls m' = (colls m)(c := ds))"
    and count_frame: "run_state (drv_CountDocuments drv cx c q) m = (k, m') \<Longrightarrow> colls m' = colls m"
    and count_ok: "run_state (drv_CountDocuments drv cx c q) m = (Inr n, m') \<Longrightarrow>
          n = int (length (List.filter (matches q) (colls m c)))"
    and ping_frame: "run_state (drv_Ping drv cx) m = (p, m') \<Longrightarrow> colls m' = colls m"
    and find_one_foreign: "run_state (drv_FindOne drv cx c q) m = (Inl e, m') \<Longrightarrow> \<not> errors_Is e DbErrNotFound"
    and update_one_foreign: "run_state (drv_UpdateOne drv cx c q u) m = (Inl e, m') \<Longrightarrow> \<not> errors_Is e DbErrNotFound"
    and update_many_foreign: "run_state (drv_UpdateMany drv cx c q u) m = (Inl e, m') \<Longrightarrow> \<not> errors_Is e DbErrNotFound"
    and delete_ok: "run_state (drv_DeleteOne drv cx c q) m = (Inr n, m') \<Longrightarrow>
          (n = 0 \<and> colls m' = colls m \<and> (\<forall>d \<in> set (colls m c). \<not> matches q d)) \<or>
          (n = 1 \<and> (\<exists>ds. deleted_one q (colls m c) ds \<and> colls m' = (colls m)(c := ds)))"
    and delete_foreign: "run_state (drv_DeleteOne drv cx c q) m = (Inl e, m') \<Longrightarrow> \<not> errors_Is e DbErrNotFound"
begin

text \<open>Every update answer, error or not, is some partial application of the update.\<close>

lemma update_one_some:
  assumes "run_state (drv_UpdateOne drv cx c q u) m = (r, m')"
  shows "\<exists>ds. updated_some q u (colls m c) ds \<and> colls m' = (colls m)(c := ds)"
proof (cases r)
  case (Inl e)
  with assms show ?thesis
    using update_one_err [of cx c q u m e m'] updated_one_some updated_some_refl by fastforce
next
  case (Inr n)
  with assms show ?thesis
    using update_one_ok [of cx c q u m n m'] updated_one_some updated_some_refl by fastforce
qed

lemma insert_any:
  "run_state (drv_InsertOne drv cx c d) m = (i, m') \<Longrightarrow>
   colls m' = colls m \<or> colls m' = (colls m)(c := colls m c @ [d])"
  by (cases i) (blast dest: insert_ok insert_err)+

lemma update_many_some:
  assumes "run_state (drv_UpdateMany drv cx c q u) m = (r, m')"
  shows "\<exists>ds. updated_some q u (colls m c) ds \<and> colls m' = (colls m)(c := ds)"
proof (cases r)
  case (Inl e)
  with assms show ?thesis using update_many_err by blast
next
  case (Inr n)
  with assms show ?thesis using update_many_ok updated_all_some by blast
qed

end

text \<open>
  The Go driver in addition refuses a sort document given as a map with more than one key, because
  the order of the keys of a map is not defined.
\<close>

locale go_mongo_driver = mongo_server +
  assumes find_multi_key_sort: "run_state (drv_Find drv cx c q fo) m = (f, m') \<Longrightarrow> fo_Sort fo = Some (k1 # k2 # ks) \<Longrightarrow>
          \<exists>e. f = Inl e \<and> \<not> isTimeoutError e"

section \<open>A server in memory\<close>

type_synonym mem = "string \<Rightarrow> doc list"

definition dup_key :: err where
  "dup_key = External ''E11000 duplicate key error'' None False (Some [11000]) None"

definition multi_key_sort :: err where
  "multi_key_sort = Errorf ''multi-key map passed in for ordered parameter sort'' None"

fun update_first :: "query \<Rightarrow> update \<Rightarrow> doc list \<Rightarrow> doc list option" where
  "update_first q u [] = None"
| "update_first q u (d # ds) =
     (if matches q d then Some (apply_update u d # ds) else map_option (Cons d) (update_first q u ds))"

fun delete_first :: "query \<Rightarrow> doc list \<Rightarrow> doc list option" where
  "delete_first q [] = None"
| "delete_first q (d # ds) = (if matches q d then Some ds else map_option (Cons d) (delete_first q ds))"

definition mem_sort :: "(string \<times> int) list option \<Rightarrow> doc list \<Rightarrow> doc list" where
  "mem_sort so ds = (case so of Some [(k, dir)] \<Rightarrow> sort_key (\<lambda>d. dir * date_of k d) ds | _ \<Rightarrow> ds)"

definition mem_driver :: "mem mongo_driver" where
  "mem_driver =
     \<lparr>drv_FindOne = (\<lambda>cx c q. gets (\<lambda>m. case List.find (matches q) (m c) of
                      None \<Rightarrow> Inl (Sentinel MongoErrNoDocuments) | Some d \<Rightarrow> Inr d)),
      drv_Find = (\<lambda>cx c q fo. gets (\<lambda>m. case fo_Sort fo of
                      Some (k1 # k2 # ks) \<Rightarrow> Inl multi_key_sort
                    | so \<Rightarrow> Inr (Inr (page fo (mem_sort so (List.filter (matches q) (m c))))))),
      drv_InsertOne = (\<lambda>cx c d. State (\<lambda>m. if list_ex (clashes c d) (m c) then (Some dup_key, m)
                      else (None, m(c := m c @ [d])))),
      drv_UpdateOne = (\<lambda>cx c q u. State (\<lambda>m. case update_first q u (m c) of
                      None \<Rightarrow> (Inr 0, m) | Some ds \<Rightarrow> (Inr 1, m(c := ds)))),
      drv_UpdateMany = (\<lambda>cx c q u. State (\<lambda>m. (Inr (int (length (List.filter (matches q) (m c)))),
                      m(c := updated_all q u (m c))))),
      drv_DeleteOne = (\<lambda>cx c q. State (\<lambda>m. case delete_first q (m c) of
                      None \<Rightarrow> (Inr 0, m) | Some ds \<Rightarrow> (Inr 1, m(c := ds)))),
      drv_CountDocuments = (\<lambda>cx c q. gets (\<lambda>m. Inr (int (length (List.filter (matches q) (m c)))))),
      drv_Ping = (\<lambda>cx. ret None),
      drv_Disconnect = (\<lambda>cx. ret None)\<rparr>"

lemma update_first_None: "update_first q u ds = None \<Longrightarrow> d \<in> set ds \<Longrightarrow> \<not> matches q d"
  by (induction ds) (auto split: if_splits)

lemma update_first_Some: "update_first q u ds = Some ds' \<Longrightarrow> updated_one q u ds ds'"
proof (induction ds arbitrary: ds')
  case (Cons d ds)
  show ?case
  proof (cases "matches q d")
    case True
    with Cons.prems show ?thesis by (fastforce simp: updated_one_def)
  next
    case False
    with Cons obtain ds'' where ds'': "ds' = d # ds''" "updated_one q u ds ds''" by auto
    then obtain pre e post where "ds = pre @ e # post" "matches q e" "ds'' = pre @ apply_update u e # post"
      by (auto simp: updated_one_def)
    with ds''(1) have "d # ds = (d # pre) @ e # post \<and> matches q e \<and> ds' = (d # pre) @ apply_update u e # post"
      by simp
    then show ?thesis unfolding updated_one_def by blast
  qed
qed simp

lemma delete_first_None: "delete_first q ds = None \<Longrightarrow> d \<in> set ds \<Longrightarrow> \<not> matches q d"
  by (induction ds) (auto split: if_splits)

lemma delete_first_Some: "delete_first q ds = Some ds' \<Longrightarrow> deleted_one q ds ds'"
  unfolding deleted_one_def
proof (induction ds arbitrary: ds')
  case (Cons d ds)
  show ?case
  proof (cases "matches q d")
    case True
    with Cons.prems show ?thesis by (intro exI [of _ "[]"] exI [of _ d] exI [of _ ds]) auto
  next
    case False
    with Cons obtain pre e post where "ds = pre @ e # post" "matches q e" "ds' = d # pre @ post" by fastforce
    then show ?thesis by (intro exI [of _ "d # pre"]) auto
  qed
qed simp

lemma mem_sort_mset: "mset (mem_sort so ds) = mset ds"
  by (auto simp: mem_sort_def split: option.splits list.splits)

lemma mem_sort_in_order: "in_order so (mem_sort so ds)"
proof -
  have "sorted_wrt (\<lambda>a b. f a \<le> f b) (sort_key f ds)" for f :: "doc \<Rightarrow> int"
    using sorted_sort_key [of f ds] by (simp add: sorted_map)
  then show ?thesis by (auto simp: in_order_def mem_sort_def split: option.splits list.splits)
qed

lemma mem_find_ok:
  assumes "ds = page fo (mem_sort (fo_Sort fo) (List.filter (matches q) (m c)))"
  shows "\<exists>all. mset all = mset (List.filter (matches q) (m c)) \<and> in_order (fo_Sort fo) all \<and> ds = page fo all"
  using assms by (intro exI [of _ "mem_sort (fo_Sort fo) (List.filter (matches q) (m c))"])
       (simp add: mem_sort_mset mem_sort_in_order)

interpretation mem_mongo: go_mongo_driver mem_driver "\<lambda>m. m"
proof (unfold_locales, goal_cases)
  case (2 cx c q m d m')
  then show ?case by (auto simp: mem_driver_def find_Some_iff split: option.splits)
next
  case (3 cx c q m e m' d)
  then show ?case by (auto simp: mem_driver_def find_None_iff split: option.splits)
next
  case (5 cx c q fo m ds m')
  then show ?case
    by (intro mem_find_ok) (auto simp: mem_driver_def split: option.splits list.splits)
next
  case (9 cx c q u m n m')
  then show ?case by (auto simp: mem_driver_def split: option.splits dest: update_first_None update_first_Some)
next
  case (13 cx c q m k m')
  then show ?case by (auto simp: mem_driver_def split: option.splits dest!: delete_first_Some)
next
  case (20 cx c q m n m')
  then show ?case by (auto simp: mem_driver_def split: option.splits dest: delete_first_None delete_first_Some)
next
  case (22 cx c q fo m f m' k1 k2 ks)
  then show ?case
    by (intro exI [of _ multi_key_sort]) (auto simp: mem_driver_def multi_key_sort_def isTimeoutError_def)
qed (auto simp: mem_driver_def list_ex_iff split: option.splits if_splits list.splits)

text \<open>The same server behind a client that takes any sort document.\<close>

definition any_sort_driver :: "mem mongo_driver" where
  "any_sort_driver = mem_driver\<lparr>drv_Find := (\<lambda>cx c q fo. gets (\<lambda>m.
     Inr (Inr (page fo (mem_sort (fo_Sort fo) (List.filter (matches q) (m c)))))))\<rparr>"

lemma any_sort_driver_sel [simp]:
  "drv_FindOne any_sort_driver = drv_FindOne mem_driver" "drv_InsertOne any_sort_driver = drv_InsertOne mem_driver"
  "drv_UpdateOne any_sort_driver = drv_UpdateOne mem_driver" "drv_UpdateMany any_sort_driver = drv_UpdateMany mem_driver"
  "drv_DeleteOne any_sort_driver = drv_DeleteOne mem_driver" "drv_CountDocuments any_sort_driver = drv_CountDocuments mem_driver"
  "drv_Ping any_sort_driver = drv_Ping mem_driver"
  by (simp_all add: any_sort_driver_def)

lemmas mem_mongo_laws = mem_mongo.find_one_frame mem_mongo.find_one_ok mem_mongo.find_one_none mem_mongo.insert_ok
  mem_mongo.insert_err mem_mongo.insert_dup mem_mongo.update_one_ok mem_mongo.update_one_err mem_mongo.update_many_ok
  mem_mongo.update_many_err mem_mongo.delete_one mem_mongo.count_frame mem_mongo.count_ok mem_mongo.ping_frame
  mem_mongo.find_one_foreign mem_mongo.update_one_foreign mem_mongo.update_many_foreign mem_mongo.delete_ok mem_mongo.delete_foreign

interpretation any_sort: mongo_server any_sort_driver "\<lambda>m. m"
proof (unfold_locales, goal_cases)
  case (4 cx c q fo m f m')
  then show ?case by (simp add: any_sort_driver_def)
next
  case (5 cx c q fo m ds m')
  then show ?case by (intro mem_find_ok) (auto simp: any_sort_driver_def)
qed (unfold any_sort_driver_sel, (rule mem_mongo_laws, assumption+)+)

end
