(* ===== verification/Cache.thy ===== *)
theory Cache
  imports Database
begin

text \<open>
  \<open>internal/platform/cache\<close>: the \<open>Cache\<close> interface and its Redis implementation, with the two Lua
  scripts it sends. The Redis client and server are not part of the repository: the client is a
  record of computations over an abstract server state, and the locale \<open>redis_server\<close> states the
  documented effect of each call on the live keys (any call may find that further keys have
  expired). \<open>mem_redis\<close> is a server in memory that satisfies it.

  A cached value is the JSON rendering of a decoded document, a list of them, a boolean or statistics; JSON text
  is represented by the value it renders, and decoding into another type is an error.
\<close>

datatype json = JDoc doc | JDocs "doc list" | JBool bool | JStats AuthStats | JNull

datatype kind = KDoc | KDocs | KBool | KStats

fun has_kind :: "json \<Rightarrow> kind \<Rightarrow> bool" where
  "has_kind (JDoc d) KDoc = True"
| "has_kind (JDocs ds) KDocs = True"
| "has_kind (JBool b) KBool = True"
| "has_kind (JStats s) KStats = True"
| "has_kind _ _ = False"

text \<open>Redis values: JSON text, the owner string of a lock, a counter.\<close>

datatype rval = RJson json | RText string | RCounter int

record 'r redis_client =
  rc_Get :: "string \<Rightarrow> ('r, err + rval) state"
  rc_Set :: "string \<Rightarrow> rval \<Rightarrow> duration \<Rightarrow> ('r, err option) state"
  rc_Del :: "string list \<Rightarrow> ('r, err option) state"
  rc_Exists :: "string \<Rightarrow> ('r, err + int) state"
  rc_SetNX :: "string \<Rightarrow> string \<Rightarrow> duration \<Rightarrow> ('r, err + bool) state"
  rc_Eval :: "('r, int) state \<Rightarrow> ('r, err + int) state"
  rc_Ping :: "('r, err option) state"
  rc_Close :: "('r, err option) state"
  cmd_GET :: "string \<Rightarrow> ('r, rval option) state"
  cmd_DEL :: "string \<Rightarrow> ('r, int) state"
  cmd_INCR :: "string \<Rightarrow> ('r, int) state"
  cmd_PEXPIRE :: "string \<Rightarrow> int \<Rightarrow> ('r, int) state"

record ('m, 'r) Cache =
  ca_Get :: "ctx \<Rightarrow> string \<Rightarrow> kind \<Rightarrow> ('m, 'r, err + json) M"
  ca_Set :: "ctx \<Rightarrow> string \<Rightarrow> json \<Rightarrow> duration \<Rightarrow> ('m, 'r, err option) M"
  ca_Delete :: "ctx \<Rightarrow> string list \<Rightarrow> ('m, 'r, err option) M"
  ca_Exists :: "ctx \<Rightarrow> string \<Rightarrow> ('m, 'r, err + bool) M"
  ca_Increment :: "ctx \<Rightarrow> string \<Rightarrow> duration \<Rightarrow> ('m, 'r, err + int) M"
  ca_WithLock :: "ctx \<Rightarrow> string \<Rightarrow> duration \<Rightarrow> (ctx \<Rightarrow> ('m, 'r, err + json) M) \<Rightarrow> ('m, 'r, err + json) M"
  ca_Ping :: "ctx \<Rightarrow> ('m, 'r, err option) M"
  ca_Close :: "('m, 'r, err option) M"

section \<open>\<open>RedisCache\<close>\<close>

record 'r RedisCache =
  rd_client :: "'r redis_client"
  rd_lockPrefix :: string

definition defaultLockPrefix :: string where "defaultLockPrefix = ''lock:''"

definition NewRedisWithClient :: "'r redis_client \<Rightarrow> string \<Rightarrow> 'r RedisCache" where
  "NewRedisWithClient client lockPrefix =
     \<lparr>rd_client = client, rd_lockPrefix = (if lockPrefix = [] then defaultLockPrefix else lockPrefix)\<rparr>"

definition Redis_Get :: "'r RedisCache \<Rightarrow> ctx \<Rightarrow> string \<Rightarrow> kind \<Rightarrow> ('m, 'r, err + json) M" where
  "Redis_Get c cx key k = do {
     r \<leftarrow> on_redis (rc_Get (rd_client c) key);
     ret (case r of
            Inl e \<Rightarrow> if errors_Is e RedisNil then Inl (Sentinel ErrCacheMiss) else Inl e
          | Inr (RJson j) \<Rightarrow> if has_kind j k then Inr j else Inl (Errorf ''decode cache value'' None)
          | Inr _ \<Rightarrow> Inl (Errorf ''decode cache value'' None))
   }"

definition Redis_Set :: "'r RedisCache \<Rightarrow> ctx \<Rightarrow> string \<Rightarrow> json \<Rightarrow> duration \<Rightarrow> ('m, 'r, err option) M" where
  "Redis_Set c cx key v ttl = on_redis (rc_Set (rd_client c) key (RJson v) ttl)"

definition Redis_Delete :: "'r RedisCache \<Rightarrow> ctx \<Rightarrow> string list \<Rightarrow> ('m, 'r, err option) M" where
  "Redis_Delete c cx keys = (if keys = [] then ret None else on_redis (rc_Del (rd_client c) keys))"

definition Redis_Exists :: "'r RedisCache \<Rightarrow> ctx \<Rightarrow> string \<Rightarrow> ('m, 'r, err + bool) M" where
  "Redis_Exists c cx key = do {
     r \<leftarrow> on_redis (rc_Exists (rd_client c) key);
     ret (case r of Inl e \<Rightarrow> Inl e | Inr n \<Rightarrow> Inr (n > 0))
   }"

definition increment_script :: "'r redis_client \<Rightarrow> string \<Rightarrow> int \<Rightarrow> ('r, int) state" where
  "increment_script cl key ms = do {
     count \<leftarrow> cmd_INCR cl key;
     if count = 1 then do { _ \<leftarrow> cmd_PEXPIRE cl key ms; ret count } else ret count
   }"

definition Redis_Increment :: "'r RedisCache \<Rightarrow> ctx \<Rightarrow> string \<Rightarrow> duration \<Rightarrow> ('m, 'r, err + int) M" where
  "Redis_Increment c cx key ttl =
     (if ttl \<le> 0 then ret (Inl (Errorf ''increment ttl must be positive'' None))
      else on_redis (rc_Eval (rd_client c) (increment_script (rd_client c) key (ttl div millisecond))))"

definition randomOwner :: "('m, 'r, err + string) M" where
  "randomOwner = do {
     b \<leftarrow> rand_Read 16;
     ret (case b of None \<Rightarrow> Inl (Errorf ''entropy source failed'' None) | Some bs \<Rightarrow> Inr (hex_EncodeToString bs))
   }"

definition release_script :: "'r redis_client \<Rightarrow> string \<Rightarrow> string \<Rightarrow> ('r, int) state" where
  "release_script cl key owner = do {
     v \<leftarrow> cmd_GET cl key;
     if v = Some (RText owner) then cmd_DEL cl key else ret 0
   }"

definition releaseLock :: "'r RedisCache \<Rightarrow> string \<Rightarrow> string \<Rightarrow> ('m, 'r, err + int) M" where
  "releaseLock c key owner = on_redis (rc_Eval (rd_client c) (release_script (rd_client c) key owner))"

definition Redis_WithLock ::
  "'r RedisCache \<Rightarrow> ctx \<Rightarrow> string \<Rightarrow> duration \<Rightarrow> (ctx \<Rightarrow> ('m, 'r, err + json) M) \<Rightarrow> ('m, 'r, err + json) M" where
  "Redis_WithLock c cx key ttl fn =
     (if ttl \<le> 0 then ret (Inl (Errorf ''lock ttl must be positive'' None))
      else do {
        o' \<leftarrow> randomOwner;
        case o' of
          Inl e \<Rightarrow> ret (Inl e)
        | Inr owner \<Rightarrow> do {
            let lockKey = rd_lockPrefix c @ key;
            acquired \<leftarrow> on_redis (rc_SetNX (rd_client c) lockKey owner ttl);
            case acquired of
              Inl e \<Rightarrow> ret (Inl e)
            | Inr False \<Rightarrow> ret (Inl (Sentinel ErrLockNotAcquired))
            | Inr True \<Rightarrow> do {
                r \<leftarrow> fn cx;
                _ \<leftarrow> releaseLock c lockKey owner;
                ret r
              }
          }
      })"

definition Redis_Ping :: "'r RedisCache \<Rightarrow> ctx \<Rightarrow> ('m, 'r, err option) M" where
  "Redis_Ping c cx = on_redis (rc_Ping (rd_client c))"

definition Redis_Close :: "'r RedisCache \<Rightarrow> ('m, 'r, err option) M" where
  "Redis_Close c = on_redis (rc_Close (rd_client c))"

definition Redis_cache :: "'r RedisCache \<Rightarrow> ('m, 'r) Cache" where
  "Redis_cache c =
     \<lparr>ca_Get = Redis_Get c, ca_Set = Redis_Set c, ca_Delete = Redis_Delete c, ca_Exists = Redis_Exists c,
      ca_Increment = Redis_Increment c, ca_WithLock = Redis_WithLock c, ca_Ping = Redis_Ping c,
      ca_Close = Redis_Close c\<rparr>"

lemma Redis_cache_sel [simp]:
  "ca_Get (Redis_cache c) = Redis_Get c" "ca_Set (Redis_cache c) = Redis_Set c"
  "ca_Delete (Redis_cache c) = Redis_Delete c" "ca_Exists (Redis_cache c) = Redis_Exists c"
  "ca_Increment (Redis_cache c) = Redis_Increment c" "ca_WithLock (Redis_cache c) = Redis_WithLock c"
  "ca_Ping (Redis_cache c) = Redis_Ping c" "ca_Close (Redis_cache c) = Redis_Close c"
  by (simp_all add: Redis_cache_def)

section \<open>The contract of the server\<close>

locale redis_server =
  fixes cl :: "'r redis_client"
    and kv :: "'r \<Rightarrow> string \<Rightarrow> rval option"
  assumes get_frame: "run_state (rc_Get cl k) s = (g, s') \<Longrightarrow> kv s' \<subseteq>\<^sub>m kv s"
    and get_ok: "run_state (rc_Get cl k) s = (Inr v, s') \<Longrightarrow> kv s k = Some v"
    and get_nil: "run_state (rc_Get cl k) s = (Inl e, s') \<Longrightarrow> errors_Is e RedisNil \<Longrightarrow> kv s' k = None"
    and set_any: "run_state (rc_Set cl k v ttl) s = (a, s') \<Longrightarrow> kv s' \<subseteq>\<^sub>m kv s \<or> kv s' \<subseteq>\<^sub>m (kv s)(k \<mapsto> v)"
    and set_ok: "run_state (rc_Set cl k v ttl) s = (None, s') \<Longrightarrow> kv s' \<subseteq>\<^sub>m (kv s)(k \<mapsto> v)"
    and del_any: "run_state (rc_Del cl ks) s = (b, s') \<Longrightarrow> kv s' \<subseteq>\<^sub>m kv s"
    and del_ok: "run_state (rc_Del cl ks) s = (None, s') \<Longrightarrow> k \<in> set ks \<Longrightarrow> kv s' k = None"
    and setnx_any: "run_state (rc_SetNX cl k ow ttl) s = (nx, s') \<Longrightarrow> kv s' \<subseteq>\<^sub>m kv s \<or> kv s' \<subseteq>\<^sub>m (kv s)(k \<mapsto> RText ow)"
    and setnx_held: "run_state (rc_SetNX cl k ow ttl) s = (Inr False, s') \<Longrightarrow> kv s' \<subseteq>\<^sub>m kv s \<and> kv s k \<noteq> None"
    and exists_any: "run_state (rc_Exists cl k) s = (x, s') \<Longrightarrow> kv s' \<subseteq>\<^sub>m kv s"
    and eval_ok: "run_state (rc_Eval cl p) s = (Inr n, s') \<Longrightarrow> run_state p s = (n, s')"
    and eval_err: "run_state (rc_Eval cl p) s = (Inl e, s') \<Longrightarrow> kv s' = kv s \<or> s' = snd (run_state p s)"
    and cmd_get: "run_state (cmd_GET cl k) s = (o', s') \<Longrightarrow> kv s' \<subseteq>\<^sub>m kv s \<and> o' = kv s k"
    and cmd_del: "run_state (cmd_DEL cl k) s = (n, s') \<Longrightarrow> kv s' \<subseteq>\<^sub>m (kv s)(k := None)"
    and cmd_incr: "run_state (cmd_INCR cl k) s = (n, s') \<Longrightarrow>
          (case kv s k of None \<Rightarrow> n = 1 | Some (RCounter i) \<Rightarrow> n = i + 1 | _ \<Rightarrow> True) \<and> kv s' \<subseteq>\<^sub>m (kv s)(k \<mapsto> RCounter n)"
    and cmd_pexpire: "run_state (cmd_PEXPIRE cl k ms) s = (n, s') \<Longrightarrow> kv s' \<subseteq>\<^sub>m kv s"
    and setnx_foreign: "run_state (rc_SetNX cl k ow ttl) s = (Inl e, s') \<Longrightarrow> \<not> errors_Is e DbErrNotFound"
begin

text \<open>Releasing a lock can only remove the lock, and only when it still carries the owner's mark.\<close>

lemma release_shrinks: "kv (snd (run_state (release_script cl k owner) s)) \<subseteq>\<^sub>m kv s"
proof -
  obtain v s1 where g: "run_state (cmd_GET cl k) s = (v, s1)" by fastforce
  have s1: "kv s1 \<subseteq>\<^sub>m kv s" using cmd_get [OF g] by simp
  obtain n s2 where d: "run_state (cmd_DEL cl k) s1 = (n, s2)" by fastforce
  have "kv s2 \<subseteq>\<^sub>m kv s" using map_le_dropped [OF cmd_del [OF d]] s1 by (rule map_le_trans)
  with s1 g d show ?thesis by (simp add: release_script_def)
qed

lemma release_other_owner:
  assumes "kv s k \<noteq> Some (RText owner)"
  shows "fst (run_state (release_script cl k owner) s) = 0"
proof -
  obtain v s1 where g: "run_state (cmd_GET cl k) s = (v, s1)" by fastforce
  then show ?thesis using cmd_get [OF g] assms by (simp add: release_script_def)
qed

lemma releaseLock_shrinks:
  assumes "run_state (on_redis (rc_Eval cl (release_script cl k owner))) w = (r, w')"
  shows "kv (w_redis w') \<subseteq>\<^sub>m kv (w_redis w) \<and> w_mongo w' = w_mongo w"
proof -
  obtain r' s' where e: "run_state (rc_Eval cl (release_script cl k owner)) (w_redis w) = (r', s')" by fastforce
  have "kv s' \<subseteq>\<^sub>m kv (w_redis w)"
  proof (cases r')
    case (Inl err)
    then show ?thesis using eval_err [OF e [unfolded Inl]] release_shrinks by auto
  next
    case (Inr n)
    then show ?thesis using eval_ok [OF e [unfolded Inr]] release_shrinks [of k owner "w_redis w"] by simp
  qed
  then show ?thesis using assms e by (auto simp: run_on_redis)
qed

end

section \<open>The contract of the cache\<close>

text \<open>
  What the database layer relies on. \<open>cv\<close> is the JSON content of the cache: locks and counters
  are not part of it. \<open>beside w w'\<close> says that only the Redis server and the entropy source moved.
\<close>

definition cached :: "(string \<Rightarrow> rval option) \<Rightarrow> string \<Rightarrow> json option" where
  "cached m k = (case m k of Some (RJson j) \<Rightarrow> Some j | _ \<Rightarrow> None)"

definition beside :: "('m, 'r) world \<Rightarrow> ('m, 'r) world \<Rightarrow> bool" where
  "beside w w' \<longleftrightarrow> w_mongo w' = w_mongo w \<and> w_metrics w' = w_metrics w \<and> w_bufs w' = w_bufs w \<and>
     w_nbuf w' = w_nbuf w \<and> w_clock w' = w_clock w \<and> w_tick w' = w_tick w"

lemma cached_mono: "m \<subseteq>\<^sub>m n \<Longrightarrow> cached m \<subseteq>\<^sub>m cached n"
  unfolding map_le_def by (auto simp: cached_def dom_def split: option.splits)

lemma cached_upd_json: "cached (m(k \<mapsto> RJson j)) = (cached m)(k \<mapsto> j)"
  by (auto simp: cached_def)

lemma cached_upd_text: "cached (m(k \<mapsto> RText t)) \<subseteq>\<^sub>m cached m"
  by (auto simp: cached_def map_le_def dom_def)

lemma beside_refl [simp]: "beside w w"
  by (simp add: beside_def)

lemma beside_redis [simp]: "beside w (w'\<lparr>w_redis := s\<rparr>) = beside w w'"
  by (simp add: beside_def)

lemma beside_draw [simp]: "beside w (w'\<lparr>w_draw := n\<rparr>) = beside w w'"
  by (simp add: beside_def)

locale coherent_cache =
  fixes ca :: "('m, 'r) Cache"
    and cv :: "'r \<Rightarrow> string \<Rightarrow> json option"
  assumes ca_get: "run_state (ca_Get ca cx k kd) w = (g, w') \<Longrightarrow> beside w w' \<and> cv (w_redis w') \<subseteq>\<^sub>m cv (w_redis w)"
    and ca_hit: "run_state (ca_Get ca cx k kd) w = (Inr j, w') \<Longrightarrow> cv (w_redis w) k = Some j \<and> has_kind j kd"
    and ca_set: "run_state (ca_Set ca cx k j ttl) w = (a, w') \<Longrightarrow> beside w w' \<and>
          (cv (w_redis w') \<subseteq>\<^sub>m cv (w_redis w) \<or> cv (w_redis w') \<subseteq>\<^sub>m (cv (w_redis w))(k \<mapsto> j))"
    and ca_delete: "run_state (ca_Delete ca cx ks) w = (a, w') \<Longrightarrow> beside w w' \<and> cv (w_redis w') \<subseteq>\<^sub>m cv (w_redis w)"
    and ca_deleted: "run_state (ca_Delete ca cx ks) w = (None, w') \<Longrightarrow> k \<in> set ks \<Longrightarrow> cv (w_redis w') k = None"
    and ca_with_lock: "run_state (ca_WithLock ca cx k ttl fn) w = (g, w') \<Longrightarrow>
          (\<exists>e. g = Inl e \<and> \<not> errors_Is e DbErrNotFound \<and> beside w w' \<and> cv (w_redis w') \<subseteq>\<^sub>m cv (w_redis w)) \<or>
          (\<exists>w1 w2. beside w w1 \<and> cv (w_redis w1) \<subseteq>\<^sub>m cv (w_redis w) \<and> run_state (fn cx) w1 = (g, w2) \<and>
             beside w2 w' \<and> cv (w_redis w') \<subseteq>\<^sub>m cv (w_redis w2))"

context redis_server
begin

lemma WithLock_law:
  assumes "run_state (Redis_WithLock c cx key ttl fn) w = (g, w')" and cl: "rd_client c = cl"
  shows "(\<exists>e. g = Inl e \<and> \<not> errors_Is e DbErrNotFound \<and> beside w w' \<and> cached (kv (w_redis w')) \<subseteq>\<^sub>m cached (kv (w_redis w))) \<or>
         (\<exists>w1 w2. beside w w1 \<and> cached (kv (w_redis w1)) \<subseteq>\<^sub>m cached (kv (w_redis w)) \<and> run_state (fn cx) w1 = (g, w2) \<and>
            beside w2 w' \<and> cached (kv (w_redis w')) \<subseteq>\<^sub>m cached (kv (w_redis w2)))"
    (is "?failed \<or> ?ran")
proof (cases "ttl \<le> 0 \<or> w_entropy w (w_draw w) = None")
  case True
  then have ?failed using assms(1) by (auto simp: Redis_WithLock_def randomOwner_def split: if_splits)
  then show ?thesis ..
next
  case False
  then obtain src where pos: "\<not> ttl \<le> 0" and src: "w_entropy w (w_draw w) = Some src" by auto
  let ?key = "rd_lockPrefix c @ key" and ?owner = "hex_EncodeToString (map src [0..<16])"
  let ?w0 = "w\<lparr>w_draw := Suc (w_draw w)\<rparr>"
  obtain x s where nx: "run_state (rc_SetNX cl ?key ?owner ttl) (w_redis w) = (x, s)" by fastforce
  have shrink: "cached (kv s) \<subseteq>\<^sub>m cached (kv (w_redis w))"
    using setnx_any [OF nx] cached_mono cached_upd_text map_le_trans by blast
  show ?thesis
  proof (cases "x = Inr True")
    case False
    then have ?failed
      using assms pos src nx shrink setnx_foreign
      by (auto simp: Redis_WithLock_def randomOwner_def run_on_redis Let_def split: sum.splits bool.splits)
    then show ?thesis ..
  next
    case True
    obtain r w2 where r: "run_state (fn cx) (?w0\<lparr>w_redis := s\<rparr>) = (r, w2)" by fastforce
    obtain y w3 where y: "run_state (releaseLock c ?key ?owner) w2 = (y, w3)" by fastforce
    have "cached (kv (w_redis w3)) \<subseteq>\<^sub>m cached (kv (w_redis w2))"
      using releaseLock_shrinks [OF y [unfolded releaseLock_def cl]] cached_mono by blast
    moreover have "beside w2 w3"
      using y by (auto simp: releaseLock_def run_on_redis beside_def split: prod.splits)
    moreover have "g = r \<and> w' = w3"
      using assms pos src nx True r y by (simp add: Redis_WithLock_def randomOwner_def run_on_redis Let_def)
    ultimately have ?ran
      using r shrink by (intro exI [of _ "?w0\<lparr>w_redis := s\<rparr>"] exI [of _ w2]) simp
    then show ?thesis ..
  qed
qed

lemma redis_coherent:
  "coherent_cache (Redis_cache (NewRedisWithClient cl p)) (\<lambda>s. cached (kv s))"
proof (unfold_locales, goal_cases)
  case (1 cx k kd w g w')
  then show ?case
    by (auto simp: Redis_Get_def NewRedisWithClient_def run_on_redis split: prod.splits
        intro!: cached_mono dest: get_frame)
next
  case (2 cx k kd w j w')
  then show ?case
    by (auto simp: Redis_Get_def NewRedisWithClient_def run_on_redis cached_def
        split: prod.splits sum.splits rval.splits if_splits dest: get_ok)
next
  case (3 cx k j ttl w a w')
  then obtain s where s: "run_state (rc_Set cl k (RJson j) ttl) (w_redis w) = (a, s)" "w' = w\<lparr>w_redis := s\<rparr>"
    by (auto simp: Redis_Set_def NewRedisWithClient_def run_on_redis split: prod.splits)
  with set_any [OF s(1)] show ?case
    using cached_mono [of "kv s" "kv (w_redis w)"] cached_mono [of "kv s" "(kv (w_redis w))(k \<mapsto> RJson j)"]
    by (auto simp: cached_upd_json)
next
  case (4 cx ks w a w')
  then show ?case
    by (auto simp: Redis_Delete_def NewRedisWithClient_def run_on_redis split: prod.splits if_splits
        intro!: cached_mono dest: del_any)
next
  case (5 cx ks w w' k)
  then show ?case
    by (auto simp: Redis_Delete_def NewRedisWithClient_def run_on_redis cached_def split: prod.splits if_splits
        dest: del_ok)
next
  case (6 cx k ttl fn w g w')
  then have "run_state (Redis_WithLock (NewRedisWithClient cl p) cx k ttl fn) w = (g, w')" by simp
  then show ?case by (rule WithLock_law) (simp add: NewRedisWithClient_def)
qed

end

section \<open>A server in memory\<close>

type_synonym mem_kv = "string \<Rightarrow> rval option"

definition mem_redis :: "mem_kv redis_client" where
  "mem_redis =
     \<lparr>rc_Get = (\<lambda>k. gets (\<lambda>s. case s k of None \<Rightarrow> Inl (Sentinel RedisNil) | Some v \<Rightarrow> Inr v)),
      rc_Set = (\<lambda>k v ttl. State (\<lambda>s. (None, s(k \<mapsto> v)))),
      rc_Del = (\<lambda>ks. State (\<lambda>s. (None, \<lambda>k. if k \<in> set ks then None else s k))),
      rc_Exists = (\<lambda>k. gets (\<lambda>s. Inr (if s k = None then 0 else 1))),
      rc_SetNX = (\<lambda>k v ttl. State (\<lambda>s. if s k = None then (Inr True, s(k \<mapsto> RText v)) else (Inr False, s))),
      rc_Eval = (\<lambda>p. State (\<lambda>s. case run_state p s of (n, s') \<Rightarrow> (Inr n, s'))),
      rc_Ping = ret None,
      rc_Close = ret None,
      cmd_GET = (\<lambda>k. gets (\<lambda>s. s k)),
      cmd_DEL = (\<lambda>k. State (\<lambda>s. (if s k = None then 0 else 1, s(k := None)))),
      cmd_INCR = (\<lambda>k. State (\<lambda>s. let n = (case s k of Some (RCounter i) \<Rightarrow> i + 1 | _ \<Rightarrow> 1) in (n, s(k \<mapsto> RCounter n)))),
      cmd_PEXPIRE = (\<lambda>k ms. ret 1)\<rparr>"

interpretation mem_redis: redis_server mem_redis "\<lambda>s. s"
  by unfold_locales
     (auto simp: mem_redis_def map_le_def Let_def split: option.splits if_splits prod.splits rval.splits)

interpretation mem_cache: coherent_cache "Redis_cache (NewRedisWithClient mem_redis [])" cached
  by (rule mem_redis.redis_coherent)

section \<open>Properties\<close>

lemma WithLock_held_run:
  assumes "0 < ttl" "w_entropy w (w_draw w) = Some src"
    and "run_state (rc_SetNX (rd_client c) (rd_lockPrefix c @ key) (hex_EncodeToString (map src [0..<16])) ttl) (w_redis w)
           = (Inr False, s')"
  shows "run_state (Redis_WithLock c cx key ttl fn) w =
           (Inl (Sentinel ErrLockNotAcquired), w\<lparr>w_draw := Suc (w_draw w), w_redis := s'\<rparr>)"
  using assms by (simp add: Redis_WithLock_def randomOwner_def run_on_redis Let_def)

text \<open>
  A lock that is held excludes: when the server answers that the lock key exists, \<open>WithLock\<close>
  returns \<open>ErrLockNotAcquired\<close>, the protected function has not run (the database is untouched and
  the outcome does not depend on it) and no live key was changed.
\<close>

lemma WithLock_held_excludes:
  assumes srv: "redis_server (rd_client c) kv"
    and ttl: "0 < ttl"
    and ent: "w_entropy w (w_draw w) = Some src"
    and held: "run_state (rc_SetNX (rd_client c) (rd_lockPrefix c @ key) (hex_EncodeToString (map src [0..<16])) ttl) (w_redis w)
                 = (Inr False, s')"
  shows "\<exists>w'. (\<forall>fn. run_state (Redis_WithLock c cx key ttl fn) w = (Inl (Sentinel ErrLockNotAcquired), w')) \<and>
           w_mongo w' = w_mongo w \<and> kv (w_redis w') \<subseteq>\<^sub>m kv (w_redis w)"
proof -
  let ?w' = "w\<lparr>w_draw := Suc (w_draw w), w_redis := s'\<rparr>"
  have "\<forall>fn. run_state (Redis_WithLock c cx key ttl fn) w = (Inl (Sentinel ErrLockNotAcquired), ?w')"
    using WithLock_held_run [OF ttl ent held] by simp
  moreover have "kv s' \<subseteq>\<^sub>m kv (w_redis w)"
    using redis_server.setnx_held [OF srv held] by simp
  ultimately show ?thesis by (intro exI [of _ ?w']) simp
qed

end
