(* ===== verification/CachedDatabase.thy ===== *)
theory CachedDatabase
  imports Mongo_Server Cache
begin

text \<open>
  \<open>internal/platform/database/cached_database.go\<close>: the \<open>Database\<close> that puts the cache in front of
  another one. Reads go through the cache, writes invalidate keys under an optional lock, and inside
  a transaction both bypass the cache: keys to invalidate are collected in a buffer reachable from
  the context and deleted after the commit.

  The buffers live in the world (\<open>w_bufs\<close>), at the address the context carries. Log lines are
  left out; calls of the metrics recorders are kept.
\<close>

record ('m, 'r) CachedDatabase =
  cd_base :: "('m, 'r) Database"
  cd_cache :: "('m, 'r) Cache option"
  cd_metrics :: bool
  cd_strictFindManyCacheFilter :: bool

definition defaultWriteLockTTL :: duration where "defaultWriteLockTTL = 5 * second"

definition NewCached :: "('m, 'r) Database \<Rightarrow> ('m, 'r) Cache option \<Rightarrow> bool \<Rightarrow> bool \<Rightarrow> ('m, 'r) CachedDatabase" where
  "NewCached base cacheStore metrics strict =
     \<lparr>cd_base = base, cd_cache = cacheStore, cd_metrics = metrics, cd_strictFindManyCacheFilter = strict\<rparr>"

section \<open>The invalidation buffer of a transaction\<close>

text \<open>The key set of a buffer, as the list of its keys; the empty key is never stored.\<close>

fun buffer_add :: "string list \<Rightarrow> string list \<Rightarrow> string list" where
  "buffer_add buf [] = buf"
| "buffer_add buf (key # keys) =
     buffer_add (if key = [] then buf else if key \<in> set buf then buf else buf @ [key]) keys"

definition add :: "nat \<Rightarrow> string list \<Rightarrow> ('m, 'r, unit) M" where
  "add b keys = modify (\<lambda>w. w\<lparr>w_bufs := (w_bufs w)(b := buffer_add (w_bufs w b) keys)\<rparr>)"

definition buffer_list :: "nat \<Rightarrow> ('m, 'r, string list) M" where
  "buffer_list b = gets (\<lambda>w. w_bufs w b)"

definition new_buffer :: "('m, 'r, nat) M" where
  "new_buffer = State (\<lambda>w. (w_nbuf w, w\<lparr>w_bufs := (w_bufs w)(w_nbuf w := []), w_nbuf := Suc (w_nbuf w)\<rparr>))"

definition transactionInvalidateBufferFromContext :: "ctx \<Rightarrow> nat option" where
  "transactionInvalidateBufferFromContext cx = ctx_buffer cx"

section \<open>Metrics and dependency errors\<close>

definition recordCacheEvent :: "('m, 'r) CachedDatabase \<Rightarrow> string \<Rightarrow> string \<Rightarrow> ('m, 'r, unit) M" where
  "recordCacheEvent d operation result =
     (if cd_metrics d then record_metric (MCacheEvent operation result) else ret ())"

definition observeCacheLock :: "('m, 'r) CachedDatabase \<Rightarrow> string \<Rightarrow> duration \<Rightarrow> ('m, 'r, unit) M" where
  "observeCacheLock d operation dur =
     (if cd_metrics d then record_metric (MCacheLock operation dur) else ret ())"

definition recordDependencyError :: "('m, 'r) CachedDatabase \<Rightarrow> string \<Rightarrow> ('m, 'r, unit) M" where
  "recordDependencyError d operation =
     (if cd_metrics d then record_metric (MDependencyError operation) else ret ())"

definition logDependencyError :: "('m, 'r) CachedDatabase \<Rightarrow> string \<Rightarrow> err \<Rightarrow> ('m, 'r, unit) M" where
  "logDependencyError d op e =
     (if Code (FromError [] e) \<noteq> CodeDependency then ret () else recordDependencyError d op)"

definition callAndLogDependency :: "('m, 'r) CachedDatabase \<Rightarrow> string \<Rightarrow> err option \<Rightarrow> ('m, 'r, err option) M" where
  "callAndLogDependency d op r =
     (case r of
        None \<Rightarrow> ret None
      | Some e0 \<Rightarrow> let e = dependencyError op e0 in do { logDependencyError d op e; ret (Some e) })"

text \<open>The same for a call that also fills \<open>dest\<close> or returns a count.\<close>

definition callAndLog_value :: "('m, 'r) CachedDatabase \<Rightarrow> string \<Rightarrow> err + 'a \<Rightarrow> ('m, 'r, err + 'a) M" where
  "callAndLog_value d op r =
     (case r of
        Inr v \<Rightarrow> ret (Inr v)
      | Inl e0 \<Rightarrow> do {
          e \<leftarrow> callAndLogDependency d op (Some e0);
          ret (case e of None \<Rightarrow> Inl e0 | Some e' \<Rightarrow> Inl e')
        })"

definition time_Since :: "time \<Rightarrow> ('m, 'r, duration) M" where
  "time_Since start = do { now \<leftarrow> time_Now; ret (time_Sub now start) }"

section \<open>Invalidation\<close>

definition invalidate :: "('m, 'r) CachedDatabase \<Rightarrow> ctx \<Rightarrow> string list \<Rightarrow> ('m, 'r, bool) M" where
  "invalidate d cx keys =
     (if keys = [] then ret True
      else case transactionInvalidateBufferFromContext cx of
        Some b \<Rightarrow> do {
          add b keys;
          recordCacheEvent d ''write'' ''invalidated_buffered'';
          ret False
        }
      | None \<Rightarrow>
          (case cd_cache d of
             None \<Rightarrow> ret True
           | Some ca \<Rightarrow> do {
               r \<leftarrow> ca_Delete ca cx keys;
               (if r \<noteq> None then recordCacheEvent d ''write'' ''invalidation_failed'' else ret ());
               ret True
             }))"

definition RunInTransaction ::
  "('m, 'r) CachedDatabase \<Rightarrow> ('m, 'r, 'a) TransactionRunner option \<Rightarrow> ('m, 'r, 'a) TransactionRunner" where
  "RunInTransaction d base_runner cx fn =
     (case base_runner of
        None \<Rightarrow> ret (Inl (dependencyError ''CachedDatabase.RunInTransaction'' (Errorf ''transactions not supported'' None)))
      | Some runner \<Rightarrow>
          (case transactionInvalidateBufferFromContext cx of
             Some b \<Rightarrow> fn cx
           | None \<Rightarrow> do {
               b \<leftarrow> new_buffer;
               r \<leftarrow> runner (cx\<lparr>ctx_buffer := Some b\<rparr>) fn;
               case r of
                 Inl e \<Rightarrow> ret (Inl e)
               | Inr v \<Rightarrow>
                   (case cd_cache d of
                      None \<Rightarrow> ret (Inr v)
                    | Some ca \<Rightarrow> do {
                        keys \<leftarrow> buffer_list b;
                        (if keys = [] then ret ()
                         else do {
                           e \<leftarrow> ca_Delete ca cx keys;
                           if e \<noteq> None then recordCacheEvent d ''write'' ''invalidation_failed'' else ret ()
                         });
                        ret (Inr v)
                      })
             }))"

section \<open>Reads\<close>

definition cache_set :: "('m, 'r) CachedDatabase \<Rightarrow> ('m, 'r) Cache \<Rightarrow> ctx \<Rightarrow> ReadOptions \<Rightarrow> json \<Rightarrow> ('m, 'r, unit) M" where
  "cache_set d ca cx opts v = do {
     r \<leftarrow> ca_Set ca cx (ro_CacheKey opts) v (ro_CacheTTL opts);
     if r \<noteq> None then recordCacheEvent d ''read'' ''set_failed'' else recordCacheEvent d ''read'' ''set_ok''
   }"

definition load_and_cache ::
  "('m, 'r) CachedDatabase \<Rightarrow> ('m, 'r) Cache \<Rightarrow> ctx \<Rightarrow> ReadOptions \<Rightarrow> ('m, 'r, err + json) M \<Rightarrow> ('m, 'r, err + json) M" where
  "load_and_cache d ca cx opts load = do {
     r \<leftarrow> load;
     case r of
       Inl e \<Rightarrow> ret (Inl e)
     | Inr v \<Rightarrow> do { cache_set d ca cx opts v; ret (Inr v) }
   }"

definition loadAndSet ::
  "('m, 'r) CachedDatabase \<Rightarrow> ('m, 'r) Cache \<Rightarrow> ReadOptions \<Rightarrow> kind \<Rightarrow> ('m, 'r, err + json) M \<Rightarrow> ctx \<Rightarrow> ('m, 'r, err + json) M" where
  "loadAndSet d ca opts k load cx = do {
     g \<leftarrow> ca_Get ca cx (ro_CacheKey opts) k;
     case g of
       Inr v \<Rightarrow> do { recordCacheEvent d ''read'' ''hit_after_lock''; ret (Inr v) }
     | Inl _ \<Rightarrow> do { recordCacheEvent d ''read'' ''miss_after_lock''; load_and_cache d ca cx opts load }
   }"

definition readThrough ::
  "('m, 'r) CachedDatabase \<Rightarrow> ('m, 'r) Cache \<Rightarrow> ctx \<Rightarrow> ReadOptions \<Rightarrow> kind \<Rightarrow> ('m, 'r, err + json) M \<Rightarrow> ('m, 'r, err + json) M" where
  "readThrough d ca cx opts k load = do {
     g \<leftarrow> ca_Get ca cx (ro_CacheKey opts) k;
     case g of
       Inr v \<Rightarrow> do { recordCacheEvent d ''read'' ''hit''; ret (Inr v) }
     | Inl e \<Rightarrow> do {
         (if \<not> errors_Is e ErrCacheMiss then recordCacheEvent d ''read'' ''get_failed''
          else recordCacheEvent d ''read'' ''miss'');
         if ro_LockOnMiss opts then do {
           start \<leftarrow> time_Now;
           r \<leftarrow> ca_WithLock ca cx (ro_CacheKey opts) (ro_CacheTTL opts) (loadAndSet d ca opts k load);
           case r of
             Inl _ \<Rightarrow> do {
               recordCacheEvent d ''read'' ''lock_fallback'';
               dur \<leftarrow> time_Since start;
               observeCacheLock d ''read'' dur;
               load_and_cache d ca cx opts load
             }
           | Inr v \<Rightarrow> do {
               dur \<leftarrow> time_Since start;
               observeCacheLock d ''read'' dur;
               ret (Inr v)
             }
         } else load_and_cache d ca cx opts load
       }
   }"

text \<open>The value \<open>readThrough\<close> leaves in \<open>dest\<close>, at the type of \<open>dest\<close>.\<close>

definition as_doc :: "err + json \<Rightarrow> err + doc" where
  "as_doc r = (case r of Inl e \<Rightarrow> Inl e | Inr (JDoc x) \<Rightarrow> Inr x | Inr _ \<Rightarrow> Inl (Errorf ''decode cache value'' None))"

definition as_docs :: "err + json \<Rightarrow> err + doc list" where
  "as_docs r = (case r of Inl e \<Rightarrow> Inl e | Inr (JDocs xs) \<Rightarrow> Inr xs | Inr _ \<Rightarrow> Inl (Errorf ''decode cache value'' None))"

definition base_FindOne :: "('m, 'r) CachedDatabase \<Rightarrow> ctx \<Rightarrow> string \<Rightarrow> filter \<Rightarrow> ReadOptions \<Rightarrow> ('m, 'r, err + doc) M" where
  "base_FindOne d cx c f opts = do {
     r \<leftarrow> db_FindOne (cd_base d) cx c f opts;
     callAndLog_value d ''CachedDatabase.FindOne'' r
   }"

definition base_FindMany :: "('m, 'r) CachedDatabase \<Rightarrow> ctx \<Rightarrow> string \<Rightarrow> filter \<Rightarrow> ReadOptions \<Rightarrow> ('m, 'r, err + doc list) M" where
  "base_FindMany d cx c f opts = do {
     r \<leftarrow> db_FindMany (cd_base d) cx c f opts;
     callAndLog_value d ''CachedDatabase.FindMany'' r
   }"

definition Cached_FindOne :: "('m, 'r) CachedDatabase \<Rightarrow> ctx \<Rightarrow> string \<Rightarrow> filter \<Rightarrow> ReadOptions \<Rightarrow> ('m, 'r, err + doc) M" where
  "Cached_FindOne d cx c f opts =
     (case ReadOptions_Validate opts of
        Some e \<Rightarrow> ret (Inl e)
      | None \<Rightarrow>
          if transactionInvalidateBufferFromContext cx \<noteq> None then do {
            recordCacheEvent d ''find_one'' ''transaction'';
            base_FindOne d cx c f opts
          } else (case cd_cache d of
              Some ca \<Rightarrow>
                if ro_CacheKey opts = [] then do {
                  recordCacheEvent d ''find_one'' ''disabled'';
                  base_FindOne d cx c f opts
                } else do {
                  r \<leftarrow> readThrough d ca cx opts KDoc (do { x \<leftarrow> base_FindOne d cx c f opts; ret (map_sum id JDoc x) });
                  ret (as_doc r)
                }
            | None \<Rightarrow> do {
                recordCacheEvent d ''find_one'' ''disabled'';
                base_FindOne d cx c f opts
              }))"

definition Cached_FindMany :: "('m, 'r) CachedDatabase \<Rightarrow> ctx \<Rightarrow> string \<Rightarrow> filter \<Rightarrow> ReadOptions \<Rightarrow> ('m, 'r, err + doc list) M" where
  "Cached_FindMany d cx c f opts =
     (case ReadOptions_Validate opts of
        Some e \<Rightarrow> ret (Inl e)
      | None \<Rightarrow>
          if transactionInvalidateBufferFromContext cx \<noteq> None then do {
            recordCacheEvent d ''find_many'' ''transaction'';
            base_FindMany d cx c f opts
          } else (case cd_cache d of
              Some ca \<Rightarrow>
                if ro_CacheKey opts = [] then do {
                  recordCacheEvent d ''find_many'' ''disabled'';
                  base_FindMany d cx c f opts
                } else if \<not> is_CacheableFilter f then
                  (if cd_strictFindManyCacheFilter d then do {
                     recordCacheEvent d ''find_many'' ''strict_rejected'';
                     ret (Inl (Errorf ''findmany cache requires CacheableFilter'' None))
                   } else do {
                     recordCacheEvent d ''find_many'' ''skipped'';
                     base_FindMany d cx c f opts
                   })
                else do {
                  r \<leftarrow> readThrough d ca cx opts KDocs (do { x \<leftarrow> base_FindMany d cx c f opts; ret (map_sum id JDocs x) });
                  ret (as_docs r)
                }
            | None \<Rightarrow> do {
                recordCacheEvent d ''find_many'' ''disabled'';
                base_FindMany d cx c f opts
              }))"

section \<open>Writes\<close>

definition write_run ::
  "('m, 'r) CachedDatabase \<Rightarrow> WriteOptions \<Rightarrow> ('m, 'r, err option) M \<Rightarrow> ctx \<Rightarrow> ('m, 'r, err option) M" where
  "write_run d opts wr cx = do {
     r \<leftarrow> wr;
     case r of
       Some e \<Rightarrow> ret (Some e)
     | None \<Rightarrow> do {
         immediate \<leftarrow> invalidate d cx (wo_InvalidateKeys opts);
         (if immediate \<and> wo_InvalidateKeys opts \<noteq> [] then recordCacheEvent d ''write'' ''invalidated'' else ret ());
         ret None
       }
   }"

text \<open>The callback of \<open>WithLock\<close> returns an error only; it is rendered as a value of the shared type.\<close>

definition locked_run ::
  "('m, 'r) CachedDatabase \<Rightarrow> WriteOptions \<Rightarrow> ('m, 'r, err option) M \<Rightarrow> ctx \<Rightarrow> ('m, 'r, err + json) M" where
  "locked_run d opts wr cx = do {
     r \<leftarrow> write_run d opts wr cx;
     ret (case r of None \<Rightarrow> Inr JNull | Some e \<Rightarrow> Inl e)
   }"

definition cached_write ::
  "('m, 'r) CachedDatabase \<Rightarrow> ctx \<Rightarrow> WriteOptions \<Rightarrow> ('m, 'r, err option) M \<Rightarrow> ('m, 'r, err option) M" where
  "cached_write d cx opts wr =
     (case WriteOptions_Validate opts of
        Some e \<Rightarrow> ret (Some e)
      | None \<Rightarrow>
          if transactionInvalidateBufferFromContext cx \<noteq> None then do {
            recordCacheEvent d ''write'' ''transaction'';
            r \<leftarrow> wr;
            case r of
              Some e \<Rightarrow> ret (Some e)
            | None \<Rightarrow> do { _ \<leftarrow> invalidate d cx (wo_InvalidateKeys opts); ret None }
          } else (case cd_cache d of
              Some ca \<Rightarrow>
                if wo_LockKey opts = [] then do {
                  recordCacheEvent d ''write'' ''disabled'';
                  write_run d opts wr cx
                } else do {
                  start \<leftarrow> time_Now;
                  r \<leftarrow> ca_WithLock ca cx (wo_LockKey opts) defaultWriteLockTTL (locked_run d opts wr);
                  dur \<leftarrow> time_Since start;
                  observeCacheLock d ''write'' dur;
                  case r of
                    Inl e \<Rightarrow> do {
                      recordCacheEvent d ''write'' ''lock_fallback'';
                      if wo_StrictLock opts then ret (Some (dependencyError ''CachedDatabase.write'' e))
                      else write_run d opts wr cx
                    }
                  | Inr _ \<Rightarrow> do {
                      recordCacheEvent d ''write'' ''lock_acquired'';
                      ret None
                    }
                }
            | None \<Rightarrow> do {
                recordCacheEvent d ''write'' ''disabled'';
                write_run d opts wr cx
              }))"

definition Cached_InsertOne :: "('m, 'r) CachedDatabase \<Rightarrow> ctx \<Rightarrow> string \<Rightarrow> doc \<Rightarrow> WriteOptions \<Rightarrow> ('m, 'r, err option) M" where
  "Cached_InsertOne d cx c x opts = cached_write d cx opts (do {
     r \<leftarrow> db_InsertOne (cd_base d) cx c x opts;
     callAndLogDependency d ''CachedDatabase.InsertOne'' r
   })"

definition Cached_UpdateOne :: "('m, 'r) CachedDatabase \<Rightarrow> ctx \<Rightarrow> string \<Rightarrow> filter \<Rightarrow> update \<Rightarrow> WriteOptions \<Rightarrow> ('m, 'r, err option) M" where
  "Cached_UpdateOne d cx c f u opts = cached_write d cx opts (do {
     r \<leftarrow> db_UpdateOne (cd_base d) cx c f u opts;
     callAndLogDependency d ''CachedDatabase.UpdateOne'' r
   })"

definition Cached_UpdateMany :: "('m, 'r) CachedDatabase \<Rightarrow> ctx \<Rightarrow> string \<Rightarrow> filter \<Rightarrow> update \<Rightarrow> WriteOptions \<Rightarrow> ('m, 'r, err option) M" where
  "Cached_UpdateMany d cx c f u opts = cached_write d cx opts (do {
     r \<leftarrow> db_UpdateMany (cd_base d) cx c f u opts;
     callAndLogDependency d ''CachedDatabase.UpdateMany'' r
   })"

definition Cached_DeleteOne :: "('m, 'r) CachedDatabase \<Rightarrow> ctx \<Rightarrow> string \<Rightarrow> filter \<Rightarrow> WriteOptions \<Rightarrow> ('m, 'r, err option) M" where
  "Cached_DeleteOne d cx c f opts = cached_write d cx opts (do {
     r \<leftarrow> db_DeleteOne (cd_base d) cx c f opts;
     callAndLogDependency d ''CachedDatabase.DeleteOne'' r
   })"

definition Cached_Count :: "('m, 'r) CachedDatabase \<Rightarrow> ctx \<Rightarrow> string \<Rightarrow> filter \<Rightarrow> ('m, 'r, err + int) M" where
  "Cached_Count d cx c f = do {
     r \<leftarrow> db_Count (cd_base d) cx c f;
     callAndLog_value d ''CachedDatabase.Count'' r
   }"

definition Cached_Ping :: "('m, 'r) CachedDatabase \<Rightarrow> ctx \<Rightarrow> ('m, 'r, err option) M" where
  "Cached_Ping d cx = do {
     r \<leftarrow> db_Ping (cd_base d) cx;
     callAndLogDependency d ''CachedDatabase.Ping'' r
   }"

definition Cached_Close :: "('m, 'r) CachedDatabase \<Rightarrow> ctx \<Rightarrow> ('m, 'r, err option) M" where
  "Cached_Close d cx = do {
     (case cd_cache d of None \<Rightarrow> ret () | Some ca \<Rightarrow> do { _ \<leftarrow> ca_Close ca; ret () });
     db_Close (cd_base d) cx
   }"

definition Cached_database :: "('m, 'r) CachedDatabase \<Rightarrow> ('m, 'r) Database" where
  "Cached_database d =
     \<lparr>db_FindOne = Cached_FindOne d, db_FindMany = Cached_FindMany d, db_InsertOne = Cached_InsertOne d,
      db_UpdateOne = Cached_UpdateOne d, db_UpdateMany = Cached_UpdateMany d, db_DeleteOne = Cached_DeleteOne d,
      db_Count = Cached_Count d, db_Ping = Cached_Ping d, db_Close = Cached_Close d\<rparr>"

lemma Cached_database_sel [simp]:
  "db_FindOne (Cached_database d) = Cached_FindOne d" "db_FindMany (Cached_database d) = Cached_FindMany d"
  "db_InsertOne (Cached_database d) = Cached_InsertOne d" "db_UpdateOne (Cached_database d) = Cached_UpdateOne d"
  "db_UpdateMany (Cached_database d) = Cached_UpdateMany d" "db_DeleteOne (Cached_database d) = Cached_DeleteOne d"
  "db_Count (Cached_database d) = Cached_Count d" "db_Ping (Cached_database d) = Cached_Ping d"
  "db_Close (Cached_database d) = Cached_Close d"
  by (simp_all add: Cached_database_def)

section \<open>Frames of the bookkeeping calls\<close>

lemmas log_defs = recordCacheEvent_def observeCacheLock_def recordDependencyError_def logDependencyError_def
  callAndLogDependency_def callAndLog_value_def time_Since_def

lemma keeps_log [keeps_intros]:
  assumes "\<And>e. keeps I (record_metric e)"
  shows "keeps I (recordCacheEvent d a b)" "keeps I (observeCacheLock d a dur)"
    "keeps I (logDependencyError d op e)" "keeps I (callAndLogDependency d op r)" "keeps I (callAndLog_value d op v)"
  using assms unfolding log_defs by (auto intro!: keeps_intros)

lemma keeps_time_Since [keeps_intros]: "keeps I time_Now \<Longrightarrow> keeps I (time_Since t)"
  unfolding time_Since_def by (intro keeps_intros)

lemma callAndLog_result:
  "run_state (callAndLogDependency d op r) w = (e, w') \<Longrightarrow> e = map_option (dependencyError op) r"
  "run_state (callAndLog_value d op v) w = (v', w') \<Longrightarrow> v' = map_sum (dependencyError op) id v"
  by (auto simp: callAndLogDependency_def callAndLog_value_def Let_def split: option.splits sum.splits prod.splits)

section \<open>Writes invalidate\<close>

lemma buffer_add_set: "set (buffer_add buf keys) = set buf \<union> (set keys - {[]})"
  by (induction buf keys rule: buffer_add.induct) auto

definition inval_failed :: metric_event where
  "inval_failed = MCacheEvent ''write'' ''invalidation_failed''"

definition inval_post ::
  "('r \<Rightarrow> string \<Rightarrow> json option) \<Rightarrow> ('m, 'r) CachedDatabase \<Rightarrow> string list \<Rightarrow> ('m, 'r) world \<Rightarrow> ('m, 'r) world \<Rightarrow> bool" where
  "inval_post cv d keys w w' \<longleftrightarrow>
     (cd_metrics d \<longrightarrow> (\<forall>k \<in> set keys. cv (w_redis w') k = None)
                      \<or> inval_failed \<in> set (drop (length (w_metrics w)) (w_metrics w')))"

lemma inval_post_pre:
  "inval_post cv d keys w w' \<Longrightarrow> prefix (w_metrics w0) (w_metrics w) \<Longrightarrow> inval_post cv d keys w0 w'"
  unfolding inval_post_def
  by (meson prefix_length_le set_drop_subset_set_drop subsetD)

lemma inval_post_post:
  assumes "inval_post cv d keys w w1" "cv (w_redis w2) \<subseteq>\<^sub>m cv (w_redis w1)" "prefix (w_metrics w1) (w_metrics w2)"
  shows "inval_post cv d keys w w2"
proof -
  have "cv (w_redis w1) k = None \<Longrightarrow> cv (w_redis w2) k = None" for k
    using assms(2) by (metis domIff map_le_def)
  moreover have "set (drop n (w_metrics w1)) \<subseteq> set (drop n (w_metrics w2))" for n
    using assms(3) by (auto simp: prefix_def)
  ultimately show ?thesis using assms(1) unfolding inval_post_def by blast
qed

definition grows :: "('m, 'r, 'a) M \<Rightarrow> bool" where
  "grows m \<longleftrightarrow> (\<forall>ms. keeps (\<lambda>w. prefix ms (w_metrics w)) m)"

lemma growsD: "grows m \<Longrightarrow> run_state m w = (a, w') \<Longrightarrow> prefix (w_metrics w) (w_metrics w')"
  unfolding grows_def by (metis keepsD prefix_order.order_refl)

lemma grows_log: "grows (recordCacheEvent d a b)" "grows (observeCacheLock d a dur)" "grows (time_Since t)"
  by (auto simp: grows_def intro!: keeps_intros)

context coherent_cache
begin

lemma invalidate_outside:
  assumes "run_state (invalidate d cx keys) w = (b, w')" "ctx_buffer cx = None" "cd_cache d = Some ca"
  shows "w_mongo w' = w_mongo w \<and> cv (w_redis w') \<subseteq>\<^sub>m cv (w_redis w) \<and> prefix (w_metrics w) (w_metrics w')
         \<and> inval_post cv d keys w w'"
proof (cases "keys = []")
  case True
  with assms show ?thesis by (simp add: invalidate_def inval_post_def)
next
  case False
  obtain r w1 where r: "run_state (ca_Delete ca cx keys) w = (r, w1)" by fastforce
  have w1: "w_mongo w1 = w_mongo w" "w_metrics w1 = w_metrics w" "cv (w_redis w1) \<subseteq>\<^sub>m cv (w_redis w)"
    using ca_delete [OF r] by (auto simp: beside_def)
  show ?thesis
  proof (cases r)
    case None
    then have "w' = w1" and "\<forall>k \<in> set keys. cv (w_redis w1) k = None"
      using assms False r ca_deleted
      by (auto simp: invalidate_def transactionInvalidateBufferFromContext_def)
    with w1 show ?thesis by (simp add: inval_post_def)
  next
    case (Some e)
    then have "w' = (if cd_metrics d then w1\<lparr>w_metrics := w_metrics w1 @ [inval_failed]\<rparr> else w1)"
      using assms False r
      by (auto simp: invalidate_def transactionInvalidateBufferFromContext_def recordCacheEvent_def inval_failed_def
          split: if_splits)
    with w1 show ?thesis by (auto simp: inval_post_def)
  qed
qed

lemma write_run_post:
  assumes run: "run_state (write_run d opts wr cx) w = (None, w')"
    and out: "ctx_buffer cx = None" "cd_cache d = Some ca" and wr: "grows wr"
  shows "inval_post cv d (wo_InvalidateKeys opts) w w'"
proof -
  let ?keys = "wo_InvalidateKeys opts"
  obtain r w1 where r: "run_state wr w = (r, w1)" by fastforce
  obtain b w2 where i: "run_state (invalidate d cx ?keys) w1 = (b, w2)" by fastforce
  have "r = None" using run r by (auto simp: write_run_def split: option.splits)
  then have "w' = w2 \<or> run_state (recordCacheEvent d ''write'' ''invalidated'') w2 = ((), w')"
    using run r i by (auto simp: write_run_def split: if_splits prod.splits)
  then have "w_redis w' = w_redis w2" "prefix (w_metrics w2) (w_metrics w')"
    by (auto simp: recordCacheEvent_def split: if_splits)
  moreover have "inval_post cv d ?keys w1 w2" using invalidate_outside [OF i out] by blast
  ultimately have "inval_post cv d ?keys w1 w'" by (metis inval_post_post map_le_refl)
  then show ?thesis using growsD [OF wr r] by (rule inval_post_pre)
qed

lemma invalidate_grows: "ctx_buffer cx = None \<Longrightarrow> cd_cache d = Some ca \<Longrightarrow> grows (invalidate d cx keys)"
  unfolding grows_def by (auto intro!: keepsI dest!: invalidate_outside intro: prefix_order.trans)

lemma write_run_grows:
  assumes "ctx_buffer cx = None" "cd_cache d = Some ca" "grows wr"
  shows "grows (write_run d opts wr cx)"
  using assms(3) invalidate_grows [OF assms(1,2)] unfolding grows_def write_run_def
  by (auto intro!: keeps_intros)

lemma locked_run_grows:
  assumes "ctx_buffer cx = None" "cd_cache d = Some ca" "grows wr"
  shows "grows (locked_run d opts wr cx)"
  using write_run_grows [OF assms] unfolding grows_def locked_run_def by (auto intro!: keeps_intros)

lemma with_lock_grows:
  "run_state (ca_WithLock ca cx k ttl fn) w = (g, w') \<Longrightarrow> grows (fn cx) \<Longrightarrow> prefix (w_metrics w) (w_metrics w')"
  by (drule ca_with_lock) (auto simp: beside_def dest: growsD)

lemma cached_write_post:
  assumes run: "run_state (cached_write d cx opts wr) w = (None, w')"
    and out: "ctx_buffer cx = None" "cd_cache d = Some ca" and wr: "grows wr"
  shows "inval_post cv d (wo_InvalidateKeys opts) w w'"
proof -
  let ?post = "inval_post cv d (wo_InvalidateKeys opts)"
  have ok: "WriteOptions_Validate opts = None" using run by (auto simp: cached_write_def split: option.splits)
  note simps = cached_write_def ok out transactionInvalidateBufferFromContext_def
  show ?thesis
  proof (cases "wo_LockKey opts = []")
    case True
    obtain w1 where e: "run_state (recordCacheEvent d ''write'' ''disabled'') w = ((), w1)" by (rule run_unit)
    then have "?post w1 w'" using run True by (intro write_run_post [OF _ out wr]) (simp add: simps)
    then show ?thesis by (rule inval_post_pre) (rule growsD [OF grows_log(1) e])
  next
    case False
    let ?fn = "locked_run d opts wr"
    define w0 where "w0 = w\<lparr>w_tick := Suc (w_tick w)\<rparr>"
    obtain g w1 where g: "run_state (ca_WithLock ca cx (wo_LockKey opts) defaultWriteLockTTL ?fn) w0 = (g, w1)" by fastforce
    obtain dur w2 where t: "run_state (time_Since (w_clock w (w_tick w))) w1 = (dur, w2)" by fastforce
    obtain w3 where o3: "run_state (observeCacheLock d ''write'' dur) w2 = ((), w3)" by (rule run_unit)
    have w01: "prefix (w_metrics w) (w_metrics w1)"
      using with_lock_grows [OF g locked_run_grows [OF out wr]] by (simp add: w0_def)
    have w13: "prefix (w_metrics w1) (w_metrics w3)" "w_redis w3 = w_redis w1"
      using growsD [OF grows_log(3) t] growsD [OF grows_log(2) o3] t o3
      by (auto simp: time_Since_def observeCacheLock_def split: if_splits dest: prefix_order.trans)
    show ?thesis
    proof (cases g)
      case (Inl e)
      obtain w4 where e4: "run_state (recordCacheEvent d ''write'' ''lock_fallback'') w3 = ((), w4)" by (rule run_unit)
      have "run_state (write_run d opts wr cx) w4 = (None, w')"
        using run False g t o3 e4 Inl by (simp add: simps w0_def split: if_splits)
      then have "?post w4 w'" by (rule write_run_post [OF _ out wr])
      moreover have "prefix (w_metrics w) (w_metrics w4)"
        using w01 w13(1) growsD [OF grows_log(1) e4] by (meson prefix_order.trans)
      ultimately show ?thesis by (rule inval_post_pre)
    next
      case (Inr v)
      obtain wa wb where ab: "beside w0 wa" "run_state (?fn cx) wa = (Inr v, wb)" "beside wb w1"
          "cv (w_redis w1) \<subseteq>\<^sub>m cv (w_redis wb)"
        using ca_with_lock [OF g] Inr by auto
      then have "run_state (write_run d opts wr cx) wa = (None, wb)"
        by (auto simp: locked_run_def split: option.splits prod.splits)
      then have "?post wa wb" by (rule write_run_post [OF _ out wr])
      then have post: "?post w wb" by (rule inval_post_pre) (use ab(1) in \<open>simp add: beside_def w0_def\<close>)
      have "run_state (recordCacheEvent d ''write'' ''lock_acquired'') w3 = ((), w')"
        using run False g t o3 Inr by (simp add: simps w0_def split: prod.splits)
      then have "w_redis w' = w_redis w3" "prefix (w_metrics w3) (w_metrics w')"
        by (auto simp: recordCacheEvent_def split: if_splits)
      moreover have "prefix (w_metrics wb) (w_metrics w1)" using ab(3) by (simp add: beside_def)
      ultimately have "cv (w_redis w') \<subseteq>\<^sub>m cv (w_redis wb)" "prefix (w_metrics wb) (w_metrics w')"
        using ab(4) w13 by (simp, meson prefix_order.trans)
      with post show ?thesis by (rule inval_post_post)
    qed
  qed
qed

end

section \<open>Reads through a coherent cache\<close>

text \<open>
  \<open>coherent_at cv A key P\<close>: the database satisfies \<open>A\<close> and whatever the cache holds under \<open>key\<close>
  satisfies \<open>P\<close>. \<open>res P E\<close>: a value that satisfies \<open>P\<close> or an error that satisfies \<open>E\<close>.
\<close>

definition coherent_at ::
  "('r \<Rightarrow> string \<Rightarrow> json option) \<Rightarrow> ('m \<Rightarrow> bool) \<Rightarrow> string \<Rightarrow> (json \<Rightarrow> bool) \<Rightarrow> ('m, 'r) world \<Rightarrow> bool" where
  "coherent_at cv A key P w \<longleftrightarrow> A (w_mongo w) \<and> (\<forall>j. cv (w_redis w) key = Some j \<longrightarrow> P j)"

definition res :: "('a \<Rightarrow> bool) \<Rightarrow> (err \<Rightarrow> bool) \<Rightarrow> err + 'a \<Rightarrow> bool" where
  "res P E r = (case r of Inl e \<Rightarrow> E e | Inr v \<Rightarrow> P v)"

lemma res_simps [simp]: "res P E (Inl e) = E e" "res P E (Inr v) = P v"
  by (simp_all add: res_def)

lemma coherent_at_beside:
  "coherent_at cv A key P w \<Longrightarrow> beside w w' \<Longrightarrow> cv (w_redis w') \<subseteq>\<^sub>m cv (w_redis w) \<Longrightarrow> coherent_at cv A key P w'"
  by (auto simp: coherent_at_def beside_def map_le_def dom_def)

lemma keeps_coherent_at_prims [keeps_intros]:
  "keeps (coherent_at cv A key P) (record_metric e)" "keeps (coherent_at cv A key P) time_Now"
  by (auto intro!: keepsI simp: coherent_at_def)

context coherent_cache
begin

lemma get_ht:
  "ht (coherent_at cv A key P) (ca_Get ca cx key k) (\<lambda>g w. coherent_at cv A key P w \<and> (\<forall>v. g = Inr v \<longrightarrow> P v))"
proof (rule htI)
  fix w g w' assume J: "coherent_at cv A key P w" and g: "run_state (ca_Get ca cx key k) w = (g, w')"
  then have "coherent_at cv A key P w'" using ca_get [OF g] coherent_at_beside by blast
  moreover have "P v" if "g = Inr v" for v
    using ca_hit [of cx key k w v w'] g J that by (simp add: coherent_at_def)
  ultimately show "coherent_at cv A key P w' \<and> (\<forall>v. g = Inr v \<longrightarrow> P v)" by blast
qed

lemma set_keeps: "P v \<Longrightarrow> keeps (coherent_at cv A key P) (ca_Set ca cx key v ttl)"
proof (rule keepsI)
  fix w a w' assume P: "P v" and J: "coherent_at cv A key P w" and r: "run_state (ca_Set ca cx key v ttl) w = (a, w')"
  then have "beside w w'" "cv (w_redis w') key \<in> {None, cv (w_redis w) key, Some v}"
    using ca_set [OF r] by (auto simp: map_le_def dom_def)
  then show "coherent_at cv A key P w'" using P J by (auto simp: coherent_at_def beside_def)
qed

lemma load_and_cache_ht:
  assumes "ht (coherent_at cv A (ro_CacheKey opts) P) load (\<lambda>r w. coherent_at cv A (ro_CacheKey opts) P w \<and> res P E r)"
  shows "ht (coherent_at cv A (ro_CacheKey opts) P) (load_and_cache d ca cx opts load)
           (\<lambda>r w. coherent_at cv A (ro_CacheKey opts) P w \<and> res P E r)"
proof -
  let ?J = "coherent_at cv A (ro_CacheKey opts) P"
  have set: "keeps ?J (cache_set d ca cx opts v)" if "P v" for v
    unfolding cache_set_def using that by (auto intro!: keeps_intros set_keeps)
  have "ht (\<lambda>w. ?J w \<and> res P E r)
          (case r of Inl e \<Rightarrow> ret (Inl e) | Inr v \<Rightarrow> cache_set d ca cx opts v \<bind> (\<lambda>_. ret (Inr v)))
          (\<lambda>r w. ?J w \<and> res P E r)" for r
  proof (cases r)
    case (Inr v)
    then show ?thesis using set [of v] by (fastforce simp: ht_def split: prod.splits dest: keepsD)
  qed (simp add: ht_def)
  then show ?thesis unfolding load_and_cache_def by (rule ht_bind [OF assms])
qed

lemma with_lock_ht:
  assumes "ht (coherent_at cv A key P) (fn cx) (\<lambda>r w. coherent_at cv A key P w \<and> (\<forall>v. r = Inr v \<longrightarrow> P v))"
  shows "ht (coherent_at cv A key P) (ca_WithLock ca cx k ttl fn)
           (\<lambda>r w. coherent_at cv A key P w \<and> (\<forall>v. r = Inr v \<longrightarrow> P v))"
proof (rule htI)
  fix w g w' assume J: "coherent_at cv A key P w" and g: "run_state (ca_WithLock ca cx k ttl fn) w = (g, w')"
  from ca_with_lock [OF g] show "coherent_at cv A key P w' \<and> (\<forall>v. g = Inr v \<longrightarrow> P v)"
  proof (elim disjE exE conjE)
    fix w1 w2 assume "beside w w1" "cv (w_redis w1) \<subseteq>\<^sub>m cv (w_redis w)" and f: "run_state (fn cx) w1 = (g, w2)"
      and w2: "beside w2 w'" "cv (w_redis w') \<subseteq>\<^sub>m cv (w_redis w2)"
    then have "coherent_at cv A key P w1" using J coherent_at_beside by blast
    then show ?thesis using htD [OF assms _ f] w2 coherent_at_beside by blast
  qed (use J coherent_at_beside in auto)
qed

lemma loadAndSet_ht:
  assumes "ht (coherent_at cv A (ro_CacheKey opts) P) load (\<lambda>r w. coherent_at cv A (ro_CacheKey opts) P w \<and> res P E r)"
  shows "ht (coherent_at cv A (ro_CacheKey opts) P) (loadAndSet d ca opts k load cx)
           (\<lambda>r w. coherent_at cv A (ro_CacheKey opts) P w \<and> (\<forall>v. r = Inr v \<longrightarrow> P v))"
  unfolding loadAndSet_def
proof (rule ht_bind [OF get_ht], goal_cases)
  case (1 g)
  let ?J = "coherent_at cv A (ro_CacheKey opts) P"
  have event: "keeps ?J (recordCacheEvent d a b)" for a b by (intro keeps_intros)
  show ?case
  proof (cases g)
    case (Inl e)
    have "ht ?J (recordCacheEvent d ''read'' ''miss_after_lock'' \<bind> (\<lambda>_. load_and_cache d ca cx opts load))
            (\<lambda>r w. ?J w \<and> res P E r)"
      using load_and_cache_ht [OF assms] by (intro ht_keeps_bind [OF event])
    then show ?thesis unfolding Inl by (auto elim!: ht_conseq)
  next
    case (Inr v)
    then show ?thesis using event [of "''read''" "''hit_after_lock''"]
      by (auto simp: ht_def split: prod.splits dest: keepsD)
  qed
qed

theorem readThrough_ht:
  assumes load: "ht (coherent_at cv A (ro_CacheKey opts) P) load (\<lambda>r w. coherent_at cv A (ro_CacheKey opts) P w \<and> res P E r)"
  shows "ht (coherent_at cv A (ro_CacheKey opts) P) (readThrough d ca cx opts k load)
           (\<lambda>r w. coherent_at cv A (ro_CacheKey opts) P w \<and> res P E r)"
  unfolding readThrough_def
proof (rule ht_bind [OF get_ht], goal_cases)
  case (1 g)
  let ?J = "coherent_at cv A (ro_CacheKey opts) P"
  have event: "keeps ?J (recordCacheEvent d a b)" for a b by (intro keeps_intros)
  have since: "keeps ?J (time_Since t)" "keeps ?J (observeCacheLock d a dur)" for t a dur by (intro keeps_intros)+
  note lc = load_and_cache_ht [OF load]
  have fallback: "ht (\<lambda>w. ?J w \<and> (\<forall>v. r = Inr v \<longrightarrow> P v))
      (case r of
         Inl _ \<Rightarrow> recordCacheEvent d ''read'' ''lock_fallback'' \<bind> (\<lambda>_. time_Since t \<bind>
             (\<lambda>dur. observeCacheLock d ''read'' dur \<bind> (\<lambda>_. load_and_cache d ca cx opts load)))
       | Inr v \<Rightarrow> time_Since t \<bind> (\<lambda>dur. observeCacheLock d ''read'' dur \<bind> (\<lambda>_. ret (Inr v))))
      (\<lambda>r w. ?J w \<and> res P E r)" for r t
  proof (cases r)
    case (Inl e)
    have "ht ?J (recordCacheEvent d ''read'' ''lock_fallback'' \<bind> (\<lambda>_. time_Since t \<bind>
             (\<lambda>dur. observeCacheLock d ''read'' dur \<bind> (\<lambda>_. load_and_cache d ca cx opts load))))
          (\<lambda>r w. ?J w \<and> res P E r)"
      by (intro ht_keeps_bind [OF event] ht_keeps_bind [OF since(1)] ht_keeps_bind [OF since(2)] lc)
    then show ?thesis using Inl by (auto elim: ht_conseq)
  next
    case (Inr v)
    have "P v \<Longrightarrow> ht ?J (time_Since t \<bind> (\<lambda>dur. observeCacheLock d ''read'' dur \<bind> (\<lambda>_. ret (Inr v)))) (\<lambda>r w. ?J w \<and> res P E r)"
      by (intro ht_keeps_bind [OF since(1)] ht_keeps_bind [OF since(2)] ht_ret_I) simp
    then show ?thesis using Inr by (auto simp: ht_def)
  qed
  have locked: "ht ?J (time_Now \<bind> (\<lambda>start. ca_WithLock ca cx (ro_CacheKey opts) (ro_CacheTTL opts) (loadAndSet d ca opts k load) \<bind>
      (\<lambda>r. case r of
         Inl _ \<Rightarrow> recordCacheEvent d ''read'' ''lock_fallback'' \<bind> (\<lambda>_. time_Since start \<bind>
             (\<lambda>dur. observeCacheLock d ''read'' dur \<bind> (\<lambda>_. load_and_cache d ca cx opts load)))
       | Inr v \<Rightarrow> time_Since start \<bind> (\<lambda>dur. observeCacheLock d ''read'' dur \<bind> (\<lambda>_. ret (Inr v))))))
      (\<lambda>r w. ?J w \<and> res P E r)"
    by (intro ht_keeps_bind [OF keeps_coherent_at_prims(2)] ht_bind [OF with_lock_ht [OF loadAndSet_ht [OF load]]] fallback)
  show ?case
  proof (cases g)
    case (Inl e)
    then show ?thesis
      using locked lc
      by (auto intro!: ht_keeps_bind [OF event] elim: ht_conseq simp: if_distrib)
  next
    case (Inr v)
    then show ?thesis using event [of "''read''" "''hit''"]
      by (auto simp: ht_def split: prod.splits dest: keepsD)
  qed
qed

end

end
