(* ===== verification/Store.thy ===== *)
theory Store
  imports CachedDatabase
begin

text \<open>
  The contract of the \<open>Database\<close> interface as the repositories use it: what each call does to the
  collections. It is met by \<open>MongoDatabase\<close> over any server that meets \<open>mongo_server\<close>, and handed
  on by \<open>CachedDatabase\<close> over any base and cache that meet their contracts; the repositories and the
  services are verified against this contract once.

  A write with a lock key but without \<open>StrictLock\<close> is the exception: \<open>CachedDatabase\<close> runs it a
  second time when it fails under the lock, so the exact effect is promised for the others only
  (\<open>once\<close>).
\<close>

definition once :: "WriteOptions \<Rightarrow> bool" where
  "once wo \<longleftrightarrow> wo_LockKey wo = [] \<or> wo_StrictLock wo"

definition query_at :: "filter \<Rightarrow> time \<Rightarrow> query" where
  "query_at f now = (case f of Query q \<Rightarrow> q | Marshaler _ g \<Rightarrow> g now)"

lemma query_at_Query [simp]: "query_at (Query q) now = q"
  by (simp add: query_at_def)

lemma run_encode_filter:
  "run_state (encode_filter f) w = (q, w') \<Longrightarrow> (\<exists>now. q = query_at f now) \<and> w_mongo w' = w_mongo w"
  by (auto simp: encode_filter_def query_at_def split: filter.splits)

text \<open>The clock is read forward: no computation goes back to a reading that was made.\<close>

definition clock_from :: "(nat \<Rightarrow> time) \<Rightarrow> nat \<Rightarrow> ('m, 'r) world \<Rightarrow> bool" where
  "clock_from c t w \<longleftrightarrow> w_clock w = c \<and> t \<le> w_tick w"

lemma keeps_clock_prims [keeps_intros]:
  "keeps (clock_from c t) time_Now" "keeps (clock_from c t) (rand_Read n)" "keeps (clock_from c t) (record_metric e)"
  "keeps (clock_from c t) (on_mongo q)" "keeps (clock_from c t) (on_redis r)"
  by (auto intro!: keepsI simp: clock_from_def run_on_mongo run_on_redis record_metric_def split: prod.splits)

text \<open>The collections after any number of partial applications of an update to one of them.\<close>

definition touched :: "query \<Rightarrow> update \<Rightarrow> string \<Rightarrow> (string \<Rightarrow> doc list) \<Rightarrow> (string \<Rightarrow> doc list) \<Rightarrow> bool" where
  "touched q u c cs cs' \<longleftrightarrow> (\<exists>ds. (updated_some q u)\<^sup>*\<^sup>* (cs c) ds \<and> cs' = cs(c := ds))"

lemma touched_refl [simp]: "touched q u c cs cs"
  unfolding touched_def by (rule exI [of _ "cs c"]) simp

lemma touched_trans: "touched q u c cs cs' \<Longrightarrow> touched q u c cs' cs'' \<Longrightarrow> touched q u c cs cs''"
  unfolding touched_def by auto (metis rtranclp_trans)

lemma touched_step: "updated_some q u (cs c) ds \<Longrightarrow> cs' = cs(c := ds) \<Longrightarrow> touched q u c cs cs'"
  unfolding touched_def by auto

locale store =
  fixes db :: "('m, 'r) Database"
    and colls :: "'m \<Rightarrow> string \<Rightarrow> doc list"
  assumes st_find_one: "run_state (db_FindOne db cx c f ro) w = (x1, w') \<Longrightarrow> colls (w_mongo w') = colls (w_mongo w)"
    and st_find_many: "run_state (db_FindMany db cx c f ro) w = (x2, w') \<Longrightarrow> colls (w_mongo w') = colls (w_mongo w)"
    and st_count: "run_state (db_Count db cx c f) w = (x3, w') \<Longrightarrow> colls (w_mongo w') = colls (w_mongo w)"
    and st_find_one_fresh: "ro_CacheKey ro = [] \<Longrightarrow> run_state (db_FindOne db cx c f ro) w = (Inr d, w') \<Longrightarrow>
          d \<in> set (colls (w_mongo w) c) \<and> (\<exists>now. matches (query_at f now) d)"
    and st_find_many_fresh: "ro_CacheKey ro = [] \<Longrightarrow> run_state (db_FindMany db cx c f ro) w = (Inr ds, w') \<Longrightarrow>
          \<exists>now. \<forall>d \<in> set ds. d \<in> set (colls (w_mongo w) c) \<and> matches (query_at f now) d"
    and st_insert: "once wo \<Longrightarrow> run_state (db_InsertOne db cx c d wo) w = (None, w') \<Longrightarrow>
          colls (w_mongo w') = (colls (w_mongo w))(c := colls (w_mongo w) c @ [d])"
    and st_insert_any: "once wo \<Longrightarrow> run_state (db_InsertOne db cx c d wo) w = (y, w') \<Longrightarrow>
          colls (w_mongo w') = colls (w_mongo w) \<or> colls (w_mongo w') = (colls (w_mongo w))(c := colls (w_mongo w) c @ [d])"
    and st_insert_clash: "once wo \<Longrightarrow> run_state (db_InsertOne db cx c d wo) w = (y, w') \<Longrightarrow>
          d' \<in> set (colls (w_mongo w) c) \<Longrightarrow> clashes c d d' \<Longrightarrow> y \<noteq> None \<and> colls (w_mongo w') = colls (w_mongo w)"
    and st_update_one: "once wo \<Longrightarrow> run_state (db_UpdateOne db cx c (Query q) u wo) w = (None, w') \<Longrightarrow>
          \<exists>ds. updated_one q u (colls (w_mongo w) c) ds \<and> colls (w_mongo w') = (colls (w_mongo w))(c := ds)"
    and st_update_one_any: "run_state (db_UpdateOne db cx c (Query q) u wo) w = (y, w') \<Longrightarrow>
          touched q u c (colls (w_mongo w)) (colls (w_mongo w'))"
    and st_update_one_missing: "once wo \<Longrightarrow> run_state (db_UpdateOne db cx c (Query q) u wo) w = (Some e, w') \<Longrightarrow>
          errors_Is e DbErrNotFound \<Longrightarrow>
          colls (w_mongo w') = colls (w_mongo w) \<and> (\<forall>d \<in> set (colls (w_mongo w) c). \<not> matches q d)"
    and st_update_many: "once wo \<Longrightarrow> run_state (db_UpdateMany db cx c (Query q) u wo) w = (None, w') \<Longrightarrow>
          colls (w_mongo w') = (colls (w_mongo w))(c := updated_all q u (colls (w_mongo w) c))"
    and st_update_many_any: "run_state (db_UpdateMany db cx c (Query q) u wo) w = (y, w') \<Longrightarrow>
          touched q u c (colls (w_mongo w)) (colls (w_mongo w'))"
    and st_update_many_missing: "once wo \<Longrightarrow> run_state (db_UpdateMany db cx c (Query q) u wo) w = (None, w') \<Longrightarrow>
          \<exists>d \<in> set (colls (w_mongo w) c). matches q d"
    and st_find_one_missing: "ro_CacheKey ro = [] \<Longrightarrow> run_state (db_FindOne db cx c (Query q) ro) w = (Inl e, w') \<Longrightarrow>
          errors_Is e DbErrNotFound \<Longrightarrow> d \<in> set (colls (w_mongo w) c) \<Longrightarrow> \<not> matches q d"
    and st_update_one_last: "run_state (db_UpdateOne db cx c (Query q) u wo) w = (None, w') \<Longrightarrow>
          \<exists>cs ds. touched q u c (colls (w_mongo w)) cs \<and> updated_one q u (cs c) ds \<and> colls (w_mongo w') = cs(c := ds)"
    and st_update_many_none: "once wo \<Longrightarrow> run_state (db_UpdateMany db cx c (Query q) u wo) w = (Some e, w') \<Longrightarrow>
          errors_Is e DbErrNotFound \<Longrightarrow>
          colls (w_mongo w') = colls (w_mongo w) \<and> (\<forall>d \<in> set (colls (w_mongo w) c). \<not> matches q d)"
    and st_delete_one: "once wo \<Longrightarrow> run_state (db_DeleteOne db cx c (Query q) wo) w = (None, w') \<Longrightarrow>
          \<exists>ds. deleted_one q (colls (w_mongo w) c) ds \<and> colls (w_mongo w') = (colls (w_mongo w))(c := ds)"
    and st_delete_one_missing: "once wo \<Longrightarrow> run_state (db_DeleteOne db cx c (Query q) wo) w = (Some e, w') \<Longrightarrow>
          errors_Is e DbErrNotFound \<Longrightarrow>
          colls (w_mongo w') = colls (w_mongo w) \<and> (\<forall>d \<in> set (colls (w_mongo w) c). \<not> matches q d)"
    and st_delete_one_any: "once wo \<Longrightarrow> run_state (db_DeleteOne db cx c (Query q) wo) w = (y, w') \<Longrightarrow>
          colls (w_mongo w') = colls (w_mongo w) \<or>
          (\<exists>ds. deleted_one q (colls (w_mongo w) c) ds \<and> colls (w_mongo w') = (colls (w_mongo w))(c := ds))"
    and st_find_one_clock: "run_state (db_FindOne db cx c f ro) w = (x1, w') \<Longrightarrow> w_clock w' = w_clock w \<and> w_tick w \<le> w_tick w'"

section \<open>\<open>MongoDatabase\<close> meets the contract\<close>

lemma page_subset: "set (page fo ds) \<subseteq> set ds"
  by (auto simp: page_def Let_def split: option.splits dest: in_set_takeD in_set_dropD)

context mongo_server
begin

lemma Mongo_find_one_law:
  assumes run: "run_state (Mongo_FindOne drv cx c f ro) w = (r, w')"
  shows "colls (w_mongo w') = colls (w_mongo w)"
    and "r = Inr d \<Longrightarrow> d \<in> set (colls (w_mongo w) c) \<and> (\<exists>now. matches (query_at f now) d)"
    and "r = Inl e \<Longrightarrow> errors_Is e DbErrNotFound \<Longrightarrow> d' \<in> set (colls (w_mongo w) c) \<Longrightarrow> \<exists>now. \<not> matches (query_at f now) d'"
proof -
  obtain q w1 where q: "run_state (encode_filter f) w = (q, w1)" by fastforce
  obtain now where now: "q = query_at f now" and w1: "w_mongo w1 = w_mongo w" using run_encode_filter [OF q] by auto
  obtain x m where x: "run_state (drv_FindOne drv cx c q) (w_mongo w) = (x, m)" by fastforce
  have valid: "ReadOptions_Validate ro = None \<or>
      (\<exists>e0. ReadOptions_Validate ro = Some e0 \<and> r = Inl e0 \<and> w' = w \<and> \<not> errors_Is e0 DbErrNotFound)"
    using run by (auto simp: Mongo_FindOne_def ReadOptions_Validate_def split: if_splits)
  have "colls m = colls (w_mongo w)" using find_one_frame [OF x] .
  then show "colls (w_mongo w') = colls (w_mongo w)"
    using valid run q x w1 by (auto simp: Mongo_FindOne_def run_on_mongo)
  show "r = Inr d \<Longrightarrow> d \<in> set (colls (w_mongo w) c) \<and> (\<exists>now. matches (query_at f now) d)"
    using valid run q x w1 now find_one_ok [of cx c q "w_mongo w" d m]
    by (auto simp: Mongo_FindOne_def run_on_mongo split: sum.splits if_splits)
  show "r = Inl e \<Longrightarrow> errors_Is e DbErrNotFound \<Longrightarrow> d' \<in> set (colls (w_mongo w) c) \<Longrightarrow> \<exists>now. \<not> matches (query_at f now) d'"
    using valid run q x w1 now find_one_none [of cx c q "w_mongo w" _ m d'] find_one_foreign [of cx c q "w_mongo w" _ m]
    by (auto simp: Mongo_FindOne_def run_on_mongo split: sum.splits if_splits)
qed

lemma Mongo_find_many_law:
  assumes run: "run_state (Mongo_FindMany drv cx c f ro) w = (r, w')"
  shows "colls (w_mongo w') = colls (w_mongo w)"
    and "r = Inr ds \<Longrightarrow> \<exists>now. \<forall>d \<in> set ds. d \<in> set (colls (w_mongo w) c) \<and> matches (query_at f now) d"
proof -
  obtain q w1 where q: "run_state (encode_filter f) w = (q, w1)" by fastforce
  obtain now where now: "q = query_at f now" and w1: "w_mongo w1 = w_mongo w" using run_encode_filter [OF q] by auto
  obtain x m where x: "run_state (drv_Find drv cx c q (find_options_of ro)) (w_mongo w) = (x, m)" by fastforce
  have "colls m = colls (w_mongo w)" using find_frame [OF x] .
  then show "colls (w_mongo w') = colls (w_mongo w)"
    using run q x w1 by (auto simp: Mongo_FindMany_def run_on_mongo split: option.splits)
  show "\<exists>now. \<forall>d \<in> set ds. d \<in> set (colls (w_mongo w) c) \<and> matches (query_at f now) d" if "r = Inr ds"
  proof -
    have "x = Inr (Inr ds)"
      using that run q x w1 by (auto simp: Mongo_FindMany_def run_on_mongo split: option.splits sum.splits)
    then obtain al where "mset al = mset (List.filter (matches q) (colls (w_mongo w) c))" "ds = page (find_options_of ro) al"
      using find_ok x by blast
    then have "set ds \<subseteq> set (List.filter (matches q) (colls (w_mongo w) c))"
      using page_subset mset_eq_setD by metis
    then show ?thesis using now by (intro exI [of _ now]) auto
  qed
qed

lemma Mongo_update_law:
  assumes valid: "WriteOptions_Validate wo = None"
  shows "run_state (Mongo_UpdateOne drv cx c (Query q) u wo) w =
      (case run_state (drv_UpdateOne drv cx c q u) (w_mongo w) of (r, m) \<Rightarrow> (affected ''MongoDatabase.UpdateOne'' r, w\<lparr>w_mongo := m\<rparr>))"
    and "run_state (Mongo_UpdateMany drv cx c (Query q) u wo) w =
      (case run_state (drv_UpdateMany drv cx c q u) (w_mongo w) of (r, m) \<Rightarrow> (affected ''MongoDatabase.UpdateMany'' r, w\<lparr>w_mongo := m\<rparr>))"
    and "run_state (Mongo_DeleteOne drv cx c (Query q) wo) w =
      (case run_state (drv_DeleteOne drv cx c q) (w_mongo w) of (r, m) \<Rightarrow> (affected ''MongoDatabase.DeleteOne'' r, w\<lparr>w_mongo := m\<rparr>))"
  by (simp_all add: Mongo_UpdateOne_def Mongo_UpdateMany_def Mongo_DeleteOne_def encode_filter_def valid run_on_mongo split: prod.splits)

lemma mongo_store: "store (MongoDatabase drv) colls"
proof (unfold_locales, goal_cases)
  case (1 cx c f ro w x1 w') then show ?case using Mongo_find_one_law(1) by simp
next
  case (2 cx c f ro w x2 w') then show ?case using Mongo_find_many_law(1) by simp
next
  case (3 cx c f w x3 w')
  then show ?case
    by (auto simp: Mongo_Count_def run_on_mongo split: prod.splits dest!: run_encode_filter count_frame)
next
  case (4 ro cx c f w d w') then show ?case using Mongo_find_one_law(2) [of cx c f ro w "Inr d" w' d] by simp
next
  case (5 ro cx c f w ds w') then show ?case using Mongo_find_many_law(2) [of cx c f ro w "Inr ds" w' ds] by simp
next
  case (6 wo cx c d w w')
  then show ?case
    by (auto simp: Mongo_InsertOne_def run_on_mongo split: option.splits prod.splits dest!: insert_ok)
next
  case (7 wo cx c d w y w')
  then show ?case
    by (auto simp: Mongo_InsertOne_def run_on_mongo split: option.splits prod.splits dest!: insert_any)
next
  case (8 wo cx c d w y w' d')
  show ?case
  proof (cases "WriteOptions_Validate wo")
    case None
    with 8 show ?thesis by (auto simp: Mongo_InsertOne_def run_on_mongo split: prod.splits dest: insert_dup)
  next
    case (Some e)
    with 8(2) have "y = Some e \<and> w' = w" by (simp add: Mongo_InsertOne_def)
    then show ?thesis by simp
  qed
next
  case (9 wo cx c q u w w')
  then have valid: "WriteOptions_Validate wo = None" by (auto simp: Mongo_UpdateOne_def split: option.splits)
  show ?case
    using 9 update_one_ok
    by (fastforce simp: Mongo_update_law [OF valid] affected_def split: prod.splits sum.splits if_splits)
next
  case (10 cx c q u wo w y w')
  show ?case
  proof (cases "WriteOptions_Validate wo")
    case None
    with 10 obtain r where "run_state (drv_UpdateOne drv cx c q u) (w_mongo w) = (r, w_mongo w')"
      by (auto simp: Mongo_update_law split: prod.splits)
    then show ?thesis using update_one_some touched_step by blast
  next
    case (Some e)
    with 10 show ?thesis by (simp add: Mongo_UpdateOne_def)
  qed
next
  case (11 wo cx c q u w e w')
  then have valid: "WriteOptions_Validate wo = None"
    by (auto simp: Mongo_UpdateOne_def WriteOptions_Validate_def split: option.splits if_splits)
  show ?case
    using 11 update_one_ok update_one_foreign
    by (fastforce simp: Mongo_update_law [OF valid] affected_def split: prod.splits sum.splits if_splits)
next
  case (12 wo cx c q u w w')
  then have valid: "WriteOptions_Validate wo = None" by (auto simp: Mongo_UpdateMany_def split: option.splits)
  show ?case
    using 12 update_many_ok
    by (fastforce simp: Mongo_update_law [OF valid] affected_def split: prod.splits sum.splits if_splits)
next
  case (13 cx c q u wo w y w')
  show ?case
  proof (cases "WriteOptions_Validate wo")
    case None
    with 13 obtain r where "run_state (drv_UpdateMany drv cx c q u) (w_mongo w) = (r, w_mongo w')"
      by (auto simp: Mongo_update_law split: prod.splits)
    then show ?thesis using update_many_some touched_step by blast
  next
    case (Some e)
    with 13 show ?thesis by (simp add: Mongo_UpdateMany_def)
  qed
next
  case (14 wo cx c q u w w')
  then have valid: "WriteOptions_Validate wo = None" by (auto simp: Mongo_UpdateMany_def split: option.splits)
  obtain r m where r: "run_state (drv_UpdateMany drv cx c q u) (w_mongo w) = (r, m)" by fastforce
  then have "r = Inr (int (length (List.filter (matches q) (colls (w_mongo w) c)))) \<and> List.filter (matches q) (colls (w_mongo w) c) \<noteq> []"
    using 14 update_many_ok by (fastforce simp: Mongo_update_law [OF valid] affected_def split: prod.splits sum.splits if_splits)
  then show ?case by (auto simp: filter_empty_conv)
next
  case (15 ro cx c q w e w' d)
  then show ?case using Mongo_find_one_law(3) [of cx c "Query q" ro w "Inl e" w' e d] by simp
next
  case (16 cx c q u wo w w')
  then have valid: "WriteOptions_Validate wo = None" by (auto simp: Mongo_UpdateOne_def split: option.splits)
  have "\<exists>ds. updated_one q u (colls (w_mongo w) c) ds \<and> colls (w_mongo w') = (colls (w_mongo w))(c := ds)"
    using 16 update_one_ok
    by (fastforce simp: Mongo_update_law [OF valid] affected_def split: prod.splits sum.splits if_splits)
  then show ?case using touched_refl by blast
next
  case (17 wo cx c q u w e w')
  then have valid: "WriteOptions_Validate wo = None"
    by (auto simp: Mongo_UpdateMany_def WriteOptions_Validate_def split: option.splits if_splits)
  obtain r m where r: "run_state (drv_UpdateMany drv cx c q u) (w_mongo w) = (r, m)" by fastforce
  then have "r = Inr 0" "w_mongo w' = m"
    using 17 update_many_foreign by (auto simp: Mongo_update_law [OF valid] affected_def split: sum.splits if_splits)
  then have none: "List.filter (matches q) (colls (w_mongo w) c) = []" "colls m = (colls (w_mongo w))(c := updated_all q u (colls (w_mongo w) c))"
    using update_many_ok [OF r [unfolded \<open>r = Inr 0\<close>]] by auto
  then have "updated_all q u (colls (w_mongo w) c) = colls (w_mongo w) c"
    by (auto simp: updated_all_def filter_empty_conv intro: map_idI)
  then show ?case using none \<open>w_mongo w' = m\<close> by (auto simp: filter_empty_conv)
next
  case (18 wo cx c q w w')
  then have valid: "WriteOptions_Validate wo = None" by (auto simp: Mongo_DeleteOne_def split: option.splits)
  show ?case
    using 18 delete_ok by (fastforce simp: Mongo_update_law [OF valid] affected_def split: prod.splits sum.splits if_splits)
next
  case (19 wo cx c q w e w')
  then have valid: "WriteOptions_Validate wo = None"
    by (auto simp: Mongo_DeleteOne_def WriteOptions_Validate_def split: option.splits if_splits)
  show ?case
    using 19 delete_ok delete_foreign
    by (fastforce simp: Mongo_update_law [OF valid] affected_def split: prod.splits sum.splits if_splits)
next
  case (20 wo cx c q w y w')
  show ?case
  proof (cases "WriteOptions_Validate wo")
    case None
    with 20 obtain r where "run_state (drv_DeleteOne drv cx c q) (w_mongo w) = (r, w_mongo w')"
      by (auto simp: Mongo_update_law split: prod.splits)
    then show ?thesis by (rule delete_one)
  next
    case (Some e)
    with 20 show ?thesis by (simp add: Mongo_DeleteOne_def)
  qed
next
  case (21 cx c f ro w x1 w')
  have "keeps (clock_from (w_clock w) (w_tick w)) (Mongo_FindOne drv cx c f ro)"
    unfolding Mongo_FindOne_def by (intro keeps_intros keeps_encode_filter)
  from keepsD [OF this _ 21 [simplified]] show ?case by (simp add: clock_from_def)
qed

end

interpretation mem_store: store "MongoDatabase mem_driver" "\<lambda>m. m"
  by (rule mem_mongo.mongo_store)

section \<open>\<open>CachedDatabase\<close> hands it on\<close>

text \<open>How an answer of the database relates to the answer the caller sees: same identity of the error.\<close>

definition same_err :: "err option \<Rightarrow> err option \<Rightarrow> bool" where
  "same_err a b \<longleftrightarrow> (case (a, b) of (None, None) \<Rightarrow> True | (Some e, Some e') \<Rightarrow> (\<forall>t. errors_Is e' t = errors_Is e t) | _ \<Rightarrow> False)"

lemma same_err_simps [simp]:
  "same_err a a" "same_err None b \<longleftrightarrow> b = None" "same_err a None \<longleftrightarrow> a = None"
  "same_err (Some e) (Some e') \<longleftrightarrow> (\<forall>t. errors_Is e' t = errors_Is e t)"
  by (auto simp: same_err_def split: option.splits)

lemma same_err_dependency [simp]: "same_err r (map_option (dependencyError op) r)"
  by (cases r) simp_all

lemma same_err_trans: "same_err a b \<Longrightarrow> same_err b c \<Longrightarrow> same_err a c"
  by (auto simp: same_err_def split: option.splits)

lemma event_then:
  "run_state (do { recordCacheEvent d a b; m }) w = (r, w') \<Longrightarrow> \<exists>w1. w_mongo w1 = w_mongo w \<and> run_state m w1 = (r, w')"
proof -
  assume run: "run_state (do { recordCacheEvent d a b; m }) w = (r, w')"
  obtain w1 where e: "run_state (recordCacheEvent d a b) w = ((), w1)" by (rule run_unit)
  then have "w_mongo w1 = w_mongo w" by (auto simp: recordCacheEvent_def split: if_splits)
  then show ?thesis using run e by auto
qed

lemma logged_value:
  assumes "run_state (do { r \<leftarrow> m; callAndLog_value d op r }) w = (Inr v, w')"
  shows "\<exists>w2. run_state m w = (Inr v, w2)"
proof -
  obtain r w1 where r: "run_state m w = (r, w1)" by fastforce
  then have "Inr v = map_sum (dependencyError op) id r" using assms callAndLog_result(2) by fastforce
  then show ?thesis using r by (cases r) auto
qed

context coherent_cache
begin

lemma invalidate_mongo:
  assumes "run_state (invalidate d cx keys) w = (b, w')" "cd_cache d = Some ca"
  shows "w_mongo w' = w_mongo w"
proof -
  have del: "keeps (\<lambda>w. w_mongo w = x) (ca_Delete ca cx keys)" for x
    by (auto intro!: keepsI dest!: ca_delete simp: beside_def)
  have "keeps (\<lambda>w. w_mongo w = x) (add b' keys)" for x b'
    by (auto intro!: keepsI simp: add_def)
  then have "keeps (\<lambda>w. w_mongo w = x) (invalidate d cx keys)" for x
    using del assms(2) unfolding invalidate_def by (auto intro!: keeps_intros split: option.splits)
  then show ?thesis using keepsD assms(1) by fastforce
qed

lemma write_run_once:
  assumes "run_state (write_run d opts wr cx) w = (r, w')" "cd_cache d = Some ca"
  shows "\<exists>w2. run_state wr w = (r, w2) \<and> w_mongo w' = w_mongo w2"
proof -
  obtain a w1 where a: "run_state wr w = (a, w1)" by fastforce
  show ?thesis
  proof (cases a)
    case None
    obtain b w2 where i: "run_state (invalidate d cx (wo_InvalidateKeys opts)) w1 = (b, w2)" by fastforce
    then have "w_mongo w2 = w_mongo w1" by (rule invalidate_mongo [OF _ assms(2)])
    then show ?thesis using assms(1) a None i
      by (auto simp: write_run_def recordCacheEvent_def split: if_splits)
  qed (use assms a in \<open>auto simp: write_run_def\<close>)
qed

text \<open>The write is not carried out, or carried out once, or (without a strict lock) twice.\<close>

text \<open>A write in a transaction or without a lock is one call, and so is a write under a lock that is granted.\<close>

lemma cached_write_unlocked:
  assumes run: "run_state (cached_write d cx opts wr) w = (r, w')" and ca: "cd_cache d = Some ca"
    and valid: "WriteOptions_Validate opts = None" and unlocked: "ctx_buffer cx \<noteq> None \<or> wo_LockKey opts = []"
  shows "\<exists>w1 w2. w_mongo w1 = w_mongo w \<and> run_state wr w1 = (r, w2) \<and> w_mongo w' = w_mongo w2"
proof -
  note simps = cached_write_def valid ca transactionInvalidateBufferFromContext_def
  let ?ev = "recordCacheEvent d ''write'' (if ctx_buffer cx = None then ''disabled'' else ''transaction'')"
  obtain w1 where e: "run_state ?ev w = ((), w1)" by (rule run_unit)
  have w1: "w_mongo w1 = w_mongo w" using e by (auto simp: recordCacheEvent_def split: if_splits)
  show ?thesis
  proof (cases "ctx_buffer cx")
    case None
    then have "run_state (write_run d opts wr cx) w1 = (r, w')" using run unlocked e by (simp add: simps)
    then show ?thesis using write_run_once [OF _ ca] w1 by metis
  next
    case (Some b)
    obtain a w2 where a: "run_state wr w1 = (a, w2)" by fastforce
    then have "a = r \<and> w_mongo w' = w_mongo w2"
      using run e Some invalidate_mongo [OF _ ca] by (auto simp: simps split: option.splits prod.splits)
    then show ?thesis using a w1 by metis
  qed
qed

text \<open>
  A write with a lock: the attempt under the lock, then the reading of the clock and the metrics, then
  the fallback where the options allow it.
\<close>

lemma cached_write_locked:
  assumes run: "run_state (cached_write d cx opts wr) w = (r, w')" and ca: "cd_cache d = Some ca"
    and valid: "WriteOptions_Validate opts = None" and nb: "ctx_buffer cx = None" and lk: "wo_LockKey opts \<noteq> []"
  shows "\<exists>g w1 w3. run_state (ca_WithLock ca cx (wo_LockKey opts) defaultWriteLockTTL (locked_run d opts wr)) (w\<lparr>w_tick := Suc (w_tick w)\<rparr>) = (g, w1) \<and>
     w_mongo w3 = w_mongo w1 \<and>
     (case g of Inl e \<Rightarrow> if wo_StrictLock opts then r = Some (dependencyError ''CachedDatabase.write'' e) \<and> w' = w3
                          else \<exists>w4. run_state wr w3 = (r, w4) \<and> w_mongo w' = w_mongo w4
              | Inr v \<Rightarrow> r = None \<and> w' = w3)"
proof -
  note simps = cached_write_def valid ca transactionInvalidateBufferFromContext_def
  obtain g w1 where g: "run_state (ca_WithLock ca cx (wo_LockKey opts) defaultWriteLockTTL (locked_run d opts wr)) (w\<lparr>w_tick := Suc (w_tick w)\<rparr>) = (g, w1)"
    by fastforce
  let ?ev = "recordCacheEvent d ''write'' (case g of Inl _ \<Rightarrow> ''lock_fallback'' | Inr _ \<Rightarrow> ''lock_acquired'')"
  obtain dur wt where t: "run_state (time_Since (w_clock w (w_tick w))) w1 = (dur, wt)" by fastforce
  obtain wo where o: "run_state (observeCacheLock d ''write'' dur) wt = ((), wo)" by (rule run_unit)
  obtain w3 where e: "run_state ?ev wo = ((), w3)" by (rule run_unit)
  have "w_mongo w3 = w_mongo w1"
    using t o e by (auto simp: time_Since_def observeCacheLock_def recordCacheEvent_def split: if_splits)
  moreover have "(case g of Inl e \<Rightarrow> if wo_StrictLock opts then r = Some (dependencyError ''CachedDatabase.write'' e) \<and> w' = w3
                             else run_state (write_run d opts wr cx) w3 = (r, w')
                  | Inr v \<Rightarrow> r = None \<and> w' = w3)"
    using run nb lk g t o e by (cases g) (auto simp: simps split: if_splits)
  ultimately show ?thesis using g write_run_once [OF _ ca]
    by (intro exI [of _ g] exI [of _ w1] exI [of _ w3]) (auto split: sum.splits if_splits)
qed

lemma locked_run_once:
  assumes "run_state (locked_run d opts wr cx) w = (g, w')" and "cd_cache d = Some ca"
  shows "\<exists>a w2. run_state wr w = (a, w2) \<and> w_mongo w' = w_mongo w2 \<and> g = (case a of None \<Rightarrow> Inr JNull | Some e \<Rightarrow> Inl e)"
  using assms(1) write_run_once [OF _ assms(2)] by (fastforce simp: locked_run_def split: prod.splits)

lemma cached_write_runs:
  assumes run: "run_state (cached_write d cx opts wr) w = (r, w')" and ca: "cd_cache d = Some ca"
  shows "(\<exists>e. r = Some e \<and> \<not> errors_Is e DbErrNotFound \<and> w_mongo w' = w_mongo w) \<or>
     (\<exists>a w1 w2. w_mongo w1 = w_mongo w \<and> run_state wr w1 = (a, w2) \<and> w_mongo w' = w_mongo w2 \<and> same_err a r) \<or>
     (\<not> once opts \<and> (\<exists>e w1 w2 w3 w4. w_mongo w1 = w_mongo w \<and> run_state wr w1 = (Some e, w2) \<and>
        w_mongo w3 = w_mongo w2 \<and> run_state wr w3 = (r, w4) \<and> w_mongo w' = w_mongo w4))"
    (is "?skipped \<or> ?one \<or> ?two")
proof (cases "WriteOptions_Validate opts")
  case (Some e)
  then have ?skipped using run by (auto simp: cached_write_def WriteOptions_Validate_def split: if_splits)
  then show ?thesis ..
next
  case valid: None
  show ?thesis
  proof (cases "ctx_buffer cx \<noteq> None \<or> wo_LockKey opts = []")
    case True
    then have ?one using cached_write_unlocked [OF run ca valid] same_err_simps(1) by blast
    then show ?thesis by blast
  next
    case False
    then have nb: "ctx_buffer cx = None" and lk: "wo_LockKey opts \<noteq> []" by auto
    obtain g w1 w3 where g: "run_state (ca_WithLock ca cx (wo_LockKey opts) defaultWriteLockTTL (locked_run d opts wr)) (w\<lparr>w_tick := Suc (w_tick w)\<rparr>) = (g, w1)"
      and w3: "w_mongo w3 = w_mongo w1"
      and rest: "(case g of Inl e \<Rightarrow> if wo_StrictLock opts then r = Some (dependencyError ''CachedDatabase.write'' e) \<and> w' = w3
                                  else \<exists>w4. run_state wr w3 = (r, w4) \<and> w_mongo w' = w_mongo w4
                  | Inr v \<Rightarrow> r = None \<and> w' = w3)"
      using cached_write_locked [OF run ca valid nb lk] by blast
    from ca_with_lock [OF g] show ?thesis
    proof (elim disjE exE conjE)
      fix e assume l: "g = Inl e" "\<not> errors_Is e DbErrNotFound" and "beside (w\<lparr>w_tick := Suc (w_tick w)\<rparr>) w1"
      then have m: "w_mongo w3 = w_mongo w" using w3 by (simp add: beside_def)
      have "wo_StrictLock opts \<Longrightarrow> ?skipped" using rest l m by auto
      moreover have ?one if "\<not> wo_StrictLock opts"
      proof -
        obtain w4 where "run_state wr w3 = (r, w4)" "w_mongo w' = w_mongo w4" using rest l(1) \<open>\<not> wo_StrictLock opts\<close> by auto
        then show ?one using m same_err_simps(1) by blast
      qed
      ultimately show ?thesis by blast
    next
      fix wa w2 assume b: "beside (w\<lparr>w_tick := Suc (w_tick w)\<rparr>) wa" "beside w2 w1" and f: "run_state (locked_run d opts wr cx) wa = (g, w2)"
      then obtain a w2' where a: "run_state wr wa = (a, w2')" "w_mongo w2 = w_mongo w2'" "g = (case a of None \<Rightarrow> Inr JNull | Some e \<Rightarrow> Inl e)"
        using locked_run_once [OF f ca] by blast
      have m: "w_mongo wa = w_mongo w" "w_mongo w1 = w_mongo w2'" using b a(2) by (simp_all add: beside_def)
      show ?thesis
      proof (cases "a = None \<or> wo_StrictLock opts")
        case True
        then have "same_err a r \<and> w_mongo w' = w_mongo w2'" using rest a(3) w3 m by (auto split: option.splits)
        then have ?one using a(1) m(1) by blast
        then show ?thesis by blast
      next
        case False
        then obtain e w4 where "a = Some e" "run_state wr w3 = (r, w4)" "w_mongo w' = w_mongo w4" using rest a(3) by auto
        moreover have "\<not> once opts" using False lk by (simp add: once_def)
        ultimately have ?two using a(1) m w3 by metis
        then show ?thesis by blast
      qed
    qed
  qed
qed

text \<open>The same for a database call followed by the logging of its error.\<close>

lemma logged_call:
  assumes "run_state (do { r \<leftarrow> m; callAndLogDependency d op r }) w = (a, w')"
  shows "\<exists>r w1. run_state m w = (r, w1) \<and> w_mongo w' = w_mongo w1 \<and> same_err r a"
proof -
  obtain r w1 where r: "run_state m w = (r, w1)" by fastforce
  then have c: "run_state (callAndLogDependency d op r) w1 = (a, w')" using assms by simp
  have "keeps (\<lambda>w. w_mongo w = x) (callAndLogDependency d op r)" for x by (intro keeps_intros)
  then have "w_mongo w' = w_mongo w1" using c keepsD by fastforce
  with r callAndLog_result(1) [OF c] show ?thesis by auto
qed

lemma cached_write_once:
  assumes run: "run_state (cached_write d cx opts (do { r \<leftarrow> m; callAndLogDependency d op r })) w = (y, w')"
    and ca: "cd_cache d = Some ca" and "once opts"
  shows "(\<exists>e. y = Some e \<and> \<not> errors_Is e DbErrNotFound \<and> w_mongo w' = w_mongo w) \<or>
     (\<exists>r w1 w2. w_mongo w1 = w_mongo w \<and> run_state m w1 = (r, w2) \<and> w_mongo w' = w_mongo w2 \<and> same_err r y)"
  using cached_write_runs [OF run ca]
proof (elim disjE exE conjE)
  fix a w1 w2 assume w: "w_mongo w1 = w_mongo w" "w_mongo w' = w_mongo w2" "same_err a y"
    and "run_state (do { r \<leftarrow> m; callAndLogDependency d op r }) w1 = (a, w2)"
  then obtain r w3 where "run_state m w1 = (r, w3)" "w_mongo w2 = w_mongo w3" "same_err r a"
    using logged_call by blast
  with w show ?thesis using same_err_trans by (intro disjI2 exI [of _ r] exI [of _ w1] exI [of _ w3]) auto
qed (use \<open>once opts\<close> in auto)

lemma cached_write_upto_twice:
  assumes run: "run_state (cached_write d cx opts (do { r \<leftarrow> m; callAndLogDependency d op r })) w = (y, w')"
    and ca: "cd_cache d = Some ca"
    and R: "\<And>r w w'. run_state m w = (r, w') \<Longrightarrow> R (w_mongo w) (w_mongo w')" and refl: "\<And>x. R x x"
  shows "\<exists>x. R (w_mongo w) x \<and> R x (w_mongo w')"
proof -
  have R': "R (w_mongo w) (w_mongo w')"
    if "run_state (do { r \<leftarrow> m; callAndLogDependency d op r }) w = (a, w')" for a w w'
    using logged_call [OF that] R by metis
  show ?thesis using cached_write_runs [OF run ca]
  proof (elim disjE exE conjE)
    fix e w1 w2 w3 w4
    assume "w_mongo w1 = w_mongo w" "w_mongo w3 = w_mongo w2" "w_mongo w' = w_mongo w4"
      and "run_state (do { r \<leftarrow> m; callAndLogDependency d op r }) w1 = (Some e, w2)"
      and "run_state (do { r \<leftarrow> m; callAndLogDependency d op r }) w3 = (y, w4)"
    then show ?thesis using R' by metis
  next
    fix a w1 w2
    assume "w_mongo w1 = w_mongo w" "w_mongo w' = w_mongo w2"
      and "run_state (do { r \<leftarrow> m; callAndLogDependency d op r }) w1 = (a, w2)"
    then show ?thesis using R' refl by metis
  qed (use refl in auto)
qed

lemma keeps_ca [keeps_intros]:
  "keeps (\<lambda>w. J (w_mongo w)) (ca_Get ca cx k kd)" "keeps (\<lambda>w. J (w_mongo w)) (ca_Set ca cx k j ttl)"
  by (auto intro!: keepsI dest!: ca_get ca_set simp: beside_def)

lemma keeps_with_lock [keeps_intros]:
  assumes "keeps (\<lambda>w. J (w_mongo w)) (fn cx)"
  shows "keeps (\<lambda>w. J (w_mongo w)) (ca_WithLock ca cx k ttl fn)"
proof (rule keepsI)
  fix w g w' assume "J (w_mongo w)" and g: "run_state (ca_WithLock ca cx k ttl fn) w = (g, w')"
  with ca_with_lock [OF g] keepsD [OF assms] show "J (w_mongo w')" by (auto simp: beside_def) metis+
qed

lemma keeps_readThrough [keeps_intros]:
  assumes "keeps (\<lambda>w. J (w_mongo w)) load"
  shows "keeps (\<lambda>w. J (w_mongo w)) (readThrough d ca cx opts k load)"
  unfolding readThrough_def loadAndSet_def load_and_cache_def cache_set_def by (intro keeps_intros assms)

end

locale cached_stack = store base colls + coherent_cache ca cv
  for base :: "('m, 'r) Database" and colls :: "'m \<Rightarrow> string \<Rightarrow> doc list"
    and ca :: "('m, 'r) Cache" and cv :: "'r \<Rightarrow> string \<Rightarrow> json option" +
  fixes metrics strict :: bool
begin

abbreviation cdb :: "('m, 'r) CachedDatabase" where
  "cdb \<equiv> NewCached base (Some ca) metrics strict"

lemma cdb_sel [simp]: "cd_base cdb = base" "cd_cache cdb = Some ca"
  by (simp_all add: NewCached_def)

lemma keeps_base [keeps_intros]:
  "keeps (\<lambda>w. J (colls (w_mongo w))) (db_FindOne base cx c f ro)"
  "keeps (\<lambda>w. J (colls (w_mongo w))) (db_FindMany base cx c f ro)"
  "keeps (\<lambda>w. J (colls (w_mongo w))) (db_Count base cx c f)"
  by (auto intro!: keepsI dest!: st_find_one st_find_many st_count)

lemma keeps_base_find [keeps_intros]:
  "keeps (\<lambda>w. J (colls (w_mongo w))) (base_FindOne cdb cx c f ro)"
  "keeps (\<lambda>w. J (colls (w_mongo w))) (base_FindMany cdb cx c f ro)"
  unfolding base_FindOne_def base_FindMany_def cdb_sel by (intro keeps_intros)+

lemma keeps_cached_reads:
  "keeps (\<lambda>w. J (colls (w_mongo w))) (Cached_FindOne cdb cx c f ro)"
  "keeps (\<lambda>w. J (colls (w_mongo w))) (Cached_FindMany cdb cx c f ro)"
  "keeps (\<lambda>w. J (colls (w_mongo w))) (Cached_Count cdb cx c f)"
  unfolding Cached_FindOne_def Cached_FindMany_def Cached_Count_def cdb_sel option.case by (intro keeps_intros)+

lemma fresh_reads:
  assumes "ro_CacheKey ro = []"
  shows "run_state (Cached_FindOne cdb cx c f ro) w = (Inr d, w') \<Longrightarrow>
           \<exists>w1 w2. w_mongo w1 = w_mongo w \<and> run_state (db_FindOne base cx c f ro) w1 = (Inr d, w2)"
    and "run_state (Cached_FindMany cdb cx c f ro) w = (Inr ds, w') \<Longrightarrow>
           \<exists>w1 w2. w_mongo w1 = w_mongo w \<and> run_state (db_FindMany base cx c f ro) w1 = (Inr ds, w2)"
proof -
  let ?kind = "if ctx_buffer cx = None then ''disabled'' else ''transaction''"
  note simps = assms transactionInvalidateBufferFromContext_def
  show "\<exists>w1 w2. w_mongo w1 = w_mongo w \<and> run_state (db_FindOne base cx c f ro) w1 = (Inr d, w2)"
    if "run_state (Cached_FindOne cdb cx c f ro) w = (Inr d, w')"
  proof -
    have "run_state (do { recordCacheEvent cdb ''find_one'' ?kind; base_FindOne cdb cx c f ro }) w = (Inr d, w')"
      using that by (auto simp: Cached_FindOne_def simps split: option.splits if_splits)
    then show ?thesis unfolding base_FindOne_def cdb_sel
      by (elim event_then [THEN exE] conjE) (drule logged_value, blast)
  qed
  show "\<exists>w1 w2. w_mongo w1 = w_mongo w \<and> run_state (db_FindMany base cx c f ro) w1 = (Inr ds, w2)"
    if "run_state (Cached_FindMany cdb cx c f ro) w = (Inr ds, w')"
  proof -
    have "run_state (do { recordCacheEvent cdb ''find_many'' ?kind; base_FindMany cdb cx c f ro }) w = (Inr ds, w')"
      using that by (auto simp: Cached_FindMany_def simps split: option.splits if_splits)
    then show ?thesis unfolding base_FindMany_def cdb_sel
      by (elim event_then [THEN exE] conjE) (drule logged_value, blast)
  qed
qed

lemma fresh_miss:
  assumes "ro_CacheKey ro = []" "run_state (Cached_FindOne cdb cx c f ro) w = (Inl e, w')" "errors_Is e DbErrNotFound"
  shows "\<exists>w1 e0 w2. w_mongo w1 = w_mongo w \<and> run_state (db_FindOne base cx c f ro) w1 = (Inl e0, w2) \<and> errors_Is e0 DbErrNotFound"
proof -
  let ?kind = "if ctx_buffer cx = None then ''disabled'' else ''transaction''"
  have "ReadOptions_Validate ro = None"
    using assms by (auto simp: Cached_FindOne_def ReadOptions_Validate_def split: if_splits)
  then have "run_state (do { recordCacheEvent cdb ''find_one'' ?kind; base_FindOne cdb cx c f ro }) w = (Inl e, w')"
    using assms by (auto simp: Cached_FindOne_def transactionInvalidateBufferFromContext_def split: if_splits)
  from event_then [OF this] obtain w1 where w1: "w_mongo w1 = w_mongo w" and
    b: "run_state (base_FindOne cdb cx c f ro) w1 = (Inl e, w')" by blast
  obtain r w2 where r: "run_state (db_FindOne base cx c f ro) w1 = (r, w2)" by fastforce
  then have "run_state (callAndLog_value cdb ''CachedDatabase.FindOne'' r) w2 = (Inl e, w')"
    using b by (simp add: base_FindOne_def)
  from callAndLog_result(2) [OF this] obtain e0 where "r = Inl e0" "errors_Is e0 DbErrNotFound"
    using assms(3) by (cases r) auto
  then show ?thesis using r w1 by blast
qed

lemma cached_touched:
  assumes base: "\<And>y w w'. run_state m w = (y, w') \<Longrightarrow> touched q u c (colls (w_mongo w)) (colls (w_mongo w'))"
    and run: "run_state (cached_write cdb cx wo (do { r \<leftarrow> m; callAndLogDependency cdb op r })) w = (y, w')"
  shows "touched q u c (colls (w_mongo w)) (colls (w_mongo w'))"
  using cached_write_upto_twice [OF run cdb_sel(2), of "\<lambda>m m'. touched q u c (colls m) (colls m')"] base touched_trans
  by (metis touched_refl)

lemmas cached_ops = Cached_InsertOne_def Cached_UpdateOne_def Cached_UpdateMany_def Cached_DeleteOne_def cdb_sel

text \<open>A write that reports success ends with a call that succeeded, after at most one that failed.\<close>

lemma cached_write_last:
  assumes run: "run_state (cached_write cdb cx opts (do { r \<leftarrow> m; callAndLogDependency cdb op r })) w = (None, w')"
    and any: "\<And>y v v'. run_state m v = (y, v') \<Longrightarrow> R (w_mongo v) (w_mongo v')" and "\<And>x. R x x"
  shows "\<exists>x v v'. R (w_mongo w) x \<and> w_mongo v = x \<and> run_state m v = (None, v') \<and> w_mongo w' = w_mongo v'"
  using cached_write_runs [OF run cdb_sel(2)]
proof (elim disjE exE conjE)
  fix a w1 w2 assume w: "w_mongo w1 = w_mongo w" "w_mongo w' = w_mongo w2" "same_err a None"
    and "run_state (do { r \<leftarrow> m; callAndLogDependency cdb op r }) w1 = (a, w2)"
  then obtain r w3 where "run_state m w1 = (r, w3)" "w_mongo w2 = w_mongo w3" "same_err r None" using logged_call by fastforce
  then show ?thesis using w assms(3) by (intro exI [of _ "w_mongo w"] exI [of _ w1] exI [of _ w3]) auto
next
  fix e w1 w2 w3 w4
  assume w: "w_mongo w1 = w_mongo w" "w_mongo w3 = w_mongo w2" "w_mongo w' = w_mongo w4"
    and first: "run_state (do { r \<leftarrow> m; callAndLogDependency cdb op r }) w1 = (Some e, w2)"
    and second: "run_state (do { r \<leftarrow> m; callAndLogDependency cdb op r }) w3 = (None, w4)"
  obtain r v where "run_state m w1 = (r, v)" "w_mongo w2 = w_mongo v" using logged_call [OF first] by blast
  moreover obtain r' v' where "run_state m w3 = (r', v')" "w_mongo w4 = w_mongo v'" "same_err r' None" using logged_call [OF second] by blast
  ultimately show ?thesis using w any by (intro exI [of _ "w_mongo w3"] exI [of _ w3] exI [of _ v']) (auto, metis)
qed simp

lemma keeps_cached_clock: "keeps (clock_from t n) (Cached_FindOne cdb cx c f ro)"
proof -
  have base: "keeps (clock_from t n) (base_FindOne cdb cx c f ro)"
    unfolding base_FindOne_def cdb_sel
    by (intro keeps_intros) (auto intro!: keepsI dest!: st_find_one_clock simp: clock_from_def)
  have ca: "keeps (clock_from t n) (ca_Get ca cx k kd)" "keeps (clock_from t n) (ca_Set ca cx k j ttl)" for cx k kd j ttl
    by (auto intro!: keepsI dest!: ca_get ca_set simp: clock_from_def beside_def)
  have lock: "keeps (clock_from t n) (ca_WithLock ca cx k ttl fn)" if "keeps (clock_from t n) (fn cx)" for cx k ttl fn
  proof (rule keepsI)
    fix w g w' assume w: "clock_from t n w" and g: "run_state (ca_WithLock ca cx k ttl fn) w = (g, w')"
    have same: "beside v v' \<Longrightarrow> clock_from t n v' = clock_from t n v" for v v' :: "('m, 'r) world"
      by (simp add: clock_from_def beside_def)
    from ca_with_lock [OF g] show "clock_from t n w'" using w same keepsD [OF that] by (elim disjE exE conjE) metis+
  qed
  show ?thesis
    unfolding Cached_FindOne_def cdb_sel option.case readThrough_def loadAndSet_def load_and_cache_def cache_set_def
    by (intro keeps_intros base ca lock)
qed

lemma cached_store: "store (Cached_database cdb) colls"
proof (unfold_locales, goal_cases)
  case (1 cx c f ro w x1 w') then show ?case using keeps_cached_reads(1) [of "\<lambda>x. x = colls (w_mongo w)"] keepsD by fastforce
next
  case (2 cx c f ro w x2 w') then show ?case using keeps_cached_reads(2) [of "\<lambda>x. x = colls (w_mongo w)"] keepsD by fastforce
next
  case (3 cx c f w x3 w') then show ?case using keeps_cached_reads(3) [of "\<lambda>x. x = colls (w_mongo w)"] keepsD by fastforce
next
  case (4 ro cx c f w d w') then show ?case using fresh_reads(1) st_find_one_fresh by (metis Cached_database_sel(1))
next
  case (5 ro cx c f w ds w') then show ?case using fresh_reads(2) st_find_many_fresh by (metis Cached_database_sel(2))
next
  case (6 wo cx c d w w')
  then have "run_state (Cached_InsertOne cdb cx c d wo) w = (None, w')" by simp
  from cached_write_once [OF this [unfolded cached_ops] cdb_sel(2) 6(1)] st_insert [OF 6(1)] show ?case by fastforce
next
  case (7 wo cx c d w y w')
  then have "run_state (Cached_InsertOne cdb cx c d wo) w = (y, w')" by simp
  from cached_write_once [OF this [unfolded cached_ops] cdb_sel(2) 7(1)] st_insert_any [OF 7(1)] show ?case by metis
next
  case (8 wo cx c d w y w' d')
  then have "run_state (Cached_InsertOne cdb cx c d wo) w = (y, w')" by simp
  from cached_write_once [OF this [unfolded cached_ops] cdb_sel(2) 8(1)] st_insert_clash [OF 8(1)] 8(3,4)
  show ?case by (metis option.distinct(1) same_err_simps(3))
next
  case (9 wo cx c q u w w')
  then have "run_state (Cached_UpdateOne cdb cx c (Query q) u wo) w = (None, w')" by simp
  from cached_write_once [OF this [unfolded cached_ops] cdb_sel(2) 9(1)] st_update_one [OF 9(1)] show ?case by fastforce
next
  case (10 cx c q u wo w y w')
  then have "run_state (Cached_UpdateOne cdb cx c (Query q) u wo) w = (y, w')" by simp
  from cached_touched [OF _ this [unfolded cached_ops]] st_update_one_any show ?case by blast
next
  case (11 wo cx c q u w e w')
  then have "run_state (Cached_UpdateOne cdb cx c (Query q) u wo) w = (Some e, w')" by simp
  from cached_write_once [OF this [unfolded cached_ops] cdb_sel(2) 11(1)] 11(3) obtain r w1 w2 where
    "w_mongo w1 = w_mongo w" "run_state (db_UpdateOne base cx c (Query q) u wo) w1 = (r, w2)"
    "w_mongo w' = w_mongo w2" "same_err r (Some e)" by auto
  then show ?case using st_update_one_missing [OF 11(1)] 11(3) by (cases r) fastforce+
next
  case (12 wo cx c q u w w')
  then have "run_state (Cached_UpdateMany cdb cx c (Query q) u wo) w = (None, w')" by simp
  from cached_write_once [OF this [unfolded cached_ops] cdb_sel(2) 12(1)] st_update_many [OF 12(1)] show ?case by fastforce
next
  case (13 cx c q u wo w y w')
  then have "run_state (Cached_UpdateMany cdb cx c (Query q) u wo) w = (y, w')" by simp
  from cached_touched [OF _ this [unfolded cached_ops]] st_update_many_any show ?case by blast
next
  case (14 wo cx c q u w w')
  then have "run_state (Cached_UpdateMany cdb cx c (Query q) u wo) w = (None, w')" by simp
  from cached_write_once [OF this [unfolded cached_ops] cdb_sel(2) 14(1)] st_update_many_missing [OF 14(1)] show ?case by fastforce
next
  case (15 ro cx c q w e w' d)
  then obtain w1 e0 w2 where "w_mongo w1 = w_mongo w" "run_state (db_FindOne base cx c (Query q) ro) w1 = (Inl e0, w2)"
      "errors_Is e0 DbErrNotFound"
    using fresh_miss by (metis Cached_database_sel(1))
  then show ?case using st_find_one_missing [OF 15(1)] 15(4) by metis
next
  case (16 cx c q u wo w w')
  then have "run_state (Cached_UpdateOne cdb cx c (Query q) u wo) w = (None, w')" by simp
  moreover have any: "touched q u c (colls (w_mongo v)) (colls (w_mongo v'))"
    if "run_state (db_UpdateOne base cx c (Query q) u wo) v = (y, v')" for y v v' using that by (rule st_update_one_any)
  ultimately obtain v v' where v: "touched q u c (colls (w_mongo w)) (colls (w_mongo v))"
    "run_state (db_UpdateOne base cx c (Query q) u wo) v = (None, v')" "w_mongo w' = w_mongo v'"
    using cached_write_last [where R = "\<lambda>m m'. touched q u c (colls m) (colls m')"] touched_refl unfolding cached_ops by metis
  from st_update_one_last [OF v(2)] v(1,3) show ?case using touched_trans by metis
next
  case (17 wo cx c q u w e w')
  then have "run_state (Cached_UpdateMany cdb cx c (Query q) u wo) w = (Some e, w')" by simp
  from cached_write_once [OF this [unfolded cached_ops] cdb_sel(2) 17(1)] 17(3) obtain r w1 w2 where
    "w_mongo w1 = w_mongo w" "run_state (db_UpdateMany base cx c (Query q) u wo) w1 = (r, w2)"
    "w_mongo w' = w_mongo w2" "same_err r (Some e)" by auto
  then show ?case using st_update_many_none [OF 17(1)] 17(3) by (cases r) fastforce+
next
  case (18 wo cx c q w w')
  then have "run_state (Cached_DeleteOne cdb cx c (Query q) wo) w = (None, w')" by simp
  from cached_write_once [OF this [unfolded cached_ops] cdb_sel(2) 18(1)] st_delete_one [OF 18(1)] show ?case by fastforce
next
  case (19 wo cx c q w e w')
  then have "run_state (Cached_DeleteOne cdb cx c (Query q) wo) w = (Some e, w')" by simp
  from cached_write_once [OF this [unfolded cached_ops] cdb_sel(2) 19(1)] 19(3) obtain r w1 w2 where
    "w_mongo w1 = w_mongo w" "run_state (db_DeleteOne base cx c (Query q) wo) w1 = (r, w2)"
    "w_mongo w' = w_mongo w2" "same_err r (Some e)" by auto
  then show ?case using st_delete_one_missing [OF 19(1)] 19(3) by (cases r) fastforce+
next
  case (20 wo cx c q w y w')
  then have "run_state (Cached_DeleteOne cdb cx c (Query q) wo) w = (y, w')" by simp
  from cached_write_once [OF this [unfolded cached_ops] cdb_sel(2) 20(1)] st_delete_one_any [OF 20(1)] show ?case by metis
next
  case (21 cx c f ro w x1 w')
  from keepsD [OF keeps_cached_clock _ 21 [simplified]] show ?case by (metis clock_from_def order_refl)
qed

end

sublocale cached_stack \<subseteq> cached: store "Cached_database cdb" colls
  by (rule cached_store)

interpretation mem_stack: cached_stack "MongoDatabase mem_driver" "\<lambda>m. m" "Redis_cache (NewRedisWithClient mem_redis [])" cached True False
  by unfold_locales

section \<open>Properties\<close>

text \<open>The production stack: the cached database over MongoDB and Redis.\<close>

definition redis_stack :: "'m mongo_driver \<Rightarrow> 'r redis_client \<Rightarrow> string \<Rightarrow> bool \<Rightarrow> ('m, 'r) CachedDatabase" where
  "redis_stack drv cl lockPrefix strict =
     NewCached (MongoDatabase drv) (Some (Redis_cache (NewRedisWithClient cl lockPrefix))) True strict"

lemma redis_stack_sel [simp]:
  "cd_base (redis_stack drv cl p st) = MongoDatabase drv"
  "cd_cache (redis_stack drv cl p st) = Some (Redis_cache (NewRedisWithClient cl p))"
  "cd_metrics (redis_stack drv cl p st) = True"
  by (simp_all add: redis_stack_def NewCached_def)

definition db_writes :: "('m, 'r) CachedDatabase \<Rightarrow> ctx \<Rightarrow> WriteOptions \<Rightarrow> ('m, 'r, err option) M set" where
  "db_writes d cx opts = {op. \<exists>c x f u. op = Cached_InsertOne d cx c x opts \<or> op = Cached_UpdateOne d cx c f u opts \<or>
     op = Cached_UpdateMany d cx c f u opts \<or> op = Cached_DeleteOne d cx c f opts}"

lemma db_writes_cached_write:
  assumes "op \<in> db_writes (redis_stack drv cl p st) cx opts"
  shows "\<exists>wr. op = cached_write (redis_stack drv cl p st) cx opts wr \<and> grows wr \<and>
           (\<forall>x. keeps (\<lambda>w. w_redis w = x) wr) \<and> (\<forall>x. keeps (\<lambda>w. w_bufs w = x) wr)"
proof -
  have base: "grows (do { r \<leftarrow> m; callAndLogDependency d' o' r }) \<and>
      (\<forall>x. keeps (\<lambda>w. w_redis w = x) (do { r \<leftarrow> m; callAndLogDependency d' o' r })) \<and>
      (\<forall>x. keeps (\<lambda>w. w_bufs w = x) (do { r \<leftarrow> m; callAndLogDependency d' o' r }))"
    if "\<And>x. keeps (\<lambda>w. prefix x (w_metrics w)) m" "\<And>x. keeps (\<lambda>w. w_redis w = x) m" "\<And>x. keeps (\<lambda>w. w_bufs w = x) m"
    for m :: "('a, 'b, err option) M" and d' :: "('a, 'b) CachedDatabase" and o'
    unfolding grows_def using that by (auto intro!: keeps_intros)
  show ?thesis
    using assms unfolding db_writes_def Cached_InsertOne_def Cached_UpdateOne_def Cached_UpdateMany_def Cached_DeleteOne_def
      redis_stack_sel MongoDatabase_sel
    by (elim CollectE exE disjE) (rule exI, rule conjI, assumption, rule base; intro keeps_mongo_ops_frame)+
qed

text \<open>
  C5. Caching is transparent to uncached reads and to writes that take no lock or a strict one: over
  any MongoDB and Redis that meet their documented contracts, the cached database meets the same
  contract as the database itself. Reads without a cache key answer from the collections. A write with
  no lock key or with \<open>StrictLock\<close> is carried out at most once: an insert appends exactly one document,
  \<open>UpdateOne\<close>, \<open>UpdateMany\<close> and \<open>DeleteOne\<close> change exactly the matching document or documents and answer
  \<open>ErrNotFound\<close> only when nothing matches and nothing changed. A write with a lock that is not strict may
  be carried out twice, because it is run again when it fails under the lock; then an update is
  promised to touch matching documents only, and a success of \<open>UpdateOne\<close> to end with an update that
  was carried out.
\<close>

theorem Cached_database_refines_store:
  assumes "mongo_server drv colls" "redis_server cl kv"
  shows "store (Cached_database (redis_stack drv cl p st)) colls"
proof -
  have "cached_stack (MongoDatabase drv) colls (Redis_cache (NewRedisWithClient cl p)) (\<lambda>s. cached (kv s))"
    by (intro cached_stack.intro mongo_server.mongo_store redis_server.redis_coherent assms)
  from cached_stack.cached_store [OF this] show ?thesis by (simp add: redis_stack_def)
qed

theorem Cached_database_refines_store_witness:
  "store (Cached_database (redis_stack mem_driver mem_redis ''lock:'' True)) (\<lambda>m. m)"
  by (rule Cached_database_refines_store [OF mem_mongo.mongo_server_axioms mem_redis.redis_server_axioms])

text \<open>
  C22. Writes invalidate: when a write of the cached database outside a transaction reports success,
  none of the keys it was told to invalidate is in the cache any more, or the failure of the
  invalidation was recorded as a metric of this very call.
\<close>

theorem write_invalidates:
  assumes srv: "redis_server cl kv" and "ctx_buffer cx = None"
    and op: "op \<in> db_writes (redis_stack drv cl p st) cx opts"
    and run: "run_state op w = (None, w')"
  shows "(\<forall>k \<in> set (wo_InvalidateKeys opts). cached (kv (w_redis w')) k = None) \<or>
         MCacheEvent ''write'' ''invalidation_failed'' \<in> set (drop (length (w_metrics w)) (w_metrics w'))"
proof -
  from db_writes_cached_write [OF op] obtain wr where
    "run_state (cached_write (redis_stack drv cl p st) cx opts wr) w = (None, w')" "grows wr" using run by auto
  then have "inval_post (\<lambda>s. cached (kv s)) (redis_stack drv cl p st) (wo_InvalidateKeys opts) w w'"
    by (rule coherent_cache.cached_write_post [OF redis_server.redis_coherent [OF srv] _ assms(2) redis_stack_sel(2)])
  then show ?thesis by (simp add: inval_post_def inval_failed_def)
qed

definition demo_opts :: WriteOptions where
  "demo_opts = write_opts\<lparr>wo_InvalidateKeys := [''user:id:1'']\<rparr>"

definition demo_world :: "(mem, mem_kv) world" where
  "demo_world = start_world (\<lambda>_. []) [''user:id:1'' \<mapsto> RJson (JDoc [])] 0"

theorem write_invalidates_witness:
  "cached (w_redis (snd (run_state (Cached_InsertOne (redis_stack mem_driver mem_redis [] True) background ''users''
     [(''_id'', BString ''1'')] demo_opts) demo_world))) ''user:id:1'' = None"
proof -
  let ?op = "Cached_InsertOne (redis_stack mem_driver mem_redis [] True) background ''users'' [(''_id'', BString ''1'')] demo_opts"
  have run: "run_state ?op demo_world = (None, snd (run_state ?op demo_world))"
    and metrics: "w_metrics (snd (run_state ?op demo_world)) = [MCacheEvent ''write'' ''disabled'', MCacheEvent ''write'' ''invalidated'']"
    by (simp_all add: Cached_InsertOne_def cached_write_def WriteOptions_Validate_def demo_opts_def write_opts_def background_def
        transactionInvalidateBufferFromContext_def recordCacheEvent_def Mongo_InsertOne_def mem_driver_def demo_world_def
        run_on_mongo run_on_redis callAndLogDependency_def write_run_def invalidate_def Redis_Delete_def NewRedisWithClient_def mem_redis_def)
  have "?op \<in> db_writes (redis_stack mem_driver mem_redis [] True) background demo_opts"
    unfolding db_writes_def by blast
  from write_invalidates [OF mem_redis.redis_server_axioms _ this run] show ?thesis
    using metrics by (simp add: background_def demo_opts_def demo_world_def)
qed

lemma lock_not_acquired:
  "dependencyError op (Sentinel ErrLockNotAcquired) = Sentinel ErrLockNotAcquired"
  "Code (FromError stack (Sentinel ErrLockNotAcquired)) = CodeInternal"
  by (simp_all add: dependencyError_def isTimeoutError_def FromError_def Wrap_def)

text \<open>
  C23. A strict lock excludes: when another owner holds the lock of a write with \<open>StrictLock\<close>, the
  write is not carried out (the database is untouched) and no cached value is changed. The error is
  \<open>ErrLockNotAcquired\<close> as it is, which the services turn into an internal error, and not the dependency
  error that the options and the operations guide promise.
\<close>

theorem strict_lock_excludes:
  assumes srv: "redis_server cl kv" and out: "ctx_buffer cx = None"
    and op: "op \<in> db_writes (redis_stack drv cl p st) cx opts"
    and strict: "wo_StrictLock opts" "wo_LockKey opts \<noteq> []"
    and ent: "w_entropy w (w_draw w) = Some src"
    and held: "run_state (rc_SetNX cl ((if p = [] then ''lock:'' else p) @ wo_LockKey opts)
                 (hex_EncodeToString (map src [0..<16])) (5 * second)) (w_redis w) = (Inr False, s')"
    and run: "run_state op w = (r, w')"
  shows "r = Some (Sentinel ErrLockNotAcquired) \<and> Code (FromError stack (Sentinel ErrLockNotAcquired)) = CodeInternal \<and>
         w_mongo w' = w_mongo w \<and> kv (w_redis w') \<subseteq>\<^sub>m kv (w_redis w)"
proof -
  let ?d = "redis_stack drv cl p st" and ?rc = "NewRedisWithClient cl p"
  from db_writes_cached_write [OF op] obtain wr where op_wr: "op = cached_write ?d cx opts wr" by blast
  let ?w0 = "w\<lparr>w_tick := Suc (w_tick w)\<rparr>"
  have lock: "run_state (Redis_WithLock ?rc cx (wo_LockKey opts) defaultWriteLockTTL (locked_run ?d opts wr)) ?w0
      = (Inl (Sentinel ErrLockNotAcquired), ?w0\<lparr>w_draw := Suc (w_draw w), w_redis := s'\<rparr>)"
    by (rule WithLock_held_run [THEN trans])
       (use ent held in \<open>auto simp: NewRedisWithClient_def defaultLockPrefix_def defaultWriteLockTTL_def second_def\<close>)
  have "kv s' \<subseteq>\<^sub>m kv (w_redis w)" using redis_server.setnx_held [OF srv held] by simp
  then show ?thesis
    using run strict out lock
    by (auto simp: op_wr cached_write_def WriteOptions_Validate_def transactionInvalidateBufferFromContext_def
        time_Since_def observeCacheLock_def recordCacheEvent_def lock_not_acquired)
qed

definition held_world :: "(mem, mem_kv) world" where
  "held_world = start_world (\<lambda>_. []) [''lock:session:id:1'' \<mapsto> RText ''other''] 0"

theorem strict_lock_excludes_witness:
  "fst (run_state (Cached_UpdateOne (redis_stack mem_driver mem_redis [] True) background ''sessions'' (Query []) []
     (write_opts\<lparr>wo_LockKey := ''session:id:1'', wo_StrictLock := True\<rparr>)) held_world) = Some (Sentinel ErrLockNotAcquired)"
proof -
  let ?opts = "write_opts\<lparr>wo_LockKey := ''session:id:1'', wo_StrictLock := True\<rparr>"
  let ?d = "redis_stack mem_driver mem_redis [] True"
  let ?op = "Cached_UpdateOne ?d background ''sessions'' (Query []) [] ?opts"
  have op: "?op \<in> db_writes ?d background ?opts" unfolding db_writes_def by blast
  have held: "run_state (rc_SetNX mem_redis ((if [] = [] then ''lock:'' else []) @ wo_LockKey ?opts)
      (hex_EncodeToString (map (\<lambda>_. 0) [0..<16])) (5 * second)) (w_redis held_world) = (Inr False, w_redis held_world)"
    by (simp add: mem_redis_def held_world_def)
  obtain r w' where "run_state ?op held_world = (r, w')" by fastforce
  with strict_lock_excludes [OF mem_redis.redis_server_axioms _ op _ _ _ held] show ?thesis
    by (fastforce simp: background_def held_world_def)
qed

text \<open>
  C21. Reads through a coherent cache are reads of the database: if whatever the cache holds under
  the key is a document of the collection that matches the filter, then \<open>FindOne\<close> changes no
  collection, an answer is such a document, \<open>ErrNotFound\<close> means that there is none, and the cache
  is still coherent for the key afterwards (hit, miss, lock contention and cache failures alike).
\<close>

theorem FindOne_reads_database:
  assumes mongo: "mongo_server drv colls" and srv: "redis_server cl kv"
    and coherent: "\<forall>j. cached (kv (w_redis w)) (ro_CacheKey opts) = Some j \<longrightarrow>
           (\<exists>x. j = JDoc x \<and> x \<in> set (colls (w_mongo w) c) \<and> matches q x)"
    and run: "run_state (Cached_FindOne (redis_stack drv cl p st) cx c (Query q) opts) w = (r, w')"
  shows "colls (w_mongo w') = colls (w_mongo w) \<and>
         (\<forall>x. r = Inr x \<longrightarrow> x \<in> set (colls (w_mongo w) c) \<and> matches q x) \<and>
         (\<forall>e. r = Inl e \<longrightarrow> errors_Is e DbErrNotFound \<longrightarrow> (\<forall>x \<in> set (colls (w_mongo w) c). \<not> matches q x)) \<and>
         (\<forall>j. cached (kv (w_redis w')) (ro_CacheKey opts) = Some j \<longrightarrow>
           (\<exists>x. j = JDoc x \<and> x \<in> set (colls (w_mongo w) c) \<and> matches q x))"
proof -
  let ?d = "redis_stack drv cl p st" and ?ca = "Redis_cache (NewRedisWithClient cl p)"
  define cs where "cs = colls (w_mongo w)"
  let ?P = "\<lambda>j. \<exists>x. j = JDoc x \<and> x \<in> set (cs c) \<and> matches q x"
  let ?E = "\<lambda>e. errors_Is e DbErrNotFound \<longrightarrow> (\<forall>x \<in> set (cs c). \<not> matches q x)"
  let ?J = "coherent_at (\<lambda>s. cached (kv s)) (\<lambda>m. colls m = cs) (ro_CacheKey opts) ?P"
  note coh = redis_server.redis_coherent [OF srv, of p]
  have base: "ht ?J (base_FindOne ?d cx c (Query q) opts) (\<lambda>r w. ?J w \<and> res (\<lambda>x. ?P (JDoc x)) ?E r)"
  proof (rule htI)
    fix v r v' assume J: "?J v" and run: "run_state (base_FindOne ?d cx c (Query q) opts) v = (r, v')"
    obtain x v1 where x: "run_state (Mongo_FindOne drv cx c (Query q) opts) v = (x, v1)" by fastforce
    then have l: "run_state (callAndLog_value ?d ''CachedDatabase.FindOne'' x) v1 = (r, v')"
      using run by (simp add: base_FindOne_def)
    have "w_redis v1 = w_redis v" using keeps_mongo_ops_frame(1) [of "\<lambda>z. z = w_redis v"] x keepsD by fastforce
    moreover have "keeps (\<lambda>w. w_redis w = z) (callAndLog_value ?d o' x)" "keeps (\<lambda>w. w_mongo w = y) (callAndLog_value ?d o' x)" for z y o'
      by (intro keeps_intros)+
    then have "w_redis v' = w_redis v1" "w_mongo v' = w_mongo v1" using l keepsD by fastforce+
    ultimately have "?J v'"
      using J mongo_server.Mongo_find_one_law(1) [OF mongo x] by (simp add: coherent_at_def)
    moreover have "res (\<lambda>x. ?P (JDoc x)) ?E r"
      using callAndLog_result(2) [OF l] J mongo_server.Mongo_find_one_law(2,3) [OF mongo x]
      by (cases x) (auto simp: coherent_at_def)
    ultimately show "?J v' \<and> res (\<lambda>x. ?P (JDoc x)) ?E r" ..
  qed
  have through: "ht ?J (readThrough ?d ?ca cx opts KDoc (do { x \<leftarrow> base_FindOne ?d cx c (Query q) opts; ret (map_sum id JDoc x) }))
      (\<lambda>r w. ?J w \<and> res ?P ?E r)"
    by (intro coherent_cache.readThrough_ht [OF coh] ht_bind [OF base])
       (auto simp: ht_def res_def split: sum.splits)
  have event: "keeps ?J (recordCacheEvent ?d a b)" for a b by (intro keeps_intros)
  note direct = ht_keeps_bind [OF event base]
  have hit: "ht ?J (do { r \<leftarrow> readThrough ?d ?ca cx opts KDoc (do { x \<leftarrow> base_FindOne ?d cx c (Query q) opts; ret (map_sum id JDoc x) });
      ret (as_doc r) }) (\<lambda>r w. ?J w \<and> res (\<lambda>x. ?P (JDoc x)) ?E r)"
    by (rule ht_bind [OF through]) (auto simp: ht_def as_doc_def res_def split: sum.splits)
  have "ht ?J (Cached_FindOne ?d cx c (Query q) opts) (\<lambda>r w. ?J w \<and> res (\<lambda>x. ?P (JDoc x)) ?E r)"
  proof (cases "ReadOptions_Validate opts")
    case None
    then show ?thesis unfolding Cached_FindOne_def redis_stack_sel option.case None by (intro ht_if direct hit)
  next
    case (Some e)
    then have "\<not> errors_Is e DbErrNotFound" by (auto simp: ReadOptions_Validate_def split: if_splits)
    then show ?thesis by (simp add: Cached_FindOne_def Some ht_def)
  qed
  moreover have "?J w" using coherent by (simp add: coherent_at_def cs_def)
  ultimately have "?J w' \<and> res (\<lambda>x. ?P (JDoc x)) ?E r" using run by (rule htD)
  then show ?thesis unfolding cs_def by (cases r) (auto simp: coherent_at_def)
qed

definition demo_user :: doc where
  "demo_user = [(''_id'', BString ''1''), (''email'', BString ''a@b'')]"

definition read_world :: "(mem, mem_kv) world" where
  "read_world = start_world ((\<lambda>_. [])(''users'' := [demo_user])) [''user:id:1'' \<mapsto> RJson (JDoc demo_user)] 0"

definition demo_read :: ReadOptions where
  "demo_read = read_opts\<lparr>ro_CacheKey := ''user:id:1'', ro_CacheTTL := minute, ro_LockOnMiss := True\<rparr>"

theorem FindOne_reads_database_witness:
  "\<exists>w'. run_state (Cached_FindOne (redis_stack mem_driver mem_redis [] True) background ''users''
      (Query [On ''_id'' [CEq (BString ''1'')]]) demo_read) read_world = (Inr demo_user, w') \<and>
     demo_user \<in> set (w_mongo read_world ''users'')"
proof -
  let ?d = "redis_stack mem_driver mem_redis [] True" and ?q = "[On ''_id'' [CEq (BString ''1'')]]"
  have coherent: "\<forall>j. cached (w_redis read_world) (ro_CacheKey demo_read) = Some j \<longrightarrow>
      (\<exists>x. j = JDoc x \<and> x \<in> set (w_mongo read_world ''users'') \<and> matches ?q x)"
    by (simp add: cached_def read_world_def demo_read_def demo_user_def matches_def)
  obtain w' where run: "run_state (Cached_FindOne ?d background ''users'' (Query ?q) demo_read) read_world = (Inr demo_user, w')"
    by (simp add: Cached_FindOne_def ReadOptions_Validate_def demo_read_def read_opts_def minute_def second_def
        transactionInvalidateBufferFromContext_def background_def readThrough_def Redis_Get_def NewRedisWithClient_def
        run_on_redis mem_redis_def read_world_def as_doc_def recordCacheEvent_def)
  show ?thesis
    using run FindOne_reads_database [OF mem_mongo.mongo_server_axioms mem_redis.redis_server_axioms coherent run] by auto
qed

text \<open>
  Inside a transaction the cache is left alone: a write through a transaction context changes
  nothing in Redis, whatever its outcome, and a write that succeeds has put every key it invalidates
  into the buffer of the transaction.
\<close>

lemma transaction_write_defers:
  assumes tx: "ctx_buffer cx = Some b"
    and op: "op \<in> db_writes (redis_stack drv cl p st) cx opts"
    and run: "run_state op w = (r, w')"
  shows "w_redis w' = w_redis w \<and>
         (r = None \<longrightarrow> set (wo_InvalidateKeys opts) - {[]} \<subseteq> set (w_bufs w' b))"
proof -
  let ?d = "redis_stack drv cl p st"
  from db_writes_cached_write [OF op] obtain wr where op_wr: "op = cached_write ?d cx opts wr"
    and wr: "\<And>x. keeps (\<lambda>w. w_redis w = x) wr" by blast
  have inval: "keeps (\<lambda>w. w_redis w = x) (invalidate ?d cx keys)" for x keys
    using tx by (auto simp: invalidate_def transactionInvalidateBufferFromContext_def add_def intro!: keeps_intros keeps_modify)
  have "keeps (\<lambda>w. w_redis w = x) op" for x
    unfolding op_wr cached_write_def using tx
    by (auto simp: transactionInvalidateBufferFromContext_def split: option.splits intro!: keeps_intros wr inval)
  then have "w_redis w' = w_redis w" using run keepsD by fastforce
  moreover have "set (wo_InvalidateKeys opts) - {[]} \<subseteq> set (w_bufs w' b)" if "r = None"
    using run tx that
    by (auto simp: op_wr cached_write_def transactionInvalidateBufferFromContext_def invalidate_def add_def recordCacheEvent_def
        buffer_add_set split: option.splits if_splits prod.splits)
  ultimately show ?thesis by blast
qed

lemma transaction_write_defers_witness:
  "w_redis (snd (run_state (Cached_InsertOne (redis_stack mem_driver mem_redis [] True) (background\<lparr>ctx_buffer := Some 0\<rparr>)
      ''users'' [(''_id'', BString ''1'')] demo_opts) demo_world)) = w_redis demo_world"
proof -
  let ?op = "Cached_InsertOne (redis_stack mem_driver mem_redis [] True) (background\<lparr>ctx_buffer := Some 0\<rparr>) ''users'' [(''_id'', BString ''1'')] demo_opts"
  have op: "?op \<in> db_writes (redis_stack mem_driver mem_redis [] True) (background\<lparr>ctx_buffer := Some 0\<rparr>) demo_opts"
    unfolding db_writes_def by blast
  show ?thesis using transaction_write_defers [OF _ op, of 0 demo_world] by (cases "run_state ?op demo_world") auto
qed

text \<open>
  C24. The transaction's buffered keys are invalidated exactly when it commits: if the transaction
  runner fails, nothing happens after it (no key is invalidated); if it succeeds, every key in the
  buffer of the transaction is gone from the cache, or the failure was recorded as a metric.
\<close>

theorem commit_invalidates_buffer:
  assumes srv: "redis_server cl kv" and out: "ctx_buffer cx = None"
    and run: "run_state (RunInTransaction (redis_stack drv cl p st) (Some runner) cx fn) w = (r, w')"
  shows "\<exists>w1. run_state (runner (cx\<lparr>ctx_buffer := Some (w_nbuf w)\<rparr>) fn)
                 (w\<lparr>w_bufs := (w_bufs w)(w_nbuf w := []), w_nbuf := Suc (w_nbuf w)\<rparr>) = (r, w1) \<and>
           (isl r \<longrightarrow> w' = w1) \<and>
           (\<not> isl r \<longrightarrow> w_mongo w' = w_mongo w1 \<and>
              ((\<forall>k \<in> set (w_bufs w1 (w_nbuf w)). cached (kv (w_redis w')) k = None) \<or>
               MCacheEvent ''write'' ''invalidation_failed'' \<in> set (drop (length (w_metrics w1)) (w_metrics w'))))"
proof -
  let ?d = "redis_stack drv cl p st" and ?b = "w_nbuf w" and ?ca = "Redis_cache (NewRedisWithClient cl p)"
  let ?w0 = "w\<lparr>w_bufs := (w_bufs w)(?b := []), w_nbuf := Suc ?b\<rparr>"
  obtain r1 w1 where r1: "run_state (runner (cx\<lparr>ctx_buffer := Some ?b\<rparr>) fn) ?w0 = (r1, w1)" by fastforce
  show ?thesis
  proof (cases r1)
    case (Inl e)
    then have "r = r1 \<and> w' = w1"
      using run out r1 by (simp add: RunInTransaction_def transactionInvalidateBufferFromContext_def new_buffer_def)
    then show ?thesis using r1 Inl by auto
  next
    case (Inr v)
    let ?keys = "w_bufs w1 ?b"
    obtain b w2 where i: "run_state (invalidate ?d cx ?keys) w1 = (b, w2)" by fastforce
    then have "r = r1 \<and> w' = w2"
      using run out r1 Inr
      by (auto simp: RunInTransaction_def transactionInvalidateBufferFromContext_def new_buffer_def buffer_list_def invalidate_def
          split: prod.splits if_splits)
    then show ?thesis
      using r1 Inr coherent_cache.invalidate_outside [OF redis_server.redis_coherent [OF srv] i out redis_stack_sel(2)]
      by (auto simp: inval_post_def inval_failed_def)
  qed
qed

text \<open>A runner that commits whatever the callback does.\<close>

definition plain_runner :: "('m, 'r, 'a) TransactionRunner" where
  "plain_runner cx fn = fn (cx\<lparr>ctx_in_tx := True\<rparr>)"

theorem commit_invalidates_buffer_witness:
  "cached (w_redis (snd (run_state (RunInTransaction (redis_stack mem_driver mem_redis [] True) (Some plain_runner) background
     (\<lambda>cx. do { r \<leftarrow> Cached_InsertOne (redis_stack mem_driver mem_redis [] True) cx ''users'' [(''_id'', BString ''1'')] demo_opts;
              ret (case r of None \<Rightarrow> Inr () | Some e \<Rightarrow> Inl e) })) demo_world))) ''user:id:1'' = None"
proof -
  let ?d = "redis_stack mem_driver mem_redis [] True"
  let ?fn = "\<lambda>cx. do { r \<leftarrow> Cached_InsertOne ?d cx ''users'' [(''_id'', BString ''1'')] demo_opts;
              ret (case r of None \<Rightarrow> Inr () | Some e \<Rightarrow> Inl e) }"
  let ?run = "run_state (RunInTransaction ?d (Some plain_runner) background ?fn) demo_world"
  note defs = Cached_InsertOne_def cached_write_def WriteOptions_Validate_def demo_opts_def write_opts_def background_def
        transactionInvalidateBufferFromContext_def recordCacheEvent_def Mongo_InsertOne_def mem_driver_def demo_world_def
        run_on_mongo run_on_redis callAndLogDependency_def invalidate_def Redis_Delete_def NewRedisWithClient_def mem_redis_def
        RunInTransaction_def new_buffer_def plain_runner_def buffer_list_def add_def
  have run: "?run = (Inr (), snd ?run)" by (simp add: defs)
  have metrics: "w_metrics (snd ?run) = [MCacheEvent ''write'' ''transaction'', MCacheEvent ''write'' ''invalidated_buffered'']"
    by (simp add: defs)
  have inner: "w_bufs (snd (run_state (plain_runner (background\<lparr>ctx_buffer := Some 0\<rparr>) ?fn)
      (demo_world\<lparr>w_bufs := (w_bufs demo_world)(0 := []), w_nbuf := 1\<rparr>))) 0 = [''user:id:1'']"
    by (simp add: defs)
  show ?thesis
    using commit_invalidates_buffer [OF mem_redis.redis_server_axioms _ run] inner metrics
    by (auto simp: background_def demo_world_def dest!: in_set_dropD)
qed

end
