(* ===== verification/Repositories.thy ===== *)
theory Repositories
  imports Store
begin

text \<open>
  \<open>internal/repository/mongo\<close>: the document codecs, the cache keys and the repositories, each a
  function of the \<open>Database\<close> it is given, and the repository interfaces of \<open>internal/domain\<close> as
  records of computations.

  A struct with \<open>bson\<close> tags is encoded to the list of its fields; decoding an absent field gives the
  zero value. The collections hold documents written by this program only, so a field always has the
  type its tag gives it. A method that returns a pointer and an error answers \<open>Inr None\<close> for
  \<open>(nil, nil)\<close>.
\<close>

section \<open>Interfaces\<close>

record ('m, 'r) UserRepository =
  ur_Create :: "ctx \<Rightarrow> User \<Rightarrow> ('m, 'r, err option) M"
  ur_FindByID :: "ctx \<Rightarrow> string \<Rightarrow> ('m, 'r, err + User option) M"
  ur_FindByEmail :: "ctx \<Rightarrow> string \<Rightarrow> ('m, 'r, err + User option) M"
  ur_EnsureRole :: "ctx \<Rightarrow> string \<Rightarrow> Role \<Rightarrow> time \<Rightarrow> ('m, 'r, err option) M"
  ur_UpdateLastLogin :: "ctx \<Rightarrow> string \<Rightarrow> time \<Rightarrow> ('m, 'r, err option) M"
  ur_RecordLoginFailure :: "ctx \<Rightarrow> string \<Rightarrow> string \<Rightarrow> int \<Rightarrow> time option \<Rightarrow> time \<Rightarrow> ('m, 'r, err option) M"
  ur_ResetLoginFailures :: "ctx \<Rightarrow> string \<Rightarrow> string \<Rightarrow> time \<Rightarrow> ('m, 'r, err option) M"

record ('m, 'r) SessionRepository =
  sr_Create :: "ctx \<Rightarrow> Session \<Rightarrow> ('m, 'r, err option) M"
  sr_FindActiveByID :: "ctx \<Rightarrow> string \<Rightarrow> ('m, 'r, err + Session option) M"
  sr_FindByRefreshTokenHash :: "ctx \<Rightarrow> string \<Rightarrow> ('m, 'r, err + Session option) M"
  sr_RotateRefreshToken :: "ctx \<Rightarrow> string \<Rightarrow> string \<Rightarrow> string \<Rightarrow> time \<Rightarrow> ('m, 'r, err option) M"
  sr_Revoke :: "ctx \<Rightarrow> string \<Rightarrow> string \<Rightarrow> time \<Rightarrow> ('m, 'r, err option) M"
  sr_RevokeAllByUserID :: "ctx \<Rightarrow> string \<Rightarrow> string \<Rightarrow> time \<Rightarrow> ('m, 'r, err option) M"
  sr_RevokeByTokenFamilyID :: "ctx \<Rightarrow> string \<Rightarrow> string \<Rightarrow> time \<Rightarrow> ('m, 'r, err option) M"
  sr_ListActiveByUserID :: "ctx \<Rightarrow> string \<Rightarrow> ('m, 'r, err + Session list) M"

record ('m, 'r) LoginHistoryRepository =
  lr_Append :: "ctx \<Rightarrow> LoginHistory \<Rightarrow> ('m, 'r, err option) M"
  lr_ListByUserID :: "ctx \<Rightarrow> string \<Rightarrow> Pagination \<Rightarrow> ('m, 'r, err + LoginHistory list) M"

record ('m, 'r) AuditLogRepository =
  ar_Append :: "ctx \<Rightarrow> AuditLog \<Rightarrow> ('m, 'r, err option) M"
  ar_List :: "ctx \<Rightarrow> AuditLogFilter \<Rightarrow> Pagination \<Rightarrow> ('m, 'r, err + AuditLog list) M"

record ('m, 'r) RevokedTokenRepository =
  rr_Append :: "ctx \<Rightarrow> RevokedToken \<Rightarrow> ('m, 'r, err option) M"
  rr_FindByTokenID :: "ctx \<Rightarrow> string \<Rightarrow> ('m, 'r, err + RevokedToken option) M"

record ('m, 'r) ErrorEventRepository =
  er_Append :: "ctx \<Rightarrow> ErrorEvent \<Rightarrow> ('m, 'r, err option) M"
  er_List :: "ctx \<Rightarrow> ErrorEventFilter \<Rightarrow> Pagination \<Rightarrow> ('m, 'r, err + ErrorEvent list) M"

section \<open>Fields of documents\<close>

definition get_string :: "doc \<Rightarrow> string \<Rightarrow> string" where
  "get_string d k = (case map_of d k of Some (BString s) \<Rightarrow> s | _ \<Rightarrow> [])"

definition get_int :: "doc \<Rightarrow> string \<Rightarrow> int" where
  "get_int d k = (case map_of d k of Some (BInt i) \<Rightarrow> i | _ \<Rightarrow> 0)"

definition get_bool :: "doc \<Rightarrow> string \<Rightarrow> bool" where
  "get_bool d k = (case map_of d k of Some (BBool b) \<Rightarrow> b | _ \<Rightarrow> False)"

definition get_time :: "doc \<Rightarrow> string \<Rightarrow> time" where
  "get_time d k = (case map_of d k of Some (BDate ms) \<Rightarrow> date_time ms | _ \<Rightarrow> 0)"

definition get_time_ptr :: "doc \<Rightarrow> string \<Rightarrow> time option" where
  "get_time_ptr d k = (case map_of d k of Some (BDate ms) \<Rightarrow> Some (date_time ms) | _ \<Rightarrow> None)"

definition get_strings :: "doc \<Rightarrow> string \<Rightarrow> string list" where
  "get_strings d k = (case map_of d k of Some (BStrings xs) \<Rightarrow> xs | _ \<Rightarrow> [])"

definition get_map :: "doc \<Rightarrow> string \<Rightarrow> (string \<times> string) list" where
  "get_map d k = (case map_of d k of Some (BStringMap m) \<Rightarrow> m | _ \<Rightarrow> [])"

definition omit_time :: "string \<Rightarrow> time option \<Rightarrow> doc" where
  "omit_time k t = (case t of None \<Rightarrow> [] | Some x \<Rightarrow> [(k, bson_date x)])"

definition omit_string :: "string \<Rightarrow> string \<Rightarrow> doc" where
  "omit_string k s = (if s = [] then [] else [(k, BString s)])"

lemmas get_defs = get_string_def get_int_def get_bool_def get_time_def get_time_ptr_def get_strings_def get_map_def

lemma date_time_bson_date: "date_time (t div millisecond) = trunc_ms t"
  by (simp add: date_time_def trunc_ms_def)

lemma map_of_omit [simp]:
  "map_of (omit_time k t @ d) k' = (if k' = k \<and> t \<noteq> None then map_option bson_date t else map_of d k')"
  "map_of (omit_string k s @ d) k' = (if k' = k \<and> s \<noteq> [] then Some (BString s) else map_of d k')"
  by (auto simp: omit_time_def omit_string_def split: option.splits)

lemma map_of_omit_end [simp]:
  "map_of (omit_time k t) k' = (if k' = k then map_option bson_date t else None)"
  "map_of (omit_string k s) k' = (if k' = k \<and> s \<noteq> [] then Some (BString s) else None)"
  by (auto simp: omit_time_def omit_string_def split: option.splits)

section \<open>Keys, time to live, error mapping\<close>

definition userIDKey :: "string \<Rightarrow> string" where "userIDKey uid = ''user:id:'' @ uid"
definition userEmailKey :: "string \<Rightarrow> string" where "userEmailKey email = ''user:email:'' @ email"
definition sessionIDKey :: "string \<Rightarrow> string" where "sessionIDKey sid = ''session:id:'' @ sid"
definition sessionRefreshKey :: "string \<Rightarrow> string" where "sessionRefreshKey hash = ''session:refresh:'' @ hash"
definition userActiveSessionsKey :: "string \<Rightarrow> string" where
  "userActiveSessionsKey userID = ''session:user:'' @ userID @ '':active''"

definition userProfileCacheTTL :: duration where "userProfileCacheTTL = 10 * minute"
definition sessionActiveCacheTTL :: duration where "sessionActiveCacheTTL = 2 * minute"
definition sessionRefreshCacheTTL :: duration where "sessionRefreshCacheTTL = 1 * minute"
definition activeSessionsCacheTTL :: duration where "activeSessionsCacheTTL = 1 * minute"

definition mapWriteError :: "err option \<Rightarrow> err option" where
  "mapWriteError r = (case r of None \<Rightarrow> None
     | Some e \<Rightarrow> if IsDuplicateKeyError e then Some (Sentinel DbErrConflict) else Some e)"

fun unique_strings :: "string list \<Rightarrow> string set \<Rightarrow> string list" where
  "unique_strings [] seen = []"
| "unique_strings (v # vs) seen =
     (if v = [] then unique_strings vs seen
      else if v \<in> seen then unique_strings vs seen
      else v # unique_strings vs (insert v seen))"

definition uniqueStrings :: "string list \<Rightarrow> string list" where
  "uniqueStrings values = unique_strings values {}"

section \<open>Users\<close>

definition userDocumentFromDomain :: "User \<Rightarrow> doc" where
  "userDocumentFromDomain usr =
     [(''_id'', BString (u_ID usr)), (''email'', BString (NormalizeEmail (u_Email usr))),
      (''password_hash'', BString (u_PasswordHash usr)), (''name'', BString (u_Name usr)),
      (''roles'', BStrings (u_Roles usr)), (''status'', BString (u_Status usr)),
      (''failed_login_attempts'', BInt (u_FailedLoginAttempts usr))]
     @ omit_time ''locked_until'' (u_LockedUntil usr)
     @ [(''created_at'', bson_date (u_CreatedAt usr)), (''updated_at'', bson_date (u_UpdatedAt usr))]
     @ omit_time ''last_login_at'' (u_LastLoginAt usr)"

definition user_toDomain :: "doc \<Rightarrow> User" where
  "user_toDomain d =
     \<lparr>u_ID = get_string d ''_id'', u_Email = get_string d ''email'', u_PasswordHash = get_string d ''password_hash'',
      u_Name = get_string d ''name'', u_Roles = get_strings d ''roles'', u_Status = get_string d ''status'',
      u_FailedLoginAttempts = get_int d ''failed_login_attempts'', u_LockedUntil = get_time_ptr d ''locked_until'',
      u_CreatedAt = get_time d ''created_at'', u_UpdatedAt = get_time d ''updated_at'',
      u_LastLoginAt = get_time_ptr d ''last_login_at''\<rparr>"

definition User_Create :: "('m, 'r) Database \<Rightarrow> ctx \<Rightarrow> User \<Rightarrow> ('m, 'r, err option) M" where
  "User_Create db cx usr = do {
     r \<leftarrow> db_InsertOne db cx ''users'' (userDocumentFromDomain usr)
            (write_opts\<lparr>wo_InvalidateKeys := [userIDKey (u_ID usr), userEmailKey (u_Email usr)]\<rparr>);
     ret (mapWriteError r)
   }"

definition id_query :: "string \<Rightarrow> query" where
  "id_query i = [On ''_id'' [CEq (BString i)]]"

definition User_FindByID :: "('m, 'r) Database \<Rightarrow> ctx \<Rightarrow> string \<Rightarrow> ('m, 'r, err + User option) M" where
  "User_FindByID db cx uid = do {
     r \<leftarrow> db_FindOne db cx ''users'' (Query (id_query uid))
            (read_opts\<lparr>ro_CacheKey := userIDKey uid, ro_CacheTTL := userProfileCacheTTL, ro_LockOnMiss := True\<rparr>);
     ret (map_sum id (\<lambda>d. Some (user_toDomain d)) r)
   }"

definition User_FindByEmail :: "('m, 'r) Database \<Rightarrow> ctx \<Rightarrow> string \<Rightarrow> ('m, 'r, err + User option) M" where
  "User_FindByEmail db cx email = do {
     let normalized = NormalizeEmail email;
     r \<leftarrow> db_FindOne db cx ''users'' (Query [On ''email'' [CEq (BString normalized)]])
            (read_opts\<lparr>ro_CacheKey := userEmailKey normalized, ro_CacheTTL := userProfileCacheTTL, ro_LockOnMiss := True\<rparr>);
     ret (map_sum id (\<lambda>d. Some (user_toDomain d)) r)
   }"

definition User_EnsureRole :: "('m, 'r) Database \<Rightarrow> ctx \<Rightarrow> string \<Rightarrow> Role \<Rightarrow> time \<Rightarrow> ('m, 'r, err option) M" where
  "User_EnsureRole db cx userID role updatedAt =
     db_UpdateOne db cx ''users'' (Query (id_query userID))
       [UAddToSet ''roles'' role, USet [(''updated_at'', bson_date updatedAt)]]
       (write_opts\<lparr>wo_LockKey := userIDKey userID, wo_InvalidateKeys := [userIDKey userID]\<rparr>)"

definition User_UpdateLastLogin :: "('m, 'r) Database \<Rightarrow> ctx \<Rightarrow> string \<Rightarrow> time \<Rightarrow> ('m, 'r, err option) M" where
  "User_UpdateLastLogin db cx userID at =
     db_UpdateOne db cx ''users'' (Query (id_query userID))
       [USet [(''last_login_at'', bson_date at), (''updated_at'', bson_date at)]]
       (write_opts\<lparr>wo_LockKey := userIDKey userID, wo_InvalidateKeys := [userIDKey userID]\<rparr>)"

definition User_RecordLoginFailure ::
  "('m, 'r) Database \<Rightarrow> ctx \<Rightarrow> string \<Rightarrow> string \<Rightarrow> int \<Rightarrow> time option \<Rightarrow> time \<Rightarrow> ('m, 'r, err option) M" where
  "User_RecordLoginFailure db cx userID email failedAttempts lockedUntil updatedAt =
     (let normalized = NormalizeEmail email;
          set = [(''failed_login_attempts'', BInt failedAttempts), (''updated_at'', bson_date updatedAt)]
                @ omit_time ''locked_until'' lockedUntil
      in db_UpdateOne db cx ''users'' (Query (id_query userID)) [USet set]
           (write_opts\<lparr>wo_LockKey := userIDKey userID, wo_InvalidateKeys := [userIDKey userID, userEmailKey normalized]\<rparr>))"

definition User_ResetLoginFailures :: "('m, 'r) Database \<Rightarrow> ctx \<Rightarrow> string \<Rightarrow> string \<Rightarrow> time \<Rightarrow> ('m, 'r, err option) M" where
  "User_ResetLoginFailures db cx userID email updatedAt =
     (let normalized = NormalizeEmail email
      in db_UpdateOne db cx ''users'' (Query (id_query userID))
           [USet [(''failed_login_attempts'', BInt 0), (''updated_at'', bson_date updatedAt)], UUnset [''locked_until'']]
           (write_opts\<lparr>wo_LockKey := userIDKey userID, wo_InvalidateKeys := [userIDKey userID, userEmailKey normalized]\<rparr>))"

definition NewUserRepository :: "('m, 'r) Database \<Rightarrow> ('m, 'r) UserRepository" where
  "NewUserRepository db =
     \<lparr>ur_Create = User_Create db, ur_FindByID = User_FindByID db, ur_FindByEmail = User_FindByEmail db,
      ur_EnsureRole = User_EnsureRole db, ur_UpdateLastLogin = User_UpdateLastLogin db,
      ur_RecordLoginFailure = User_RecordLoginFailure db, ur_ResetLoginFailures = User_ResetLoginFailures db\<rparr>"

section \<open>Sessions\<close>

definition sessionDocumentFromDomain :: "Session \<Rightarrow> doc" where
  "sessionDocumentFromDomain s =
     [(''_id'', BString (s_ID s)), (''user_id'', BString (s_UserID s)),
      (''refresh_token_hash'', BString (s_RefreshTokenHash s)),
      (''refresh_token_expires_at'', bson_date (s_RefreshTokenExpiresAt s)),
      (''device_id'', BString (NormalizeDeviceID (s_DeviceID s))), (''device_name'', BString (s_DeviceName s)),
      (''user_agent'', BString (s_UserAgent s)), (''ip'', BString (s_IP s)),
      (''token_family_id'', BString (s_TokenFamilyID s))]
     @ omit_time ''revoked_at'' (s_RevokedAt s) @ omit_string ''revoked_reason'' (s_RevokedReason s)
     @ [(''last_seen_at'', bson_date (s_LastSeenAt s)), (''created_at'', bson_date (s_CreatedAt s)),
        (''updated_at'', bson_date (s_UpdatedAt s))]"

definition session_toDomain :: "doc \<Rightarrow> Session" where
  "session_toDomain d =
     \<lparr>s_ID = get_string d ''_id'', s_UserID = get_string d ''user_id'',
      s_RefreshTokenHash = get_string d ''refresh_token_hash'',
      s_RefreshTokenExpiresAt = get_time d ''refresh_token_expires_at'', s_DeviceID = get_string d ''device_id'',
      s_DeviceName = get_string d ''device_name'', s_UserAgent = get_string d ''user_agent'', s_IP = get_string d ''ip'',
      s_TokenFamilyID = get_string d ''token_family_id'', s_RevokedAt = get_time_ptr d ''revoked_at'',
      s_RevokedReason = get_string d ''revoked_reason'', s_LastSeenAt = get_time d ''last_seen_at'',
      s_CreatedAt = get_time d ''created_at'', s_UpdatedAt = get_time d ''updated_at''\<rparr>"

definition Session_Create :: "('m, 'r) Database \<Rightarrow> ctx \<Rightarrow> Session \<Rightarrow> ('m, 'r, err option) M" where
  "Session_Create db cx session = do {
     r \<leftarrow> db_InsertOne db cx ''sessions'' (sessionDocumentFromDomain session)
            (write_opts\<lparr>wo_InvalidateKeys := [sessionIDKey (s_ID session), sessionRefreshKey (s_RefreshTokenHash session),
                                              userActiveSessionsKey (s_UserID session)]\<rparr>);
     ret (mapWriteError r)
   }"

text \<open>The conditions of an active session: not revoked, not expired at the given time.\<close>

definition active_at :: "time \<Rightarrow> query" where
  "active_at now = [On ''revoked_at'' [CExists False], On ''refresh_token_expires_at'' [CGt (bson_date now)]]"

definition Session_FindActiveByID :: "('m, 'r) Database \<Rightarrow> ctx \<Rightarrow> string \<Rightarrow> ('m, 'r, err + Session option) M" where
  "Session_FindActiveByID db cx sessionID = do {
     now \<leftarrow> time_Now;
     r \<leftarrow> db_FindOne db cx ''sessions'' (Query (id_query sessionID @ active_at now))
            (read_opts\<lparr>ro_CacheKey := sessionIDKey sessionID, ro_CacheTTL := sessionActiveCacheTTL, ro_LockOnMiss := True\<rparr>);
     ret (map_sum id (\<lambda>d. Some (session_toDomain d)) r)
   }"

definition Session_FindByRefreshTokenHash :: "('m, 'r) Database \<Rightarrow> ctx \<Rightarrow> string \<Rightarrow> ('m, 'r, err + Session option) M" where
  "Session_FindByRefreshTokenHash db cx hash = do {
     r \<leftarrow> db_FindOne db cx ''sessions'' (Query [On ''refresh_token_hash'' [CEq (BString hash)]])
            (read_opts\<lparr>ro_CacheKey := sessionRefreshKey hash, ro_CacheTTL := sessionRefreshCacheTTL, ro_LockOnMiss := True\<rparr>);
     ret (map_sum id (\<lambda>d. Some (session_toDomain d)) r)
   }"

definition findActiveByIDNoCache :: "('m, 'r) Database \<Rightarrow> ctx \<Rightarrow> string \<Rightarrow> ('m, 'r, err + doc) M" where
  "findActiveByIDNoCache db cx sessionID = do {
     now \<leftarrow> time_Now;
     db_FindOne db cx ''sessions'' (Query (id_query sessionID @ active_at now)) read_opts
   }"

definition rotate_query :: "string \<Rightarrow> string \<Rightarrow> time \<Rightarrow> query" where
  "rotate_query sessionID oldHash now =
     id_query sessionID @ [On ''refresh_token_hash'' [CEq (BString oldHash)]] @ active_at now"

definition rotate_update :: "string \<Rightarrow> time \<Rightarrow> time \<Rightarrow> update" where
  "rotate_update newHash expiresAt now =
     [USet [(''refresh_token_hash'', BString newHash), (''refresh_token_expires_at'', bson_date expiresAt),
            (''last_seen_at'', bson_date now), (''updated_at'', bson_date now)]]"

definition Session_RotateRefreshToken ::
  "('m, 'r) Database \<Rightarrow> ctx \<Rightarrow> string \<Rightarrow> string \<Rightarrow> string \<Rightarrow> time \<Rightarrow> ('m, 'r, err option) M" where
  "Session_RotateRefreshToken db cx sessionID oldHash newHash expiresAt = do {
     now \<leftarrow> time_Now;
     s \<leftarrow> findActiveByIDNoCache db cx sessionID;
     case s of
       Inl e \<Rightarrow> ret (Some e)
     | Inr session \<Rightarrow>
         db_UpdateOne db cx ''sessions'' (Query (rotate_query sessionID oldHash now)) (rotate_update newHash expiresAt now)
           (write_opts\<lparr>wo_LockKey := sessionIDKey sessionID,
              wo_InvalidateKeys := [sessionIDKey sessionID, sessionRefreshKey oldHash,
                                    userActiveSessionsKey (get_string session ''user_id'')],
              wo_StrictLock := True\<rparr>)
   }"

definition revoke_update :: "string \<Rightarrow> time \<Rightarrow> update" where
  "revoke_update reason revokedAt =
     [USet [(''revoked_at'', bson_date revokedAt), (''revoked_reason'', BString reason), (''updated_at'', bson_date revokedAt)]]"

definition Session_Revoke :: "('m, 'r) Database \<Rightarrow> ctx \<Rightarrow> string \<Rightarrow> string \<Rightarrow> time \<Rightarrow> ('m, 'r, err option) M" where
  "Session_Revoke db cx sessionID reason revokedAt =
     db_UpdateOne db cx ''sessions'' (Query (id_query sessionID)) (revoke_update reason revokedAt)
       (write_opts\<lparr>wo_LockKey := sessionIDKey sessionID, wo_InvalidateKeys := [sessionIDKey sessionID], wo_StrictLock := True\<rparr>)"

text \<open>The two filters with their own \<open>MarshalBSON\<close>; only the first is a \<open>CacheableFilter\<close>.\<close>

definition activeSessionsFilter :: "string \<Rightarrow> filter" where
  "activeSessionsFilter userID =
     Marshaler (Some [''user_id'', userID, ''active'']) (\<lambda>now. On ''user_id'' [CEq (BString userID)] # active_at now)"

definition tokenFamilyActiveSessionsFilter :: "string \<Rightarrow> filter" where
  "tokenFamilyActiveSessionsFilter familyID =
     Marshaler None (\<lambda>now. On ''token_family_id'' [CEq (BString familyID)] # active_at now)"

definition findActiveSessionsByUserIDNoCache :: "('m, 'r) Database \<Rightarrow> ctx \<Rightarrow> string \<Rightarrow> ('m, 'r, err + doc list) M" where
  "findActiveSessionsByUserIDNoCache db cx userID = db_FindMany db cx ''sessions'' (activeSessionsFilter userID) read_opts"

definition findActiveSessionsByTokenFamilyIDNoCache :: "('m, 'r) Database \<Rightarrow> ctx \<Rightarrow> string \<Rightarrow> ('m, 'r, err + doc list) M" where
  "findActiveSessionsByTokenFamilyIDNoCache db cx familyID =
     db_FindMany db cx ''sessions'' (tokenFamilyActiveSessionsFilter familyID) read_opts"

definition unrevoked_of :: "string \<Rightarrow> string \<Rightarrow> query" where
  "unrevoked_of field v = [On field [CEq (BString v)], On ''revoked_at'' [CExists False]]"

definition Session_RevokeAllByUserID :: "('m, 'r) Database \<Rightarrow> ctx \<Rightarrow> string \<Rightarrow> string \<Rightarrow> time \<Rightarrow> ('m, 'r, err option) M" where
  "Session_RevokeAllByUserID db cx userID reason revokedAt = do {
     r \<leftarrow> findActiveSessionsByUserIDNoCache db cx userID;
     case r of
       Inl e \<Rightarrow> ret (Some e)
     | Inr sessions \<Rightarrow>
         db_UpdateMany db cx ''sessions'' (Query (unrevoked_of ''user_id'' userID)) (revoke_update reason revokedAt)
           (write_opts\<lparr>wo_LockKey := userActiveSessionsKey userID,
              wo_InvalidateKeys := uniqueStrings (userActiveSessionsKey userID #
                concat (map (\<lambda>d. [sessionIDKey (get_string d ''_id''), sessionRefreshKey (get_string d ''refresh_token_hash'')]) sessions)),
              wo_StrictLock := True\<rparr>)
   }"

definition Session_RevokeByTokenFamilyID :: "('m, 'r) Database \<Rightarrow> ctx \<Rightarrow> string \<Rightarrow> string \<Rightarrow> time \<Rightarrow> ('m, 'r, err option) M" where
  "Session_RevokeByTokenFamilyID db cx familyID reason revokedAt = do {
     r \<leftarrow> findActiveSessionsByTokenFamilyIDNoCache db cx familyID;
     case r of
       Inl e \<Rightarrow> ret (Some e)
     | Inr sessions \<Rightarrow>
         db_UpdateMany db cx ''sessions'' (Query (unrevoked_of ''token_family_id'' familyID)) (revoke_update reason revokedAt)
           (write_opts\<lparr>wo_LockKey := ''session:family:'' @ familyID,
              wo_InvalidateKeys := uniqueStrings ((''session:family:'' @ familyID) #
                concat (map (\<lambda>d. [sessionIDKey (get_string d ''_id''), sessionRefreshKey (get_string d ''refresh_token_hash''),
                                  userActiveSessionsKey (get_string d ''user_id'')]) sessions)),
              wo_StrictLock := True\<rparr>)
   }"

definition Session_ListActiveByUserID :: "('m, 'r) Database \<Rightarrow> ctx \<Rightarrow> string \<Rightarrow> ('m, 'r, err + Session list) M" where
  "Session_ListActiveByUserID db cx userID = do {
     r \<leftarrow> db_FindMany db cx ''sessions'' (activeSessionsFilter userID)
            (read_opts\<lparr>ro_CacheKey := userActiveSessionsKey userID, ro_CacheTTL := activeSessionsCacheTTL, ro_LockOnMiss := True,
                       ro_Sort := Some [(''last_seen_at'', -1)]\<rparr>);
     ret (map_sum id (map session_toDomain) r)
   }"

definition NewSessionRepository :: "('m, 'r) Database \<Rightarrow> ('m, 'r) SessionRepository" where
  "NewSessionRepository db =
     \<lparr>sr_Create = Session_Create db, sr_FindActiveByID = Session_FindActiveByID db,
      sr_FindByRefreshTokenHash = Session_FindByRefreshTokenHash db, sr_RotateRefreshToken = Session_RotateRefreshToken db,
      sr_Revoke = Session_Revoke db, sr_RevokeAllByUserID = Session_RevokeAllByUserID db,
      sr_RevokeByTokenFamilyID = Session_RevokeByTokenFamilyID db, sr_ListActiveByUserID = Session_ListActiveByUserID db\<rparr>"

section \<open>Login history, audit log, revoked tokens, error events\<close>

definition loginHistoryDocumentFromDomain :: "LoginHistory \<Rightarrow> doc" where
  "loginHistoryDocumentFromDomain e =
     [(''_id'', BString (lh_ID e)), (''user_id'', BString (lh_UserID e)), (''email'', BString (lh_Email e)),
      (''success'', BBool (lh_Success e))]
     @ omit_string ''failure_reason'' (lh_FailureReason e)
     @ [(''ip'', BString (lh_IP e)), (''user_agent'', BString (lh_UserAgent e)),
        (''device_id'', BString (NormalizeDeviceID (lh_DeviceID e))), (''created_at'', bson_date (lh_CreatedAt e))]"

definition loginHistory_toDomain :: "doc \<Rightarrow> LoginHistory" where
  "loginHistory_toDomain d =
     \<lparr>lh_ID = get_string d ''_id'', lh_UserID = get_string d ''user_id'', lh_Email = get_string d ''email'',
      lh_Success = get_bool d ''success'', lh_FailureReason = get_string d ''failure_reason'', lh_IP = get_string d ''ip'',
      lh_UserAgent = get_string d ''user_agent'', lh_DeviceID = get_string d ''device_id'', lh_CreatedAt = get_time d ''created_at''\<rparr>"

definition LoginHistory_Append :: "('m, 'r) Database \<Rightarrow> ctx \<Rightarrow> LoginHistory \<Rightarrow> ('m, 'r, err option) M" where
  "LoginHistory_Append db cx event = do {
     r \<leftarrow> db_InsertOne db cx ''login_history'' (loginHistoryDocumentFromDomain event) write_opts;
     ret (mapWriteError r)
   }"

text \<open>Newest first, one page.\<close>

definition page_opts :: "Pagination \<Rightarrow> ReadOptions" where
  "page_opts pg = read_opts\<lparr>ro_Limit := pg_Limit pg, ro_Offset := pg_Offset pg, ro_Sort := Some [(''created_at'', -1)]\<rparr>"

definition LoginHistory_ListByUserID :: "('m, 'r) Database \<Rightarrow> ctx \<Rightarrow> string \<Rightarrow> Pagination \<Rightarrow> ('m, 'r, err + LoginHistory list) M" where
  "LoginHistory_ListByUserID db cx userID pagination = do {
     let pg = Normalized pagination 20 100;
     r \<leftarrow> db_FindMany db cx ''login_history'' (Query [On ''user_id'' [CEq (BString userID)]]) (page_opts pg);
     ret (map_sum id (map loginHistory_toDomain) r)
   }"

definition NewLoginHistoryRepository :: "('m, 'r) Database \<Rightarrow> ('m, 'r) LoginHistoryRepository" where
  "NewLoginHistoryRepository db = \<lparr>lr_Append = LoginHistory_Append db, lr_ListByUserID = LoginHistory_ListByUserID db\<rparr>"

definition auditLogDocumentFromDomain :: "AuditLog \<Rightarrow> doc" where
  "auditLogDocumentFromDomain e =
     [(''_id'', BString (al_ID e)), (''actor_user_id'', BString (al_ActorUserID e)), (''action'', BString (al_Action e)),
      (''resource_type'', BString (al_ResourceType e)), (''resource_id'', BString (al_ResourceID e)), (''ip'', BString (al_IP e)),
      (''user_agent'', BString (al_UserAgent e)), (''request_id'', BString (al_RequestID e)),
      (''metadata'', BStringMap (al_Metadata e)), (''created_at'', bson_date (al_CreatedAt e))]"

definition auditLog_toDomain :: "doc \<Rightarrow> AuditLog" where
  "auditLog_toDomain d =
     \<lparr>al_ID = get_string d ''_id'', al_ActorUserID = get_string d ''actor_user_id'', al_Action = get_string d ''action'',
      al_ResourceType = get_string d ''resource_type'', al_ResourceID = get_string d ''resource_id'', al_IP = get_string d ''ip'',
      al_UserAgent = get_string d ''user_agent'', al_RequestID = get_string d ''request_id'',
      al_Metadata = get_map d ''metadata'', al_CreatedAt = get_time d ''created_at''\<rparr>"

definition AuditLog_Append :: "('m, 'r) Database \<Rightarrow> ctx \<Rightarrow> AuditLog \<Rightarrow> ('m, 'r, err option) M" where
  "AuditLog_Append db cx event = do {
     r \<leftarrow> db_InsertOne db cx ''audit_logs'' (auditLogDocumentFromDomain event) write_opts;
     ret (mapWriteError r)
   }"

text \<open>The shared pieces of the filters: an equality when the value is given, a range on a date field.\<close>

definition eq_clause :: "string \<Rightarrow> string \<Rightarrow> query" where
  "eq_clause field v = (if v \<noteq> [] then [On field [CEq (BString v)]] else [])"

definition range_clause :: "string \<Rightarrow> time \<Rightarrow> time \<Rightarrow> query" where
  "range_clause field from to =
     (if \<not> IsZero from \<or> \<not> IsZero to
      then [On field ((if \<not> IsZero from then [CGte (bson_date from)] else [])
                      @ (if \<not> IsZero to then [CLte (bson_date to)] else []))]
      else [])"

definition audit_query :: "AuditLogFilter \<Rightarrow> query" where
  "audit_query f =
     eq_clause ''actor_user_id'' (af_ActorUserID f) @ eq_clause ''action'' (af_Action f)
     @ eq_clause ''resource_type'' (af_ResourceType f) @ eq_clause ''resource_id'' (af_ResourceID f)
     @ eq_clause ''request_id'' (af_RequestID f) @ range_clause ''created_at'' (af_From f) (af_To f)"

definition AuditLog_List :: "('m, 'r) Database \<Rightarrow> ctx \<Rightarrow> AuditLogFilter \<Rightarrow> Pagination \<Rightarrow> ('m, 'r, err + AuditLog list) M" where
  "AuditLog_List db cx f pagination = do {
     let pg = Normalized pagination 20 100;
     r \<leftarrow> db_FindMany db cx ''audit_logs'' (Query (audit_query f)) (page_opts pg);
     ret (map_sum id (map auditLog_toDomain) r)
   }"

definition NewAuditLogRepository :: "('m, 'r) Database \<Rightarrow> ('m, 'r) AuditLogRepository" where
  "NewAuditLogRepository db = \<lparr>ar_Append = AuditLog_Append db, ar_List = AuditLog_List db\<rparr>"

definition revokedTokenDocumentFromDomain :: "RevokedToken \<Rightarrow> doc" where
  "revokedTokenDocumentFromDomain t =
     [(''_id'', BString (rt_TokenID t)), (''user_id'', BString (rt_UserID t)), (''session_id'', BString (rt_SessionID t)),
      (''expires_at'', bson_date (rt_ExpiresAt t)), (''revoked_at'', bson_date (rt_RevokedAt t))]"

definition revokedToken_toDomain :: "doc \<Rightarrow> RevokedToken" where
  "revokedToken_toDomain d =
     \<lparr>rt_TokenID = get_string d ''_id'', rt_UserID = get_string d ''user_id'', rt_SessionID = get_string d ''session_id'',
      rt_ExpiresAt = get_time d ''expires_at'', rt_RevokedAt = get_time d ''revoked_at''\<rparr>"

definition RevokedToken_Append :: "('m, 'r) Database \<Rightarrow> ctx \<Rightarrow> RevokedToken \<Rightarrow> ('m, 'r, err option) M" where
  "RevokedToken_Append db cx token = do {
     r \<leftarrow> db_InsertOne db cx ''revoked_tokens'' (revokedTokenDocumentFromDomain token) write_opts;
     ret (mapWriteError r)
   }"

definition RevokedToken_FindByTokenID :: "('m, 'r) Database \<Rightarrow> ctx \<Rightarrow> string \<Rightarrow> ('m, 'r, err + RevokedToken option) M" where
  "RevokedToken_FindByTokenID db cx tokenID = do {
     r \<leftarrow> db_FindOne db cx ''revoked_tokens'' (Query (id_query tokenID)) read_opts;
     ret (map_sum id (\<lambda>d. Some (revokedToken_toDomain d)) r)
   }"

definition NewRevokedTokenRepository :: "('m, 'r) Database \<Rightarrow> ('m, 'r) RevokedTokenRepository" where
  "NewRevokedTokenRepository db = \<lparr>rr_Append = RevokedToken_Append db, rr_FindByTokenID = RevokedToken_FindByTokenID db\<rparr>"

text \<open>
  An error event has no identifier of its own: the driver adds an \<open>_id\<close> it generates when the
  document is encoded; the generator is an argument here.
\<close>

definition errorEventDocumentFromDomain :: "string \<Rightarrow> ErrorEvent \<Rightarrow> doc" where
  "errorEventDocumentFromDomain oid e =
     [(''_id'', BString oid), (''request_id'', BString (ee_RequestID e)), (''error_code'', BString (ee_ErrorCode e))]
     @ omit_string ''operation'' (ee_Operation e) @ [(''message'', BString (ee_Message e))]
     @ omit_string ''cause'' (ee_Cause e) @ omit_string ''stack'' (ee_Stack e)
     @ [(''path'', BString (ee_Path e)), (''method'', BString (ee_Method e)), (''status'', BInt (ee_Status e))]
     @ omit_string ''user_id'' (ee_UserID e) @ [(''created_at'', bson_date (ee_CreatedAt e))]"

definition errorEvent_toDomain :: "doc \<Rightarrow> ErrorEvent" where
  "errorEvent_toDomain d =
     \<lparr>ee_RequestID = get_string d ''request_id'', ee_ErrorCode = get_string d ''error_code'',
      ee_Operation = get_string d ''operation'', ee_Message = get_string d ''message'', ee_Cause = get_string d ''cause'',
      ee_Stack = get_string d ''stack'', ee_Path = get_string d ''path'', ee_Method = get_string d ''method'',
      ee_Status = get_int d ''status'', ee_UserID = get_string d ''user_id'', ee_CreatedAt = get_time d ''created_at''\<rparr>"

definition ErrorEvent_Append :: "('m, 'r, string) M \<Rightarrow> ('m, 'r) Database \<Rightarrow> ctx \<Rightarrow> ErrorEvent \<Rightarrow> ('m, 'r, err option) M" where
  "ErrorEvent_Append new_oid db cx event = do {
     oid \<leftarrow> new_oid;
     r \<leftarrow> db_InsertOne db cx ''error_events'' (errorEventDocumentFromDomain oid event) write_opts;
     ret (mapWriteError r)
   }"

definition error_query :: "ErrorEventFilter \<Rightarrow> query" where
  "error_query f =
     eq_clause ''error_code'' (ef_ErrorCode f) @ eq_clause ''request_id'' (ef_RequestID f)
     @ eq_clause ''operation'' (ef_Operation f)
     @ (if ef_Status f \<noteq> 0 then [On ''status'' [CEq (BInt (ef_Status f))]] else [])
     @ range_clause ''created_at'' (ef_From f) (ef_To f)"

definition ErrorEvent_List :: "('m, 'r) Database \<Rightarrow> ctx \<Rightarrow> ErrorEventFilter \<Rightarrow> Pagination \<Rightarrow> ('m, 'r, err + ErrorEvent list) M" where
  "ErrorEvent_List db cx f pagination = do {
     let pg = Normalized pagination 20 100;
     r \<leftarrow> db_FindMany db cx ''error_events'' (Query (error_query f)) (page_opts pg);
     ret (map_sum id (map errorEvent_toDomain) r)
   }"

definition NewErrorEventRepository :: "('m, 'r, string) M \<Rightarrow> ('m, 'r) Database \<Rightarrow> ('m, 'r) ErrorEventRepository" where
  "NewErrorEventRepository new_oid db = \<lparr>er_Append = ErrorEvent_Append new_oid db, er_List = ErrorEvent_List db\<rparr>"

section \<open>Monitoring statistics\<close>

text \<open>\<open>filter[field] = rangeFilter\<close> replaces the condition the filter had on that field, if any.\<close>

definition withTimeRange :: "query \<Rightarrow> time \<Rightarrow> time \<Rightarrow> string \<Rightarrow> query" where
  "withTimeRange q from to field =
     (if IsZero from \<and> IsZero to then q
      else List.filter (\<lambda>c. case c of On k _ \<Rightarrow> k \<noteq> field | _ \<Rightarrow> True) q @ range_clause field from to)"

definition GetAuthStats :: "('m, 'r) Database \<Rightarrow> ctx \<Rightarrow> time \<Rightarrow> time \<Rightarrow> ('m, 'r, err + AuthStats) M" where
  "GetAuthStats db cx from to = do {
     r1 \<leftarrow> db_Count db cx ''login_history'' (Query (withTimeRange [On ''success'' [CEq (BBool True)]] from to ''created_at''));
     case r1 of Inl e \<Rightarrow> ret (Inl e) | Inr loginSuccess \<Rightarrow> do {
     r2 \<leftarrow> db_Count db cx ''login_history'' (Query (withTimeRange [On ''success'' [CEq (BBool False)]] from to ''created_at''));
     case r2 of Inl e \<Rightarrow> ret (Inl e) | Inr loginFailure \<Rightarrow> do {
     r3 \<leftarrow> db_Count db cx ''sessions'' (Query [On ''revoked_at'' [CExists False]]);
     case r3 of Inl e \<Rightarrow> ret (Inl e) | Inr activeSessions \<Rightarrow> do {
     r4 \<leftarrow> db_Count db cx ''sessions'' (Query (withTimeRange [On ''revoked_at'' [CExists True]] from to ''revoked_at''));
     case r4 of Inl e \<Rightarrow> ret (Inl e) | Inr revokedSessions \<Rightarrow> do {
     r5 \<leftarrow> db_Count db cx ''audit_logs'' (Query (withTimeRange [On ''action'' [CEq (BString ''auth.refresh'')]] from to ''created_at''));
     case r5 of Inl e \<Rightarrow> ret (Inl e) | Inr refreshCount \<Rightarrow> do {
     r6 \<leftarrow> db_Count db cx ''audit_logs''
             (Query (withTimeRange [On ''action'' [CIn [BString ''auth.logout'', BString ''auth.logout_all'']]] from to ''created_at''));
     case r6 of Inl e \<Rightarrow> ret (Inl e) | Inr logoutCount \<Rightarrow>
     ret (Inr \<lparr>as_LoginSuccessCount = loginSuccess, as_LoginFailureCount = loginFailure,
               as_ActiveSessionCount = activeSessions, as_RevokedSessionCount = revokedSessions,
               as_RefreshCount = refreshCount, as_LogoutCount = logoutCount, as_From = from, as_To = to\<rparr>)
     }}}}}
   }"

section \<open>Codecs\<close>

lemmas codec_defs = userDocumentFromDomain_def user_toDomain_def sessionDocumentFromDomain_def session_toDomain_def
  loginHistoryDocumentFromDomain_def loginHistory_toDomain_def auditLogDocumentFromDomain_def auditLog_toDomain_def
  revokedTokenDocumentFromDomain_def revokedToken_toDomain_def errorEventDocumentFromDomain_def errorEvent_toDomain_def

text \<open>
  C32. Storing and loading a session gives the session back, with its device identifier normalised
  and its times truncated to the milliseconds BSON keeps; no other field is lost or mixed up.
\<close>

theorem session_codec_roundtrip:
  "session_toDomain (sessionDocumentFromDomain s) =
     s\<lparr>s_DeviceID := NormalizeDeviceID (s_DeviceID s), s_RefreshTokenExpiresAt := trunc_ms (s_RefreshTokenExpiresAt s),
       s_RevokedAt := map_option trunc_ms (s_RevokedAt s), s_LastSeenAt := trunc_ms (s_LastSeenAt s),
       s_CreatedAt := trunc_ms (s_CreatedAt s), s_UpdatedAt := trunc_ms (s_UpdatedAt s)\<rparr>"
  by (cases "s_RevokedAt s") (simp_all add: codec_defs get_defs bson_date_def date_time_bson_date del: map_of_append)

text \<open>
  Storing and loading a user gives the user back, with the email normalised and the times
  truncated to milliseconds.
\<close>

lemma user_codec_roundtrip:
  "user_toDomain (userDocumentFromDomain u) =
     u\<lparr>u_Email := NormalizeEmail (u_Email u), u_LockedUntil := map_option trunc_ms (u_LockedUntil u),
       u_CreatedAt := trunc_ms (u_CreatedAt u), u_UpdatedAt := trunc_ms (u_UpdatedAt u),
       u_LastLoginAt := map_option trunc_ms (u_LastLoginAt u)\<rparr>"
  by (cases "u_LockedUntil u"; cases "u_LastLoginAt u") (simp_all add: codec_defs get_defs bson_date_def date_time_bson_date del: map_of_append)

text \<open>
  C33. The other records survive storage: users, audit log entries, login history entries, revoked
  tokens and error events are read back as written, up to the millisecond resolution of dates, the
  normalised email address and the normalised device identifier.
\<close>

theorem event_codecs_roundtrip:
  "user_toDomain (userDocumentFromDomain u) =
     u\<lparr>u_Email := NormalizeEmail (u_Email u), u_LockedUntil := map_option trunc_ms (u_LockedUntil u),
       u_CreatedAt := trunc_ms (u_CreatedAt u), u_UpdatedAt := trunc_ms (u_UpdatedAt u),
       u_LastLoginAt := map_option trunc_ms (u_LastLoginAt u)\<rparr> \<and>
   auditLog_toDomain (auditLogDocumentFromDomain a) = a\<lparr>al_CreatedAt := trunc_ms (al_CreatedAt a)\<rparr> \<and>
   loginHistory_toDomain (loginHistoryDocumentFromDomain h) =
     h\<lparr>lh_DeviceID := NormalizeDeviceID (lh_DeviceID h), lh_CreatedAt := trunc_ms (lh_CreatedAt h)\<rparr> \<and>
   revokedToken_toDomain (revokedTokenDocumentFromDomain t) =
     t\<lparr>rt_ExpiresAt := trunc_ms (rt_ExpiresAt t), rt_RevokedAt := trunc_ms (rt_RevokedAt t)\<rparr> \<and>
   errorEvent_toDomain (errorEventDocumentFromDomain oid e) = e\<lparr>ee_CreatedAt := trunc_ms (ee_CreatedAt e)\<rparr>"
  unfolding user_codec_roundtrip by (simp add: codec_defs get_defs bson_date_def date_time_bson_date del: map_of_append)

end
