(* ===== verification/Base64.thy ===== *)
theory Base64
  imports Prelude
begin

text \<open>
  \<open>base64.RawURLEncoding\<close> of Go's standard library, which the token service uses for signing keys
  and refresh tokens: the URL alphabet, no padding, carriage returns and newlines skipped on input.
\<close>

definition b64_char :: "nat \<Rightarrow> char" where
  "b64_char n = (if n < 26 then char_of (65 + n) else if n < 52 then char_of (71 + n)
                 else if n < 62 then char_of (n - 4) else if n = 62 then CHR ''-'' else CHR ''_'')"

definition b64_value :: "char \<Rightarrow> nat option" where
  "b64_value c = (let n = (of_char c :: nat) in
     if 65 \<le> n \<and> n \<le> 90 then Some (n - 65) else if 97 \<le> n \<and> n \<le> 122 then Some (n - 71)
     else if 48 \<le> n \<and> n \<le> 57 then Some (n + 4) else if n = 45 then Some 62 else if n = 95 then Some 63 else None)"

fun sextets :: "bytes \<Rightarrow> nat list" where
  "sextets [] = []"
| "sextets [a] = [unat a div 4, unat a mod 4 * 16]"
| "sextets [a, b] = [unat a div 4, unat a mod 4 * 16 + unat b div 16, unat b mod 16 * 4]"
| "sextets (a # b # c # bs) =
     unat a div 4 # (unat a mod 4 * 16 + unat b div 16) # (unat b mod 16 * 4 + unat c div 64) # unat c mod 64 # sextets bs"

definition EncodeToString :: "bytes \<Rightarrow> string" where
  "EncodeToString bs = map b64_char (sextets bs)"

fun octets :: "nat list \<Rightarrow> bytes option" where
  "octets [] = Some []"
| "octets [p] = None"
| "octets [p, q] = Some [of_nat (p * 4 + q div 16)]"
| "octets [p, q, r] = Some [of_nat (p * 4 + q div 16), of_nat (q mod 16 * 16 + r div 4)]"
| "octets (p # q # r # s # vs) =
     map_option (\<lambda>bs. of_nat (p * 4 + q div 16) # of_nat (q mod 16 * 16 + r div 4) # of_nat (r mod 4 * 64 + s) # bs) (octets vs)"

fun values_of :: "string \<Rightarrow> nat list option" where
  "values_of [] = Some []"
| "values_of (c # s) =
     (if c \<in> {CHR 0x0D, CHR 0x0A} then values_of s
      else case b64_value c of None \<Rightarrow> None | Some v \<Rightarrow> map_option (Cons v) (values_of s))"

definition DecodeString :: "string \<Rightarrow> bytes option" where
  "DecodeString s = (case values_of s of None \<Rightarrow> None | Some vs \<Rightarrow> octets vs)"

lemma b64_value_char: "n < 64 \<Longrightarrow> b64_value (b64_char n) = Some n"
  by (auto simp: b64_value_def b64_char_def Let_def)

lemma b64_char_no_newline: "n < 64 \<Longrightarrow> b64_char n \<notin> {CHR 0x0D, CHR 0x0A}"
proof -
  assume "n < 64"
  then have "b64_value (b64_char n) \<noteq> None" by (simp add: b64_value_char)
  moreover have "b64_value CHR 0x0D = None" "b64_value CHR 0x0A = None" by (simp_all add: b64_value_def)
  ultimately show ?thesis by (metis empty_iff insert_iff)
qed

lemma byte_lt: "unat (a :: byte) < 256"
  using unsigned_less [of a] by simp

lemma sextets_lt: "v \<in> set (sextets bs) \<Longrightarrow> v < 64"
proof (induction bs rule: sextets.induct)
  case (4 a b c bs)
  then show ?case using byte_lt [of a] byte_lt [of b] byte_lt [of c] by auto
next
  case (3 a b)
  then show ?case using byte_lt [of a] byte_lt [of b] by auto
next
  case (2 a)
  then show ?case using byte_lt [of a] by auto
qed simp

lemma values_of_map: "(\<forall>v \<in> set vs. v < 64) \<Longrightarrow> values_of (map b64_char vs) = Some vs"
  by (induction vs) (use b64_char_no_newline b64_value_char in auto)

lemma first_octet: "(of_nat (unat (a :: byte) div 4 * 4 + (unat a mod 4 * 16 + x) div 16) :: byte) = a" if "x < 16"
proof -
  have "(unat a mod 4 * 16 + x) div 16 = unat a mod 4" using that by simp
  then show ?thesis by (simp add: div_mult_mod_eq)
qed

lemma second_octet: "(of_nat ((y * 16 + unat (b :: byte) div 16) mod 16 * 16 + (unat b mod 16 * 4 + x) div 4) :: byte) = b" if "x < 4"
proof -
  have "(y * 16 + unat b div 16) mod 16 = unat b div 16" using byte_lt [of b] by simp
  moreover have "(unat b mod 16 * 4 + x) div 4 = unat b mod 16" using that by simp
  ultimately show ?thesis by (simp add: div_mult_mod_eq)
qed

lemma third_octet: "(of_nat ((y * 4 + unat (c :: byte) div 64) mod 4 * 64 + unat c mod 64) :: byte) = c"
proof -
  have "(y * 4 + unat c div 64) mod 4 = unat c div 64" using byte_lt [of c] by simp
  then show ?thesis by (simp add: div_mult_mod_eq)
qed

lemma octets_sextets: "octets (sextets bs) = Some bs"
proof (induction bs rule: sextets.induct)
  case (2 a)
  show ?case using first_octet [of 0 a] by simp
next
  case (3 a b)
  then show ?case
    using first_octet [of "unat b div 16" a] second_octet [of 0 "unat a mod 4" b] byte_lt [of b] by simp
next
  case (4 a b c bs)
  then show ?case
    using first_octet [of "unat b div 16" a] second_octet [of "unat c div 64" "unat a mod 4" b]
      third_octet [of "unat b mod 16" c] byte_lt [of b] byte_lt [of c] by simp
qed simp

lemma Decode_Encode: "DecodeString (EncodeToString bs) = Some bs"
  using values_of_map [of "sextets bs"] sextets_lt by (simp add: DecodeString_def EncodeToString_def octets_sextets)

lemma EncodeToString_inj: "EncodeToString bs = EncodeToString cs \<Longrightarrow> bs = cs"
  by (metis Decode_Encode option.inject)

end
