(* ===== verification/TokenService.thy ===== *)
theory TokenService
  imports Repositories Base64
begin

text \<open>
  \<open>internal/app/auth/token_service.go\<close> and \<open>password.go\<close>: signing keys, access and refresh tokens,
  the blacklist with its Redis cache and MongoDB fallback, password hashing.

  The JWT library, SHA-256 and bcrypt are parameters: a record for the first and the last, a function
  from text to bytes for the hash. The locale \<open>jwt_contract\<close> states what \<open>ParseWithClaims\<close> documents:
  it accepts a token only after the key function has given a key for it and the token verifies
  under that key.
\<close>

section \<open>Libraries\<close>

datatype claim = CStr string | CNum int | CList "claim list" | CNull

type_synonym claims = "(string \<times> claim) list"

record jtoken =
  jt_Method :: string
  jt_Header :: claims
  jt_Claims :: claims
  jt_Valid :: bool

record ('m, 'r) jwt_lib =
  jl_SignedString :: "string \<Rightarrow> claims \<Rightarrow> claims \<Rightarrow> bytes \<Rightarrow> err + string"
  jl_ParseWithClaims :: "string \<Rightarrow> (jtoken \<Rightarrow> ('m, 'r, err + bytes) M) \<Rightarrow> ('m, 'r, time) M \<Rightarrow> ('m, 'r, err + jtoken) M"

record ('m, 'r) bcrypt_lib =
  bc_GenerateFromPassword :: "string \<Rightarrow> int \<Rightarrow> ('m, 'r, err + string) M"
  bc_CompareHashAndPassword :: "string \<Rightarrow> string \<Rightarrow> err option"

definition claim_string :: "claims \<Rightarrow> string \<Rightarrow> string" where
  "claim_string cs k = (case map_of cs k of Some (CStr s) \<Rightarrow> s | _ \<Rightarrow> [])"

definition claim_number :: "claims \<Rightarrow> string \<Rightarrow> int" where
  "claim_number cs k = (case map_of cs k of Some (CNum n) \<Rightarrow> n | _ \<Rightarrow> 0)"

section \<open>Passwords\<close>

record ('m, 'r) PasswordHasher =
  ph_Hash :: "string \<Rightarrow> ('m, 'r, err + string) M"
  ph_Compare :: "string \<Rightarrow> string \<Rightarrow> err option"

definition DefaultCost :: int where "DefaultCost = 10"

definition Bcrypt_Hash :: "('m, 'r) bcrypt_lib \<Rightarrow> int \<Rightarrow> string \<Rightarrow> ('m, 'r, err + string) M" where
  "Bcrypt_Hash bc hasherCost password =
     (let cost = (if hasherCost = 0 then DefaultCost else hasherCost)
      in bc_GenerateFromPassword bc password cost)"

definition Bcrypt_Compare :: "('m, 'r) bcrypt_lib \<Rightarrow> string \<Rightarrow> string \<Rightarrow> err option" where
  "Bcrypt_Compare bc hash password = bc_CompareHashAndPassword bc hash password"

definition BcryptHasher :: "('m, 'r) bcrypt_lib \<Rightarrow> int \<Rightarrow> ('m, 'r) PasswordHasher" where
  "BcryptHasher bc cost = \<lparr>ph_Hash = Bcrypt_Hash bc cost, ph_Compare = Bcrypt_Compare bc\<rparr>"

section \<open>Keys\<close>

record JWTKey =
  jk_ID :: string
  jk_Secret :: bytes
  jk_NotAfter :: time

record TokenConfig =
  tc_CurrentKey :: string
  tc_PreviousKey :: string
  tc_PreviousNotAfter :: time
  tc_AccessTTL :: duration
  tc_RefreshTTL :: duration

record ('m, 'r) TokenService =
  ts_current :: JWTKey
  ts_previous :: "JWTKey option"
  ts_accessTTL :: duration
  ts_refreshTTL :: duration
  ts_cache :: "('m, 'r) Cache option"
  ts_revoked :: "('m, 'r) RevokedTokenRepository option"
  ts_jwt :: "('m, 'r) jwt_lib"
  ts_sha256 :: "string \<Rightarrow> bytes"

definition ParseJWTKey :: "string \<Rightarrow> time \<Rightarrow> err + JWTKey" where
  "ParseJWTKey value notAfter =
     (let parts = SplitN2 (TrimSpace value) CHR ''/''
      in if length parts \<noteq> 2 \<or> parts ! 0 = [] \<or> parts ! 1 = []
         then Inl (Errorf ''jwt key must use <key-id>/<base64-secret> format'' None)
         else case DecodeString (parts ! 1) of
                None \<Rightarrow> Inl (Errorf ''decode jwt secret: illegal base64 data'' None)
              | Some secret \<Rightarrow>
                  if length secret < 16 then Inl (Errorf ''jwt secret must be at least 16 bytes'' None)
                  else Inr \<lparr>jk_ID = parts ! 0, jk_Secret = secret, jk_NotAfter = notAfter\<rparr>)"

definition NewTokenService ::
  "('m, 'r) jwt_lib \<Rightarrow> (string \<Rightarrow> bytes) \<Rightarrow> TokenConfig \<Rightarrow> ('m, 'r) Cache option \<Rightarrow> ('m, 'r) RevokedTokenRepository option
     \<Rightarrow> err + ('m, 'r) TokenService" where
  "NewTokenService jwt sha cfg cacheStore revoked =
     (case ParseJWTKey (tc_CurrentKey cfg) 0 of
        Inl e \<Rightarrow> Inl (Errorf ''parse current jwt key'' (Some e))
      | Inr current \<Rightarrow>
          (case (if TrimSpace (tc_PreviousKey cfg) \<noteq> []
                 then map_sum id Some (ParseJWTKey (tc_PreviousKey cfg) (tc_PreviousNotAfter cfg)) else Inr None) of
             Inl e \<Rightarrow> Inl (Errorf ''parse previous jwt key'' (Some e))
           | Inr previous \<Rightarrow>
               if tc_AccessTTL cfg \<le> 0 then Inl (Errorf ''access ttl must be positive'' None)
               else if tc_RefreshTTL cfg \<le> 0 then Inl (Errorf ''refresh ttl must be positive'' None)
               else Inr \<lparr>ts_current = current, ts_previous = previous, ts_accessTTL = tc_AccessTTL cfg,
                         ts_refreshTTL = tc_RefreshTTL cfg, ts_cache = cacheStore, ts_revoked = revoked,
                         ts_jwt = jwt, ts_sha256 = sha\<rparr>))"

definition keyForID :: "('m, 'r) TokenService \<Rightarrow> string \<Rightarrow> ('m, 'r, err + JWTKey) M" where
  "keyForID s kid = do {
     now \<leftarrow> time_Now;
     ret (if kid = jk_ID (ts_current s) then Inr (ts_current s)
          else case ts_previous s of
            None \<Rightarrow> Inl (Errorf ''unknown jwt key id'' None)
          | Some prev \<Rightarrow>
              if kid = jk_ID prev then
                (if \<not> IsZero (jk_NotAfter prev) \<and> After now (jk_NotAfter prev)
                 then Inl (AppErr (TokenExpired ''previous jwt key expired'')) else Inr prev)
              else Inl (Errorf ''unknown jwt key id'' None))
   }"

section \<open>Access tokens\<close>

definition SigningMethodHS256 :: string where "SigningMethodHS256 = ''HS256''"

definition access_claims :: "AccessClaims \<Rightarrow> time \<Rightarrow> time \<Rightarrow> claims" where
  "access_claims claims now expiresAt =
     [(''sub'', CStr (ac_UserID claims)), (''session_id'', CStr (ac_SessionID claims)), (''jti'', CStr (ac_TokenID claims)),
      (''roles'', CList (map CStr (ac_Roles claims))), (''iat'', CNum (time_Unix now)), (''exp'', CNum (time_Unix expiresAt))]"

definition GenerateAccessToken :: "('m, 'r) TokenService \<Rightarrow> ctx \<Rightarrow> AccessClaims \<Rightarrow> ('m, 'r, err + string \<times> time) M" where
  "GenerateAccessToken s cx claims = do {
     now \<leftarrow> time_Now;
     let expiresAt = time_Add now (ts_accessTTL s);
     ret (case jl_SignedString (ts_jwt s) SigningMethodHS256 [(''kid'', CStr (jk_ID (ts_current s)))]
                 (access_claims claims now expiresAt) (jk_Secret (ts_current s)) of
            Inl e \<Rightarrow> Inl e
          | Inr token \<Rightarrow> Inr (token, expiresAt))
   }"

fun role_strings :: "claim list \<Rightarrow> string list" where
  "role_strings [] = []"
| "role_strings (CStr r # rs) = r # role_strings rs"
| "role_strings (_ # rs) = role_strings rs"

definition mapAccessClaims :: "claims \<Rightarrow> claims \<Rightarrow> err + AccessClaims" where
  "mapAccessClaims header claims =
     (let userID = claim_string claims ''sub''; sessionID = claim_string claims ''session_id'';
          tokenID = claim_string claims ''jti''
      in if userID = [] \<or> sessionID = [] \<or> tokenID = [] then Inl (Errorf ''missing required access claims'' None)
         else Inr \<lparr>ac_UserID = userID, ac_SessionID = sessionID, ac_TokenID = tokenID,
                   ac_Roles = (case map_of claims ''roles'' of Some (CList rs) \<Rightarrow> role_strings rs | _ \<Rightarrow> []),
                   ac_IssuedAt = Unix_time (claim_number claims ''iat''), ac_ExpiresAt = Unix_time (claim_number claims ''exp''),
                   ac_KeyID = claim_string header ''kid''\<rparr>)"

definition HashRefreshToken :: "('m, 'r) TokenService \<Rightarrow> string \<Rightarrow> string" where
  "HashRefreshToken s plain = hex_EncodeToString (ts_sha256 s plain)"

definition GenerateRefreshToken :: "('m, 'r) TokenService \<Rightarrow> ('m, 'r, err + string \<times> string) M" where
  "GenerateRefreshToken s = do {
     b \<leftarrow> rand_Read 32;
     ret (case b of
            None \<Rightarrow> Inl (Errorf ''entropy source failed'' None)
          | Some bs \<Rightarrow> let plain = EncodeToString bs in Inr (plain, HashRefreshToken s plain))
   }"

definition accessBlacklistPrefix :: string where "accessBlacklistPrefix = ''token:blacklist:''"

definition BlacklistAccessToken :: "('m, 'r) TokenService \<Rightarrow> ctx \<Rightarrow> string \<Rightarrow> duration \<Rightarrow> ('m, 'r, err option) M" where
  "BlacklistAccessToken s cx tokenID ttl =
     (case ts_cache s of
        None \<Rightarrow> ret None
      | Some ca \<Rightarrow> if tokenID = [] \<or> ttl \<le> 0 then ret None
                    else ca_Set ca cx (accessBlacklistPrefix @ tokenID) (JBool True) ttl)"

text \<open>The fallback on the collection of revoked tokens.\<close>

definition revoked_fallback :: "('m, 'r) TokenService \<Rightarrow> ctx \<Rightarrow> string \<Rightarrow> ('m, 'r, err + bool) M" where
  "revoked_fallback s cx tokenID =
     (case ts_revoked s of
        None \<Rightarrow> ret (Inr False)
      | Some repo \<Rightarrow> do {
          r \<leftarrow> rr_FindByTokenID repo cx tokenID;
          case r of
            Inl e \<Rightarrow> ret (if errors_Is e DbErrNotFound then Inr False else Inl e)
          | Inr None \<Rightarrow> do { _ \<leftarrow> time_Now; ret (Inl nil_deref) }
          | Inr (Some t) \<Rightarrow> do {
              now \<leftarrow> time_Now;
              if Before (rt_ExpiresAt t) now then ret (Inr False)
              else do {
                (case ts_cache s of
                   None \<Rightarrow> ret ()
                 | Some ca \<Rightarrow> do {
                     now' \<leftarrow> time_Now;
                     _ \<leftarrow> ca_Set ca cx (accessBlacklistPrefix @ tokenID) (JBool True) (time_Sub (rt_ExpiresAt t) now');
                     ret ()
                   });
                ret (Inr True)
              }
            }
        })"

definition IsAccessTokenBlacklisted :: "('m, 'r) TokenService \<Rightarrow> ctx \<Rightarrow> string \<Rightarrow> ('m, 'r, err + bool) M" where
  "IsAccessTokenBlacklisted s cx tokenID =
     (if tokenID = [] then ret (Inr False)
      else case ts_cache s of
        None \<Rightarrow> revoked_fallback s cx tokenID
      | Some ca \<Rightarrow> do {
          g \<leftarrow> ca_Get ca cx (accessBlacklistPrefix @ tokenID) KBool;
          case g of
            Inr (JBool b) \<Rightarrow> ret (Inr b)
          | Inr _ \<Rightarrow> ret (Inr False)
          | Inl e \<Rightarrow> if \<not> errors_Is e ErrCacheMiss \<and> ts_revoked s = None then ret (Inl e)
                      else revoked_fallback s cx tokenID
        })"

definition key_func :: "('m, 'r) TokenService \<Rightarrow> jtoken \<Rightarrow> ('m, 'r, err + bytes) M" where
  "key_func s token =
     (if jt_Method token \<noteq> SigningMethodHS256 then ret (Inl (Errorf ''unexpected jwt signing method'' None))
      else do {
        k \<leftarrow> keyForID s (claim_string (jt_Header token) ''kid'');
        ret (map_sum id jk_Secret k)
      })"

definition ValidateAccessToken :: "('m, 'r) TokenService \<Rightarrow> ctx \<Rightarrow> string \<Rightarrow> ('m, 'r, err + AccessClaims option) M" where
  "ValidateAccessToken s cx rawToken = do {
     r \<leftarrow> jl_ParseWithClaims (ts_jwt s) rawToken (key_func s) time_Now;
     case r of
       Inl e \<Rightarrow> ret (Inl (if errors_Is e JwtErrTokenExpired then AppErr (TokenExpired (err_Error e)) else e))
     | Inr token \<Rightarrow>
         if \<not> jt_Valid token then ret (Inl (Errorf ''invalid access token'' None))
         else case mapAccessClaims (jt_Header token) (jt_Claims token) of
           Inl e \<Rightarrow> ret (Inl e)
         | Inr accessClaims \<Rightarrow> do {
             b \<leftarrow> IsAccessTokenBlacklisted s cx (ac_TokenID accessClaims);
             ret (case b of
                    Inl e \<Rightarrow> Inl e
                  | Inr blacklisted \<Rightarrow> if blacklisted then Inl (AppErr (TokenRevoked ''access token revoked''))
                                       else Inr (Some accessClaims))
           }
   }"

section \<open>The interface\<close>

record ('m, 'r) TokenServiceI =
  ti_GenerateAccessToken :: "ctx \<Rightarrow> AccessClaims \<Rightarrow> ('m, 'r, err + string \<times> time) M"
  ti_ValidateAccessToken :: "ctx \<Rightarrow> string \<Rightarrow> ('m, 'r, err + AccessClaims option) M"
  ti_GenerateRefreshToken :: "('m, 'r, err + string \<times> string) M"
  ti_HashRefreshToken :: "string \<Rightarrow> string"
  ti_BlacklistAccessToken :: "ctx \<Rightarrow> string \<Rightarrow> duration \<Rightarrow> ('m, 'r, err option) M"
  ti_IsAccessTokenBlacklisted :: "ctx \<Rightarrow> string \<Rightarrow> ('m, 'r, err + bool) M"

definition token_interface :: "('m, 'r) TokenService \<Rightarrow> ('m, 'r) TokenServiceI" where
  "token_interface s =
     \<lparr>ti_GenerateAccessToken = GenerateAccessToken s, ti_ValidateAccessToken = ValidateAccessToken s,
      ti_GenerateRefreshToken = GenerateRefreshToken s, ti_HashRefreshToken = HashRefreshToken s,
      ti_BlacklistAccessToken = BlacklistAccessToken s, ti_IsAccessTokenBlacklisted = IsAccessTokenBlacklisted s\<rparr>"

lemma token_interface_sel [simp]:
  "ti_GenerateAccessToken (token_interface s) = GenerateAccessToken s"
  "ti_ValidateAccessToken (token_interface s) = ValidateAccessToken s"
  "ti_GenerateRefreshToken (token_interface s) = GenerateRefreshToken s"
  "ti_HashRefreshToken (token_interface s) = HashRefreshToken s"
  "ti_BlacklistAccessToken (token_interface s) = BlacklistAccessToken s"
  "ti_IsAccessTokenBlacklisted (token_interface s) = IsAccessTokenBlacklisted s"
  by (simp_all add: token_interface_def)

section \<open>What the library promises\<close>

text \<open>
  \<open>verifies raw t k\<close>: the text \<open>raw\<close> is the token \<open>t\<close> with a signature that is valid for the key
  \<open>k\<close>. A token that is accepted has been handed to the key function, before the library does anything
  that is visible outside, and verifies under the key that was returned. The library changes nothing
  that neither the key function nor the clock change.
\<close>

locale jwt_contract =
  fixes lib :: "('m, 'r) jwt_lib"
    and verifies :: "string \<Rightarrow> jtoken \<Rightarrow> bytes \<Rightarrow> bool"
  assumes parse_ok: "run_state (jl_ParseWithClaims lib raw kf clk) w = (Inr t, w') \<Longrightarrow>
      \<exists>k w2. run_state (kf (t\<lparr>jt_Valid := False\<rparr>)) w = (Inr k, w2) \<and> verifies raw t k"
    and parse_frame: "(\<And>t. keeps I (kf t)) \<Longrightarrow> keeps I clk \<Longrightarrow> keeps I (jl_ParseWithClaims lib raw kf clk)"

begin

lemma Validate_verified:
  assumes "ts_jwt s = lib" and run: "run_state (ValidateAccessToken s cx raw) w = (Inr c, w')"
  shows "\<exists>t a key. c = Some a \<and> mapAccessClaims (jt_Header t) (jt_Claims t) = Inr a \<and> verifies raw t (jk_Secret key) \<and>
      jt_Method t = ''HS256'' \<and> jk_ID key = ac_KeyID a \<and>
      (key = ts_current s \<or> ts_previous s = Some key \<and> (jk_NotAfter key = 0 \<or> w_clock w (w_tick w) \<le> jk_NotAfter key))"
proof -
  obtain r w1 where p: "run_state (jl_ParseWithClaims lib raw (key_func s) time_Now) w = (r, w1)" by fastforce
  have run1: "run_state (case r of
       Inl e \<Rightarrow> ret (Inl (if errors_Is e JwtErrTokenExpired then AppErr (TokenExpired (err_Error e)) else e))
     | Inr token \<Rightarrow>
         if \<not> jt_Valid token then ret (Inl (Errorf ''invalid access token'' None))
         else case mapAccessClaims (jt_Header token) (jt_Claims token) of
           Inl e \<Rightarrow> ret (Inl e)
         | Inr accessClaims \<Rightarrow> do {
             b \<leftarrow> IsAccessTokenBlacklisted s cx (ac_TokenID accessClaims);
             ret (case b of
                    Inl e \<Rightarrow> Inl e
                  | Inr blacklisted \<Rightarrow> if blacklisted then Inl (AppErr (TokenRevoked ''access token revoked''))
                                       else Inr (Some accessClaims)) }) w1 = (Inr c, w')"
    using run p assms(1) by (simp add: ValidateAccessToken_def)
  obtain t a where t: "r = Inr t" "mapAccessClaims (jt_Header t) (jt_Claims t) = Inr a" "c = Some a"
    using run1 by (auto split: sum.splits if_splits prod.splits)
  obtain k wk' where k: "run_state (key_func s (t\<lparr>jt_Valid := False\<rparr>)) w = (Inr k, wk')" "verifies raw t k"
    using parse_ok [OF p [unfolded t(1)]] by blast
  have kid: "ac_KeyID a = claim_string (jt_Header t) ''kid''"
    using t(2) by (auto simp: mapAccessClaims_def Let_def split: if_splits)
  from k(1) obtain key where "k = jk_Secret key" "jt_Method t = ''HS256''" "jk_ID key = ac_KeyID a"
    "key = ts_current s \<or> ts_previous s = Some key \<and> (jk_NotAfter key = 0 \<or> w_clock w (w_tick w) \<le> jk_NotAfter key)"
    by (auto simp: key_func_def keyForID_def kid SigningMethodHS256_def time_defs split: if_splits option.splits sum.splits)
  then show ?thesis using t(2,3) k(2) by (intro exI [of _ t] exI [of _ a] exI [of _ key]) auto
qed

end

text \<open>A library that knows a single token.\<close>

definition one_token :: "jtoken \<Rightarrow> bytes \<Rightarrow> ('m, 'r) jwt_lib" where
  "one_token t k =
     \<lparr>jl_SignedString = (\<lambda>m h c key. Inr ''token''),
      jl_ParseWithClaims = (\<lambda>raw kf clk. if raw \<noteq> ''token'' then ret (Inl (Errorf ''token is malformed'' None))
         else do {
           r \<leftarrow> kf (t\<lparr>jt_Valid := False\<rparr>);
           ret (case r of Inl e \<Rightarrow> Inl (Errorf ''token is unverifiable'' (Some e))
                        | Inr key \<Rightarrow> if key = k then Inr (t\<lparr>jt_Valid := True\<rparr>) else Inl (Errorf ''token signature is invalid'' None))
         })\<rparr>"

interpretation one_token: jwt_contract "one_token t k" "\<lambda>raw t' k'. raw = ''token'' \<and> t' = t\<lparr>jt_Valid := True\<rparr> \<and> k' = k"
proof (unfold_locales, goal_cases)
  case (1 raw kf clk w t' w')
  obtain r w2 where r: "run_state (kf (t\<lparr>jt_Valid := False\<rparr>)) w = (r, w2)" by fastforce
  then have "raw = ''token''" "r = Inr k" "t' = t\<lparr>jt_Valid := True\<rparr>"
    using 1 by (auto simp: one_token_def split: if_splits sum.splits)
  then show ?case using r by (intro exI [of _ k] exI [of _ w2]) simp
next
  case (2 I kf clk raw)
  then show ?case unfolding one_token_def jwt_lib.select_convs by (intro keeps_intros)
qed

section \<open>Properties\<close>

text \<open>
  C18. An access token is accepted only when it verifies with HS256 under the current signing key
  or under the previous one while that may still be used, that is when the first reading of the clock
  in this call has not passed the expiry of the key (if it has one), the key being the one its header
  names, and only with a user, a session and a token identifier.
\<close>

theorem ValidateAccessToken_verified:
  assumes "jwt_contract (ts_jwt s) verifies"
    and "run_state (ValidateAccessToken s cx raw) w = (Inr c, w')"
  shows "\<exists>t a key. c = Some a \<and> verifies raw t (jk_Secret key) \<and> jt_Method t = ''HS256'' \<and>
      jk_ID key = ac_KeyID a \<and> ac_KeyID a = claim_string (jt_Header t) ''kid'' \<and>
      (key = ts_current s \<or> ts_previous s = Some key \<and> (jk_NotAfter key = 0 \<or> w_clock w (w_tick w) \<le> jk_NotAfter key)) \<and>
      ac_UserID a \<noteq> [] \<and> ac_SessionID a \<noteq> [] \<and> ac_TokenID a \<noteq> []"
proof -
  from jwt_contract.Validate_verified [OF assms(1) refl assms(2)] obtain t a key where
    c: "c = Some a" and a: "mapAccessClaims (jt_Header t) (jt_Claims t) = Inr a" and
    rest: "verifies raw t (jk_Secret key)" "jt_Method t = ''HS256''" "jk_ID key = ac_KeyID a"
      "key = ts_current s \<or> ts_previous s = Some key \<and> (jk_NotAfter key = 0 \<or> w_clock w (w_tick w) \<le> jk_NotAfter key)" by blast
  have "ac_KeyID a = claim_string (jt_Header t) ''kid'' \<and> ac_UserID a \<noteq> [] \<and> ac_SessionID a \<noteq> [] \<and> ac_TokenID a \<noteq> []"
    using a by (auto simp: mapAccessClaims_def Let_def split: if_splits)
  then show ?thesis using c rest by blast
qed

definition demo_key :: JWTKey where
  "demo_key = \<lparr>jk_ID = ''k1'', jk_Secret = replicate 16 1, jk_NotAfter = 0\<rparr>"

definition demo_token :: jtoken where
  "demo_token = \<lparr>jt_Method = ''HS256'', jt_Header = [(''kid'', CStr ''k1'')],
     jt_Claims = [(''sub'', CStr ''u1''), (''session_id'', CStr ''s1''), (''jti'', CStr ''t1''), (''roles'', CList [CStr ''user'']),
                  (''iat'', CNum 0), (''exp'', CNum 900)], jt_Valid = True\<rparr>"

definition demo_tokens :: "('m, 'r) Cache option \<Rightarrow> ('m, 'r) RevokedTokenRepository option \<Rightarrow> ('m, 'r) TokenService" where
  "demo_tokens ca repo =
     \<lparr>ts_current = demo_key, ts_previous = None, ts_accessTTL = 15 * minute, ts_refreshTTL = 24 * hour,
      ts_cache = ca, ts_revoked = repo, ts_jwt = one_token demo_token (jk_Secret demo_key),
      ts_sha256 = (\<lambda>s. map (\<lambda>c. of_nat (of_char c)) s)\<rparr>"

theorem ValidateAccessToken_verified_witness:
  "\<exists>a. fst (run_state (ValidateAccessToken (demo_tokens None None) background ''token'') (start_world () () 0)) = Inr (Some a) \<and>
     ac_UserID a = ''u1'' \<and> jk_ID demo_key = ac_KeyID a"
proof -
  let ?s = "demo_tokens None None :: (unit, unit) TokenService"
  have lib: "jwt_contract (ts_jwt ?s) (\<lambda>raw t' k'. raw = ''token'' \<and> t' = demo_token\<lparr>jt_Valid := True\<rparr> \<and> k' = jk_Secret demo_key)"
    using one_token.jwt_contract_axioms [of demo_token "jk_Secret demo_key"] by (simp add: demo_tokens_def)
  let ?a = "\<lparr>ac_UserID = ''u1'', ac_SessionID = ''s1'', ac_TokenID = ''t1'', ac_Roles = [''user''],
             ac_IssuedAt = Unix_time 0, ac_ExpiresAt = Unix_time 900, ac_KeyID = ''k1''\<rparr>"
  obtain w' where run: "run_state (ValidateAccessToken ?s background ''token'') (start_world () () 0) = (Inr (Some ?a), w')"
    by (simp add: ValidateAccessToken_def demo_tokens_def one_token_def key_func_def keyForID_def demo_token_def demo_key_def
        SigningMethodHS256_def claim_string_def claim_number_def mapAccessClaims_def IsAccessTokenBlacklisted_def revoked_fallback_def)
  show ?thesis using ValidateAccessToken_verified [OF lib run] run by (auto simp: demo_tokens_def)
qed

text \<open>
  C20. A revoked access token stays rejected until it expires: if the collection of revoked tokens
  has the token's identifier with an expiry that no reading of the clock during the call has passed,
  then the blacklist check never answers that the token is fine, whatever the state of the Redis cache
  (hit, miss or failure), provided the cache does not hold an explicit \<open>false\<close>, which no operation of
  the service writes.
\<close>

theorem revoked_token_rejected:
  assumes db: "store db colls" and cc: "coherent_cache ca cv"
    and s: "ts_cache s = Some ca" "ts_revoked s = Some (NewRevokedTokenRepository db)"
    and doc: "d \<in> set (colls (w_mongo w) ''revoked_tokens'')" "map_of d ''_id'' = Some (BString tokenID)"
    and live: "\<And>d n. d \<in> set (colls (w_mongo w) ''revoked_tokens'') \<Longrightarrow> map_of d ''_id'' = Some (BString tokenID) \<Longrightarrow>
                 w_tick w \<le> n \<Longrightarrow> n < w_tick w' \<Longrightarrow> w_clock w n \<le> get_time d ''expires_at''"
    and "tokenID \<noteq> []" "cv (w_redis w) (accessBlacklistPrefix @ tokenID) \<noteq> Some (JBool False)"
    and run: "run_state (IsAccessTokenBlacklisted s cx tokenID) w = (r, w')"
  shows "r \<noteq> Inr False"
proof -
  let ?key = "accessBlacklistPrefix @ tokenID"
  have fallback: "r \<noteq> Inr False" if m: "w_mongo w1 = w_mongo w" "w_clock w1 = w_clock w" "w_tick w1 = w_tick w"
    and run1: "run_state (revoked_fallback s cx tokenID) w1 = (r, w')" for w1
  proof -
    obtain x w2 where x: "run_state (db_FindOne db cx ''revoked_tokens'' (Query (id_query tokenID)) read_opts) w1 = (x, w2)" by fastforce
    have match: "matches (id_query tokenID) d" using doc(2) by (simp add: matches_def id_query_def)
    show ?thesis
    proof (cases x)
      case (Inl e)
      then have "\<not> errors_Is e DbErrNotFound"
        using store.st_find_one_missing [OF db _ x [unfolded Inl], of d] match doc(1) m by (auto simp: read_opts_def)
      then show ?thesis using run1 x Inl
        by (auto simp: revoked_fallback_def s(2) NewRevokedTokenRepository_def RevokedToken_FindByTokenID_def)
    next
      case (Inr d')
      then have d': "d' \<in> set (colls (w_mongo w) ''revoked_tokens'')" "matches (id_query tokenID) d'"
        using store.st_find_one_fresh [OF db _ x [unfolded Inr]] m by (auto simp: read_opts_def)
      note clock = store.st_find_one_clock [OF db x] m(2,3)
      have "w_clock w (w_tick w2) \<le> get_time d' ''expires_at''" if "r = Inr False"
      proof (rule live)
        show "w_tick w2 < w_tick w'"
          using run1 x Inr that
          by (auto simp: revoked_fallback_def s NewRevokedTokenRepository_def RevokedToken_FindByTokenID_def split: if_splits prod.splits)
      qed (use d' clock in \<open>simp_all add: matches_def id_query_def\<close>)
      then show ?thesis using run1 x Inr clock
        by (auto simp: revoked_fallback_def s NewRevokedTokenRepository_def RevokedToken_FindByTokenID_def
            revokedToken_toDomain_def time_defs split: if_splits prod.splits)
    qed
  qed
  obtain g w1 where g: "run_state (ca_Get ca cx ?key KBool) w = (g, w1)" by fastforce
  have m1: "w_mongo w1 = w_mongo w" "w_clock w1 = w_clock w" "w_tick w1 = w_tick w"
    using coherent_cache.ca_get [OF cc g] by (simp_all add: beside_def)
  show ?thesis
  proof (cases g)
    case (Inl e)
    then show ?thesis using run g fallback [OF m1] assms(8)
      by (auto simp: IsAccessTokenBlacklisted_def s split: if_splits)
  next
    case (Inr j)
    then have "cv (w_redis w) ?key = Some j" "has_kind j KBool" using coherent_cache.ca_hit [OF cc g [unfolded Inr]] by auto
    then have "j = JBool True" using assms(9) by (cases j) auto
    then show ?thesis using run g Inr assms(8) by (auto simp: IsAccessTokenBlacklisted_def s)
  qed
qed

text \<open>A clock that advances by a second with every reading; the token expires after a thousand seconds.\<close>

definition revoked_world :: "(mem, mem_kv) world" where
  "revoked_world = (start_world ((\<lambda>_. [])(''revoked_tokens'' := [[(''_id'', BString ''t1''), (''expires_at'', BDate 1000000)]])) (\<lambda>_. None) 0)
     \<lparr>w_clock := (\<lambda>n. int n * second)\<rparr>"

definition revoked_tokens :: "(mem, mem_kv) TokenService" where
  "revoked_tokens = demo_tokens (Some (Redis_cache (NewRedisWithClient mem_redis []))) (Some (NewRevokedTokenRepository (MongoDatabase mem_driver)))"

lemma revoked_readings: "w_tick (snd (run_state (IsAccessTokenBlacklisted revoked_tokens background ''t1'') revoked_world)) \<le> 1000"
  by code_simp

theorem revoked_token_rejected_witness:
  "fst (run_state (IsAccessTokenBlacklisted revoked_tokens background ''t1'') revoked_world) \<noteq> Inr False"
proof -
  obtain r w' where run: "run_state (IsAccessTokenBlacklisted revoked_tokens background ''t1'') revoked_world = (r, w')" by fastforce
  have "r \<noteq> Inr False"
  proof (rule revoked_token_rejected [OF mem_store.store_axioms mem_cache.coherent_cache_axioms _ _ _ _ _ _ _ run])
    show "[(''_id'', BString ''t1''), (''expires_at'', BDate 1000000)] \<in> set (w_mongo revoked_world ''revoked_tokens'')"
      by (simp add: revoked_world_def)
    show "w_clock revoked_world n \<le> get_time d ''expires_at''" if "d \<in> set (w_mongo revoked_world ''revoked_tokens'')" "n < w_tick w'" for d n
      using that revoked_readings run by (simp add: revoked_world_def get_defs date_time_def millisecond_def second_def)
  qed (simp_all add: revoked_tokens_def demo_tokens_def revoked_world_def cached_def)
  then show ?thesis using run by simp
qed

text \<open>
  A signing key written as \<open>id/secret\<close> with the secret in unpadded URL-safe base64 is parsed
  back to exactly that identifier and secret, and a key that is accepted always has a non-empty
  identifier without a slash and a secret of at least 16 bytes.
\<close>

lemma ParseJWTKey_roundtrip:
  "(TrimSpace (kid @ CHR ''/'' # EncodeToString secret) = kid @ CHR ''/'' # EncodeToString secret \<longrightarrow>
    kid \<noteq> [] \<longrightarrow> CHR ''/'' \<notin> set kid \<longrightarrow> 16 \<le> length secret \<longrightarrow>
    ParseJWTKey (kid @ CHR ''/'' # EncodeToString secret) na = Inr \<lparr>jk_ID = kid, jk_Secret = secret, jk_NotAfter = na\<rparr>) \<and>
   (ParseJWTKey v na = Inr k \<longrightarrow> jk_ID k \<noteq> [] \<and> CHR ''/'' \<notin> set (jk_ID k) \<and> 16 \<le> length (jk_Secret k) \<and> jk_NotAfter k = na)"
proof (intro conjI impI)
  assume "TrimSpace (kid @ CHR ''/'' # EncodeToString secret) = kid @ CHR ''/'' # EncodeToString secret"
    "kid \<noteq> []" "CHR ''/'' \<notin> set kid" "16 \<le> length secret"
  then show "ParseJWTKey (kid @ CHR ''/'' # EncodeToString secret) na = Inr \<lparr>jk_ID = kid, jk_Secret = secret, jk_NotAfter = na\<rparr>"
    using Decode_Encode [of secret] by (auto simp: ParseJWTKey_def SplitN2_two Let_def)
      (metis DecodeString_def list.size(3) not_numeral_le_zero octets.simps(1) option.inject option.simps(5) values_of.simps(1))
next
  assume k: "ParseJWTKey v na = Inr k"
  from SplitN2_cases [of "CHR ''/''" "TrimSpace v"]
  show "jk_ID k \<noteq> []" "CHR ''/'' \<notin> set (jk_ID k)" "16 \<le> length (jk_Secret k)" "jk_NotAfter k = na"
    using k by (auto simp: ParseJWTKey_def Let_def split: if_splits option.splits)
qed

lemma ParseJWTKey_roundtrip_witness:
  "ParseJWTKey (''k1'' @ CHR ''/'' # EncodeToString (replicate 16 0)) 5 = Inr \<lparr>jk_ID = ''k1'', jk_Secret = replicate 16 0, jk_NotAfter = 5\<rparr>"
proof -
  have "TrimSpace (''k1'' @ CHR ''/'' # EncodeToString (replicate 16 0)) = ''k1'' @ CHR ''/'' # EncodeToString (replicate 16 0)"
    by code_simp
  then show ?thesis using ParseJWTKey_roundtrip [of "''k1''" "replicate 16 0" 5] by simp
qed

text \<open>
  A refresh token is the 32 random bytes it was made from: the text decodes back to them, so
  two draws that differ give different tokens, and the stored hash is the hash that
  \<open>HashRefreshToken\<close> computes when the token is presented.
\<close>

lemma GenerateRefreshToken_spec:
  "run_state (GenerateRefreshToken s) w = (Inr (plain, hash), w') \<longleftrightarrow>
   (\<exists>src. w_entropy w (w_draw w) = Some src \<and> DecodeString plain = Some (map src [0..<32]) \<and>
      plain = EncodeToString (map src [0..<32]) \<and> hash = HashRefreshToken s plain \<and> w' = w\<lparr>w_draw := Suc (w_draw w)\<rparr>)"
  by (cases "w_entropy w (w_draw w)") (auto simp: GenerateRefreshToken_def Let_def Decode_Encode)

end
