(* ===== verification/AuthService.thy ===== *)
theory AuthService
  imports TokenService
begin

text \<open>
  \<open>internal/app/auth/auth_service.go\<close>: registration, login, refresh, logout, session and history
  listings, and the account lockout.

  The service is a record of its dependencies, each \<open>None\<close> when the interface is nil. Log lines are
  left out, calls of the metrics recorders and of the clock, the identifier source and the
  repositories are in the order of the source. \<open>sv_stack\<close> is the text \<open>debug.Stack()\<close> gives when an
  unknown error is wrapped. The result that the source assigns to a captured variable inside a
  transaction is the value of the transaction's callback.
\<close>

record ('m, 'r) Service =
  sv_users :: "('m, 'r) UserRepository option"
  sv_sessions :: "('m, 'r) SessionRepository option"
  sv_loginHistory :: "('m, 'r) LoginHistoryRepository option"
  sv_auditLogs :: "('m, 'r) AuditLogRepository option"
  sv_revokedTokens :: "('m, 'r) RevokedTokenRepository option"
  sv_tokens :: "('m, 'r) TokenServiceI option"
  sv_passwords :: "('m, 'r) PasswordHasher option"
  sv_transactions :: "('m, 'r, AuthResult) TransactionRunner option"
  sv_metrics :: bool
  sv_refreshTTL :: duration
  sv_lockoutMaxFailures :: int
  sv_lockoutDuration :: duration
  sv_refreshIPAnomalyAction :: string
  sv_stack :: string

text \<open>\<open>ServiceDependencies\<close> has the same fields, before the defaults are filled in.\<close>

definition NewService :: "('m, 'r) bcrypt_lib \<Rightarrow> ('m, 'r) Service \<Rightarrow> ('m, 'r) Service" where
  "NewService bc deps =
     (let passwords = (case sv_passwords deps of None \<Rightarrow> Some (BcryptHasher bc 0) | p \<Rightarrow> p);
          refreshTTL = (if sv_refreshTTL deps \<le> 0 then 30 * 24 * hour else sv_refreshTTL deps);
          lockoutDuration = (if sv_lockoutDuration deps \<le> 0 then 15 * minute else sv_lockoutDuration deps);
          action = ToLower (TrimSpace (sv_refreshIPAnomalyAction deps));
          action = (if action = [] then ''audit'' else action)
      in deps\<lparr>sv_passwords := passwords, sv_refreshTTL := refreshTTL, sv_lockoutDuration := lockoutDuration,
              sv_refreshIPAnomalyAction := action\<rparr>)"

section \<open>Errors and small helpers\<close>

definition opError :: "('m, 'r) Service \<Rightarrow> string \<Rightarrow> err \<Rightarrow> err" where
  "opError s op e = AppErr (WithOp (FromError (sv_stack s) e) op)"

definition notImplemented :: "string \<Rightarrow> err" where
  "notImplemented op = AppErr (WithOp (New CodeDependency (op @ '' dependencies are not configured'') 503) op)"

definition invalidCredentials :: "string \<Rightarrow> err" where
  "invalidCredentials op = AppErr (WithOp (New CodeUnauthorized ''Invalid email or password'' 401) op)"

definition invalidRefreshToken :: "string \<Rightarrow> err" where
  "invalidRefreshToken op = AppErr (WithOp (New CodeUnauthorized ''Invalid refresh token'' 401) op)"

definition unavailable :: "string \<Rightarrow> err" where
  "unavailable op = AppErr (WithOp (New CodeForbidden ''Account is not available'' 403) op)"

definition email_exists :: err where
  "email_exists = AppErr (WithOp (New CodeConflict ''Email already exists'' 409) ''AuthService.Register'')"

definition validateCredentials :: "string \<Rightarrow> string \<Rightarrow> err option" where
  "validateCredentials email password =
     (let details =
        (if email = [] \<or> \<not> Contains email ''@'' then [\<lparr>vd_Field = ''email'', vd_Reason = ''invalid_format'', vd_Meta = []\<rparr>] else [])
        @ (if length password < 8
           then [\<lparr>vd_Field = ''password'', vd_Reason = ''too_short'', vd_Meta = [(''min'', MetaInt 8)]\<rparr>] else [])
      in if details \<noteq> [] then Some (AppErr (Validation ''Invalid input'' details)) else None)"

definition refreshIPAnomalyReason :: "string \<Rightarrow> string \<Rightarrow> string" where
  "refreshIPAnomalyReason sessionIP requestIP =
     (let s = TrimSpace sessionIP; r = TrimSpace requestIP
      in if s = [] \<or> r = [] \<or> s = r then [] else ''ip_changed'')"

definition rolesToStrings :: "Role list \<Rightarrow> string list" where
  "rolesToStrings roles = map (\<lambda>role. role) roles"

definition auditEvent ::
  "string \<Rightarrow> string \<Rightarrow> string \<Rightarrow> string \<Rightarrow> RequestMeta \<Rightarrow> (string \<times> string) list \<Rightarrow> AuditLog" where
  "auditEvent action actorUserID resourceType resourceID meta metadata =
     \<lparr>al_ID = [], al_ActorUserID = actorUserID, al_Action = action, al_ResourceType = resourceType,
      al_ResourceID = resourceID, al_IP = m_IP meta, al_UserAgent = m_UserAgent meta, al_RequestID = m_RequestID meta,
      al_Metadata = metadata, al_CreatedAt = 0\<rparr>"

definition requireAuthCore :: "('m, 'r) Service \<Rightarrow> string \<Rightarrow> err option" where
  "requireAuthCore s op =
     (if sv_users s = None \<or> sv_sessions s = None \<or> sv_tokens s = None \<or> sv_passwords s = None
      then Some (notImplemented op) else None)"

definition recordLogin :: "('m, 'r) Service \<Rightarrow> bool \<Rightarrow> ('m, 'r, unit) M" where
  "recordLogin s success = (if sv_metrics s then record_metric (MLogin success) else ret ())"

definition recordRefresh :: "('m, 'r) Service \<Rightarrow> bool \<Rightarrow> ('m, 'r, unit) M" where
  "recordRefresh s success = (if sv_metrics s then record_metric (MRefresh success) else ret ())"

definition recordRefreshReuseSuspected :: "('m, 'r) Service \<Rightarrow> ('m, 'r, unit) M" where
  "recordRefreshReuseSuspected s = (if sv_metrics s then record_metric MRefreshReuse else ret ())"

definition recordLogout :: "('m, 'r) Service \<Rightarrow> int \<Rightarrow> ('m, 'r, unit) M" where
  "recordLogout s n =
     (if \<not> sv_metrics s then ret () else do { record_metric MLogout; record_metric (MSessionRevoked n) })"

definition recordSessionCreated :: "('m, 'r) Service \<Rightarrow> ('m, 'r, unit) M" where
  "recordSessionCreated s = (if sv_metrics s then record_metric MSessionCreated else ret ())"

definition appendLoginHistory :: "('m, 'r) Service \<Rightarrow> ctx \<Rightarrow> LoginHistory \<Rightarrow> ('m, 'r, unit) M" where
  "appendLoginHistory s cx event =
     (case sv_loginHistory s of None \<Rightarrow> ret () | Some repo \<Rightarrow> do { _ \<leftarrow> lr_Append repo cx event; ret () })"

definition appendAuditLog :: "('m, 'r) Service \<Rightarrow> ctx \<Rightarrow> AuditLog \<Rightarrow> ('m, 'r, unit) M" where
  "appendAuditLog s cx event =
     (case sv_auditLogs s of
        None \<Rightarrow> ret ()
      | Some repo \<Rightarrow> do {
          event \<leftarrow> (if al_ID event = [] then do { i \<leftarrow> newID; ret (event\<lparr>al_ID := i\<rparr>) } else ret event);
          event \<leftarrow> (if IsZero (al_CreatedAt event) then do { now \<leftarrow> time_Now; ret (event\<lparr>al_CreatedAt := now\<rparr>) } else ret event);
          _ \<leftarrow> ar_Append repo cx event;
          ret ()
        })"

definition recordLoginFailure :: "('m, 'r) Service \<Rightarrow> ctx \<Rightarrow> User \<Rightarrow> time \<Rightarrow> ('m, 'r, time option) M" where
  "recordLoginFailure s cx usr now =
     (case sv_users s of
        None \<Rightarrow> ret None
      | Some users \<Rightarrow>
          if sv_lockoutMaxFailures s \<le> 0 then ret None
          else do {
            let attempts = wrap64 (u_FailedLoginAttempts usr + 1);
            let lockedUntil = (if attempts \<ge> sv_lockoutMaxFailures s then Some (time_Add now (sv_lockoutDuration s)) else None);
            _ \<leftarrow> ur_RecordLoginFailure users cx (u_ID usr) (u_Email usr) attempts lockedUntil now;
            ret lockedUntil
          })"

definition withTransaction ::
  "('m, 'r) Service \<Rightarrow> ctx \<Rightarrow> string \<Rightarrow> (ctx \<Rightarrow> ('m, 'r, err + AuthResult) M) \<Rightarrow> ('m, 'r, err + AuthResult) M" where
  "withTransaction s cx op fn =
     (case sv_transactions s of
        None \<Rightarrow> fn cx
      | Some run_tx \<Rightarrow> do {
          r \<leftarrow> run_tx cx fn;
          ret (map_sum (opError s op) id r)
        })"

section \<open>Issuing a session\<close>

definition device_of :: "Session \<Rightarrow> DeviceSession" where
  "device_of session =
     \<lparr>ds_SessionID = s_ID session, ds_DeviceID = s_DeviceID session, ds_DeviceName = s_DeviceName session,
      ds_UserAgent = s_UserAgent session, ds_IP = s_IP session, ds_LastSeenAt = s_LastSeenAt session,
      ds_CreatedAt = s_CreatedAt session, ds_Current = True, ds_RevokedAt = None, ds_RevokeReason = []\<rparr>"

definition issueAuthResult ::
  "('m, 'r) Service \<Rightarrow> ('m, 'r) SessionRepository \<Rightarrow> ('m, 'r) TokenServiceI \<Rightarrow> ctx \<Rightarrow> User \<Rightarrow> RequestMeta \<Rightarrow> ('m, 'r, err + AuthResult) M" where
  "issueAuthResult s sessions tokens cx usr meta = do {
     now \<leftarrow> time_Now;
     rt \<leftarrow> ti_GenerateRefreshToken tokens;
     case rt of
       Inl e \<Rightarrow> ret (Inl (opError s ''AuthService.IssueAuthResult'' e))
     | Inr (refreshPlain, refreshHash) \<Rightarrow> do {
         deviceID \<leftarrow> resultDeviceID (m_DeviceID meta);
         sessionID \<leftarrow> newID;
         familyID \<leftarrow> newID;
         let session = \<lparr>s_ID = sessionID, s_UserID = u_ID usr, s_RefreshTokenHash = refreshHash,
               s_RefreshTokenExpiresAt = time_Add now (sv_refreshTTL s), s_DeviceID = deviceID,
               s_DeviceName = TrimSpace (m_DeviceName meta), s_UserAgent = m_UserAgent meta, s_IP = m_IP meta,
               s_TokenFamilyID = familyID, s_RevokedAt = None, s_RevokedReason = [], s_LastSeenAt = now,
               s_CreatedAt = now, s_UpdatedAt = now\<rparr>;
         c \<leftarrow> sr_Create sessions cx session;
         case c of
           Some e \<Rightarrow> ret (Inl (opError s ''AuthService.IssueAuthResult'' e))
         | None \<Rightarrow> do {
             tokenID \<leftarrow> newID;
             at \<leftarrow> ti_GenerateAccessToken tokens cx
                     \<lparr>ac_UserID = u_ID usr, ac_SessionID = s_ID session, ac_TokenID = tokenID,
                      ac_Roles = rolesToStrings (u_Roles usr), ac_IssuedAt = 0, ac_ExpiresAt = 0, ac_KeyID = []\<rparr>;
             ret (case at of
                    Inl e \<Rightarrow> Inl (opError s ''AuthService.IssueAuthResult'' e)
                  | Inr (accessToken, accessExpiresAt) \<Rightarrow>
                      Inr \<lparr>ar_User = usr, ar_SessionID = s_ID session, ar_Session = device_of session,
                           ar_AccessToken = accessToken, ar_AccessTokenExpiresAt = accessExpiresAt,
                           ar_RefreshToken = refreshPlain, ar_RefreshTokenExpiresAt = s_RefreshTokenExpiresAt session\<rparr>)
           }
       }
   }"

section \<open>Register\<close>

text \<open>The callback of the registration transaction.\<close>

definition register_tx ::
  "('m, 'r) Service \<Rightarrow> ('m, 'r) UserRepository \<Rightarrow> ('m, 'r) SessionRepository \<Rightarrow> ('m, 'r) TokenServiceI \<Rightarrow> User \<Rightarrow> RequestMeta
     \<Rightarrow> ctx \<Rightarrow> ('m, 'r, err + AuthResult) M" where
  "register_tx s users sessions tokens usr meta txCtx = do {
     c \<leftarrow> ur_Create users txCtx usr;
     case c of
       Some e \<Rightarrow> ret (Inl e)
     | None \<Rightarrow> issueAuthResult s sessions tokens txCtx usr meta
   }"

definition Register :: "('m, 'r) Service \<Rightarrow> ctx \<Rightarrow> RegisterInput \<Rightarrow> RequestMeta \<Rightarrow> ('m, 'r, err + AuthResult) M" where
  "Register s cx input meta =
     (case (sv_users s, sv_sessions s, sv_tokens s, sv_passwords s) of
        (Some users, Some sessions, Some tokens, Some passwords) \<Rightarrow>
          (let email = NormalizeEmail (ri_Email input) in
           case validateCredentials email (ri_Password input) of
             Some e \<Rightarrow> ret (Inl e)
           | None \<Rightarrow> do {
               ex \<leftarrow> ur_FindByEmail users cx email;
               if (case ex of Inr (Some _) \<Rightarrow> True | _ \<Rightarrow> False) then ret (Inl email_exists)
               else if (case ex of Inl e \<Rightarrow> \<not> errors_Is e DbErrNotFound | _ \<Rightarrow> False)
               then ret (Inl (opError s ''AuthService.Register'' (projl ex)))
               else do {
                 now \<leftarrow> time_Now;
                 h \<leftarrow> ph_Hash passwords (ri_Password input);
                 case h of
                   Inl e \<Rightarrow> ret (Inl e)
                 | Inr passwordHash \<Rightarrow> do {
                     uid \<leftarrow> newID;
                     let usr = (User_New email passwordHash (ri_Name input) now)\<lparr>u_ID := uid\<rparr>;
                     r \<leftarrow> withTransaction s cx ''AuthService.Register'' (register_tx s users sessions tokens usr meta);
                     case r of
                       Inl e \<Rightarrow> ret (Inl (if errors_Is e DbErrConflict then email_exists else opError s ''AuthService.Register'' e))
                     | Inr result \<Rightarrow> do {
                         recordSessionCreated s;
                         appendAuditLog s cx (auditEvent ''auth.register'' (u_ID usr) ''user'' (u_ID usr) no_meta [(''email'', u_Email usr)]);
                         ret (Inr result)
                       }
                   }
               }
             })
      | _ \<Rightarrow> ret (Inl (notImplemented ''AuthService.Register'')))"

section \<open>Login\<close>

definition login_event :: "string \<Rightarrow> string \<Rightarrow> string \<Rightarrow> bool \<Rightarrow> string \<Rightarrow> RequestMeta \<Rightarrow> string \<Rightarrow> time \<Rightarrow> LoginHistory" where
  "login_event i userID email success reason meta deviceID at =
     \<lparr>lh_ID = i, lh_UserID = userID, lh_Email = email, lh_Success = success, lh_FailureReason = reason, lh_IP = m_IP meta,
      lh_UserAgent = m_UserAgent meta, lh_DeviceID = deviceID, lh_CreatedAt = at\<rparr>"

definition login_failed ::
  "('m, 'r) Service \<Rightarrow> ctx \<Rightarrow> string \<Rightarrow> string \<Rightarrow> string \<Rightarrow> RequestMeta \<Rightarrow> ('m, 'r, time) M \<Rightarrow> ('m, 'r, unit) M" where
  "login_failed s cx userID email reason meta at = do {
     i \<leftarrow> newID;
     t \<leftarrow> at;
     appendLoginHistory s cx (login_event i userID email False reason meta (NormalizeDeviceID (m_DeviceID meta)) t);
     appendAuditLog s cx (auditEvent ''auth.login_failed'' userID ''user'' userID meta [(''email'', email), (''reason'', reason)])
   }"

text \<open>The callback of the login transaction and what follows its commit.\<close>

definition login_tx ::
  "('m, 'r) Service \<Rightarrow> ('m, 'r) UserRepository \<Rightarrow> ('m, 'r) SessionRepository \<Rightarrow> ('m, 'r) TokenServiceI \<Rightarrow> string \<Rightarrow> User \<Rightarrow> RequestMeta
     \<Rightarrow> ctx \<Rightarrow> ('m, 'r, err + AuthResult) M" where
  "login_tx s users sessions tokens email usr meta txCtx = do {
     i \<leftarrow> issueAuthResult s sessions tokens txCtx usr meta;
     case i of
       Inl e \<Rightarrow> ret (Inl e)
     | Inr result \<Rightarrow> do {
         now \<leftarrow> time_Now;
         e1 \<leftarrow> ur_ResetLoginFailures users txCtx (u_ID usr) email now;
         case e1 of
           Some e \<Rightarrow> ret (Inl e)
         | None \<Rightarrow> do {
             e2 \<leftarrow> ur_UpdateLastLogin users txCtx (u_ID usr) now;
             ret (case e2 of Some e \<Rightarrow> Inl e | None \<Rightarrow> Inr result)
           }
       }
   }"

definition login_succeeded :: "('m, 'r) Service \<Rightarrow> ctx \<Rightarrow> string \<Rightarrow> User \<Rightarrow> RequestMeta \<Rightarrow> AuthResult \<Rightarrow> ('m, 'r, unit) M" where
  "login_succeeded s cx email usr meta result = do {
     now \<leftarrow> time_Now;
     i \<leftarrow> newID;
     dev \<leftarrow> resultDeviceID (m_DeviceID meta);
     appendLoginHistory s cx (login_event i (u_ID usr) email True [] meta dev now);
     recordLogin s True;
     recordSessionCreated s;
     appendAuditLog s cx (auditEvent ''auth.login'' (u_ID usr) ''session'' (ar_SessionID result) meta [(''email'', email)])
   }"

definition Login :: "('m, 'r) Service \<Rightarrow> ctx \<Rightarrow> LoginInput \<Rightarrow> RequestMeta \<Rightarrow> ('m, 'r, err + AuthResult) M" where
  "Login s cx input meta =
     (case (sv_users s, sv_sessions s, sv_tokens s, sv_passwords s) of
        (Some users, Some sessions, Some tokens, Some passwords) \<Rightarrow> do {
          let email = NormalizeEmail (li_Email input);
          f \<leftarrow> ur_FindByEmail users cx email;
          case f of
            Inl e \<Rightarrow>
              if \<not> errors_Is e DbErrNotFound then ret (Inl (opError s ''AuthService.Login'' e))
              else do {
                recordLogin s False;
                login_failed s cx [] email ''invalid_credentials'' meta time_Now;
                ret (Inl (invalidCredentials ''AuthService.Login''))
              }
          | Inr None \<Rightarrow> ret (Inl nil_deref)
          | Inr (Some usr) \<Rightarrow> do {
              unusable \<leftarrow> (if u_Status usr \<noteq> StatusActive then ret True else do { now \<leftarrow> time_Now; ret (IsLocked usr now) });
              if unusable then do {
                recordLogin s False;
                login_failed s cx (u_ID usr) email ''account_unavailable'' meta time_Now;
                ret (Inl (unavailable ''AuthService.Login''))
              }
              else if ph_Compare passwords (u_PasswordHash usr) (li_Password input) \<noteq> None then do {
                recordLogin s False;
                now \<leftarrow> time_Now;
                lockoutUntil \<leftarrow> recordLoginFailure s cx usr now;
                let reason = (if lockoutUntil \<noteq> None then ''account_locked'' else ''invalid_credentials'');
                login_failed s cx (u_ID usr) email reason meta (ret now);
                ret (Inl (invalidCredentials ''AuthService.Login''))
              }
              else do {
                r \<leftarrow> withTransaction s cx ''AuthService.Login'' (login_tx s users sessions tokens email usr meta);
                case r of
                  Inl e \<Rightarrow> ret (Inl (opError s ''AuthService.Login'' e))
                | Inr result \<Rightarrow> do {
                    login_succeeded s cx email usr meta result;
                    ret (Inr result)
                  }
              }
            }
        }
      | _ \<Rightarrow> ret (Inl (notImplemented ''AuthService.Login'')))"

section \<open>Refresh\<close>

text \<open>The handling of a rotation that failed (\<open>err != nil\<close> after \<open>RotateRefreshToken\<close>).\<close>

definition rotation_failed ::
  "('m, 'r) Service \<Rightarrow> ('m, 'r) SessionRepository \<Rightarrow> ctx \<Rightarrow> User \<Rightarrow> Session \<Rightarrow> RequestMeta \<Rightarrow> err \<Rightarrow> ('m, 'r, err + AuthResult) M" where
  "rotation_failed s sessions cx usr session meta e =
     (if errors_Is e DbErrNotFound \<and> s_TokenFamilyID session \<noteq> [] then do {
        a \<leftarrow> sr_FindActiveByID sessions cx (s_ID session);
        case a of
          Inl activeErr \<Rightarrow>
            if errors_Is activeErr DbErrNotFound then do {
              recordRefresh s False;
              ret (Inl (invalidRefreshToken ''AuthService.Refresh''))
            } else ret (Inl (opError s ''AuthService.Refresh'' activeErr))
        | Inr None \<Rightarrow> do {
            recordRefresh s False;
            ret (Inl (invalidRefreshToken ''AuthService.Refresh''))
          }
        | Inr (Some activeSession) \<Rightarrow> do {
            now \<leftarrow> time_Now;
            _ \<leftarrow> sr_RevokeByTokenFamilyID sessions cx (s_TokenFamilyID session) ''refresh_reuse_suspected'' now;
            recordRefresh s False;
            recordRefreshReuseSuspected s;
            appendAuditLog s cx (auditEvent ''auth.refresh_reuse_suspected'' (u_ID usr) ''session'' (s_ID session) meta
              [(''token_family_id'', s_TokenFamilyID session)]);
            ret (Inl (invalidRefreshToken ''AuthService.Refresh''))
          }
      } else ret (Inl (opError s ''AuthService.Refresh'' e)))"

text \<open>The part of \<open>Refresh\<close> from the generation of the new token on.\<close>

definition refresh_rotate ::
  "('m, 'r) Service \<Rightarrow> ('m, 'r) SessionRepository \<Rightarrow> ('m, 'r) TokenServiceI \<Rightarrow> ctx \<Rightarrow> string \<Rightarrow> User \<Rightarrow> Session \<Rightarrow> RequestMeta
     \<Rightarrow> ('m, 'r, err + AuthResult) M" where
  "refresh_rotate s sessions tokens cx oldHash usr session meta = do {
     rt \<leftarrow> ti_GenerateRefreshToken tokens;
     case rt of
       Inl e \<Rightarrow> ret (Inl (opError s ''AuthService.Refresh'' e))
     | Inr (newRefreshPlain, newRefreshHash) \<Rightarrow> do {
         now \<leftarrow> time_Now;
         let newRefreshExpiresAt = time_Add now (sv_refreshTTL s);
         rot \<leftarrow> sr_RotateRefreshToken sessions cx (s_ID session) oldHash newRefreshHash newRefreshExpiresAt;
         case rot of
           Some e \<Rightarrow> rotation_failed s sessions cx usr session meta e
         | None \<Rightarrow> do {
             appendAuditLog s cx (auditEvent ''auth.refresh'' (u_ID usr) ''session'' (s_ID session) meta []);
             tokenID \<leftarrow> newID;
             at \<leftarrow> ti_GenerateAccessToken tokens cx
                     \<lparr>ac_UserID = u_ID usr, ac_SessionID = s_ID session, ac_TokenID = tokenID,
                      ac_Roles = rolesToStrings (u_Roles usr), ac_IssuedAt = 0, ac_ExpiresAt = 0, ac_KeyID = []\<rparr>;
             case at of
               Inl e \<Rightarrow> ret (Inl (opError s ''AuthService.Refresh'' e))
             | Inr (accessToken, accessExpiresAt) \<Rightarrow> do {
                 recordRefresh s True;
                 ret (Inr \<lparr>ar_User = usr, ar_SessionID = s_ID session, ar_Session = device_of session,
                           ar_AccessToken = accessToken, ar_AccessTokenExpiresAt = accessExpiresAt,
                           ar_RefreshToken = newRefreshPlain, ar_RefreshTokenExpiresAt = newRefreshExpiresAt\<rparr>)
               }
           }
       }
   }"

text \<open>The revocation that answers a change of address when the configured action is \<open>revoke\<close>.\<close>

definition refresh_revoke :: "('m, 'r) Service \<Rightarrow> ('m, 'r) SessionRepository \<Rightarrow> ctx \<Rightarrow> Session \<Rightarrow> ('m, 'r, err + AuthResult) M" where
  "refresh_revoke s sessions cx session = do {
     now \<leftarrow> time_Now;
     _ \<leftarrow> (if s_TokenFamilyID session \<noteq> []
          then sr_RevokeByTokenFamilyID sessions cx (s_TokenFamilyID session) ''refresh_ip_anomaly'' now
          else sr_Revoke sessions cx (s_ID session) ''refresh_ip_anomaly'' now);
     recordRefresh s False;
     ret (Inl (invalidRefreshToken ''AuthService.Refresh''))
   }"

definition Refresh :: "('m, 'r) Service \<Rightarrow> ctx \<Rightarrow> string \<Rightarrow> RequestMeta \<Rightarrow> ('m, 'r, err + AuthResult) M" where
  "Refresh s cx refreshToken meta =
     (case (sv_users s, sv_sessions s, sv_tokens s, sv_passwords s) of
        (Some users, Some sessions, Some tokens, Some passwords) \<Rightarrow>
          if TrimSpace refreshToken = [] then ret (Inl (invalidRefreshToken ''AuthService.Refresh''))
          else do {
            let oldHash = ti_HashRefreshToken tokens refreshToken;
            f \<leftarrow> sr_FindByRefreshTokenHash sessions cx oldHash;
            case f of
              Inl e \<Rightarrow>
                if \<not> errors_Is e DbErrNotFound then ret (Inl (opError s ''AuthService.Refresh'' e))
                else do { recordRefresh s False; ret (Inl (invalidRefreshToken ''AuthService.Refresh'')) }
            | Inr None \<Rightarrow> do { recordRefresh s False; ret (Inl (invalidRefreshToken ''AuthService.Refresh'')) }
            | Inr (Some session) \<Rightarrow> do {
                now \<leftarrow> time_Now;
                if \<not> IsActive session now
                then do { recordRefresh s False; ret (Inl (invalidRefreshToken ''AuthService.Refresh'')) }
                else do {
                  u \<leftarrow> ur_FindByID users cx (s_UserID session);
                  case u of
                    Inl e \<Rightarrow>
                      if errors_Is e DbErrNotFound
                      then do { recordRefresh s False; ret (Inl (invalidRefreshToken ''AuthService.Refresh'')) }
                      else ret (Inl (opError s ''AuthService.Refresh'' e))
                  | Inr None \<Rightarrow> ret (Inl nil_deref)
                  | Inr (Some usr) \<Rightarrow> do {
                      unusable \<leftarrow> (if u_Status usr \<noteq> StatusActive then ret True else do { now \<leftarrow> time_Now; ret (IsLocked usr now) });
                      if unusable then do { recordRefresh s False; ret (Inl (unavailable ''AuthService.Refresh'')) }
                      else if refreshIPAnomalyReason (s_IP session) (m_IP meta) \<noteq> [] then do {
                        appendAuditLog s cx (auditEvent ''auth.refresh_ip_anomaly'' (u_ID usr) ''session'' (s_ID session) meta
                          [(''session_ip'', s_IP session), (''request_ip'', TrimSpace (m_IP meta)), (''action'', sv_refreshIPAnomalyAction s)]);
                        if sv_refreshIPAnomalyAction s = ''revoke'' then refresh_revoke s sessions cx session
                        else refresh_rotate s sessions tokens cx oldHash usr session meta
                      } else refresh_rotate s sessions tokens cx oldHash usr session meta
                    }
                }
              }
          }
      | _ \<Rightarrow> ret (Inl (notImplemented ''AuthService.Refresh'')))"

section \<open>Logout and listings\<close>

text \<open>The revocation of the session named in the request, or of the token's own session.\<close>

definition logout_session :: "('m, 'r) Service \<Rightarrow> ('m, 'r) SessionRepository \<Rightarrow> ctx \<Rightarrow> AccessClaims \<Rightarrow> string \<Rightarrow> ('m, 'r, err option) M" where
  "logout_session s sessions cx claims sessionID =
     (let target = (if TrimSpace sessionID = [] then ac_SessionID claims else TrimSpace sessionID)
      in if target = [] then ret None
         else do {
           now \<leftarrow> time_Now;
           r \<leftarrow> sr_Revoke sessions cx target ''logout'' now;
           case r of
             Some e \<Rightarrow> ret (Some (opError s ''AuthService.Logout'' e))
           | None \<Rightarrow> do {
               recordLogout s 1;
               appendAuditLog s cx (auditEvent ''auth.logout'' (ac_UserID claims) ''session'' target no_meta []);
               ret None
             }
         })"

definition logout_blacklist ::
  "('m, 'r) Service \<Rightarrow> ('m, 'r) SessionRepository \<Rightarrow> ('m, 'r) TokenServiceI \<Rightarrow> ctx \<Rightarrow> AccessClaims \<Rightarrow> duration \<Rightarrow> string \<Rightarrow> ('m, 'r, err option) M" where
  "logout_blacklist s sessions tokens cx claims ttl sessionID = do {
     b \<leftarrow> (if ttl > 0 then ti_BlacklistAccessToken tokens cx (ac_TokenID claims) ttl else ret None);
     case b of
       Some e \<Rightarrow> ret (Some (opError s ''AuthService.Logout'' e))
     | None \<Rightarrow> logout_session s sessions cx claims sessionID
   }"

text \<open>\<open>Logout\<close> once the access token has been validated.\<close>

definition logout_claims ::
  "('m, 'r) Service \<Rightarrow> ('m, 'r) SessionRepository \<Rightarrow> ('m, 'r) TokenServiceI \<Rightarrow> ctx \<Rightarrow> AccessClaims \<Rightarrow> string \<Rightarrow> ('m, 'r, err option) M" where
  "logout_claims s sessions tokens cx claims sessionID = do {
     now \<leftarrow> time_Now;
     let ttl = time_Sub (ac_ExpiresAt claims) now;
     a \<leftarrow> (case sv_revokedTokens s of
            None \<Rightarrow> ret None
          | Some repo \<Rightarrow>
              if ac_TokenID claims = [] then ret None
              else do {
                now' \<leftarrow> time_Now;
                rr_Append repo cx \<lparr>rt_TokenID = ac_TokenID claims, rt_UserID = ac_UserID claims,
                  rt_SessionID = ac_SessionID claims, rt_ExpiresAt = ac_ExpiresAt claims, rt_RevokedAt = now'\<rparr>
              });
     case a of
       Some e \<Rightarrow> ret (Some (opError s ''AuthService.Logout'' e))
     | None \<Rightarrow> logout_blacklist s sessions tokens cx claims ttl sessionID
   }"

definition Logout :: "('m, 'r) Service \<Rightarrow> ctx \<Rightarrow> string \<Rightarrow> string \<Rightarrow> ('m, 'r, err option) M" where
  "Logout s cx accessToken sessionID =
     (case (sv_users s, sv_sessions s, sv_tokens s, sv_passwords s) of
        (Some users, Some sessions, Some tokens, Some passwords) \<Rightarrow> do {
          v \<leftarrow> ti_ValidateAccessToken tokens cx accessToken;
          case v of
            Inl e \<Rightarrow> ret (Some (AppErr (WithOp (New CodeUnauthorized ''Unauthorized'' 401) ''AuthService.Logout'')))
          | Inr None \<Rightarrow> ret (Some nil_deref)
          | Inr (Some claims) \<Rightarrow> logout_claims s sessions tokens cx claims sessionID
        }
      | _ \<Rightarrow> ret (Some (notImplemented ''AuthService.Logout'')))"

definition LogoutAll :: "('m, 'r) Service \<Rightarrow> ctx \<Rightarrow> string \<Rightarrow> ('m, 'r, err option) M" where
  "LogoutAll s cx userID =
     (case sv_sessions s of
        None \<Rightarrow> ret (Some (notImplemented ''AuthService.LogoutAll''))
      | Some sessions \<Rightarrow> do {
          l \<leftarrow> sr_ListActiveByUserID sessions cx userID;
          case l of
            Inl e \<Rightarrow> ret (Some (opError s ''AuthService.LogoutAll'' e))
          | Inr activeSessions \<Rightarrow> do {
              now \<leftarrow> time_Now;
              r \<leftarrow> sr_RevokeAllByUserID sessions cx userID ''logout_all'' now;
              case r of
                Some e \<Rightarrow> ret (Some (opError s ''AuthService.LogoutAll'' e))
              | None \<Rightarrow> do {
                  recordLogout s (int (length activeSessions));
                  appendAuditLog s cx (auditEvent ''auth.logout_all'' userID ''user'' userID no_meta []);
                  ret None
                }
            }
        })"

definition ListDevices :: "('m, 'r) Service \<Rightarrow> ctx \<Rightarrow> string \<Rightarrow> ('m, 'r, err + DeviceSession list) M" where
  "ListDevices s cx userID =
     (case sv_sessions s of
        None \<Rightarrow> ret (Inl (notImplemented ''AuthService.ListDevices''))
      | Some sessions \<Rightarrow> do {
          l \<leftarrow> sr_ListActiveByUserID sessions cx userID;
          ret (case l of
                 Inl e \<Rightarrow> Inl (opError s ''AuthService.ListDevices'' e)
               | Inr ss \<Rightarrow> Inr (map (\<lambda>session. (device_of session)\<lparr>ds_Current := False, ds_RevokedAt := s_RevokedAt session\<rparr>) ss))
        })"

definition ListLoginHistory :: "('m, 'r) Service \<Rightarrow> ctx \<Rightarrow> string \<Rightarrow> Pagination \<Rightarrow> ('m, 'r, err + LoginHistory list) M" where
  "ListLoginHistory s cx userID pagination =
     (case sv_loginHistory s of
        None \<Rightarrow> ret (Inl (notImplemented ''AuthService.ListLoginHistory''))
      | Some repo \<Rightarrow> do {
          l \<leftarrow> lr_ListByUserID repo cx userID pagination;
          ret (map_sum (opError s ''AuthService.ListLoginHistory'') id l)
        })"

end
