(* ===== verification/SessionStore.thy ===== *)
theory SessionStore
  imports Repositories
begin

text \<open>
  What the repositories do to the collections, over any \<open>Database\<close> that meets the contract
  \<open>store\<close>: the effect of each session operation on the \<open>sessions\<close> collection, which collections
  the others leave alone, and the one-way street of revocation.
\<close>

section \<open>Updates of documents\<close>

lemma map_of_uset:
  "map_of (fold (\<lambda>(k, v) d. AList.update k v d) kvs d) = map_of d ++ map_of (rev kvs)"
  by (induction kvs arbitrary: d) (auto simp: update_conv' map_add_def fun_eq_iff split: option.splits)

lemma map_of_apply_uset [simp]: "map_of (apply_update [USet kvs] d) = map_of d ++ map_of (rev kvs)"
  by (simp add: apply_update_def map_of_uset)

definition revoked :: "doc \<Rightarrow> bool" where
  "revoked d \<longleftrightarrow> map_of d ''revoked_at'' \<noteq> None"

text \<open>All documents with the session identifier are revoked, and there is one.\<close>

definition session_revoked :: "doc list \<Rightarrow> string \<Rightarrow> bool" where
  "session_revoked ds sid \<longleftrightarrow> (\<exists>d \<in> set ds. map_of d ''_id'' = Some (BString sid)) \<and>
     (\<forall>d \<in> set ds. map_of d ''_id'' = Some (BString sid) \<longrightarrow> revoked d)"

text \<open>Updates that keep identifiers and never clear a revocation.\<close>

definition revocation_safe :: "update \<Rightarrow> bool" where
  "revocation_safe u \<longleftrightarrow> (\<forall>d. map_of (apply_update u d) ''_id'' = map_of d ''_id'' \<and> (revoked d \<longrightarrow> revoked (apply_update u d)))"

lemma rotate_update_safe: "revocation_safe (rotate_update h e n)"
  by (simp add: revocation_safe_def rotate_update_def revoked_def)

lemma revoke_update_safe: "revocation_safe (revoke_update reason at)"
  by (simp add: revocation_safe_def revoke_update_def revoked_def)

lemma revoke_update_revokes: "revoked (apply_update (revoke_update reason at) d)"
  by (simp add: revoke_update_def revoked_def)

lemma session_revoked_updated_some:
  assumes "session_revoked ds sid" "updated_some q u ds ds'" "revocation_safe u"
  shows "session_revoked ds' sid"
proof -
  have ids: "list_all2 (\<lambda>d d'. map_of d' ''_id'' = map_of d ''_id'' \<and> (revoked d \<longrightarrow> revoked d')) ds ds'"
    by (rule list_all2_mono [OF assms(2) [unfolded updated_some_def]]) (use assms(3) in \<open>auto simp: revocation_safe_def\<close>)
  have "\<exists>d' \<in> set ds'. map_of d' ''_id'' = Some (BString sid)"
    using assms(1) list_all2_left [OF ids] unfolding session_revoked_def by metis
  moreover have "revoked d'" if "d' \<in> set ds'" "map_of d' ''_id'' = Some (BString sid)" for d'
    using that assms(1) list_all2_right [OF ids that(1)] unfolding session_revoked_def by metis
  ultimately show ?thesis unfolding session_revoked_def by blast
qed

lemma session_revoked_steps:
  "(updated_some q u)\<^sup>*\<^sup>* ds ds' \<Longrightarrow> revocation_safe u \<Longrightarrow> session_revoked ds sid \<Longrightarrow> session_revoked ds' sid"
  by (induction rule: rtranclp_induct) (auto intro: session_revoked_updated_some)

text \<open>A rotation replaces exactly one session document.\<close>

definition rotated :: "string \<Rightarrow> string \<Rightarrow> string \<Rightarrow> time \<Rightarrow> doc list \<Rightarrow> doc list \<Rightarrow> bool" where
  "rotated sid oldHash newHash expiresAt ds ds' \<longleftrightarrow>
     (\<exists>now pre d post. ds = pre @ d # post \<and> matches (rotate_query sid oldHash now) d \<and>
        ds' = pre @ apply_update (rotate_update newHash expiresAt now) d # post)"

lemma matches_rotate_query:
  "matches (rotate_query sid oldHash now) d \<longleftrightarrow>
     map_of d ''_id'' = Some (BString sid) \<and> map_of d ''refresh_token_hash'' = Some (BString oldHash) \<and> \<not> revoked d \<and>
     (\<exists>ms. map_of d ''refresh_token_expires_at'' = Some (BDate ms) \<and> now div millisecond < ms)"
  by (auto simp: matches_def rotate_query_def id_query_def active_at_def revoked_def bson_date_def
      split: option.splits elim: bson_less.elims)

section \<open>The repositories over the contract\<close>

context store
begin

lemma keeps_reads [keeps_intros]:
  "keeps (\<lambda>w. J (colls (w_mongo w))) (db_FindOne db cx c f ro)"
  "keeps (\<lambda>w. J (colls (w_mongo w))) (db_FindMany db cx c f ro)"
  "keeps (\<lambda>w. J (colls (w_mongo w))) (db_Count db cx c f)"
  by (auto intro!: keepsI dest!: st_find_one st_find_many st_count)

lemma keeps_repo_reads [keeps_intros]:
  "keeps (\<lambda>w. J (colls (w_mongo w))) (Session_FindActiveByID db cx sid)"
  "keeps (\<lambda>w. J (colls (w_mongo w))) (Session_FindByRefreshTokenHash db cx h)"
  "keeps (\<lambda>w. J (colls (w_mongo w))) (findActiveByIDNoCache db cx sid)"
  "keeps (\<lambda>w. J (colls (w_mongo w))) (findActiveSessionsByUserIDNoCache db cx uid)"
  "keeps (\<lambda>w. J (colls (w_mongo w))) (findActiveSessionsByTokenFamilyIDNoCache db cx fid)"
  "keeps (\<lambda>w. J (colls (w_mongo w))) (Session_ListActiveByUserID db cx uid)"
  "keeps (\<lambda>w. J (colls (w_mongo w))) (User_FindByID db cx uid)"
  "keeps (\<lambda>w. J (colls (w_mongo w))) (User_FindByEmail db cx email)"
  "keeps (\<lambda>w. J (colls (w_mongo w))) (RevokedToken_FindByTokenID db cx tid)"
  "keeps (\<lambda>w. J (colls (w_mongo w))) (LoginHistory_ListByUserID db cx uid pg)"
  unfolding Session_FindActiveByID_def Session_FindByRefreshTokenHash_def findActiveByIDNoCache_def
    findActiveSessionsByUserIDNoCache_def findActiveSessionsByTokenFamilyIDNoCache_def Session_ListActiveByUserID_def
    User_FindByID_def User_FindByEmail_def RevokedToken_FindByTokenID_def LoginHistory_ListByUserID_def
  by (intro keeps_intros)+

text \<open>An insert or an update touches one collection.\<close>

lemma keeps_insert_other:
  assumes "once wo" "c' \<noteq> c"
  shows "keeps (\<lambda>w. J (colls (w_mongo w) c')) (db_InsertOne db cx c d wo)"
proof (rule keepsI)
  fix w a w' assume J: "J (colls (w_mongo w) c')" and r: "run_state (db_InsertOne db cx c d wo) w = (a, w')"
  with st_insert_any [OF assms(1) r] assms(2) show "J (colls (w_mongo w') c')" by auto
qed

lemma keeps_update_other:
  assumes "c' \<noteq> c"
  shows "keeps (\<lambda>w. J (colls (w_mongo w) c')) (db_UpdateOne db cx c (Query q) u wo)"
proof (rule keepsI)
  fix w a w' assume J: "J (colls (w_mongo w) c')" and r: "run_state (db_UpdateOne db cx c (Query q) u wo) w = (a, w')"
  from st_update_one_any [OF r] assms have "colls (w_mongo w') c' = colls (w_mongo w) c'" by (auto simp: touched_def)
  with J show "J (colls (w_mongo w') c')" by simp
qed

lemma once_unlocked [simp]: "once (write_opts\<lparr>wo_InvalidateKeys := ks\<rparr>)" "once write_opts"
  by (simp_all add: once_def write_opts_def)

lemma once_strict [simp]: "once (write_opts\<lparr>wo_LockKey := k, wo_InvalidateKeys := ks, wo_StrictLock := True\<rparr>)"
  by (simp add: once_def)

lemma keeps_appends [keeps_intros]:
  "c \<noteq> ''audit_logs'' \<Longrightarrow> keeps (\<lambda>w. J (colls (w_mongo w) c)) (AuditLog_Append db cx a)"
  "c \<noteq> ''login_history'' \<Longrightarrow> keeps (\<lambda>w. J (colls (w_mongo w) c)) (LoginHistory_Append db cx h)"
  "c \<noteq> ''revoked_tokens'' \<Longrightarrow> keeps (\<lambda>w. J (colls (w_mongo w) c)) (RevokedToken_Append db cx t)"
  "c \<noteq> ''users'' \<Longrightarrow> keeps (\<lambda>w. J (colls (w_mongo w) c)) (User_Create db cx u)"
  "c \<noteq> ''sessions'' \<Longrightarrow> keeps (\<lambda>w. J (colls (w_mongo w) c)) (Session_Create db cx s)"
  unfolding AuditLog_Append_def LoginHistory_Append_def RevokedToken_Append_def User_Create_def Session_Create_def
  by (auto intro!: keeps_bind keeps_ret keeps_insert_other)

lemma keeps_user_updates [keeps_intros]:
  "c \<noteq> ''users'' \<Longrightarrow> keeps (\<lambda>w. J (colls (w_mongo w) c)) (User_UpdateLastLogin db cx uid at)"
  "c \<noteq> ''users'' \<Longrightarrow> keeps (\<lambda>w. J (colls (w_mongo w) c)) (User_RecordLoginFailure db cx uid email n l at)"
  "c \<noteq> ''users'' \<Longrightarrow> keeps (\<lambda>w. J (colls (w_mongo w) c)) (User_ResetLoginFailures db cx uid email at)"
  "c \<noteq> ''users'' \<Longrightarrow> keeps (\<lambda>w. J (colls (w_mongo w) c)) (User_EnsureRole db cx uid role at)"
  unfolding User_UpdateLastLogin_def User_RecordLoginFailure_def User_ResetLoginFailures_def User_EnsureRole_def Let_def
  by (rule keeps_update_other, assumption)+

lemma RevokedToken_Append_law:
  assumes "run_state (RevokedToken_Append db cx t) w = (None, w')"
  shows "revokedTokenDocumentFromDomain t \<in> set (colls (w_mongo w') ''revoked_tokens'')"
proof -
  have "run_state (db_InsertOne db cx ''revoked_tokens'' (revokedTokenDocumentFromDomain t) write_opts) w = (None, w')"
    using assms by (auto simp: RevokedToken_Append_def mapWriteError_def split: prod.splits option.splits if_splits)
  from st_insert [OF once_unlocked(2) this] show ?thesis by simp
qed

lemma User_Create_law:
  assumes "run_state (User_Create db cx u) w = (None, w')"
  shows "colls (w_mongo w') = (colls (w_mongo w))(''users'' := colls (w_mongo w) ''users'' @ [userDocumentFromDomain u])"
    and "d \<in> set (colls (w_mongo w) ''users'') \<Longrightarrow> map_of d ''email'' \<noteq> Some (BString (NormalizeEmail (u_Email u)))"
proof -
  have y: "run_state (db_InsertOne db cx ''users'' (userDocumentFromDomain u)
      (write_opts\<lparr>wo_InvalidateKeys := [userIDKey (u_ID u), userEmailKey (u_Email u)]\<rparr>)) w = (None, w')"
    using assms by (auto simp: User_Create_def mapWriteError_def split: prod.splits option.splits if_splits)
  show "colls (w_mongo w') = (colls (w_mongo w))(''users'' := colls (w_mongo w) ''users'' @ [userDocumentFromDomain u])"
    using st_insert [OF once_unlocked(1) y] .
  assume d: "d \<in> set (colls (w_mongo w) ''users'')"
  show "map_of d ''email'' \<noteq> Some (BString (NormalizeEmail (u_Email u)))"
  proof
    assume "map_of d ''email'' = Some (BString (NormalizeEmail (u_Email u)))"
    then have "clashes ''users'' (userDocumentFromDomain u) d"
      by (auto simp: clashes_def unique_fields_def userDocumentFromDomain_def)
    with st_insert_clash [OF once_unlocked(1) y d] show False by simp
  qed
qed

subsection \<open>Sessions\<close>

lemma Session_Create_law:
  assumes "run_state (Session_Create db cx s) w = (r, w')"
  shows "r = None \<Longrightarrow> colls (w_mongo w') = (colls (w_mongo w))(''sessions'' := colls (w_mongo w) ''sessions'' @ [sessionDocumentFromDomain s])"
    and "colls (w_mongo w') = colls (w_mongo w) \<or>
         colls (w_mongo w') = (colls (w_mongo w))(''sessions'' := colls (w_mongo w) ''sessions'' @ [sessionDocumentFromDomain s])"
    and "d \<in> set (colls (w_mongo w) ''sessions'') \<Longrightarrow> map_of d ''_id'' = Some (BString (s_ID s)) \<Longrightarrow>
         r \<noteq> None \<and> colls (w_mongo w') = colls (w_mongo w)"
proof -
  obtain y where y: "run_state (db_InsertOne db cx ''sessions'' (sessionDocumentFromDomain s)
      (write_opts\<lparr>wo_InvalidateKeys := [sessionIDKey (s_ID s), sessionRefreshKey (s_RefreshTokenHash s), userActiveSessionsKey (s_UserID s)]\<rparr>)) w
      = (y, w')" and r: "r = mapWriteError y"
    using assms by (auto simp: Session_Create_def split: prod.splits)
  have none: "r = None \<longleftrightarrow> y = None" using r by (auto simp: mapWriteError_def split: option.splits if_splits)
  show "r = None \<Longrightarrow> colls (w_mongo w') = (colls (w_mongo w))(''sessions'' := colls (w_mongo w) ''sessions'' @ [sessionDocumentFromDomain s])"
    using st_insert [OF once_unlocked(1)] y none by blast
  show "colls (w_mongo w') = colls (w_mongo w) \<or>
         colls (w_mongo w') = (colls (w_mongo w))(''sessions'' := colls (w_mongo w) ''sessions'' @ [sessionDocumentFromDomain s])"
    using st_insert_any [OF once_unlocked(1) y] .
  assume d: "d \<in> set (colls (w_mongo w) ''sessions'')" "map_of d ''_id'' = Some (BString (s_ID s))"
  then have "clashes ''sessions'' (sessionDocumentFromDomain s) d"
    by (auto simp: clashes_def unique_fields_def sessionDocumentFromDomain_def)
  then show "r \<noteq> None \<and> colls (w_mongo w') = colls (w_mongo w)"
    using st_insert_clash [OF once_unlocked(1) y d(1)] none by blast
qed

lemma RotateRefreshToken_law:
  assumes "run_state (Session_RotateRefreshToken db cx sid oldHash newHash expiresAt) w = (None, w')"
  shows "rotated sid oldHash newHash expiresAt (colls (w_mongo w) ''sessions'') (colls (w_mongo w') ''sessions'') \<and>
         (\<forall>c. c \<noteq> ''sessions'' \<longrightarrow> colls (w_mongo w') c = colls (w_mongo w) c)"
proof -
  let ?now = "w_clock w (w_tick w)" and ?w0 = "w\<lparr>w_tick := Suc (w_tick w)\<rparr>"
  obtain x w1 where x: "run_state (findActiveByIDNoCache db cx sid) ?w0 = (x, w1)" by fastforce
  have w1: "colls (w_mongo w1) = colls (w_mongo w)"
    using keeps_eqD [where f = "\<lambda>w. colls (w_mongo w)", OF keeps_repo_reads(3) x] by simp
  obtain d ks where "run_state (db_UpdateOne db cx ''sessions'' (Query (rotate_query sid oldHash ?now)) (rotate_update newHash expiresAt ?now)
      (write_opts\<lparr>wo_LockKey := sessionIDKey sid, wo_InvalidateKeys := ks, wo_StrictLock := True\<rparr>)) w1 = (None, w')"
    using assms x by (auto simp: Session_RotateRefreshToken_def split: sum.splits)
  from st_update_one [OF once_strict this] show ?thesis
    unfolding w1 rotated_def updated_one_def by fastforce
qed

lemma Revoke_law:
  assumes "run_state (Session_Revoke db cx sid reason at) w = (r, w')"
  shows "touched (id_query sid) (revoke_update reason at) ''sessions'' (colls (w_mongo w)) (colls (w_mongo w'))"
    and "r = None \<Longrightarrow> updated_one (id_query sid) (revoke_update reason at) (colls (w_mongo w) ''sessions'') (colls (w_mongo w') ''sessions'')"
    and "r = Some e \<Longrightarrow> errors_Is e DbErrNotFound \<Longrightarrow> d \<in> set (colls (w_mongo w) ''sessions'') \<Longrightarrow> map_of d ''_id'' \<noteq> Some (BString sid)"
proof -
  note run = assms [unfolded Session_Revoke_def]
  show "touched (id_query sid) (revoke_update reason at) ''sessions'' (colls (w_mongo w)) (colls (w_mongo w'))"
    using st_update_one_any [OF run] .
  show "updated_one (id_query sid) (revoke_update reason at) (colls (w_mongo w) ''sessions'') (colls (w_mongo w') ''sessions'')"
    if "r = None" using st_update_one [OF once_strict run [unfolded that]] by auto
  show "map_of d ''_id'' \<noteq> Some (BString sid)"
    if "r = Some e" "errors_Is e DbErrNotFound" "d \<in> set (colls (w_mongo w) ''sessions'')"
    using st_update_one_missing [OF once_strict run [unfolded that(1)] that(2)] that(3) by (simp add: matches_def id_query_def)
qed

lemma RevokeAllByUserID_law:
  assumes "run_state (Session_RevokeAllByUserID db cx uid reason at) w = (r, w')"
  shows "touched (unrevoked_of ''user_id'' uid) (revoke_update reason at) ''sessions'' (colls (w_mongo w)) (colls (w_mongo w'))"
    and "r = None \<Longrightarrow> colls (w_mongo w') = (colls (w_mongo w))(''sessions'' :=
           updated_all (unrevoked_of ''user_id'' uid) (revoke_update reason at) (colls (w_mongo w) ''sessions''))"
proof -
  obtain x w1 where x: "run_state (findActiveSessionsByUserIDNoCache db cx uid) w = (x, w1)" by fastforce
  have w1: "colls (w_mongo w1) = colls (w_mongo w)"
    using keeps_eqD [where f = "\<lambda>w. colls (w_mongo w)", OF keeps_repo_reads(4) x] by simp
  show "touched (unrevoked_of ''user_id'' uid) (revoke_update reason at) ''sessions'' (colls (w_mongo w)) (colls (w_mongo w'))"
    using assms x unfolding Session_RevokeAllByUserID_def w1 
    by (cases x) (auto simp: w1 [symmetric] intro: st_update_many_any)
  assume "r = None"
  then show "colls (w_mongo w') = (colls (w_mongo w))(''sessions'' :=
           updated_all (unrevoked_of ''user_id'' uid) (revoke_update reason at) (colls (w_mongo w) ''sessions''))"
    using assms x st_update_many [OF once_strict] unfolding Session_RevokeAllByUserID_def w1 [symmetric]
    by (cases x) auto
qed

lemma RevokeByTokenFamilyID_law:
  assumes "run_state (Session_RevokeByTokenFamilyID db cx fid reason at) w = (r, w')"
  shows "touched (unrevoked_of ''token_family_id'' fid) (revoke_update reason at) ''sessions'' (colls (w_mongo w)) (colls (w_mongo w'))"
    and "r = None \<Longrightarrow> colls (w_mongo w') = (colls (w_mongo w))(''sessions'' :=
           updated_all (unrevoked_of ''token_family_id'' fid) (revoke_update reason at) (colls (w_mongo w) ''sessions''))"
proof -
  obtain x w1 where x: "run_state (findActiveSessionsByTokenFamilyIDNoCache db cx fid) w = (x, w1)" by fastforce
  have w1: "colls (w_mongo w1) = colls (w_mongo w)"
    using keeps_eqD [where f = "\<lambda>w. colls (w_mongo w)", OF keeps_repo_reads(5) x] by simp
  show "touched (unrevoked_of ''token_family_id'' fid) (revoke_update reason at) ''sessions'' (colls (w_mongo w)) (colls (w_mongo w'))"
    using assms x unfolding Session_RevokeByTokenFamilyID_def w1 
    by (cases x) (auto simp: w1 [symmetric] intro: st_update_many_any)
  assume "r = None"
  then show "colls (w_mongo w') = (colls (w_mongo w))(''sessions'' :=
           updated_all (unrevoked_of ''token_family_id'' fid) (revoke_update reason at) (colls (w_mongo w) ''sessions''))"
    using assms x st_update_many [OF once_strict] unfolding Session_RevokeByTokenFamilyID_def w1 [symmetric]
    by (cases x) auto
qed

end

end
