(* ===== verification/AuthProperties.thy ===== *)
theory AuthProperties
  imports AuthService SessionStore
begin

text \<open>
  What the authentication service guarantees about the collections. The locale \<open>auth_env\<close> is the
  contract of the service's environment: the user and session repositories of this program over a
  \<open>Database\<close> that meets \<open>store\<close>, a token service and a password hasher that leave the collections
  alone, audit and history repositories that write to their own collections only, and a transaction
  runner that commits or rolls back.
\<close>

definition core_collections :: "string set" where
  "core_collections = {''users'', ''sessions'', ''revoked_tokens''}"

text \<open>The session that belongs to an answer of the service.\<close>

definition session_of :: "('m, 'r) TokenServiceI \<Rightarrow> AuthResult \<Rightarrow> Session \<Rightarrow> bool" where
  "session_of tokens ans session \<longleftrightarrow>
     s_ID session = ar_SessionID ans \<and> s_UserID session = u_ID (ar_User ans) \<and>
     s_RefreshTokenHash session = ti_HashRefreshToken tokens (ar_RefreshToken ans) \<and>
     s_RefreshTokenExpiresAt session = ar_RefreshTokenExpiresAt ans \<and> s_RevokedAt session = None"

text \<open>
  A transaction runner: the collections after a transaction are those the callback leaves (it may
  have been retried from the collections at the start), or, after a rollback, satisfy whatever the
  callback preserves.
\<close>

locale tx_runner =
  fixes run_tx :: "('m, 'r, 'a) TransactionRunner"
    and colls :: "'m \<Rightarrow> string \<Rightarrow> doc list"
  assumes tx_keeps: "(\<And>cx. keeps (\<lambda>w. J (colls (w_mongo w))) (fn cx)) \<Longrightarrow> keeps (\<lambda>w. J (colls (w_mongo w))) (run_tx cx fn)"
    and tx_commit: "run_state (run_tx cx fn) w = (Inr v, w') \<Longrightarrow>
          \<exists>cx' w1 w2. colls (w_mongo w1) = colls (w_mongo w) \<and> run_state (fn cx') w1 = (Inr v, w2) \<and>
            colls (w_mongo w') = colls (w_mongo w2)"

locale auth_env = store db colls
  for db :: "('m, 'r) Database" and colls :: "'m \<Rightarrow> string \<Rightarrow> doc list" +
  fixes s :: "('m, 'r) Service"
    and tok :: "('m, 'r) TokenServiceI"
    and ph :: "('m, 'r) PasswordHasher"
  assumes sv [simp]: "sv_users s = Some (NewUserRepository db)" "sv_sessions s = Some (NewSessionRepository db)"
      "sv_tokens s = Some tok" "sv_passwords s = Some ph"
    and revoked_repo: "sv_revokedTokens s = Some rr \<Longrightarrow> rr = NewRevokedTokenRepository db"
    and audit_frame: "sv_auditLogs s = Some ar \<Longrightarrow> run_state (ar_Append ar cx a) w = (x1, w') \<Longrightarrow> c \<in> core_collections \<Longrightarrow>
          colls (w_mongo w') c = colls (w_mongo w) c"
    and history_frame: "sv_loginHistory s = Some lr \<Longrightarrow> run_state (lr_Append lr cx h) w = (x1, w') \<Longrightarrow> c \<in> core_collections \<Longrightarrow>
          colls (w_mongo w') c = colls (w_mongo w) c"
    and access_frame: "run_state (ti_GenerateAccessToken tok cx ac) w = (x2, w') \<Longrightarrow> colls (w_mongo w') = colls (w_mongo w)"
    and validate_frame: "run_state (ti_ValidateAccessToken tok cx raw) w = (x3, w') \<Longrightarrow> colls (w_mongo w') = colls (w_mongo w)"
    and refresh_frame: "run_state (ti_GenerateRefreshToken tok) w = (x4, w') \<Longrightarrow> colls (w_mongo w') = colls (w_mongo w)"
    and blacklist_frame: "run_state (ti_BlacklistAccessToken tok cx raw ttl) w = (x1, w') \<Longrightarrow> colls (w_mongo w') = colls (w_mongo w)"
    and refresh_hash: "run_state (ti_GenerateRefreshToken tok) w = (Inr (plain, hash), w') \<Longrightarrow> hash = ti_HashRefreshToken tok plain"
    and hash_frame: "run_state (ph_Hash ph pw) w = (x5, w') \<Longrightarrow> colls (w_mongo w') = colls (w_mongo w)"
    and runner: "sv_transactions s = Some run_tx \<Longrightarrow> tx_runner run_tx colls"
begin

lemmas transaction = tx_runner.tx_keeps [OF runner]
lemmas transaction_commit = tx_runner.tx_commit [OF runner]

lemma repos [simp]:
  "ur_FindByEmail (NewUserRepository db) = User_FindByEmail db" "ur_FindByID (NewUserRepository db) = User_FindByID db"
  "ur_Create (NewUserRepository db) = User_Create db" "ur_RecordLoginFailure (NewUserRepository db) = User_RecordLoginFailure db"
  "ur_ResetLoginFailures (NewUserRepository db) = User_ResetLoginFailures db"
  "ur_UpdateLastLogin (NewUserRepository db) = User_UpdateLastLogin db"
  "sr_Create (NewSessionRepository db) = Session_Create db" "sr_Revoke (NewSessionRepository db) = Session_Revoke db"
  "sr_FindActiveByID (NewSessionRepository db) = Session_FindActiveByID db"
  "sr_FindByRefreshTokenHash (NewSessionRepository db) = Session_FindByRefreshTokenHash db"
  "sr_RotateRefreshToken (NewSessionRepository db) = Session_RotateRefreshToken db"
  "sr_RevokeAllByUserID (NewSessionRepository db) = Session_RevokeAllByUserID db"
  "sr_RevokeByTokenFamilyID (NewSessionRepository db) = Session_RevokeByTokenFamilyID db"
  "sr_ListActiveByUserID (NewSessionRepository db) = Session_ListActiveByUserID db"
  by (simp_all add: NewUserRepository_def NewSessionRepository_def)

subsection \<open>Frames\<close>

lemma keeps_token [keeps_intros]:
  "keeps (\<lambda>w. J (colls (w_mongo w))) (ti_GenerateAccessToken tok cx ac)"
  "keeps (\<lambda>w. J (colls (w_mongo w))) (ti_ValidateAccessToken tok cx raw)"
  "keeps (\<lambda>w. J (colls (w_mongo w))) (ti_GenerateRefreshToken tok)"
  "keeps (\<lambda>w. J (colls (w_mongo w))) (ti_BlacklistAccessToken tok cx raw ttl)"
  "keeps (\<lambda>w. J (colls (w_mongo w))) (ph_Hash ph pw)"
  by (auto intro!: keepsI dest!: access_frame validate_frame refresh_frame blacklist_frame hash_frame)

lemma keeps_newID [keeps_intros]: "keeps (\<lambda>w. K (w_mongo w)) newID" "keeps (\<lambda>w. K (w_mongo w)) (resultDeviceID d)"
  unfolding resultDeviceID_def newID_def by (auto intro!: keeps_intros keeps_modify)

lemma keeps_record [keeps_intros]:
  "keeps (\<lambda>w. K (w_mongo w)) (recordLogin s b)" "keeps (\<lambda>w. K (w_mongo w)) (recordRefresh s b)"
  "keeps (\<lambda>w. K (w_mongo w)) (recordRefreshReuseSuspected s)" "keeps (\<lambda>w. K (w_mongo w)) (recordLogout s n)"
  "keeps (\<lambda>w. K (w_mongo w)) (recordSessionCreated s)"
  unfolding recordLogin_def recordRefresh_def recordRefreshReuseSuspected_def recordLogout_def recordSessionCreated_def
  by (intro keeps_intros)+

lemma keeps_audit [keeps_intros]:
  assumes "c \<in> core_collections"
  shows "keeps (\<lambda>w. J (colls (w_mongo w) c)) (appendAuditLog s cx a)"
    and "keeps (\<lambda>w. J (colls (w_mongo w) c)) (appendLoginHistory s cx h)"
proof -
  have "keeps (\<lambda>w. J (colls (w_mongo w) c)) (ar_Append repo cx a)" if "sv_auditLogs s = Some repo" for repo a
    by (rule keepsI) (use audit_frame [OF that _ assms] in auto)
  then show "keeps (\<lambda>w. J (colls (w_mongo w) c)) (appendAuditLog s cx a)"
    unfolding appendAuditLog_def by (intro keeps_intros)
  have "keeps (\<lambda>w. J (colls (w_mongo w) c)) (lr_Append repo cx h)" if "sv_loginHistory s = Some repo" for repo h
    by (rule keepsI) (use history_frame [OF that _ assms] in auto)
  then show "keeps (\<lambda>w. J (colls (w_mongo w) c)) (appendLoginHistory s cx h)"
    unfolding appendLoginHistory_def by (intro keeps_intros)
qed

lemma core [simp]: "''sessions'' \<in> core_collections" "''users'' \<in> core_collections" "''revoked_tokens'' \<in> core_collections"
  by (simp_all add: core_collections_def)

lemma keeps_audit_both:
  "keeps (\<lambda>w. J (colls (w_mongo w) ''users'') (colls (w_mongo w) ''sessions'')) (appendAuditLog s cx a)"
proof (rule keepsI)
  fix w x w' assume J: "J (colls (w_mongo w) ''users'') (colls (w_mongo w) ''sessions'')"
    and r: "run_state (appendAuditLog s cx a) w = (x, w')"
  have "colls (w_mongo w') c = colls (w_mongo w) c" if "c \<in> core_collections" for c
    by (rule keeps_eqD [where f = "\<lambda>w. colls (w_mongo w) c", OF keeps_audit(1) [OF that] r])
  with J show "J (colls (w_mongo w') ''users'') (colls (w_mongo w') ''sessions'')" by simp
qed

lemma keeps_login_failed [keeps_intros]:
  assumes "c \<in> core_collections" "keeps (\<lambda>w. J (colls (w_mongo w) c)) at"
  shows "keeps (\<lambda>w. J (colls (w_mongo w) c)) (login_failed s cx uid email reason meta at)"
  unfolding login_failed_def by (intro keeps_intros assms)

lemma keeps_tx [keeps_intros]:
  assumes "\<And>cx. keeps (\<lambda>w. J (colls (w_mongo w))) (fn cx)"
  shows "keeps (\<lambda>w. J (colls (w_mongo w))) (withTransaction s cx op fn)"
proof (cases "sv_transactions s")
  case None
  then show ?thesis by (simp add: withTransaction_def assms)
next
  case (Some run_tx)
  show ?thesis unfolding withTransaction_def Some option.case
    by (rule keeps_bind, rule transaction [OF Some assms]) (rule keeps_ret)
qed

subsection \<open>Revocation is final\<close>

lemma keeps_revoked_touched:
  assumes "\<And>w a w'. run_state m w = (a, w') \<Longrightarrow> \<exists>q u. revocation_safe u \<and> touched q u ''sessions'' (colls (w_mongo w)) (colls (w_mongo w'))"
  shows "keeps (\<lambda>w. session_revoked (colls (w_mongo w) ''sessions'') sid) m"
proof (rule keepsI)
  fix w a w' assume R: "session_revoked (colls (w_mongo w) ''sessions'') sid" and r: "run_state m w = (a, w')"
  from assms [OF r] obtain q u where "revocation_safe u" "touched q u ''sessions'' (colls (w_mongo w)) (colls (w_mongo w'))" by blast
  with R show "session_revoked (colls (w_mongo w') ''sessions'') sid" by (auto simp: touched_def intro: session_revoked_steps)
qed

lemma keeps_revoked_repo [keeps_intros]:
  "keeps (\<lambda>w. session_revoked (colls (w_mongo w) ''sessions'') sid) (Session_Revoke db cx sid' reason at)"
  "keeps (\<lambda>w. session_revoked (colls (w_mongo w) ''sessions'') sid) (Session_RevokeAllByUserID db cx uid reason at)"
  "keeps (\<lambda>w. session_revoked (colls (w_mongo w) ''sessions'') sid) (Session_RevokeByTokenFamilyID db cx fid reason at)"
  by (rule keeps_revoked_touched, metis Revoke_law(1) RevokeAllByUserID_law(1) RevokeByTokenFamilyID_law(1) revoke_update_safe)+

lemma keeps_revoked_rotate [keeps_intros]:
  "keeps (\<lambda>w. session_revoked (colls (w_mongo w) ''sessions'') sid) (Session_RotateRefreshToken db cx sid' oldHash newHash e)"
proof -
  have "keeps (\<lambda>w. session_revoked (colls (w_mongo w) ''sessions'') sid)
      (db_UpdateOne db cx ''sessions'' (Query q) (rotate_update newHash e now) wo)" for q now wo
    by (rule keeps_revoked_touched) (metis rotate_update_safe st_update_one_any)
  then show ?thesis unfolding Session_RotateRefreshToken_def by (intro keeps_intros)
qed

lemma keeps_revoked_create [keeps_intros]:
  "keeps (\<lambda>w. session_revoked (colls (w_mongo w) ''sessions'') sid) (Session_Create db cx session)"
proof (rule keepsI)
  fix w a w' assume R: "session_revoked (colls (w_mongo w) ''sessions'') sid" and r: "run_state (Session_Create db cx session) w = (a, w')"
  show "session_revoked (colls (w_mongo w') ''sessions'') sid"
  proof (cases "s_ID session = sid")
    case True
    with R Session_Create_law(3) [OF r] show ?thesis unfolding session_revoked_def by metis
  next
    case False
    then have "map_of (sessionDocumentFromDomain session) ''_id'' \<noteq> Some (BString sid)"
      by (simp add: sessionDocumentFromDomain_def)
    with R Session_Create_law(2) [OF r] show ?thesis unfolding session_revoked_def by auto
  qed
qed

lemma keeps_revoked_issue [keeps_intros]:
  "keeps (\<lambda>w. session_revoked (colls (w_mongo w) ''sessions'') sid) (issueAuthResult s (NewSessionRepository db) tok cx usr meta)"
  unfolding issueAuthResult_def repos by (intro keeps_intros)

lemma keeps_revoked_register_tx [keeps_intros]:
  "keeps (\<lambda>w. session_revoked (colls (w_mongo w) ''sessions'') sid)
     (register_tx s (NewUserRepository db) (NewSessionRepository db) tok usr meta cx)"
  unfolding register_tx_def repos by (intro keeps_intros) simp_all

lemma keeps_revoked_Register:
  "keeps (\<lambda>w. session_revoked (colls (w_mongo w) ''sessions'') sid) (Register s cx ri meta)"
  unfolding Register_def sv prod.case option.case repos by (intro keeps_intros) simp_all

lemma keeps_recordLoginFailure [keeps_intros]:
  "c \<noteq> ''users'' \<Longrightarrow> keeps (\<lambda>w. J (colls (w_mongo w) c)) (recordLoginFailure s cx usr now)"
  unfolding recordLoginFailure_def sv option.case repos by (intro keeps_intros)

lemma keeps_login_succeeded [keeps_intros]:
  "c \<in> core_collections \<Longrightarrow> keeps (\<lambda>w. J (colls (w_mongo w) c)) (login_succeeded s cx email usr meta result)"
  unfolding login_succeeded_def by (intro keeps_intros)

lemma keeps_revoked_login_tx [keeps_intros]:
  "keeps (\<lambda>w. session_revoked (colls (w_mongo w) ''sessions'') sid)
     (login_tx s (NewUserRepository db) (NewSessionRepository db) tok email usr meta cx)"
  unfolding login_tx_def repos by (intro keeps_intros) simp_all

lemma keeps_revoked_Login:
  "keeps (\<lambda>w. session_revoked (colls (w_mongo w) ''sessions'') sid) (Login s cx li meta)"
  unfolding Login_def sv prod.case option.case repos by (intro keeps_intros) simp_all

lemma keeps_revoked_rotation [keeps_intros]:
  "keeps (\<lambda>w. session_revoked (colls (w_mongo w) ''sessions'') sid) (rotation_failed s (NewSessionRepository db) cx usr session meta e)"
  "keeps (\<lambda>w. session_revoked (colls (w_mongo w) ''sessions'') sid) (refresh_rotate s (NewSessionRepository db) tok cx oldHash usr session meta)"
proof -
  show f: "keeps (\<lambda>w. session_revoked (colls (w_mongo w) ''sessions'') sid) (rotation_failed s (NewSessionRepository db) cx usr session meta e)" for e
    unfolding rotation_failed_def repos by (intro keeps_intros) simp_all
  show "keeps (\<lambda>w. session_revoked (colls (w_mongo w) ''sessions'') sid) (refresh_rotate s (NewSessionRepository db) tok cx oldHash usr session meta)"
    unfolding refresh_rotate_def repos by (intro keeps_intros f) simp_all
qed

lemma keeps_revoked_refresh_revoke [keeps_intros]:
  "keeps (\<lambda>w. session_revoked (colls (w_mongo w) ''sessions'') sid) (refresh_revoke s (NewSessionRepository db) cx session)"
  unfolding refresh_revoke_def repos by (intro keeps_intros)

lemma keeps_revoked_Refresh:
  "keeps (\<lambda>w. session_revoked (colls (w_mongo w) ''sessions'') sid) (Refresh s cx raw meta)"
  unfolding Refresh_def sv prod.case option.case repos by (intro keeps_intros) simp_all

lemma keeps_revoked_Logout:
  "keeps (\<lambda>w. session_revoked (colls (w_mongo w) ''sessions'') sid) (Logout s cx raw target)"
proof -
  have app: "keeps (\<lambda>w. session_revoked (colls (w_mongo w) ''sessions'') sid) (rr_Append repo cx t)"
    if "sv_revokedTokens s = Some repo" for repo t
    unfolding revoked_repo [OF that] NewRevokedTokenRepository_def RevokedTokenRepository.select_convs
    by (intro keeps_intros) simp
  show ?thesis
    unfolding Logout_def logout_claims_def logout_blacklist_def logout_session_def sv prod.case option.case repos
    by (intro keeps_intros app) simp_all
qed

lemma keeps_revoked_LogoutAll:
  "keeps (\<lambda>w. session_revoked (colls (w_mongo w) ''sessions'') sid) (LogoutAll s cx uid)"
  unfolding LogoutAll_def sv option.case repos by (intro keeps_intros) simp_all

subsection \<open>Refresh\<close>

lemma fails_rotation_failed: "fails (rotation_failed s sessions cx usr session meta e)"
  unfolding rotation_failed_def by (intro never_intros)

lemma fails_refresh_revoke: "fails (refresh_revoke s sessions cx session)"
  unfolding refresh_revoke_def by (intro never_intros)

lemma ht_err: "ht P (ret (Inl e)) (\<lambda>r w. \<forall>v. r = Inr v \<longrightarrow> Q v w)" "ht P (m \<bind> (\<lambda>_. ret (Inl e))) (\<lambda>r w. \<forall>v. r = Inr v \<longrightarrow> Q v w)"
  by (intro ht_fails never_intros)+

lemma refresh_rotate_ht:
  "ht (\<lambda>w. colls (w_mongo w) ''sessions'' = ds) (refresh_rotate s (NewSessionRepository db) tok cx oldHash usr session meta)
     (\<lambda>r w. \<forall>res. r = Inr res \<longrightarrow> ar_SessionID res = s_ID session \<and> ar_User res = usr \<and>
        rotated (s_ID session) oldHash (ti_HashRefreshToken tok (ar_RefreshToken res)) (ar_RefreshTokenExpiresAt res) ds
          (colls (w_mongo w) ''sessions''))"
proof -
  let ?S = "\<lambda>w. colls (w_mongo w) ''sessions''"
  have gen: "ht (\<lambda>w. ?S w = ds) (ti_GenerateRefreshToken tok)
      (\<lambda>r w. ?S w = ds \<and> (\<forall>p h. r = Inr (p, h) \<longrightarrow> h = ti_HashRefreshToken tok p))"
    by (rule htI) (auto dest: refresh_frame refresh_hash)
  have rot: "ht (\<lambda>w. ?S w = ds) (Session_RotateRefreshToken db cx sid old new e)
      (\<lambda>r w. r = None \<longrightarrow> rotated sid old new e ds (?S w))" for sid old new e
    by (rule htI) (use RotateRefreshToken_law in blast)
  show ?thesis
    unfolding refresh_rotate_def repos
    apply (rule ht_bind [OF gen], rule ht_pure, rule ht_case_sum, rule ht_fails, rule never_intros, rule ht_case_prod)
    apply (rule ht_bind [where R = "\<lambda>now w. ?S w = ds"], simp add: ht_def, rule ht_let, rule ht_bind [OF rot])
    apply (rule ht_case_option [rotated], rule ht_fails, rule fails_rotation_failed)
    apply (rule ht_keeps_bind [OF keeps_audit(1) [OF core(1)]], rule ht_keeps_bind [OF keeps_newID(1)], rule ht_keeps_bind [OF keeps_token(1)])
    apply (rule ht_case_sum, rule ht_fails, rule never_intros, rule ht_case_prod, rule ht_keeps_bind [OF keeps_record(2)])
    apply (rule ht_ret_I)
    apply simp
    done
qed

lemma ht_keep_sessions:
  assumes "keeps (\<lambda>w. colls (w_mongo w) ''sessions'' = ds) m" "\<And>a. ht (\<lambda>w. colls (w_mongo w) ''sessions'' = ds) (f a) Q"
  shows "ht (\<lambda>w. colls (w_mongo w) ''sessions'' = ds) (m \<bind> f) Q"
  using assms by (rule ht_keeps_bind)

lemma Refresh_ht:
  "ht (\<lambda>w. colls (w_mongo w) ''sessions'' = ds) (Refresh s cx raw meta)
     (\<lambda>r w. \<forall>res. r = Inr res \<longrightarrow>
        rotated (ar_SessionID res) (ti_HashRefreshToken tok raw) (ti_HashRefreshToken tok (ar_RefreshToken res))
          (ar_RefreshTokenExpiresAt res) ds (colls (w_mongo w) ''sessions''))"
proof -
  have rr: "ht (\<lambda>w. colls (w_mongo w) ''sessions'' = ds) (refresh_rotate s (NewSessionRepository db) tok cx oldHash usr session meta)
     (\<lambda>r w. \<forall>res. r = Inr res \<longrightarrow> rotated (ar_SessionID res) oldHash (ti_HashRefreshToken tok (ar_RefreshToken res))
          (ar_RefreshTokenExpiresAt res) ds (colls (w_mongo w) ''sessions''))" for oldHash usr session
    by (rule ht_conseq [OF refresh_rotate_ht]) auto
  show ?thesis
    unfolding Refresh_def sv prod.case option.case repos Let_def
    by (intro ht_err ht_if ht_case_sum ht_case_option rr ht_fails [OF fails_refresh_revoke] ht_keep_sessions keeps_intros core)
qed

subsection \<open>Register and login\<close>

lemma issue_ht:
  "ht (\<lambda>w. colls (w_mongo w) = cs) (issueAuthResult s (NewSessionRepository db) tok cx usr meta)
     (\<lambda>r w. \<forall>res. r = Inr res \<longrightarrow> ar_User res = usr \<and>
        (\<exists>session. session_of tok res session \<and> colls (w_mongo w) = cs(''sessions'' := cs ''sessions'' @ [sessionDocumentFromDomain session])))"
proof -
  let ?C = "\<lambda>w. colls (w_mongo w)"
  have gen: "ht (\<lambda>w. ?C w = cs) (ti_GenerateRefreshToken tok) (\<lambda>r w. ?C w = cs \<and> (\<forall>p h. r = Inr (p, h) \<longrightarrow> h = ti_HashRefreshToken tok p))"
    by (rule htI) (auto dest: refresh_frame refresh_hash)
  have create: "ht (\<lambda>w. ?C w = cs) (Session_Create db cx session)
      (\<lambda>r w. r = None \<longrightarrow> ?C w = cs(''sessions'' := cs ''sessions'' @ [sessionDocumentFromDomain session]))" for session
    by (rule htI) (use Session_Create_law(1) in blast)
  show ?thesis
    unfolding issueAuthResult_def repos
    apply (rule ht_bind [where R = "\<lambda>now w. ?C w = cs"], simp add: ht_def)
    apply (rule ht_bind [OF gen], rule ht_pure, rule ht_case_sum, rule ht_err, rule ht_case_prod)
    apply (rule ht_keeps_bind [OF keeps_newID(2)], rule ht_keeps_bind [OF keeps_newID(1)], rule ht_keeps_bind [OF keeps_newID(1)])
    apply (rule ht_let, rule ht_bind [OF create], rule ht_case_option [rotated], rule ht_err)
    apply (rule ht_keeps_bind [OF keeps_newID(1)], rule ht_keeps_bind [OF keeps_token(1)], rule ht_ret_I)
    apply (auto simp: session_of_def split: sum.splits prod.splits intro!: exI)
    done
qed

lemma tx_ht:
  assumes "\<And>cx. ht (\<lambda>w. colls (w_mongo w) = cs) (fn cx) (\<lambda>r w. \<forall>res. r = Inr res \<longrightarrow> K res (colls (w_mongo w)))"
  shows "ht (\<lambda>w. colls (w_mongo w) = cs) (withTransaction s cx op fn) (\<lambda>r w. \<forall>res. r = Inr res \<longrightarrow> K res (colls (w_mongo w)))"
proof (cases "sv_transactions s")
  case None
  then show ?thesis by (simp add: withTransaction_def assms)
next
  case (Some run_tx)
  have "ht (\<lambda>w. colls (w_mongo w) = cs) (run_tx cx fn) (\<lambda>r w. \<forall>res. r = Inr res \<longrightarrow> K res (colls (w_mongo w)))"
  proof (rule htI)
    fix w r w' assume w: "colls (w_mongo w) = cs" and r: "run_state (run_tx cx fn) w = (r, w')"
    show "\<forall>res. r = Inr res \<longrightarrow> K res (colls (w_mongo w'))"
    proof (intro allI impI)
      fix res assume "r = Inr res"
      with r transaction_commit [OF Some] w obtain cx' w1 w2 where
        "colls (w_mongo w1) = cs" "run_state (fn cx') w1 = (Inr res, w2)" "colls (w_mongo w') = colls (w_mongo w2)" by metis
      with htD [OF assms] show "K res (colls (w_mongo w'))" by fastforce
    qed
  qed
  then show ?thesis unfolding withTransaction_def Some option.case
  proof (rule ht_bind)
    show "ht (\<lambda>w. \<forall>res. r = Inr res \<longrightarrow> K res (colls (w_mongo w))) (ret (map_sum (opError s op) id r))
        (\<lambda>r w. \<forall>res. r = Inr res \<longrightarrow> K res (colls (w_mongo w)))" for r
      by (cases r) (auto intro!: ht_ret_I)
  qed
qed

lemma Login_ht:
  "ht (\<lambda>w. colls (w_mongo w) = cs) (Login s cx li meta)
     (\<lambda>r w. \<forall>res. r = Inr res \<longrightarrow>
        ph_Compare ph (u_PasswordHash (ar_User res)) (li_Password li) = None \<and> u_Status (ar_User res) = StatusActive \<and>
        (\<exists>session. session_of tok res session \<and> colls (w_mongo w) ''sessions'' = cs ''sessions'' @ [sessionDocumentFromDomain session]))"
proof -
  let ?C = "\<lambda>w. colls (w_mongo w)"
  let ?K = "\<lambda>usr res cs'. ar_User res = usr \<and>
     (\<exists>session. session_of tok res session \<and> cs' ''sessions'' = cs ''sessions'' @ [sessionDocumentFromDomain session])"
  have tx: "ht (\<lambda>w. ?C w = cs) (login_tx s (NewUserRepository db) (NewSessionRepository db) tok email usr meta txCtx)
      (\<lambda>r w. \<forall>res. r = Inr res \<longrightarrow> ?K usr res (?C w))" for usr email txCtx
    unfolding login_tx_def repos
    apply (rule ht_bind [OF ht_conseq [OF issue_ht, where Q = "\<lambda>r w. \<forall>res. r = Inr res \<longrightarrow> ?K usr res (?C w)"]], assumption, fastforce)
    apply (rule ht_case_sum, rule ht_err, rule ht_keeps_bind, rule keeps_intros)
    apply (rule ht_keeps_bind, rule keeps_user_updates, simp, rule ht_case_option [rotated], rule ht_err)
    apply (rule ht_keeps_bind, rule keeps_user_updates, simp, rule ht_ret_I, simp split: option.splits)
    done
  have commit: "ht (\<lambda>w. ?C w = cs) (do {
        r \<leftarrow> withTransaction s cx op (login_tx s (NewUserRepository db) (NewSessionRepository db) tok email usr meta);
        case r of Inl e \<Rightarrow> ret (Inl (opError s op' e))
        | Inr result \<Rightarrow> do { login_succeeded s cx email usr meta result; ret (Inr result) } })
      (\<lambda>r w. \<forall>res. r = Inr res \<longrightarrow> ?K usr res (?C w))" for usr email op op'
    by (rule ht_bind [OF tx_ht [OF tx]], rule ht_case_sum, rule ht_err, rule ht_keeps_bind [OF keeps_login_succeeded [OF core(1)]], rule ht_ret_I) simp
  let ?Q = "\<lambda>r w. \<forall>res. r = Inr res \<longrightarrow>
        ph_Compare ph (u_PasswordHash (ar_User res)) (li_Password li) = None \<and> u_Status (ar_User res) = StatusActive \<and>
        (\<exists>session. session_of tok res session \<and> colls (w_mongo w) ''sessions'' = cs ''sessions'' @ [sessionDocumentFromDomain session])"
  have check: "ht (\<lambda>w. ?C w = cs) (if u_Status usr \<noteq> StatusActive then ret True else do { now \<leftarrow> time_Now; ret (IsLocked usr now) })
      (\<lambda>b w. ?C w = cs \<and> (\<not> b \<longrightarrow> u_Status usr = StatusActive))" for usr
    by (auto simp: ht_def)
  show ?thesis
    unfolding Login_def sv prod.case option.case repos Let_def
    apply (rule ht_keeps_bind [OF keeps_repo_reads(8)], rule ht_case_sum, rule ht_if, rule ht_err, intro ht_fails never_intros)
    apply (rule ht_case_option, rule ht_err, rule ht_bind [OF check], rule ht_pure, rule ht_if, intro ht_fails never_intros)
    apply (rule ht_if, intro ht_fails never_intros)
    apply (rule ht_conseq [OF commit], assumption, fastforce)
    done
qed

lemma Register_ht:
  "ht (\<lambda>w. colls (w_mongo w) = cs) (Register s cx ri meta)
     (\<lambda>r w. \<forall>res. r = Inr res \<longrightarrow>
        u_Email (ar_User res) = NormalizeEmail (ri_Email ri) \<and> u_Roles (ar_User res) = [RoleUser] \<and>
        (\<forall>d \<in> set (cs ''users''). map_of d ''email'' \<noteq> Some (BString (NormalizeEmail (ri_Email ri)))) \<and>
        colls (w_mongo w) ''users'' = cs ''users'' @ [userDocumentFromDomain (ar_User res)] \<and>
        (\<exists>session. session_of tok res session \<and> colls (w_mongo w) ''sessions'' = cs ''sessions'' @ [sessionDocumentFromDomain session]))"
proof -
  let ?C = "\<lambda>w. colls (w_mongo w)"
  let ?K = "\<lambda>usr res cs'. ar_User res = usr \<and>
     (\<forall>d \<in> set (cs ''users''). map_of d ''email'' \<noteq> Some (BString (NormalizeEmail (u_Email usr)))) \<and>
     cs' ''users'' = cs ''users'' @ [userDocumentFromDomain usr] \<and>
     (\<exists>session. session_of tok res session \<and> cs' ''sessions'' = cs ''sessions'' @ [sessionDocumentFromDomain session])"
  have create: "ht (\<lambda>w. ?C w = cs) (User_Create db txCtx usr) (\<lambda>r w. (r = None \<longrightarrow> ?C w = cs(''users'' := cs ''users'' @ [userDocumentFromDomain usr])) \<and>
      (r = None \<longrightarrow> (\<forall>d \<in> set (cs ''users''). map_of d ''email'' \<noteq> Some (BString (NormalizeEmail (u_Email usr))))))" for txCtx usr
    by (rule htI) (use User_Create_law in blast)
  have tx: "ht (\<lambda>w. ?C w = cs) (register_tx s (NewUserRepository db) (NewSessionRepository db) tok usr meta txCtx)
      (\<lambda>r w. \<forall>res. r = Inr res \<longrightarrow> ?K usr res (?C w))" for usr txCtx
    unfolding register_tx_def repos
    apply (rule ht_bind [OF create], rule ht_pure, rule ht_case_option [rotated], rule ht_err)
    apply (rule ht_conseq [OF issue_ht [where cs = "cs(''users'' := cs ''users'' @ [userDocumentFromDomain usr])"]], simp, fastforce)
    done
  show ?thesis
    unfolding Register_def sv prod.case option.case repos Let_def
    apply (rule ht_case_option [rotated], rule ht_err, rule ht_keeps_bind [OF keeps_repo_reads(8)], rule ht_if, rule ht_err)
    apply (rule ht_if, rule ht_err, rule ht_keeps_bind, rule keeps_intros, rule ht_keeps_bind [OF keeps_token(5)])
    apply (rule ht_case_sum, rule ht_err, rule ht_keeps_bind [OF keeps_newID(1)])
    apply (rule ht_bind [OF tx_ht [OF tx]], rule ht_case_sum, rule ht_err)
    apply (rule ht_keeps_bind [OF keeps_record(5)], rule ht_keeps_bind [OF keeps_audit_both], rule ht_ret_I)
    apply (simp add: User_New_def)
    done
qed

subsection \<open>Logout\<close>

lemma LogoutAll_ht:
  "ht (\<lambda>_. True) (LogoutAll s cx uid)
     (\<lambda>r w. r = None \<longrightarrow> (\<forall>d \<in> set (colls (w_mongo w) ''sessions''). map_of d ''user_id'' = Some (BString uid) \<longrightarrow> revoked d))"
proof -
  let ?J = "\<lambda>ds. \<forall>d \<in> set ds. map_of d ''user_id'' = Some (BString uid) \<longrightarrow> revoked d"
  have all: "?J (updated_all (unrevoked_of ''user_id'' uid) (revoke_update reason at) ds)" for reason at ds
    using revoke_update_revokes by (auto simp: updated_all_def matches_def unrevoked_of_def revoked_def)
  have revoke: "ht (\<lambda>_. True) (Session_RevokeAllByUserID db cx uid reason at) (\<lambda>r w. r = None \<longrightarrow> ?J (colls (w_mongo w) ''sessions''))" for reason at
    by (rule htI) (use RevokeAllByUserID_law(2) all in fastforce)
  show ?thesis
    unfolding LogoutAll_def sv option.case repos
    apply (rule ht_bind [where R = "\<lambda>_ _. True"], simp add: ht_def, rule ht_case_sum, rule ht_ret_I, simp)
    apply (rule ht_bind [where R = "\<lambda>_ _. True"], simp add: ht_def, rule ht_bind [OF revoke], rule ht_case_option [rotated], rule ht_ret_I, simp)
    apply (rule ht_keeps_bind [OF keeps_record(4)], rule ht_keeps_bind [OF keeps_audit(1) [OF core(1)]], rule ht_ret_I, simp)
    done
qed

lemma keeps_Revoke_other [keeps_intros]:
  "c \<noteq> ''sessions'' \<Longrightarrow> keeps (\<lambda>w. J (colls (w_mongo w) c)) (Session_Revoke db cx sid reason at)"
  unfolding Session_Revoke_def by (rule keeps_update_other)

lemma logout_session_ht:
  "ht (\<lambda>w. J (colls (w_mongo w) ''revoked_tokens'')) (logout_session s (NewSessionRepository db) cx claims sessionID)
     (\<lambda>r w. r = None \<longrightarrow> J (colls (w_mongo w) ''revoked_tokens'') \<and>
        (let target = (if TrimSpace sessionID = [] then ac_SessionID claims else TrimSpace sessionID)
         in target \<noteq> [] \<longrightarrow> (\<exists>d \<in> set (colls (w_mongo w) ''sessions''). map_of d ''_id'' = Some (BString target) \<and> revoked d)))"
proof -
  have revoke: "ht (\<lambda>w. J (colls (w_mongo w) ''revoked_tokens'')) (Session_Revoke db cx sid reason at)
      (\<lambda>r w. J (colls (w_mongo w) ''revoked_tokens'') \<and>
        (r = None \<longrightarrow> (\<exists>d \<in> set (colls (w_mongo w) ''sessions''). map_of d ''_id'' = Some (BString sid) \<and> revoked d)))" for sid reason at
  proof (rule htI)
    fix w r w' assume J: "J (colls (w_mongo w) ''revoked_tokens'')" and r: "run_state (Session_Revoke db cx sid reason at) w = (r, w')"
    have "keeps (\<lambda>w. J (colls (w_mongo w) ''revoked_tokens'')) (Session_Revoke db cx sid reason at)"
      by (rule keeps_Revoke_other) simp
    then have "J (colls (w_mongo w') ''revoked_tokens'')" using J r by (rule keepsD)
    moreover have "\<exists>d \<in> set (colls (w_mongo w') ''sessions''). map_of d ''_id'' = Some (BString sid) \<and> revoked d" if "r = None"
      using Revoke_law(2) [OF r that] revoke_update_revokes revoke_update_safe
      by (fastforce simp: updated_one_def revocation_safe_def matches_def id_query_def)
    ultimately show "J (colls (w_mongo w') ''revoked_tokens'') \<and>
        (r = None \<longrightarrow> (\<exists>d \<in> set (colls (w_mongo w') ''sessions''). map_of d ''_id'' = Some (BString sid) \<and> revoked d))" by blast
  qed
  have audit: "keeps (\<lambda>w. J (colls (w_mongo w) ''revoked_tokens'') \<and> K (colls (w_mongo w) ''sessions'')) (appendAuditLog s cx a)" for K a
    by (intro keeps_conj keeps_audit core)
  show ?thesis
    unfolding logout_session_def repos Let_def
    apply (rule ht_if, rule ht_ret_I, simp)
    apply (rule ht_bind [where R = "\<lambda>_ w. J (colls (w_mongo w) ''revoked_tokens'')"], simp add: ht_def)
    apply (rule ht_bind [OF revoke], rule ht_case_option [rotated], rule ht_ret_I, simp)
    apply (rule ht_keeps_bind [OF keeps_record(4)], rule ht_keeps_bind [OF audit], rule ht_ret_I, simp)
    done
qed

lemma logout_claims_ht:
  assumes "sv_revokedTokens s = Some rr" "ac_TokenID claims \<noteq> []"
  shows "ht (\<lambda>_. True) (logout_claims s (NewSessionRepository db) tok cx claims sessionID)
     (\<lambda>r w. r = None \<longrightarrow> (\<exists>d \<in> set (colls (w_mongo w) ''revoked_tokens''). map_of d ''_id'' = Some (BString (ac_TokenID claims)) \<and>
            map_of d ''expires_at'' = Some (bson_date (ac_ExpiresAt claims))) \<and>
         (let target = (if TrimSpace sessionID = [] then ac_SessionID claims else TrimSpace sessionID)
          in target \<noteq> [] \<longrightarrow> (\<exists>d \<in> set (colls (w_mongo w) ''sessions''). map_of d ''_id'' = Some (BString target) \<and> revoked d)))"
proof -
  let ?J = "\<lambda>ds. \<exists>d \<in> set ds. map_of d ''_id'' = Some (BString (ac_TokenID claims)) \<and> map_of d ''expires_at'' = Some (bson_date (ac_ExpiresAt claims))"
  let ?t = "\<lambda>now. \<lparr>rt_TokenID = ac_TokenID claims, rt_UserID = ac_UserID claims, rt_SessionID = ac_SessionID claims,
     rt_ExpiresAt = ac_ExpiresAt claims, rt_RevokedAt = now\<rparr>"
  have append: "ht (\<lambda>_. True) (do { now' \<leftarrow> time_Now; rr_Append rr cx (?t now') }) (\<lambda>r w. r = None \<longrightarrow> ?J (colls (w_mongo w) ''revoked_tokens''))"
  proof (rule ht_bind [where R = "\<lambda>_ _. True"])
    show "ht (\<lambda>_. True) (rr_Append rr cx (?t now)) (\<lambda>r w. r = None \<longrightarrow> ?J (colls (w_mongo w) ''revoked_tokens''))" for now
      unfolding revoked_repo [OF assms(1)] NewRevokedTokenRepository_def RevokedTokenRepository.select_convs
      by (rule htI) (auto dest!: RevokedToken_Append_law simp: revokedTokenDocumentFromDomain_def intro!: bexI)
  qed (simp add: ht_def)
  have blacklist: "ht (\<lambda>w. None = None \<longrightarrow> ?J (colls (w_mongo w) ''revoked_tokens''))
      (logout_blacklist s (NewSessionRepository db) tok cx claims ttl sessionID)
      (\<lambda>r w. r = None \<longrightarrow> ?J (colls (w_mongo w) ''revoked_tokens'') \<and>
         (let target = (if TrimSpace sessionID = [] then ac_SessionID claims else TrimSpace sessionID)
          in target \<noteq> [] \<longrightarrow> (\<exists>d \<in> set (colls (w_mongo w) ''sessions''). map_of d ''_id'' = Some (BString target) \<and> revoked d)))" for ttl
    unfolding logout_blacklist_def
    apply (rule ht_keeps_bind, intro keeps_intros, rule ht_case_option [rotated], rule ht_ret_I, simp)
    apply (rule ht_conseq [OF logout_session_ht [where J = ?J]], simp, simp)
    done
  show ?thesis
    unfolding logout_claims_def assms(1) option.case if_not_P [OF assms(2)]
    apply (rule ht_bind [where R = "\<lambda>_ _. True"], simp add: ht_def, rule ht_let, rule ht_bind [OF append])
    apply (rule ht_case_option [rotated], rule ht_ret_I, simp, rule ht_conseq [OF blacklist], simp, assumption)
    done
qed

end

end
