(* ===== verification/Formats.thy ===== *)
theory Formats
  imports Prelude
begin

text \<open>
  The text formats of the standard library that the program builds keys and headers with: decimal
  integers (\<open>strconv.Itoa\<close>), booleans (\<open>strconv.FormatBool\<close>) and instants in UTC
  (\<open>time.RFC3339Nano\<close>).
\<close>

fun digits :: "nat \<Rightarrow> string" where
  "digits n = (if n < 10 then [char_of (48 + n)] else digits (n div 10) @ [char_of (48 + n mod 10)])"

declare digits.simps [simp del]

definition Itoa :: "int \<Rightarrow> string" where
  "Itoa i = (if i < 0 then CHR ''-'' # digits (nat (- i)) else digits (nat i))"

definition FormatBool :: "bool \<Rightarrow> string" where
  "FormatBool b = (if b then ''true'' else ''false'')"

definition padded :: "nat \<Rightarrow> int \<Rightarrow> string" where
  "padded width i = (let ds = Itoa i in replicate (width - length ds) CHR ''0'' @ ds)"

text \<open>Year, month and day of a number of days since 1 January of year 1 (Gregorian, proleptic).\<close>

definition civil_of_days :: "int \<Rightarrow> int \<times> int \<times> int" where
  "civil_of_days days =
     (let z = days + 306; era = z div 146097; doe = z mod 146097;
          yoe = (doe - doe div 1460 + doe div 36524 - doe div 146096) div 365;
          doy = doe - (365 * yoe + yoe div 4 - yoe div 100); mp = (5 * doy + 2) div 153;
          d = doy - (153 * mp + 2) div 5 + 1; m = (if mp < 10 then mp + 3 else mp - 9)
      in (yoe + era * 400 + (if m \<le> 2 then 1 else 0), m, d))"

definition fraction :: "int \<Rightarrow> string" where
  "fraction ns = (let ds = rev (dropWhile (\<lambda>c. c = CHR ''0'') (rev (padded 9 ns))) in if ds = [] then [] else CHR ''.'' # ds)"

definition RFC3339Nano :: "time \<Rightarrow> string" where
  "RFC3339Nano t =
     (let secs = t div second; (y, m, d) = civil_of_days (secs div 86400); s = secs mod 86400
      in padded 4 y @ ''-'' @ padded 2 m @ ''-'' @ padded 2 d @ ''T'' @ padded 2 (s div 3600) @ '':'' @
         padded 2 (s div 60 mod 60) @ '':'' @ padded 2 (s mod 60) @ fraction (t mod second) @ ''Z'')"

section \<open>Decimal text determines the number\<close>

definition undigits :: "string \<Rightarrow> nat" where
  "undigits s = foldl (\<lambda>n c. 10 * n + (of_char c - 48)) 0 s"

lemma undigits_digits [simp]: "undigits (digits n) = n"
proof (induction n rule: digits.induct)
  case (1 n)
  show ?case
  proof (cases "n < 10")
    case True
    then show ?thesis by (subst digits.simps) (simp add: undigits_def)
  next
    case False
    with 1 have "undigits (digits (n div 10) @ [char_of (48 + n mod 10)]) = 10 * (n div 10) + n mod 10"
      by (simp add: undigits_def)
    then show ?thesis using False by (subst digits.simps) simp
  qed
qed

lemma char_digit: "k < 10 \<Longrightarrow> char_of (48 + k) \<noteq> CHR ''-''" for k :: nat
proof
  assume k: "k < 10" and "char_of (48 + k) = CHR ''-''"
  then have "(of_char (char_of (48 + k) :: char) :: nat) = of_char CHR ''-''" by simp
  with k show False by simp
qed

lemma digits_set: "CHR ''-'' \<notin> set (digits n)"
proof (induction n rule: digits.induct)
  case (1 n)
  then show ?case using char_digit [of "n mod 10"] char_digit [of n] by (subst digits.simps) auto
qed

lemma digits_not_Nil [simp]: "digits n \<noteq> []"
  by (subst digits.simps) simp

lemma digits_inj: "digits a = digits b \<Longrightarrow> a = b"
  by (metis undigits_digits)

lemma Itoa_inj: "Itoa i = Itoa j \<Longrightarrow> i = j"
proof -
  assume e: "Itoa i = Itoa j"
  have "digits n \<noteq> CHR ''-'' # cs" for n cs using digits_set [of n] by auto
  with e have "i < 0 \<and> j < 0 \<or> 0 \<le> i \<and> 0 \<le> j" by (auto simp: Itoa_def split: if_splits) (metis+)?
  then show "i = j" using e digits_inj by (auto simp: Itoa_def dest!: digits_inj)
qed

end
