(* ===== verification/Outbox.thy ===== *)
theory Outbox
  imports SessionStore Formats
begin

text \<open>
  The outbox: \<open>internal/platform/outbox\<close> (events, their MongoDB collection, the worker) and
  \<open>internal/app/outbox\<close> (repositories that enqueue instead of writing, the handler that replays an
  event).

  A payload is the JSON text of a record of the domain; the encoder and the decoder are the
  parameter \<open>json_lib\<close>. The channel operations of the worker's loop are an input: the list of what
  the \<open>select\<close> statement receives, and a run that has used up the list is still waiting.
\<close>

section \<open>Events\<close>

definition StatusPending :: string where "StatusPending = ''pending''"
definition StatusProcessing :: string where "StatusProcessing = ''processing''"
definition StatusDone :: string where "StatusDone = ''done''"
definition StatusFailed :: string where "StatusFailed = ''failed''"

record Event =
  ev_ID :: string
  ev_IdempotencyKey :: string
  ev_Type :: string
  ev_Payload :: bytes
  ev_MaxRetries :: int
  ev_RetryCount :: int
  ev_Status :: string
  ev_LastError :: string
  ev_ProcessAfter :: time
  ev_CreatedAt :: time
  ev_UpdatedAt :: time

record ('m, 'r) Outbox =
  ob_Enqueue :: "ctx \<Rightarrow> Event \<Rightarrow> ('m, 'r, err option) M"
  ob_ClaimBatch :: "ctx \<Rightarrow> int \<Rightarrow> ('m, 'r, err + Event list) M"
  ob_MarkDone :: "ctx \<Rightarrow> string \<Rightarrow> ('m, 'r, err option) M"
  ob_MarkFailed :: "ctx \<Rightarrow> string \<Rightarrow> string \<Rightarrow> ('m, 'r, err option) M"

section \<open>\<open>MongoOutbox\<close>\<close>

record ('m, 'r) MongoOutbox =
  mo_db :: "('m, 'r) Database"
  mo_defaultRetries :: int
  mo_retryDelay :: duration

definition NewMongoOutboxWithConfig :: "('m, 'r) Database \<Rightarrow> int \<Rightarrow> duration \<Rightarrow> ('m, 'r) MongoOutbox" where
  "NewMongoOutboxWithConfig db defaultRetries retryDelay =
     \<lparr>mo_db = db, mo_defaultRetries = (if defaultRetries \<le> 0 then 10 else defaultRetries),
      mo_retryDelay = (if retryDelay \<le> 0 then minute else retryDelay)\<rparr>"

definition NewMongoOutbox :: "('m, 'r) Database \<Rightarrow> ('m, 'r) MongoOutbox" where
  "NewMongoOutbox db = NewMongoOutboxWithConfig db 10 minute"

definition documentFromEvent :: "Event \<Rightarrow> doc" where
  "documentFromEvent event =
     [(''_id'', BString (ev_ID event)), (''idempotency_key'', BString (ev_IdempotencyKey event)),
      (''type'', BString (ev_Type event)), (''payload'', BBytes (ev_Payload event)),
      (''max_retries'', BInt (ev_MaxRetries event)), (''retry_count'', BInt (ev_RetryCount event)),
      (''status'', BString (ev_Status event))] @ omit_string ''last_error'' (ev_LastError event) @
     [(''process_after'', bson_date (ev_ProcessAfter event)), (''created_at'', bson_date (ev_CreatedAt event)),
      (''updated_at'', bson_date (ev_UpdatedAt event))]"

definition get_bytes :: "doc \<Rightarrow> string \<Rightarrow> bytes" where
  "get_bytes d k = (case map_of d k of Some (BBytes bs) \<Rightarrow> bs | _ \<Rightarrow> [])"

definition toEvent :: "doc \<Rightarrow> Event" where
  "toEvent d =
     \<lparr>ev_ID = get_string d ''_id'', ev_IdempotencyKey = get_string d ''idempotency_key'', ev_Type = get_string d ''type'',
      ev_Payload = get_bytes d ''payload'', ev_MaxRetries = get_int d ''max_retries'', ev_RetryCount = get_int d ''retry_count'',
      ev_Status = get_string d ''status'', ev_LastError = get_string d ''last_error'',
      ev_ProcessAfter = get_time d ''process_after'', ev_CreatedAt = get_time d ''created_at'',
      ev_UpdatedAt = get_time d ''updated_at''\<rparr>"

text \<open>The defaults \<open>Enqueue\<close> fills in.\<close>

definition enqueue_defaults :: "('m, 'r) MongoOutbox \<Rightarrow> Event \<Rightarrow> time \<Rightarrow> Event" where
  "enqueue_defaults ob event now =
     event\<lparr>ev_Status := (if ev_Status event = [] then StatusPending else ev_Status event),
           ev_MaxRetries := (if ev_MaxRetries event \<le> 0 then mo_defaultRetries ob else ev_MaxRetries event),
           ev_ProcessAfter := (if IsZero (ev_ProcessAfter event) then now else ev_ProcessAfter event),
           ev_CreatedAt := (if IsZero (ev_CreatedAt event) then now else ev_CreatedAt event),
           ev_UpdatedAt := now\<rparr>"

definition Enqueue :: "('m, 'r) MongoOutbox \<Rightarrow> ctx \<Rightarrow> Event \<Rightarrow> ('m, 'r, err option) M" where
  "Enqueue ob cx event = do {
     now \<leftarrow> time_Now;
     r \<leftarrow> db_InsertOne (mo_db ob) cx ''outbox_events'' (documentFromEvent (enqueue_defaults ob event now)) write_opts;
     ret (case r of
            None \<Rightarrow> None
          | Some e \<Rightarrow> if IsDuplicateKeyError e
                      then (if ev_IdempotencyKey event \<noteq> [] then None else Some (Sentinel DbErrConflict))
                      else Some e)
   }"

definition claim_query :: "time \<Rightarrow> query" where
  "claim_query now =
     [On ''status'' [CIn [BString StatusPending, BString StatusFailed]], On ''process_after'' [CLte (bson_date now)],
      ExprLt ''retry_count'' ''max_retries'']"

definition claim_one_query :: "doc \<Rightarrow> query" where
  "claim_one_query d =
     [On ''_id'' [CEq (BString (get_string d ''_id''))], On ''status'' [CEq (BString (get_string d ''status''))]]"

definition set_status :: "string \<Rightarrow> time \<Rightarrow> update" where
  "set_status status now = [USet [(''status'', BString status), (''updated_at'', bson_date now)]]"

text \<open>The loop over the documents found: a document that cannot be claimed is skipped.\<close>

fun claim_docs :: "('m, 'r) MongoOutbox \<Rightarrow> ctx \<Rightarrow> time \<Rightarrow> doc list \<Rightarrow> ('m, 'r, Event list) M" where
  "claim_docs ob cx now [] = ret []"
| "claim_docs ob cx now (d # ds) = do {
     r \<leftarrow> db_UpdateOne (mo_db ob) cx ''outbox_events'' (Query (claim_one_query d)) (set_status StatusProcessing now) write_opts;
     rest \<leftarrow> claim_docs ob cx now ds;
     ret (case r of
            Some e \<Rightarrow> rest
          | None \<Rightarrow> (toEvent d)\<lparr>ev_Status := StatusProcessing, ev_UpdatedAt := now\<rparr> # rest)
   }"

definition ClaimBatch :: "('m, 'r) MongoOutbox \<Rightarrow> ctx \<Rightarrow> int \<Rightarrow> ('m, 'r, err + Event list) M" where
  "ClaimBatch ob cx limit = do {
     let limit = (if limit \<le> 0 then 10 else limit);
     now \<leftarrow> time_Now;
     r \<leftarrow> db_FindMany (mo_db ob) cx ''outbox_events'' (Query (claim_query now))
            (read_opts\<lparr>ro_Limit := limit, ro_Sort := Some [(''process_after'', 1), (''created_at'', 1)]\<rparr>);
     case r of
       Inl e \<Rightarrow> ret (Inl e)
     | Inr docs \<Rightarrow> do {
         events \<leftarrow> claim_docs ob cx now docs;
         ret (Inr events)
       }
   }"

definition MarkDone :: "('m, 'r) MongoOutbox \<Rightarrow> ctx \<Rightarrow> string \<Rightarrow> ('m, 'r, err option) M" where
  "MarkDone ob cx i = do {
     now \<leftarrow> time_Now;
     db_UpdateOne (mo_db ob) cx ''outbox_events'' (Query (id_query i)) (set_status StatusDone now) write_opts
   }"

definition failed_update :: "('m, 'r) MongoOutbox \<Rightarrow> string \<Rightarrow> time \<Rightarrow> update" where
  "failed_update ob reason now =
     [USet [(''status'', BString StatusFailed), (''last_error'', BString reason),
            (''process_after'', bson_date (time_Add now (mo_retryDelay ob))), (''updated_at'', bson_date now)],
      UInc ''retry_count'' 1]"

definition MarkFailed :: "('m, 'r) MongoOutbox \<Rightarrow> ctx \<Rightarrow> string \<Rightarrow> string \<Rightarrow> ('m, 'r, err option) M" where
  "MarkFailed ob cx i reason = do {
     now \<leftarrow> time_Now;
     db_UpdateOne (mo_db ob) cx ''outbox_events'' (Query (id_query i)) (failed_update ob reason now) write_opts
   }"

definition mongo_outbox :: "('m, 'r) MongoOutbox \<Rightarrow> ('m, 'r) Outbox" where
  "mongo_outbox ob = \<lparr>ob_Enqueue = Enqueue ob, ob_ClaimBatch = ClaimBatch ob, ob_MarkDone = MarkDone ob, ob_MarkFailed = MarkFailed ob\<rparr>"

lemma mongo_outbox_sel [simp]:
  "ob_Enqueue (mongo_outbox ob) = Enqueue ob" "ob_ClaimBatch (mongo_outbox ob) = ClaimBatch ob"
  "ob_MarkDone (mongo_outbox ob) = MarkDone ob" "ob_MarkFailed (mongo_outbox ob) = MarkFailed ob"
  by (simp_all add: mongo_outbox_def)

section \<open>The worker\<close>

record ('m, 'r) Worker =
  wk_outbox :: "('m, 'r) Outbox"
  wk_handler :: "ctx \<Rightarrow> Event \<Rightarrow> ('m, 'r, err option) M"
  wk_interval :: duration
  wk_batch :: int

definition NewWorker :: "('m, 'r) Outbox \<Rightarrow> (ctx \<Rightarrow> Event \<Rightarrow> ('m, 'r, err option) M) \<Rightarrow> duration \<Rightarrow> int \<Rightarrow> ('m, 'r) Worker" where
  "NewWorker ob handler interval batch =
     \<lparr>wk_outbox = ob, wk_handler = handler, wk_interval = (if interval \<le> 0 then 5 * second else interval),
      wk_batch = (if batch \<le> 0 then 10 else batch)\<rparr>"

fun drain_events :: "('m, 'r) Worker \<Rightarrow> ctx \<Rightarrow> Event list \<Rightarrow> ('m, 'r, err option) M" where
  "drain_events wk cx [] = ret None"
| "drain_events wk cx (event # events) = do {
     h \<leftarrow> wk_handler wk cx event;
     case h of
       Some e \<Rightarrow> do {
         m \<leftarrow> ob_MarkFailed (wk_outbox wk) cx (ev_ID event) (err_Error e);
         case m of Some e' \<Rightarrow> ret (Some e') | None \<Rightarrow> drain_events wk cx events
       }
     | None \<Rightarrow> do {
         m \<leftarrow> ob_MarkDone (wk_outbox wk) cx (ev_ID event);
         case m of Some e' \<Rightarrow> ret (Some e') | None \<Rightarrow> drain_events wk cx events
       }
   }"

definition DrainOnce :: "('m, 'r) Worker \<Rightarrow> ctx \<Rightarrow> ('m, 'r, err option) M" where
  "DrainOnce wk cx = do {
     r \<leftarrow> ob_ClaimBatch (wk_outbox wk) cx (wk_batch wk);
     case r of Inl e \<Rightarrow> ret (Some e) | Inr events \<Rightarrow> drain_events wk cx events
   }"

datatype wake = Tick | CtxDone err

fun Worker_Run :: "('m, 'r) Worker \<Rightarrow> ctx \<Rightarrow> wake list \<Rightarrow> ('m, 'r, err option) M" where
  "Worker_Run wk cx wakes = do {
     r \<leftarrow> DrainOnce wk cx;
     case r of
       Some e \<Rightarrow> ret (Some e)
     | None \<Rightarrow> (case wakes of
         [] \<Rightarrow> ret None
       | CtxDone e # _ \<Rightarrow> ret (Some e)
       | Tick # rest \<Rightarrow> Worker_Run wk cx rest)
   }"

declare Worker_Run.simps [simp del]

section \<open>Enqueueing repositories and the handler\<close>

record json_lib =
  js_audit :: "AuditLog \<Rightarrow> err + bytes"
  js_to_audit :: "bytes \<Rightarrow> err + AuditLog"
  js_login :: "LoginHistory \<Rightarrow> err + bytes"
  js_to_login :: "bytes \<Rightarrow> err + LoginHistory"
  js_error :: "ErrorEvent \<Rightarrow> err + bytes"
  js_to_error :: "bytes \<Rightarrow> err + ErrorEvent"

definition TypeAuditLog :: string where "TypeAuditLog = ''audit_log''"
definition TypeErrorEvent :: string where "TypeErrorEvent = ''error_event''"
definition TypeLoginHistory :: string where "TypeLoginHistory = ''login_history''"

definition randomID :: "('m, 'r, string) M" where
  "randomID = do {
     b \<leftarrow> rand_Read 16;
     case b of
       Some bs \<Rightarrow> ret (hex_EncodeToString bs)
     | None \<Rightarrow> do { now \<leftarrow> time_Now; ret (Itoa (sint (UnixNano now))) }
   }"

text \<open>The event literal of the three repositories: only these fields are set.\<close>

definition new_event :: "string \<Rightarrow> string \<Rightarrow> string \<Rightarrow> bytes \<Rightarrow> Event" where
  "new_event i key typ payload =
     \<lparr>ev_ID = i, ev_IdempotencyKey = key, ev_Type = typ, ev_Payload = payload, ev_MaxRetries = 0, ev_RetryCount = 0,
      ev_Status = [], ev_LastError = [], ev_ProcessAfter = 0, ev_CreatedAt = 0, ev_UpdatedAt = 0\<rparr>"

definition enqueue_payload :: "('m, 'r) Outbox \<Rightarrow> ctx \<Rightarrow> string \<Rightarrow> string \<Rightarrow> err + bytes \<Rightarrow> ('m, 'r, err option) M" where
  "enqueue_payload ob cx key typ payload =
     (case payload of
        Inl e \<Rightarrow> ret (Some e)
      | Inr bs \<Rightarrow> do { i \<leftarrow> randomID; ob_Enqueue ob cx (new_event i key typ bs) })"

definition Outbox_Audit_Append ::
  "json_lib \<Rightarrow> ('m, 'r) AuditLogRepository \<Rightarrow> ('m, 'r) Outbox option \<Rightarrow> ctx \<Rightarrow> AuditLog \<Rightarrow> ('m, 'r, err option) M" where
  "Outbox_Audit_Append js inner outbox cx event =
     (case outbox of
        None \<Rightarrow> ar_Append inner cx event
      | Some ob \<Rightarrow> do {
          event \<leftarrow> (if al_ID event = [] then do { i \<leftarrow> randomID; ret (event\<lparr>al_ID := i\<rparr>) } else ret event);
          event \<leftarrow> (if IsZero (al_CreatedAt event) then do { now \<leftarrow> time_Now; ret (event\<lparr>al_CreatedAt := now\<rparr>) } else ret event);
          enqueue_payload ob cx (''audit_log:'' @ al_ID event) TypeAuditLog (js_audit js event)
        })"

definition Outbox_NewAuditLogRepository ::
  "json_lib \<Rightarrow> ('m, 'r) AuditLogRepository \<Rightarrow> ('m, 'r) Outbox option \<Rightarrow> ('m, 'r) AuditLogRepository" where
  "Outbox_NewAuditLogRepository js inner outbox = \<lparr>ar_Append = Outbox_Audit_Append js inner outbox, ar_List = ar_List inner\<rparr>"

definition errorEventIdempotencyKey :: "ErrorEvent \<Rightarrow> string" where
  "errorEventIdempotencyKey event =
     ''error_event:'' @ ee_RequestID event @ '':'' @ ee_ErrorCode event @ '':'' @ ee_Method event @ '':'' @ ee_Path event @ '':'' @
     Itoa (ee_Status event) @ '':'' @ RFC3339Nano (ee_CreatedAt event)"

definition Outbox_Error_Append ::
  "json_lib \<Rightarrow> ('m, 'r) ErrorEventRepository \<Rightarrow> ('m, 'r) Outbox option \<Rightarrow> ctx \<Rightarrow> ErrorEvent \<Rightarrow> ('m, 'r, err option) M" where
  "Outbox_Error_Append js inner outbox cx event =
     (case outbox of
        None \<Rightarrow> er_Append inner cx event
      | Some ob \<Rightarrow> do {
          event \<leftarrow> (if IsZero (ee_CreatedAt event) then do { now \<leftarrow> time_Now; ret (event\<lparr>ee_CreatedAt := now\<rparr>) } else ret event);
          enqueue_payload ob cx (errorEventIdempotencyKey event) TypeErrorEvent (js_error js event)
        })"

definition Outbox_NewErrorEventRepository ::
  "json_lib \<Rightarrow> ('m, 'r) ErrorEventRepository \<Rightarrow> ('m, 'r) Outbox option \<Rightarrow> ('m, 'r) ErrorEventRepository" where
  "Outbox_NewErrorEventRepository js inner outbox = \<lparr>er_Append = Outbox_Error_Append js inner outbox, er_List = er_List inner\<rparr>"

definition loginHistoryIdempotencyKey :: "LoginHistory \<Rightarrow> string" where
  "loginHistoryIdempotencyKey event =
     ''login_history:'' @ lh_UserID event @ '':'' @ lh_Email event @ '':'' @ FormatBool (lh_Success event) @ '':'' @
     lh_FailureReason event @ '':'' @ lh_DeviceID event @ '':'' @ RFC3339Nano (lh_CreatedAt event)"

definition Outbox_Login_Append ::
  "json_lib \<Rightarrow> ('m, 'r) LoginHistoryRepository option \<Rightarrow> ('m, 'r) Outbox option \<Rightarrow> ctx \<Rightarrow> LoginHistory \<Rightarrow> ('m, 'r, err option) M" where
  "Outbox_Login_Append js inner outbox cx event =
     (case inner of
        None \<Rightarrow> ret (Some (Errorf ''login history repository is required'' None))
      | Some repo \<Rightarrow> do {
          event \<leftarrow> (if lh_ID event = [] then do { i \<leftarrow> randomID; ret (event\<lparr>lh_ID := i\<rparr>) } else ret event);
          event \<leftarrow> (if IsZero (lh_CreatedAt event) then do { now \<leftarrow> time_Now; ret (event\<lparr>lh_CreatedAt := now\<rparr>) } else ret event);
          r \<leftarrow> lr_Append repo cx event;
          if r = None then ret None
          else case outbox of
            None \<Rightarrow> ret None
          | Some ob \<Rightarrow> enqueue_payload ob cx (loginHistoryIdempotencyKey event) TypeLoginHistory (js_login js event)
        })"

definition Outbox_NewLoginHistoryRepository ::
  "json_lib \<Rightarrow> ('m, 'r) LoginHistoryRepository \<Rightarrow> ('m, 'r) Outbox option \<Rightarrow> ('m, 'r) LoginHistoryRepository" where
  "Outbox_NewLoginHistoryRepository js inner outbox =
     \<lparr>lr_Append = Outbox_Login_Append js (Some inner) outbox, lr_ListByUserID = lr_ListByUserID inner\<rparr>"

record ('m, 'r) Handler =
  hd_auditLogs :: "('m, 'r) AuditLogRepository option"
  hd_loginHistory :: "('m, 'r) LoginHistoryRepository option"
  hd_errorEvents :: "('m, 'r) ErrorEventRepository option"

definition ignoreConflict :: "err option \<Rightarrow> err option" where
  "ignoreConflict r = (case r of None \<Rightarrow> None | Some e \<Rightarrow> if errors_Is e DbErrConflict then None else Some e)"

text \<open>One case of the handler: the repository must be there and the payload must decode.\<close>

definition replay :: "string \<Rightarrow> ('a \<Rightarrow> ctx \<Rightarrow> 'b \<Rightarrow> ('m, 'r, err option) M) \<Rightarrow> 'a option \<Rightarrow> err + 'b \<Rightarrow> ctx \<Rightarrow> ('m, 'r, err option) M" where
  "replay missing app repo payload cx =
     (case repo of
        None \<Rightarrow> ret (Some (Errorf missing None))
      | Some r \<Rightarrow> (case payload of
          Inl e \<Rightarrow> ret (Some e)
        | Inr x \<Rightarrow> do { a \<leftarrow> app r cx x; ret (ignoreConflict a) }))"

definition Handle :: "json_lib \<Rightarrow> ('m, 'r) Handler \<Rightarrow> ctx \<Rightarrow> Event \<Rightarrow> ('m, 'r, err option) M" where
  "Handle js h cx event =
     (if ev_Type event = TypeAuditLog then
        replay ''audit log repository is required'' ar_Append (hd_auditLogs h) (js_to_audit js (ev_Payload event)) cx
      else if ev_Type event = TypeErrorEvent then
        replay ''error event repository is required'' er_Append (hd_errorEvents h) (js_to_error js (ev_Payload event)) cx
      else if ev_Type event = TypeLoginHistory then
        replay ''login history repository is required'' lr_Append (hd_loginHistory h) (js_to_login js (ev_Payload event)) cx
      else ret (Some (Errorf (''unsupported outbox event type '' @ ev_Type event) None)))"

end
