(* ===== verification/OutboxProperties.thy ===== *)
theory OutboxProperties
  imports Outbox
begin

text \<open>
  What the outbox guarantees over any \<open>Database\<close> that meets the contract \<open>store\<close>: enqueueing is
  idempotent in the idempotency key, a claim is exclusive, a drained batch is settled; and what the
  program's own wiring makes of it.
\<close>

lemmas outbox_status = StatusPending_def StatusProcessing_def StatusDone_def StatusFailed_def

text \<open>The outbox has a document of the event with a property.\<close>

definition marked :: "(doc \<Rightarrow> bool) \<Rightarrow> doc list \<Rightarrow> string \<Rightarrow> bool" where
  "marked P ds i \<longleftrightarrow> (\<exists>d \<in> set ds. map_of d ''_id'' = Some (BString i) \<and> P d)"

text \<open>The document of an event after the handler's answer: done, or failed with the error's text.\<close>

definition settled_as :: "err option \<Rightarrow> doc \<Rightarrow> bool" where
  "settled_as h d \<longleftrightarrow> (case h of
     None \<Rightarrow> map_of d ''status'' = Some (BString StatusDone)
   | Some e \<Rightarrow> map_of d ''status'' = Some (BString StatusFailed) \<and> map_of d ''last_error'' = Some (BString (err_Error e)))"

lemma settled_done:
  "map_of (apply_update (set_status StatusDone now) d) ''_id'' = map_of d ''_id'' \<and> settled_as None (apply_update (set_status StatusDone now) d)"
  by (simp add: settled_as_def set_status_def)

lemma settled_failed:
  "map_of (apply_update (failed_update ob (err_Error e) now) d) ''_id'' = map_of d ''_id'' \<and>
   settled_as (Some e) (apply_update (failed_update ob (err_Error e) now) d)"
  by (auto simp: settled_as_def failed_update_def apply_update_def update_conv')

lemma marked_updated:
  assumes "updated_one (id_query i) u ds ds'"
  shows "(\<And>d. map_of (apply_update u d) ''_id'' = map_of d ''_id'' \<and> P (apply_update u d)) \<Longrightarrow> marked P ds' i"
    and "marked Q ds j \<Longrightarrow> j \<noteq> i \<Longrightarrow> marked Q ds' j"
  using assms by (fastforce simp: updated_one_def marked_def matches_def id_query_def)+

context store
begin

lemma Enqueue_law:
  assumes "run_state (Enqueue ob cx event) w = (r, w')" "mo_db ob = db"
  shows "\<exists>e'. ev_IdempotencyKey e' = ev_IdempotencyKey event \<and> ev_ID e' = ev_ID event \<and> ev_Type e' = ev_Type event \<and>
           ev_Payload e' = ev_Payload event \<and>
           (colls (w_mongo w') = colls (w_mongo w) \<or>
            colls (w_mongo w') = (colls (w_mongo w))(''outbox_events'' := colls (w_mongo w) ''outbox_events'' @ [documentFromEvent e']))"
    and "d \<in> set (colls (w_mongo w) ''outbox_events'') \<Longrightarrow> map_of d ''idempotency_key'' = Some (BString (ev_IdempotencyKey event)) \<Longrightarrow>
         colls (w_mongo w') = colls (w_mongo w)"
proof -
  let ?e = "enqueue_defaults ob event (w_clock w (w_tick w))"
  obtain y where y: "run_state (db_InsertOne db cx ''outbox_events'' (documentFromEvent ?e) write_opts) (w\<lparr>w_tick := Suc (w_tick w)\<rparr>) = (y, w')"
    using assms by (auto simp: Enqueue_def split: prod.splits)
  have e: "ev_IdempotencyKey ?e = ev_IdempotencyKey event" "ev_ID ?e = ev_ID event" "ev_Type ?e = ev_Type event" "ev_Payload ?e = ev_Payload event"
    by (simp_all add: enqueue_defaults_def)
  then show "\<exists>e'. ev_IdempotencyKey e' = ev_IdempotencyKey event \<and> ev_ID e' = ev_ID event \<and> ev_Type e' = ev_Type event \<and>
           ev_Payload e' = ev_Payload event \<and>
           (colls (w_mongo w') = colls (w_mongo w) \<or>
            colls (w_mongo w') = (colls (w_mongo w))(''outbox_events'' := colls (w_mongo w) ''outbox_events'' @ [documentFromEvent e']))"
    using st_insert_any [OF once_unlocked(2) y] by (intro exI [of _ ?e]) simp
  assume "d \<in> set (colls (w_mongo w) ''outbox_events'')" "map_of d ''idempotency_key'' = Some (BString (ev_IdempotencyKey event))"
  moreover from this(2) have "clashes ''outbox_events'' (documentFromEvent ?e) d"
    by (simp add: clashes_def unique_fields_def documentFromEvent_def e)
  ultimately show "colls (w_mongo w') = colls (w_mongo w)"
    using st_insert_clash [OF once_unlocked(2) y, of d] by simp
qed

lemma insert_uniq:
  assumes y: "run_state (db_InsertOne db cx c d wo) w = (y, w')" and "once wo" and "uniq c (colls (w_mongo w) c)"
  shows "uniq c (colls (w_mongo w') c)"
proof (cases "\<exists>d' \<in> set (colls (w_mongo w) c). clashes c d d'")
  case True
  then show ?thesis using st_insert_clash [OF assms(2) y] assms(3) by auto
next
  case False
  then have "uniq c (colls (w_mongo w) c @ [d])"
    using assms(3) by (auto simp: uniq_def clashes_def image_iff)
  then show ?thesis using st_insert_any [OF assms(2) y] assms(3) by auto
qed

lemma Enqueue_uniq:
  assumes "run_state (Enqueue ob cx event) w = (r, w')" "mo_db ob = db" "uniq ''outbox_events'' (colls (w_mongo w) ''outbox_events'')"
  shows "uniq ''outbox_events'' (colls (w_mongo w') ''outbox_events'')"
proof -
  obtain y where "run_state (db_InsertOne db cx ''outbox_events'' (documentFromEvent (enqueue_defaults ob event (w_clock w (w_tick w)))) write_opts)
      (w\<lparr>w_tick := Suc (w_tick w)\<rparr>) = (y, w')"
    using assms(1,2) by (auto simp: Enqueue_def split: prod.splits)
  from insert_uniq [OF this] assms(3) show ?thesis by simp
qed

lemma keeps_Enqueue [keeps_intros]:
  assumes "mo_db ob = db" "c \<noteq> ''outbox_events''"
  shows "keeps (\<lambda>w. J (colls (w_mongo w) c)) (Enqueue ob cx event)"
proof (rule keepsI)
  fix w r w' assume J: "J (colls (w_mongo w) c)" and r: "run_state (Enqueue ob cx event) w = (r, w')"
  have "colls (w_mongo w') c = colls (w_mongo w) c" using Enqueue_law(1) [OF r assms(1)] assms(2) by auto
  with J show "J (colls (w_mongo w') c)" by simp
qed

lemma keeps_randomID [keeps_intros]: "keeps (\<lambda>w. K (w_mongo w)) randomID"
  unfolding randomID_def by (intro keeps_intros)

lemma keeps_enqueue_payload:
  assumes "mo_db ob = db" "c \<noteq> ''outbox_events''"
  shows "keeps (\<lambda>w. J (colls (w_mongo w) c)) (enqueue_payload (mongo_outbox ob) cx key typ payload)"
  unfolding enqueue_payload_def mongo_outbox_sel by (intro keeps_intros assms)

text \<open>The enqueueing repositories write to the outbox (and the history repository to its own collection) only.\<close>

lemma keeps_outbox_appends:
  assumes ob: "mo_db ob = db" and c: "c \<noteq> ''outbox_events''"
  shows "keeps (\<lambda>w. J (colls (w_mongo w) c)) (Outbox_Audit_Append js inner (Some (mongo_outbox ob)) cx a)"
    and "keeps (\<lambda>w. J (colls (w_mongo w) c)) (Outbox_Error_Append js inner' (Some (mongo_outbox ob)) cx e)"
    and "c \<noteq> ''login_history'' \<Longrightarrow>
         keeps (\<lambda>w. J (colls (w_mongo w) c)) (Outbox_Login_Append js (Some (NewLoginHistoryRepository db)) (Some (mongo_outbox ob)) cx h)"
  unfolding Outbox_Audit_Append_def Outbox_Error_Append_def Outbox_Login_Append_def option.case NewLoginHistoryRepository_def
    LoginHistoryRepository.select_convs
  by (intro keeps_intros keeps_enqueue_payload ob c; assumption)+

text \<open>Marking an event changes the documents of that event only.\<close>

lemma mark_law:
  assumes "run_state (db_UpdateOne db cx ''outbox_events'' (Query (id_query i)) u write_opts) w = (None, w')"
  shows "updated_one (id_query i) u (colls (w_mongo w) ''outbox_events'') (colls (w_mongo w') ''outbox_events'')"
  using st_update_one [OF once_unlocked(2) assms] by auto

lemma MarkDone_settles:
  assumes "run_state (MarkDone ob cx i) w = (None, w')" "mo_db ob = db"
  shows "marked (settled_as None) (colls (w_mongo w') ''outbox_events'') i"
    and "marked P (colls (w_mongo w) ''outbox_events'') j \<Longrightarrow> j \<noteq> i \<Longrightarrow> marked P (colls (w_mongo w') ''outbox_events'') j"
proof -
  have "updated_one (id_query i) (set_status StatusDone (w_clock w (w_tick w))) (colls (w_mongo w) ''outbox_events'') (colls (w_mongo w') ''outbox_events'')"
    using mark_law [where w = "w\<lparr>w_tick := Suc (w_tick w)\<rparr>"] assms by (simp add: MarkDone_def)
  from marked_updated(1) [OF this settled_done] marked_updated(2) [OF this]
  show "marked (settled_as None) (colls (w_mongo w') ''outbox_events'') i"
    and "marked P (colls (w_mongo w) ''outbox_events'') j \<Longrightarrow> j \<noteq> i \<Longrightarrow> marked P (colls (w_mongo w') ''outbox_events'') j"
    by blast+
qed

lemma MarkFailed_settles:
  assumes "run_state (MarkFailed ob cx i (err_Error e)) w = (None, w')" "mo_db ob = db"
  shows "marked (settled_as (Some e)) (colls (w_mongo w') ''outbox_events'') i"
    and "marked P (colls (w_mongo w) ''outbox_events'') j \<Longrightarrow> j \<noteq> i \<Longrightarrow> marked P (colls (w_mongo w') ''outbox_events'') j"
proof -
  have "updated_one (id_query i) (failed_update ob (err_Error e) (w_clock w (w_tick w))) (colls (w_mongo w) ''outbox_events'') (colls (w_mongo w') ''outbox_events'')"
    using mark_law [where w = "w\<lparr>w_tick := Suc (w_tick w)\<rparr>"] assms by (simp add: MarkFailed_def)
  from marked_updated(1) [OF this settled_failed] marked_updated(2) [OF this]
  show "marked (settled_as (Some e)) (colls (w_mongo w') ''outbox_events'') i"
    and "marked P (colls (w_mongo w) ''outbox_events'') j \<Longrightarrow> j \<noteq> i \<Longrightarrow> marked P (colls (w_mongo w') ''outbox_events'') j"
    by blast+
qed

lemma drain_event:
  assumes ob: "wk_outbox wk = mongo_outbox ob" "mo_db ob = db"
    and run: "run_state (drain_events wk cx (ev # evs)) w = (None, w')"
    and h: "run_state (wk_handler wk cx ev) w = (h, w1)"
  shows "\<exists>w2. marked (settled_as h) (colls (w_mongo w2) ''outbox_events'') (ev_ID ev) \<and>
     (\<forall>P j. marked P (colls (w_mongo w1) ''outbox_events'') j \<longrightarrow> j \<noteq> ev_ID ev \<longrightarrow> marked P (colls (w_mongo w2) ''outbox_events'') j) \<and>
     run_state (drain_events wk cx evs) w2 = (None, w')"
proof (cases h)
  case None
  then obtain w2 where m: "run_state (MarkDone ob cx (ev_ID ev)) w1 = (None, w2)" "run_state (drain_events wk cx evs) w2 = (None, w')"
    using run h ob by (auto split: option.splits prod.splits)
  with MarkDone_settles [OF m(1) ob(2)] None show ?thesis by blast
next
  case (Some e)
  then obtain w2 where m: "run_state (MarkFailed ob cx (ev_ID ev) (err_Error e)) w1 = (None, w2)" "run_state (drain_events wk cx evs) w2 = (None, w')"
    using run h ob by (auto split: option.splits prod.splits)
  with MarkFailed_settles [OF m(1) ob(2)] Some show ?thesis by blast
qed

lemma drain_keeps_marked:
  assumes ob: "wk_outbox wk = mongo_outbox ob" "mo_db ob = db"
    and handler: "\<And>ev. keeps (\<lambda>w. marked P (colls (w_mongo w) ''outbox_events'') j) (wk_handler wk cx ev)"
    and run: "run_state (drain_events wk cx evs) w = (None, w')"
  shows "marked P (colls (w_mongo w) ''outbox_events'') j \<Longrightarrow> j \<notin> ev_ID ` set evs \<Longrightarrow> marked P (colls (w_mongo w') ''outbox_events'') j"
  using run
proof (induction evs arbitrary: w)
  case (Cons ev evs)
  obtain h w1 where h: "run_state (wk_handler wk cx ev) w = (h, w1)" by fastforce
  from keepsD [OF handler Cons.prems(1) h] drain_event [OF ob Cons.prems(3) h] Cons.IH Cons.prems(2) show ?case by auto
qed simp

lemma drain_append:
  "run_state (drain_events wk cx (pre @ post)) w = (None, w') \<Longrightarrow>
     \<exists>w1. run_state (drain_events wk cx pre) w = (None, w1) \<and> run_state (drain_events wk cx post) w1 = (None, w')"
  by (induction pre arbitrary: w) (auto split: option.splits prod.splits)

lemma keeps_marked_Enqueue:
  assumes "mo_db ob = db"
  shows "keeps (\<lambda>w. marked P (colls (w_mongo w) ''outbox_events'') i) (Enqueue ob cx event)"
proof (rule keepsI)
  fix w r w' assume S: "marked P (colls (w_mongo w) ''outbox_events'') i" and r: "run_state (Enqueue ob cx event) w = (r, w')"
  from Enqueue_law(1) [OF r assms] S show "marked P (colls (w_mongo w') ''outbox_events'') i" by (auto simp: marked_def)
qed

lemma claim_docs_law:
  assumes "run_state (claim_docs ob cx now ds) w = (evs, w')" "ev \<in> set evs"
  shows "\<exists>d \<in> set ds. ev = (toEvent d)\<lparr>ev_Status := StatusProcessing, ev_UpdatedAt := now\<rparr>"
  using assms by (induction ds arbitrary: w evs) (auto split: prod.splits option.splits, blast+)

lemma claim_exclusive_law:
  assumes ob: "mo_db ob = db" and uniq: "uniq ''outbox_events'' (colls (w_mongo w) ''outbox_events'')"
    and d: "map_of d ''_id'' = Some (BString i)" "map_of d ''status'' = Some (BString st)" "st \<noteq> StatusProcessing"
    and first: "run_state (claim_docs ob cx now [d]) w = ([ev], w1)"
    and same: "colls (w_mongo w2) ''outbox_events'' = colls (w_mongo w1) ''outbox_events''"
    and second: "run_state (claim_docs ob cx' now' [d]) w2 = (evs, w3)"
  shows "evs = []"
proof (rule ccontr)
  assume "evs \<noteq> []"
  let ?q = "claim_one_query d" and ?C = "\<lambda>w. colls (w_mongo w) ''outbox_events''"
  have q: "matches ?q x \<longleftrightarrow> map_of x ''_id'' = Some (BString i) \<and> map_of x ''status'' = Some (BString st)" for x
    using d by (simp add: matches_def claim_one_query_def get_string_def)
  have claim1: "run_state (db_UpdateOne db cx ''outbox_events'' (Query ?q) (set_status StatusProcessing now) write_opts) w = (None, w1)"
    using first ob by (auto split: prod.splits option.splits)
  have claim2: "run_state (db_UpdateOne db cx' ''outbox_events'' (Query ?q) (set_status StatusProcessing now') write_opts) w2 = (None, w3)"
    using second ob \<open>evs \<noteq> []\<close> by (auto split: prod.splits option.splits)
  obtain pre x post where x: "?C w = pre @ x # post" "matches ?q x" "?C w1 = pre @ apply_update (set_status StatusProcessing now) x # post"
    using st_update_one [OF once_unlocked(2) claim1] by (auto simp: updated_one_def)
  obtain y where y: "y \<in> set (?C w1)" "matches ?q y"
    using st_update_one [OF once_unlocked(2) claim2] same by (fastforce simp: updated_one_def)
  have "distinct (map (\<lambda>d. map_of d ''_id'') (?C w))" using uniq by (simp add: uniq_def unique_fields_def)
  then have other: "map_of z ''_id'' \<noteq> Some (BString i)" if "z \<in> set (pre @ post)" for z
    using that x(1,2) q by (auto simp: image_iff)
  have "map_of (apply_update (set_status StatusProcessing now) x) ''status'' = Some (BString StatusProcessing)"
    by (simp add: set_status_def)
  then show False using y x(3) q other d(3) by auto
qed

end

section \<open>The wiring of the API process\<close>

text \<open>
  \<open>cmd/api/main.go\<close>: the outbox over the cached database, the enqueueing history repository, and the
  worker with its handler. The handler gets the enqueueing history repository, not the direct one.
\<close>

definition main_outbox :: "('m, 'r) Database \<Rightarrow> int \<Rightarrow> duration \<Rightarrow> ('m, 'r) MongoOutbox" where
  "main_outbox db retries delay = NewMongoOutboxWithConfig db retries delay"

definition main_loginHistoryRepo :: "json_lib \<Rightarrow> ('m, 'r) Database \<Rightarrow> ('m, 'r) MongoOutbox \<Rightarrow> ('m, 'r) LoginHistoryRepository" where
  "main_loginHistoryRepo js db ob = Outbox_NewLoginHistoryRepository js (NewLoginHistoryRepository db) (Some (mongo_outbox ob))"

definition main_auditLogRepo :: "json_lib \<Rightarrow> ('m, 'r) Database \<Rightarrow> ('m, 'r) MongoOutbox \<Rightarrow> ('m, 'r) AuditLogRepository" where
  "main_auditLogRepo js db ob = Outbox_NewAuditLogRepository js (NewAuditLogRepository db) (Some (mongo_outbox ob))"

definition main_handler :: "json_lib \<Rightarrow> ('m, 'r, string) M \<Rightarrow> ('m, 'r) Database \<Rightarrow> ('m, 'r) MongoOutbox \<Rightarrow> ('m, 'r) Handler" where
  "main_handler js oid db ob = \<lparr>hd_auditLogs = Some (NewAuditLogRepository db), hd_loginHistory = Some (main_loginHistoryRepo js db ob),
     hd_errorEvents = Some (NewErrorEventRepository oid db)\<rparr>"

definition main_worker :: "json_lib \<Rightarrow> ('m, 'r, string) M \<Rightarrow> ('m, 'r) Database \<Rightarrow> ('m, 'r) MongoOutbox \<Rightarrow> duration \<Rightarrow> int \<Rightarrow> ('m, 'r) Worker" where
  "main_worker js oid db ob interval batch = NewWorker (mongo_outbox ob) (Handle js (main_handler js oid db ob)) interval batch"

lemma main_outbox_db [simp]: "mo_db (main_outbox db n dl) = db"
  by (simp add: main_outbox_def NewMongoOutboxWithConfig_def)

lemma main_worker_sel [simp]:
  "wk_outbox (main_worker js oid db ob iv b) = mongo_outbox ob" "wk_handler (main_worker js oid db ob iv b) = Handle js (main_handler js oid db ob)"
  by (simp_all add: main_worker_def NewWorker_def)

context store
begin

lemma keeps_Handle_marked:
  assumes ob: "mo_db ob = db" and oid: "\<And>K. keeps (\<lambda>w. K (w_mongo w)) oid"
  shows "keeps (\<lambda>w. marked P (colls (w_mongo w) ''outbox_events'') i) (Handle js (main_handler js oid db ob) cx ev)"
proof -
  let ?I = "\<lambda>w. marked P (colls (w_mongo w) ''outbox_events'') i"
  have enq: "keeps ?I (enqueue_payload (mongo_outbox ob) cx key ty payload)" for key ty payload
    unfolding enqueue_payload_def mongo_outbox_sel by (intro keeps_intros keeps_marked_Enqueue [OF ob])
  have login: "keeps ?I (Outbox_Login_Append js (Some (NewLoginHistoryRepository db)) (Some (mongo_outbox ob)) cx h)" for h
    unfolding Outbox_Login_Append_def option.case NewLoginHistoryRepository_def LoginHistoryRepository.select_convs
    by (intro keeps_intros enq) simp_all
  have err: "keeps ?I (ErrorEvent_Append oid db cx e)" for e
    unfolding ErrorEvent_Append_def by (intro keeps_intros keeps_insert_other oid) simp_all
  show ?thesis
    unfolding Handle_def main_handler_def main_loginHistoryRepo_def replay_def Handler.select_convs option.case
      Outbox_NewLoginHistoryRepository_def NewAuditLogRepository_def NewErrorEventRepository_def
      AuditLogRepository.select_convs LoginHistoryRepository.select_convs ErrorEventRepository.select_convs
    by (intro keeps_intros login err) simp
qed

end

section \<open>Properties\<close>

text \<open>A codec for the witnesses: the payload is the identifier or the user of the record.\<close>

definition text_bytes :: "string \<Rightarrow> bytes" where
  "text_bytes s = map (\<lambda>c. of_nat (of_char c)) s"

definition bytes_text :: "bytes \<Rightarrow> string" where
  "bytes_text bs = map (\<lambda>b. char_of (unat b)) bs"

definition demo_login :: LoginHistory where
  "demo_login = \<lparr>lh_ID = ''h1'', lh_UserID = ''u1'', lh_Email = ''a@b'', lh_Success = True, lh_FailureReason = [], lh_IP = [],
     lh_UserAgent = [], lh_DeviceID = [], lh_CreatedAt = 1\<rparr>"

definition demo_json :: json_lib where
  "demo_json = \<lparr>js_audit = (\<lambda>a. Inr (text_bytes (al_ID a))), js_to_audit = (\<lambda>bs. Inl (Errorf ''no audit log'' None)),
     js_login = (\<lambda>h. Inr (text_bytes (lh_ID h))), js_to_login = (\<lambda>bs. Inr demo_login),
     js_error = (\<lambda>e. Inr []), js_to_error = (\<lambda>bs. Inl (Errorf ''no error event'' None))\<rparr>"

definition demo_event :: Event where
  "demo_event = (new_event ''e1'' (loginHistoryIdempotencyKey demo_login) TypeLoginHistory (text_bytes ''h1''))
     \<lparr>ev_Status := StatusPending, ev_MaxRetries := 3\<rparr>"

definition demo_db :: "(mem, unit) Database" where
  "demo_db = MongoDatabase any_sort_driver"

lemma demo_store: "store demo_db (\<lambda>m. m)"
  unfolding demo_db_def by (rule any_sort.mongo_store)

definition outbox_world :: "(mem, unit) world" where
  "outbox_world = start_world ((\<lambda>_. [])(''outbox_events'' := [documentFromEvent demo_event])) () 0"

text \<open>The database of the API process without the cache, over a driver that refuses sorts on several keys.\<close>

definition go_db :: "(mem, unit) Database" where
  "go_db = MongoDatabase mem_driver"

lemma go_store: "store go_db (\<lambda>m. m)"
  unfolding go_db_def by (rule mem_mongo.mongo_store)

definition empty_world :: "(mem, unit) world" where
  "empty_world = start_world (\<lambda>_. []) () 0"

lemmas demo_outbox_defs = outbox_world_def demo_event_def new_event_def documentFromEvent_def outbox_status main_outbox_def
  NewMongoOutboxWithConfig_def demo_db_def

lemma run_any_sort_FindMany:
  "ReadOptions_Validate ro = None \<Longrightarrow> run_state (Mongo_FindMany any_sort_driver cx c (Query q) ro) w =
     (Inr (page (find_options_of ro) (mem_sort (ro_Sort ro) (List.filter (matches q) (w_mongo w c)))), w)"
  by (simp add: Mongo_FindMany_def encode_filter_def run_on_mongo any_sort_driver_def find_options_of_def)

lemma demo_due: "matches (claim_query 0) (documentFromEvent demo_event)"
  by (simp add: matches_def claim_query_def documentFromEvent_def demo_event_def new_event_def outbox_status bson_date_def omit_string_def)

lemma demo_claim:
  "0 < limit \<Longrightarrow> run_state (ClaimBatch (main_outbox demo_db 3 minute) background limit) outbox_world =
     (Inr [(toEvent (documentFromEvent demo_event))\<lparr>ev_Status := StatusProcessing, ev_UpdatedAt := 0\<rparr>],
      outbox_world\<lparr>w_tick := Suc 0, w_mongo := (\<lambda>_. [])(''outbox_events'' :=
        [apply_update (set_status StatusProcessing 0) (documentFromEvent demo_event)])\<rparr>)"
proof -
  assume "0 < limit"
  let ?d = "documentFromEvent demo_event"
  have one: "matches (claim_one_query ?d) ?d"
    by (simp add: matches_def claim_one_query_def documentFromEvent_def get_string_def)
  have "mem_sort so [?d] = [?d]" for so by (auto simp: mem_sort_def split: option.splits list.splits)
  then show ?thesis
    using \<open>0 < limit\<close> one demo_due
    by (simp add: ClaimBatch_def main_outbox_def NewMongoOutboxWithConfig_def demo_db_def run_any_sort_FindMany ReadOptions_Validate_def
        read_opts_def outbox_world_def page_def find_options_of_def Mongo_UpdateOne_def WriteOptions_Validate_def write_opts_def
        encode_filter_def run_on_mongo mem_driver_def affected_def)
qed

text \<open>
  C26. Enqueueing is idempotent and adds the event: whatever the database answers, \<open>Enqueue\<close> leaves all
  collections as they are or appends to the outbox exactly the document of the event with its defaults
  filled in; it appends it, and reports success, when the insert is accepted, and reports success
  without having it accepted only when the insert is refused as a duplicate of an event with a
  non-empty idempotency key. If the outbox already holds an event with the idempotency key, no
  collection changes; identifiers and idempotency keys of the outbox stay unique.
\<close>

theorem Enqueue_idempotent:
  assumes "store (mo_db ob) colls"
    and "run_state (Enqueue ob cx event) w = (r, w')"
    and "uniq ''outbox_events'' (colls (w_mongo w) ''outbox_events'')"
    and "d = documentFromEvent (enqueue_defaults ob event (w_clock w (w_tick w)))"
    and "x = fst (run_state (db_InsertOne (mo_db ob) cx ''outbox_events'' d write_opts) (w\<lparr>w_tick := Suc (w_tick w)\<rparr>))"
  shows "(colls (w_mongo w') = colls (w_mongo w) \<or>
          colls (w_mongo w') = (colls (w_mongo w))(''outbox_events'' := colls (w_mongo w) ''outbox_events'' @ [d])) \<and>
         (x = None \<longrightarrow> r = None \<and>
            colls (w_mongo w') = (colls (w_mongo w))(''outbox_events'' := colls (w_mongo w) ''outbox_events'' @ [d])) \<and>
         (r = None \<longrightarrow> x = None \<or> ev_IdempotencyKey event \<noteq> [] \<and> (\<exists>e. x = Some e \<and> IsDuplicateKeyError e)) \<and>
         ((\<exists>d \<in> set (colls (w_mongo w) ''outbox_events''). map_of d ''idempotency_key'' = Some (BString (ev_IdempotencyKey event))) \<longrightarrow>
            colls (w_mongo w') = colls (w_mongo w)) \<and>
         uniq ''outbox_events'' (colls (w_mongo w') ''outbox_events'')"
proof -
  have ins: "run_state (db_InsertOne (mo_db ob) cx ''outbox_events'' d write_opts) (w\<lparr>w_tick := Suc (w_tick w)\<rparr>) = (x, w')"
    and r: "r = None \<longleftrightarrow> x = None \<or> ev_IdempotencyKey event \<noteq> [] \<and> (\<exists>e. x = Some e \<and> IsDuplicateKeyError e)"
    using assms(2,4,5) by (auto simp: Enqueue_def split: prod.splits option.splits if_splits)
  show ?thesis
  proof (intro conjI)
    show "colls (w_mongo w') = colls (w_mongo w) \<or>
        colls (w_mongo w') = (colls (w_mongo w))(''outbox_events'' := colls (w_mongo w) ''outbox_events'' @ [d])"
      using store.st_insert_any [OF assms(1) store.once_unlocked(2) [OF assms(1)] ins] by simp
    show "x = None \<longrightarrow> r = None \<and>
        colls (w_mongo w') = (colls (w_mongo w))(''outbox_events'' := colls (w_mongo w) ''outbox_events'' @ [d])"
      using store.st_insert [OF assms(1) store.once_unlocked(2) [OF assms(1)]] ins r by auto
    show "r = None \<longrightarrow> x = None \<or> ev_IdempotencyKey event \<noteq> [] \<and> (\<exists>e. x = Some e \<and> IsDuplicateKeyError e)"
      using r by simp
    show "(\<exists>d \<in> set (colls (w_mongo w) ''outbox_events''). map_of d ''idempotency_key'' = Some (BString (ev_IdempotencyKey event))) \<longrightarrow>
        colls (w_mongo w') = colls (w_mongo w)"
      using store.Enqueue_law(2) [OF assms(1,2) refl] by blast
    show "uniq ''outbox_events'' (colls (w_mongo w') ''outbox_events'')"
      using store.Enqueue_uniq [OF assms(1,2) refl assms(3)] .
  qed
qed

text \<open>An empty outbox gets the event; a second attempt with the same key leaves the outbox alone.\<close>

theorem Enqueue_idempotent_witness:
  "w_mongo (snd (run_state (Enqueue (main_outbox go_db 3 minute) background demo_event) empty_world)) ''outbox_events'' =
     [documentFromEvent (enqueue_defaults (main_outbox go_db 3 minute) demo_event 0)] \<and>
   w_mongo (snd (run_state (Enqueue (main_outbox go_db 3 minute) background demo_event) outbox_world)) = w_mongo outbox_world"
proof
  let ?ob = "main_outbox go_db 3 minute"
  have db: "store (mo_db ?ob) (\<lambda>m. m)" by (simp add: go_store)
  obtain r w' where run: "run_state (Enqueue ?ob background demo_event) outbox_world = (r, w')" by fastforce
  from Enqueue_idempotent [OF db run] run
  show "w_mongo (snd (run_state (Enqueue ?ob background demo_event) outbox_world)) = w_mongo outbox_world"
    by (simp add: uniq_def outbox_world_def documentFromEvent_def)
  obtain r w' where run: "run_state (Enqueue ?ob background demo_event) empty_world = (r, w')" by fastforce
  let ?d = "documentFromEvent (enqueue_defaults ?ob demo_event 0)"
  have "fst (run_state (db_InsertOne (mo_db ?ob) background ''outbox_events'' ?d write_opts) (empty_world\<lparr>w_tick := Suc 0\<rparr>)) = None"
    by (simp add: go_db_def Mongo_InsertOne_def WriteOptions_Validate_def write_opts_def run_on_mongo mem_driver_def empty_world_def)
  then show "w_mongo (snd (run_state (Enqueue ?ob background demo_event) empty_world)) ''outbox_events'' = [?d]"
    using Enqueue_idempotent [OF db run _ refl refl] run by (simp add: uniq_def empty_world_def)
qed

text \<open>
  C25. A claim is exclusive: when two workers have found the same event document, at most one of
  them gets the event, because the claim is conditional on the status the document was found with
  (whatever the two claims' contexts, and whatever happens to other collections in between).
\<close>

theorem claim_exclusive:
  assumes "store (mo_db ob) colls" and "uniq ''outbox_events'' (colls (w_mongo w) ''outbox_events'')"
    and "map_of d ''_id'' = Some (BString i)" "map_of d ''status'' = Some (BString st)" "st \<noteq> StatusProcessing"
    and "run_state (claim_docs ob cx now [d]) w = ([ev], w1)"
    and "colls (w_mongo w2) ''outbox_events'' = colls (w_mongo w1) ''outbox_events''"
    and "run_state (claim_docs ob cx' now' [d]) w2 = (evs, w3)"
  shows "evs = []"
  by (rule store.claim_exclusive_law [OF assms(1) refl assms(2-8)])

theorem claim_exclusive_witness:
  "fst (run_state (do { claim_docs (main_outbox demo_db 3 minute) background 0 [documentFromEvent demo_event];
       claim_docs (main_outbox demo_db 3 minute) background 5 [documentFromEvent demo_event] }) outbox_world) = []"
proof -
  let ?ob = "main_outbox demo_db 3 minute" and ?d = "documentFromEvent demo_event"
  obtain ev w1 where first: "run_state (claim_docs ?ob background 0 [?d]) outbox_world = ([ev], w1)"
    by (simp add: demo_outbox_defs Mongo_UpdateOne_def WriteOptions_Validate_def write_opts_def encode_filter_def run_on_mongo
        mem_driver_def matches_def claim_one_query_def get_defs affected_def)
  obtain evs w3 where second: "run_state (claim_docs ?ob background 5 [?d]) w1 = (evs, w3)" by fastforce
  have "evs = []"
  proof (rule claim_exclusive [OF _ _ _ _ _ first refl second])
    show "store (mo_db ?ob) (\<lambda>m. m)" by (simp add: demo_store)
    show "uniq ''outbox_events'' (w_mongo outbox_world ''outbox_events'')" by (simp add: uniq_def outbox_world_def)
    show "map_of ?d ''_id'' = Some (BString ''e1'')" "map_of ?d ''status'' = Some (BString StatusPending)"
      by (simp_all add: documentFromEvent_def demo_event_def new_event_def)
  qed (simp add: outbox_status)
  then show ?thesis using first second by (simp del: claim_docs.simps)
qed

text \<open>
  C27. Only due events are claimed: every event in a claimed batch stems from a document of the
  outbox that was pending or failed, whose processing time had come and whose retries were not used
  up; the event is handed on as processing.
\<close>

theorem ClaimBatch_due:
  assumes db: "store (mo_db ob) colls"
    and run: "run_state (ClaimBatch ob cx limit) w = (Inr evs, w')" and ev: "ev \<in> set evs"
  shows "\<exists>d \<in> set (colls (w_mongo w) ''outbox_events''). ev_ID ev = get_string d ''_id'' \<and> ev_Payload ev = get_bytes d ''payload'' \<and>
           ev_Status ev = StatusProcessing \<and>
           map_of d ''status'' \<in> {Some (BString StatusPending), Some (BString StatusFailed)} \<and>
           ev_ProcessAfter ev \<le> w_clock w (w_tick w) \<and>
           (\<forall>n. map_of d ''max_retries'' = Some (BInt n) \<longrightarrow> ev_RetryCount ev < ev_MaxRetries ev)"
proof -
  let ?now = "w_clock w (w_tick w)"
  obtain docs w1 ro where f: "run_state (db_FindMany (mo_db ob) cx ''outbox_events'' (Query (claim_query ?now)) ro)
      (w\<lparr>w_tick := Suc (w_tick w)\<rparr>) = (Inr docs, w1)" "ro_CacheKey ro = []"
    and c: "run_state (claim_docs ob cx ?now docs) w1 = (evs, w')"
    using run by (auto simp: ClaimBatch_def read_opts_def Let_def split: sum.splits prod.splits)
  obtain d where d: "d \<in> set docs" "ev = (toEvent d)\<lparr>ev_Status := StatusProcessing, ev_UpdatedAt := ?now\<rparr>"
    using store.claim_docs_law [OF db c ev] by blast
  have m: "d \<in> set (colls (w_mongo w) ''outbox_events'')" "matches (claim_query ?now) d"
    using store.st_find_many_fresh [OF db f(2,1)] d(1) by auto
  have due: "map_of d ''status'' \<in> {Some (BString StatusPending), Some (BString StatusFailed)}"
    using m(2) by (auto simp: matches_def claim_query_def split: option.splits)
  have retry: "map_of d ''max_retries'' = Some (BInt n) \<longrightarrow> get_int d ''retry_count'' < get_int d ''max_retries''" for n
    using m(2) by (auto simp: matches_def claim_query_def get_int_def split: option.splits elim!: bson_less.elims(2))
  obtain ms where ms: "map_of d ''process_after'' = Some (BDate ms)" "ms \<le> ?now div millisecond"
    using m(2) by (auto simp: matches_def claim_query_def bson_date_def split: option.splits elim!: bson_less.elims(2))
  then have "get_time d ''process_after'' \<le> trunc_ms ?now" by (simp add: get_time_def date_time_def trunc_ms_def millisecond_def)
  also have "\<dots> \<le> ?now" by (rule trunc_ms_le)
  finally show ?thesis using m(1) d(2) due retry by (intro bexI [of _ d]) (simp_all add: toEvent_def)
qed

theorem ClaimBatch_due_witness:
  "\<exists>ev w'. run_state (ClaimBatch (main_outbox demo_db 3 minute) background 10) outbox_world = (Inr [ev], w') \<and>
     ev_ID ev = ''e1'' \<and> ev_ProcessAfter ev \<le> 0"
proof -
  let ?ob = "main_outbox demo_db 3 minute"
  note run = demo_claim [of 10, simplified]
  have "store (mo_db ?ob) (\<lambda>m. m)" by (simp add: demo_store)
  from ClaimBatch_due [OF this run] run show ?thesis
    by (auto simp: outbox_world_def documentFromEvent_def demo_event_def new_event_def toEvent_def get_defs)
qed

text \<open>
  C28. A delivered batch is settled: when the delivery loop of the worker of the API process (the part
  of \<open>DrainOnce\<close> after the claim) runs through a batch without an error, whatever events the batch
  holds, the outbox ends with a document for every event of the batch that says how its last delivery
  went: done if the handler, run in the state left by the events before it, succeeded, and failed with
  the text of the handler's error otherwise. None is left in processing. (Over the Go driver the claim
  before the loop never hands it a batch; that is a separate property.)
\<close>

theorem drained_batch_settled:
  assumes db: "store db colls" and ob: "mo_db ob = db" and oid: "\<And>K. keeps (\<lambda>w. K (w_mongo w)) oid"
    and run: "run_state (drain_events (main_worker js oid db ob iv b) cx (pre @ ev # post)) w = (None, w')"
    and last: "ev_ID ev \<notin> ev_ID ` set post"
  shows "\<exists>w1. run_state (drain_events (main_worker js oid db ob iv b) cx pre) w = (None, w1) \<and>
           marked (settled_as (fst (run_state (Handle js (main_handler js oid db ob) cx ev) w1)))
             (colls (w_mongo w') ''outbox_events'') (ev_ID ev)"
proof -
  let ?wk = "main_worker js oid db ob iv b"
  obtain w1 where w1: "run_state (drain_events ?wk cx pre) w = (None, w1)" "run_state (drain_events ?wk cx (ev # post)) w1 = (None, w')"
    using store.drain_append [OF db run] by blast
  obtain h w2 where h: "run_state (wk_handler ?wk cx ev) w1 = (h, w2)" by fastforce
  obtain w3 where w3: "marked (settled_as h) (colls (w_mongo w3) ''outbox_events'') (ev_ID ev)"
    "run_state (drain_events ?wk cx post) w3 = (None, w')"
    using store.drain_event [OF db main_worker_sel(1) ob w1(2) h] by blast
  have "keeps (\<lambda>w. marked P (colls (w_mongo w) ''outbox_events'') j) (wk_handler ?wk cx e)" for P j e
    unfolding main_worker_sel(2) by (rule store.keeps_Handle_marked [OF db ob oid])
  from store.drain_keeps_marked [OF db main_worker_sel(1) ob this w3(2,1) last] w1(1) h show ?thesis by auto
qed

text \<open>
  Over a driver that meets the Go driver's contract: the login is written to its collection and the
  event, in processing, is marked done; an event of an unknown type is marked failed.
\<close>

definition odd_event :: Event where
  "odd_event = demo_event\<lparr>ev_ID := ''e2'', ev_IdempotencyKey := ''k2'', ev_Type := ''odd''\<rparr>"

definition claimed_world :: "(mem, unit) world" where
  "claimed_world = start_world ((\<lambda>_. [])(''outbox_events'' :=
     [documentFromEvent (demo_event\<lparr>ev_Status := StatusProcessing\<rparr>), documentFromEvent (odd_event\<lparr>ev_Status := StatusProcessing\<rparr>)])) () 0"

theorem drained_batch_settled_witness:
  "let wk = main_worker demo_json (ret ''o1'') go_db (main_outbox go_db 3 minute) second 5;
       ds = w_mongo (snd (run_state (drain_events wk background [demo_event, odd_event]) claimed_world)) ''outbox_events''
   in marked (settled_as None) ds ''e1'' \<and>
      marked (settled_as (Some (Errorf ''unsupported outbox event type odd'' None))) ds ''e2''"
proof -
  let ?ob = "main_outbox go_db 3 minute"
  let ?wk = "main_worker demo_json (ret ''o1'') go_db ?ob second 5"
  let ?h = "Handle demo_json (main_handler demo_json (ret ''o1'') go_db ?ob) background"
  let ?run = "run_state (drain_events ?wk background [demo_event, odd_event]) claimed_world"
  note defs = go_db_def main_outbox_def NewMongoOutboxWithConfig_def WriteOptions_Validate_def write_opts_def run_on_mongo mem_driver_def
    TypeAuditLog_def TypeErrorEvent_def TypeLoginHistory_def new_event_def
  have h1: "\<exists>w1. run_state (?h demo_event) claimed_world = (None, w1) \<and> w_mongo w1 ''outbox_events'' = w_mongo claimed_world ''outbox_events''"
    by (simp add: Handle_def main_handler_def replay_def main_loginHistoryRepo_def Outbox_NewLoginHistoryRepository_def Outbox_Login_Append_def
        NewLoginHistoryRepository_def LoginHistory_Append_def demo_json_def demo_login_def Mongo_InsertOne_def mapWriteError_def
        ignoreConflict_def time_defs claimed_world_def demo_event_def defs)
  have h2: "run_state (?h odd_event) w = (Some (Errorf ''unsupported outbox event type odd'' None), w)" for w
    by (simp add: Handle_def odd_event_def defs)
  have ids: "ev_ID demo_event = ''e1''" "ev_ID odd_event = ''e2''" by (simp_all add: demo_event_def odd_event_def new_event_def)
  obtain w1 where w1: "run_state (?h demo_event) claimed_world = (None, w1)"
    "w_mongo w1 ''outbox_events'' = w_mongo claimed_world ''outbox_events''" using h1 by blast
  obtain w2 where w2: "run_state (MarkDone ?ob background ''e1'') w1 = (None, w2)"
    "\<exists>d. w_mongo w2 ''outbox_events'' = [d, documentFromEvent (odd_event\<lparr>ev_Status := StatusProcessing\<rparr>)] \<and>
       map_of d ''_id'' = Some (BString ''e1'')"
    by (simp add: MarkDone_def Mongo_UpdateOne_def encode_filter_def matches_def id_query_def affected_def set_status_def
        w1(2) claimed_world_def documentFromEvent_def ids defs)
  obtain w3 where w3: "run_state (MarkFailed ?ob background ''e2'' ''unsupported outbox event type odd'') w2 = (None, w3)"
    using w2(2) by (auto simp add: MarkFailed_def Mongo_UpdateOne_def encode_filter_def matches_def id_query_def affected_def
        failed_update_def documentFromEvent_def ids defs)
  have err: "err_Error (Errorf ''unsupported outbox event type odd'' None) = ''unsupported outbox event type odd''" by code_simp
  have run: "?run = (None, w3)" by (simp add: w1 w2 w3 h2 ids err)
  then have runs: "run_state (drain_events ?wk background ([] @ demo_event # [odd_event])) claimed_world = (None, w3)"
    "run_state (drain_events ?wk background ([demo_event] @ odd_event # [])) claimed_world = (None, w3)" by simp_all
  have oid: "keeps (\<lambda>w. K (w_mongo w)) (ret ''o1'' :: (mem, unit, string) M)" for K by (rule keeps_ret)
  have "marked (settled_as None) (w_mongo w3 ''outbox_events'') ''e1''"
    using drained_batch_settled [OF go_store main_outbox_db oid runs(1)] w1(1) by (simp add: ids)
  moreover have "marked (settled_as (Some (Errorf ''unsupported outbox event type odd'' None))) (w_mongo w3 ''outbox_events'') ''e2''"
    using drained_batch_settled [OF go_store main_outbox_db oid runs(2)] h2 by (simp add: ids del: drain_events.simps)
  ultimately show ?thesis using run by (simp add: Let_def del: drain_events.simps)
qed

text \<open>
  C29. The outbox worker of the API process never gets past its first batch: over the Go driver,
  which refuses the sort on two keys of a map that \<open>ClaimBatch\<close> asks for, \<open>Run\<close> returns with an error
  from its first drain, whatever the ticker does, and no collection has changed, so no event is ever
  delivered.
\<close>

theorem Worker_Run_stops:
  assumes drv: "go_mongo_driver drv colls"
    and run: "run_state (Worker_Run (main_worker js oid (Cached_database (redis_stack drv cl p st))
         (main_outbox (Cached_database (redis_stack drv cl p st)) n dl) iv b) cx wakes) w = (r, w')"
  shows "r \<noteq> None \<and> colls (w_mongo w') = colls (w_mongo w)"
proof -
  let ?d = "redis_stack drv cl p st"
  let ?wk = "main_worker js oid (Cached_database ?d) (main_outbox (Cached_database ?d) n dl) iv b"
  have srv: "mongo_server drv colls" using drv by (rule go_mongo_driver.axioms(1))
  have find: "\<exists>e. f = Inl e \<and> colls (w_mongo v') = colls (w_mongo v)"
    if ro: "ro_CacheKey ro = []" "ro_CacheTTL ro = 0" "\<not> ro_LockOnMiss ro" "ro_Sort ro = Some (k1 # k2 # ks)"
      and f: "run_state (Cached_FindMany ?d cx c (Query q) ro) v = (f, v')" for f v v' c q ro k1 k2 ks
  proof -
    have base: "\<exists>e. x = Inl e \<and> colls (w_mongo v2) = colls (w_mongo v1)"
      if "run_state (base_FindMany ?d cx c (Query q) ro) v1 = (x, v2)" for x v1 v2
    proof -
      obtain y u where y: "run_state (Mongo_FindMany drv cx c (Query q) ro) v1 = (y, u)" by fastforce
      obtain z m where z: "run_state (drv_Find drv cx c q (find_options_of ro)) (w_mongo v1) = (z, m)" by fastforce
      obtain e where "z = Inl e"
        using go_mongo_driver.find_multi_key_sort [OF drv z] ro(4) by (auto simp: find_options_of_def)
      then have "y = Inl e" "u = v1\<lparr>w_mongo := m\<rparr>"
        using y z ro by (auto simp: Mongo_FindMany_def ReadOptions_Validate_def encode_filter_def run_on_mongo)
      moreover have l: "run_state (callAndLog_value ?d ''CachedDatabase.FindMany'' y) u = (x, v2)"
        using that y by (simp add: base_FindMany_def)
      moreover have "w_mongo v2 = w_mongo u"
        by (rule keeps_eqD [where f = w_mongo, OF _ l]) (intro keeps_intros)
      ultimately show ?thesis
        using callAndLog_result(2) [OF l] mongo_server.find_frame [OF srv z] by simp
    qed
    have "run_state (do { recordCacheEvent ?d ''find_many'' ''transaction''; base_FindMany ?d cx c (Query q) ro }) v = (f, v') \<or>
          run_state (do { recordCacheEvent ?d ''find_many'' ''disabled''; base_FindMany ?d cx c (Query q) ro }) v = (f, v')"
      using f ro by (auto simp: Cached_FindMany_def ReadOptions_Validate_def split: if_splits)
    then show ?thesis using base by (auto simp: recordCacheEvent_def split: if_splits)
  qed
  obtain x w1 where x: "run_state (ClaimBatch (main_outbox (Cached_database ?d) n dl) cx (wk_batch ?wk)) w = (x, w1)" by fastforce
  let ?q = "claim_query (w_clock w (w_tick w))" and ?w0 = "w\<lparr>w_tick := Suc (w_tick w)\<rparr>"
  let ?ro = "read_opts\<lparr>ro_Limit := (if wk_batch ?wk \<le> 0 then 10 else wk_batch ?wk), ro_Sort := Some [(''process_after'', 1), (''created_at'', 1)]\<rparr>"
  obtain f v where f: "run_state (Cached_FindMany ?d cx ''outbox_events'' (Query ?q) ?ro) ?w0 = (f, v)" by fastforce
  moreover from this obtain e where e: "f = Inl e" "colls (w_mongo v) = colls (w_mongo w)"
    using find [OF _ _ _ _ f] by (auto simp: read_opts_def)
  ultimately have "x = Inl e \<and> w1 = v" using x by (simp add: ClaimBatch_def)
  then show ?thesis using run x e by (subst (asm) Worker_Run.simps) (auto simp: DrainOnce_def)
qed

theorem Worker_Run_stops_witness:
  "fst (run_state (Worker_Run (main_worker demo_json (ret ''o1'') (Cached_database (redis_stack mem_driver mem_redis [] True))
      (main_outbox (Cached_database (redis_stack mem_driver mem_redis [] True)) 3 minute) second 5) background [Tick, Tick])
      (start_world (\<lambda>_. []) (\<lambda>_. None) 0)) \<noteq> None"
proof -
  let ?db = "Cached_database (redis_stack mem_driver mem_redis [] True)"
  let ?m = "Worker_Run (main_worker demo_json (ret ''o1'') ?db (main_outbox ?db 3 minute) second 5) background [Tick, Tick]"
  let ?w = "start_world (\<lambda>_. []) (\<lambda>_. None) 0 :: (mem, mem_kv) world"
  obtain r w' where run: "run_state ?m ?w = (r, w')" by fastforce
  from Worker_Run_stops [OF mem_mongo.go_mongo_driver_axioms run] run show ?thesis by simp
qed

text \<open>
  C30. A failed retry of a login history event is lost: the handler of the API process writes through
  the enqueueing repository, so when the direct write fails again while the event is still in the
  outbox under its key, the handler reports success (and the worker marks the event done) although
  nothing was written to the login history.
\<close>

theorem login_history_retry_lost:
  assumes db: "store (mo_db ob) colls"
    and ev: "ev_Type ev = TypeLoginHistory" "js_to_login js (ev_Payload ev) = Inr h" "lh_ID h \<noteq> []" "\<not> IsZero (lh_CreatedAt h)"
      "js_login js h = Inr bs"
    and queued: "d \<in> set (colls (w_mongo w) ''outbox_events'')" "map_of d ''idempotency_key'' = Some (BString (loginHistoryIdempotencyKey h))"
    and dup: "\<And>x w v w'. run_state (db_InsertOne (mo_db ob) cx ''outbox_events'' x write_opts) w = (v, w') \<Longrightarrow>
                (\<exists>d \<in> set (colls (w_mongo w) ''outbox_events''). clashes ''outbox_events'' x d) \<Longrightarrow> (\<exists>e. v = Some e \<and> IsDuplicateKeyError e)"
    and direct: "run_state (LoginHistory_Append (mo_db ob) cx h) w = (Some e, w1)" "colls (w_mongo w1) = colls (w_mongo w)"
    and run: "run_state (Handle js (main_handler js oid (mo_db ob) ob) cx ev) w = (r, w')"
  shows "r = None \<and> colls (w_mongo w') = colls (w_mongo w)"
proof -
  let ?key = "loginHistoryIdempotencyKey h"
  obtain i w2 where i: "run_state randomID w1 = (i, w2)" by fastforce
  have w2: "w_mongo w2 = w_mongo w1"
    by (rule keeps_eqD [where f = w_mongo, OF _ i]) (unfold randomID_def, intro keeps_intros)
  let ?event = "new_event i ?key TypeLoginHistory bs"
  obtain q w3 where q: "run_state (Enqueue ob cx ?event) w2 = (q, w3)" by fastforce
  have key: "ev_IdempotencyKey ?event = ?key" "?key \<noteq> []" by (simp_all add: new_event_def loginHistoryIdempotencyKey_def)
  have r: "r = ignoreConflict q" "w' = w3"
    using run ev direct(1) i q
    by (auto simp: Handle_def main_handler_def main_loginHistoryRepo_def replay_def Outbox_NewLoginHistoryRepository_def
        Outbox_Login_Append_def NewLoginHistoryRepository_def enqueue_payload_def TypeAuditLog_def TypeErrorEvent_def TypeLoginHistory_def)
  have same: "colls (w_mongo w3) = colls (w_mongo w)"
    using store.Enqueue_law(2) [OF db q refl, of d] queued key w2 direct(2) by simp
  have "q = None"
  proof -
    let ?x = "documentFromEvent (enqueue_defaults ob ?event (w_clock w2 (w_tick w2)))"
    obtain v w4 where v: "run_state (db_InsertOne (mo_db ob) cx ''outbox_events'' ?x write_opts) (w2\<lparr>w_tick := Suc (w_tick w2)\<rparr>) = (v, w4)" by fastforce
    have "clashes ''outbox_events'' ?x d"
      using queued(2) by (simp add: clashes_def unique_fields_def documentFromEvent_def enqueue_defaults_def new_event_def)
    then obtain e' where "v = Some e'" "IsDuplicateKeyError e'" using dup [OF v] queued(1) w2 direct(2) by auto
    then show ?thesis using q v key by (simp add: Enqueue_def)
  qed
  then show ?thesis using r same by (simp add: ignoreConflict_def)
qed

text \<open>A server that refuses writes to the login history.\<close>

definition no_history_driver :: "mem mongo_driver" where
  "no_history_driver = any_sort_driver\<lparr>drv_InsertOne := (\<lambda>cx c d.
     if c = ''login_history'' then ret (Some (Errorf ''not writable'' None)) else drv_InsertOne mem_driver cx c d)\<rparr>"

interpretation no_history: mongo_server no_history_driver "\<lambda>m. m"
proof (unfold_locales, goal_cases)
  case (6 cx c d m m') then show ?case by (auto simp: no_history_driver_def mem_driver_def split: if_splits)
next
  case (7 cx c d m e m') then show ?case by (auto simp: no_history_driver_def mem_driver_def split: if_splits)
next
  case (8 cx c d m i m' d') then show ?case by (auto simp: no_history_driver_def mem_driver_def list_ex_iff split: if_splits)
next
  case (5 cx c q fo m ds m') then show ?case by (intro any_sort.find_ok) (simp add: no_history_driver_def)
next
  case (4 cx c q fo m f m') then show ?case by (simp add: no_history_driver_def any_sort_driver_def)
qed (simp_all add: no_history_driver_def, (rule mem_mongo_laws, assumption+)+)

lemma duplicate_key: "IsDuplicateKeyError dup_key" "\<not> isTimeoutError dup_key"
  by code_simp+

lemma not_writable: "\<not> IsDuplicateKeyError (Errorf ''not writable'' None)" "\<not> isTimeoutError (Errorf ''not writable'' None)"
  by code_simp+

theorem login_history_retry_lost_witness:
  "let db = MongoDatabase no_history_driver; ob = main_outbox db 3 minute in
     case run_state (Handle demo_json (main_handler demo_json (ret ''o1'') db ob) background demo_event) outbox_world of
       (r, w') \<Rightarrow> r = None \<and> w_mongo w' ''login_history'' = []"
proof -
  let ?db = "MongoDatabase no_history_driver :: (mem, unit) Database"
  let ?ob = "main_outbox ?db 3 minute"
  obtain r w' where run: "run_state (Handle demo_json (main_handler demo_json (ret ''o1'') (mo_db ?ob) ?ob) background demo_event) outbox_world
      = (r, w')" by fastforce
  have "r = None \<and> w_mongo w' = w_mongo outbox_world"
  proof (rule login_history_retry_lost [where colls = "\<lambda>m. m", OF _ _ _ _ _ _ _ _ _ _ _ run])
    show "store (mo_db ?ob) (\<lambda>m. m)" by (simp add: no_history.mongo_store)
    show "ev_Type demo_event = TypeLoginHistory" by (simp add: demo_event_def new_event_def)
    show "js_to_login demo_json (ev_Payload demo_event) = Inr demo_login" "js_login demo_json demo_login = Inr (text_bytes ''h1'')"
      by (simp_all add: demo_json_def demo_login_def)
    show "lh_ID demo_login \<noteq> []" "\<not> IsZero (lh_CreatedAt demo_login)" by (simp_all add: demo_login_def time_defs)
    show "documentFromEvent demo_event \<in> set (w_mongo outbox_world ''outbox_events'')" by (simp add: outbox_world_def)
    show "map_of (documentFromEvent demo_event) ''idempotency_key'' = Some (BString (loginHistoryIdempotencyKey demo_login))"
      by (simp add: documentFromEvent_def demo_event_def new_event_def)
    show "run_state (LoginHistory_Append (mo_db ?ob) background demo_login) outbox_world = (Some (Errorf ''not writable'' None), outbox_world)"
      by (simp add: LoginHistory_Append_def Mongo_InsertOne_def WriteOptions_Validate_def write_opts_def no_history_driver_def
          run_on_mongo mapWriteError_def dependencyError_def not_writable)
    show "\<exists>e. v = Some e \<and> IsDuplicateKeyError e"
      if "run_state (db_InsertOne (mo_db ?ob) background ''outbox_events'' x write_opts) w = (v, w')"
        "\<exists>d \<in> set (w_mongo w ''outbox_events''). clashes ''outbox_events'' x d" for x w v and w' :: "(mem, unit) world"
      using that by (auto simp: Mongo_InsertOne_def WriteOptions_Validate_def write_opts_def no_history_driver_def run_on_mongo
          mem_driver_def list_ex_iff dependencyError_def duplicate_key split: if_splits)
  qed simp
  then show ?thesis using run by (simp add: outbox_world_def)
qed

end
