(* ===== verification/AuthSystem.thy ===== *)
theory AuthSystem
  imports AuthProperties OutboxProperties
begin

text \<open>
  The authentication service as \<open>cmd/api/main.go\<close> wires it: repositories over the cached database,
  the audit log through the outbox, the token service over Redis and the collection of revoked
  tokens, transactions of the cached database. The locale \<open>api_platform\<close> states what the external
  servers and libraries promise; under it the wired service meets \<open>auth_env\<close>, and with it every
  guarantee of \<open>AuthProperties\<close>.
\<close>

section \<open>The wiring\<close>

text \<open>External code: the MongoDB driver and its sessions, the Redis client, libraries.\<close>

record ('m, 'r) platform =
  pf_driver :: "'m mongo_driver"
  pf_sessions :: "('m, 'r, AuthResult) tx_driver"
  pf_redis :: "'r redis_client"
  pf_jwt :: "('m, 'r) jwt_lib"
  pf_sha256 :: "string \<Rightarrow> bytes"
  pf_bcrypt :: "('m, 'r) bcrypt_lib"
  pf_json :: json_lib

text \<open>The configuration values that \<open>run\<close> hands to the authentication service and below it.\<close>

record settings =
  st_LockPrefix :: string
  st_Production :: bool
  st_TransactionsEnabled :: bool
  st_OutboxRetries :: int
  st_OutboxRetryDelay :: duration
  st_Tokens :: TokenConfig
  st_BcryptCost :: int
  st_LockoutMaxFailures :: int
  st_LockoutDuration :: duration
  st_RefreshIPAnomalyAction :: string
  st_Stack :: string

definition main_cache :: "('m, 'r) platform \<Rightarrow> settings \<Rightarrow> ('m, 'r) Cache" where
  "main_cache pf st = Redis_cache (NewRedisWithClient (pf_redis pf) (st_LockPrefix st))"

definition main_cached :: "('m, 'r) platform \<Rightarrow> settings \<Rightarrow> ('m, 'r) CachedDatabase" where
  "main_cached pf st = redis_stack (pf_driver pf) (pf_redis pf) (st_LockPrefix st) (\<not> st_Production st)"

definition main_db :: "('m, 'r) platform \<Rightarrow> settings \<Rightarrow> ('m, 'r) Database" where
  "main_db pf st = Cached_database (main_cached pf st)"

definition main_mongoOutbox :: "('m, 'r) platform \<Rightarrow> settings \<Rightarrow> ('m, 'r) MongoOutbox" where
  "main_mongoOutbox pf st = main_outbox (main_db pf st) (st_OutboxRetries st) (st_OutboxRetryDelay st)"

definition main_tokenService :: "('m, 'r) platform \<Rightarrow> settings \<Rightarrow> err + ('m, 'r) TokenService" where
  "main_tokenService pf st =
     NewTokenService (pf_jwt pf) (pf_sha256 pf) (st_Tokens st) (Some (main_cache pf st)) (Some (NewRevokedTokenRepository (main_db pf st)))"

definition txRunner :: "('m, 'r) platform \<Rightarrow> settings \<Rightarrow> bool \<Rightarrow> ('m, 'r, AuthResult) TransactionRunner option" where
  "txRunner pf st enabled =
     (if \<not> enabled then None
      else Some (RunInTransaction (main_cached pf st) (Some (Mongo_RunInTransaction (pf_sessions pf)))))"

definition main_authService :: "('m, 'r) platform \<Rightarrow> settings \<Rightarrow> ('m, 'r) TokenService \<Rightarrow> ('m, 'r) Service" where
  "main_authService pf st ts =
     (let db = main_db pf st; ob = main_mongoOutbox pf st
      in NewService (pf_bcrypt pf)
        \<lparr>sv_users = Some (NewUserRepository db), sv_sessions = Some (NewSessionRepository db),
         sv_loginHistory = Some (main_loginHistoryRepo (pf_json pf) db ob),
         sv_auditLogs = Some (main_auditLogRepo (pf_json pf) db ob),
         sv_revokedTokens = Some (NewRevokedTokenRepository db), sv_tokens = Some (token_interface ts),
         sv_passwords = Some (BcryptHasher (pf_bcrypt pf) (st_BcryptCost st)),
         sv_transactions = txRunner pf st (st_TransactionsEnabled st), sv_metrics = True,
         sv_refreshTTL = tc_RefreshTTL (st_Tokens st), sv_lockoutMaxFailures = st_LockoutMaxFailures st,
         sv_lockoutDuration = st_LockoutDuration st, sv_refreshIPAnomalyAction = st_RefreshIPAnomalyAction st,
         sv_stack = st_Stack st\<rparr>)"

section \<open>Transactions\<close>

text \<open>
  What the driver's sessions promise: starting one changes nothing; a transaction that commits has
  run the callback to its result on the collections of the start; one that does not leaves
  collections that the callback can produce or those of the start.
\<close>

locale mongo_sessions =
  fixes txd :: "('m, 'r, 'a) tx_driver"
    and colls :: "'m \<Rightarrow> string \<Rightarrow> doc list"
  assumes start_frame: "run_state (txd_StartSession txd) m = (e, m') \<Longrightarrow> colls m' = colls m"
    and with_keeps: "(\<And>cx. keeps (\<lambda>w. J (colls (w_mongo w))) (fn cx)) \<Longrightarrow>
          keeps (\<lambda>w. J (colls (w_mongo w))) (txd_WithTransaction txd cx fn)"
    and with_commit: "run_state (txd_WithTransaction txd cx fn) w = (Inr v, w') \<Longrightarrow>
          \<exists>cx' w1 w2. colls (w_mongo w1) = colls (w_mongo w) \<and> run_state (fn cx') w1 = (Inr v, w2) \<and>
            colls (w_mongo w') = colls (w_mongo w2)"

context mongo_sessions
begin

lemma session_runner: "tx_runner (Mongo_RunInTransaction txd) colls"
proof
  fix J :: "(string \<Rightarrow> doc list) \<Rightarrow> bool" and fn :: "ctx \<Rightarrow> ('m, 'r, err + 'a) M" and cx
  assume fn: "\<And>cx. keeps (\<lambda>w. J (colls (w_mongo w))) (fn cx)"
  have "keeps (\<lambda>w. J (colls (w_mongo w))) (on_mongo (txd_StartSession txd))"
    by (rule keepsI) (auto simp: run_on_mongo split: prod.splits dest: start_frame)
  then show "keeps (\<lambda>w. J (colls (w_mongo w))) (Mongo_RunInTransaction txd cx fn)"
    unfolding Mongo_RunInTransaction_def by (intro keeps_intros with_keeps fn)
next
  fix cx fn w v w' assume run: "run_state (Mongo_RunInTransaction txd cx fn) w = (Inr v, w')"
  obtain e m where m: "run_state (txd_StartSession txd) (w_mongo w) = (e, m)" by fastforce
  then have "run_state (txd_WithTransaction txd cx fn) (w\<lparr>w_mongo := m\<rparr>) = (Inr v, w')"
    using run by (auto simp: Mongo_RunInTransaction_def run_on_mongo map_sum_def split: option.splits prod.splits sum.splits)
  from with_commit [OF this] start_frame [OF m]
  show "\<exists>cx' w1 w2. colls (w_mongo w1) = colls (w_mongo w) \<and> run_state (fn cx') w1 = (Inr v, w2) \<and> colls (w_mongo w') = colls (w_mongo w2)"
    by simp
qed

end

sublocale mongo_sessions \<subseteq> tx: tx_runner "Mongo_RunInTransaction txd" colls
  by (rule session_runner)

text \<open>The cached database hands the contract on: deleting keys from the cache touches no collection.\<close>


lemma cached_runner:
  assumes base: "tx_runner base colls" and cache: "coherent_cache ca cv" and d: "cd_cache d = Some ca"
  shows "tx_runner (RunInTransaction d (Some base)) colls"
proof -
  have del: "keeps (\<lambda>w. K (w_mongo w)) (ca_Delete ca cx keys)" for K cx keys
    by (rule keepsI) (use coherent_cache.ca_delete [OF cache] in \<open>fastforce simp: beside_def\<close>)
  let ?after = "\<lambda>cx b r. (case r of Inl e \<Rightarrow> ret (Inl e) | Inr v \<Rightarrow>
      do { keys \<leftarrow> buffer_list b;
           (if keys = [] then ret ()
            else do { e \<leftarrow> ca_Delete ca cx keys; if e \<noteq> None then recordCacheEvent d ''write'' ''invalidation_failed'' else ret () });
           ret (Inr v) })"
  have after: "keeps (\<lambda>w. K (w_mongo w)) (?after cx b r)" for K cx b r
    unfolding buffer_list_def by (intro keeps_intros del)
  have buf: "keeps (\<lambda>w. K (w_mongo w)) new_buffer" for K
    unfolding new_buffer_def by (auto intro!: keepsI)
  show ?thesis
  proof
    fix J :: "(string \<Rightarrow> doc list) \<Rightarrow> bool" and fn :: "ctx \<Rightarrow> ('a, 'b, err + 'c) M" and cx
    assume fn: "\<And>cx. keeps (\<lambda>w. J (colls (w_mongo w))) (fn cx)"
    show "keeps (\<lambda>w. J (colls (w_mongo w))) (RunInTransaction d (Some base) cx fn)"
      unfolding RunInTransaction_def option.case d
      by (rule keeps_case_option, rule keeps_bind [OF buf], rule keeps_bind [OF tx_runner.tx_keeps [OF base fn]], rule after, rule fn)
  next
    fix cx and fn :: "ctx \<Rightarrow> ('a, 'b, err + 'c) M" and w v w'
    assume run: "run_state (RunInTransaction d (Some base) cx fn) w = (Inr v, w')"
    show "\<exists>cx' w1 w2. colls (w_mongo w1) = colls (w_mongo w) \<and> run_state (fn cx') w1 = (Inr v, w2) \<and> colls (w_mongo w') = colls (w_mongo w2)"
    proof (cases "ctx_buffer cx")
      case (Some b)
      then show ?thesis using run
        by (intro exI [of _ cx] exI [of _ w] exI [of _ w']) (simp add: RunInTransaction_def transactionInvalidateBufferFromContext_def)
    next
      case None
      let ?cx = "cx\<lparr>ctx_buffer := Some (w_nbuf w)\<rparr>" and ?w0 = "w\<lparr>w_bufs := (w_bufs w)(w_nbuf w := []), w_nbuf := Suc (w_nbuf w)\<rparr>"
      obtain r w1 where b: "run_state (base ?cx fn) ?w0 = (r, w1)" by fastforce
      have a: "run_state (?after cx (w_nbuf w) r) w1 = (Inr v, w')"
        using run None b by (simp add: RunInTransaction_def transactionInvalidateBufferFromContext_def new_buffer_def d)
      then have "r = Inr v" by (auto split: sum.splits prod.splits if_splits)
      moreover have "w_mongo w' = w_mongo w1" by (rule keeps_eqD [where f = w_mongo, OF after a])
      ultimately show ?thesis using tx_runner.tx_commit [OF base] b by fastforce
    qed
  qed
qed

section \<open>The platform\<close>

locale api_platform =
  fixes pf :: "('m, 'r) platform"
    and colls :: "'m \<Rightarrow> string \<Rightarrow> doc list"
    and kv :: "'r \<Rightarrow> string \<Rightarrow> rval option"
    and verifies :: "string \<Rightarrow> jtoken \<Rightarrow> bytes \<Rightarrow> bool"
  assumes server: "mongo_server (pf_driver pf) colls"
    and sessions: "mongo_sessions (pf_sessions pf) colls"
    and redis: "redis_server (pf_redis pf) kv"
    and jwt: "jwt_contract (pf_jwt pf) verifies"
    and bcrypt_frame: "run_state (bc_GenerateFromPassword (pf_bcrypt pf) pw n) w = (h, w') \<Longrightarrow> w_mongo w' = w_mongo w"
begin

lemma db_store: "store (main_db pf st) colls"
proof -
  have "cached_stack (MongoDatabase (pf_driver pf)) colls (Redis_cache (NewRedisWithClient (pf_redis pf) p)) (\<lambda>s. cached (kv s))" for p
    by (intro cached_stack.intro mongo_server.mongo_store redis_server.redis_coherent server redis)
  from cached_stack.cached_store [OF this] show ?thesis by (simp add: main_db_def main_cached_def redis_stack_def)
qed

lemma cache_coherent: "coherent_cache (main_cache pf st) (\<lambda>s. cached (kv s))"
  unfolding main_cache_def by (rule redis_server.redis_coherent [OF redis])

lemma transactions: "txRunner pf st b = Some run_tx \<Longrightarrow> tx_runner run_tx colls"
  using cached_runner [OF mongo_sessions.session_runner [OF sessions] cache_coherent, of "main_cached pf st" st]
  by (auto simp: txRunner_def main_cached_def main_cache_def split: if_splits)

subsection \<open>Frames of the token service\<close>

lemma tokens_sel:
  assumes "main_tokenService pf st = Inr ts"
  shows "ts_cache ts = Some (main_cache pf st)" "ts_revoked ts = Some (NewRevokedTokenRepository (main_db pf st))"
    "ts_jwt ts = pf_jwt pf" "ts_sha256 ts = pf_sha256 pf"
  using assms by (auto simp: main_tokenService_def NewTokenService_def split: sum.splits if_splits)

lemma keeps_cache:
  "keeps (\<lambda>w. K (w_mongo w)) (ca_Get (main_cache pf st) cx k kd)" "keeps (\<lambda>w. K (w_mongo w)) (ca_Set (main_cache pf st) cx k j ttl)"
  by (rule keepsI, use coherent_cache.ca_get [OF cache_coherent] in \<open>fastforce simp: beside_def\<close>)
     (rule keepsI, use coherent_cache.ca_set [OF cache_coherent] in \<open>fastforce simp: beside_def\<close>)

lemma keeps_tokens:
  assumes ts: "main_tokenService pf st = Inr ts"
  shows "keeps (\<lambda>w. J (colls (w_mongo w))) (GenerateAccessToken ts cx ac)"
    and "keeps (\<lambda>w. J (colls (w_mongo w))) (GenerateRefreshToken ts)"
    and "keeps (\<lambda>w. J (colls (w_mongo w))) (BlacklistAccessToken ts cx tid ttl)"
    and "keeps (\<lambda>w. J (colls (w_mongo w))) (ValidateAccessToken ts cx raw)"
proof -
  note sel = tokens_sel [OF ts]
  show "keeps (\<lambda>w. J (colls (w_mongo w))) (GenerateAccessToken ts cx ac)" "keeps (\<lambda>w. J (colls (w_mongo w))) (GenerateRefreshToken ts)"
    unfolding GenerateAccessToken_def GenerateRefreshToken_def by (intro keeps_intros)+
  show "keeps (\<lambda>w. J (colls (w_mongo w))) (BlacklistAccessToken ts cx tid ttl)"
    unfolding BlacklistAccessToken_def sel option.case by (intro keeps_intros keeps_cache)
  have find: "keeps (\<lambda>w. J (colls (w_mongo w))) (RevokedToken_FindByTokenID (main_db pf st) cx tid)" for tid
    by (rule store.keeps_repo_reads(9) [OF db_store])
  have "keeps (\<lambda>w. J (colls (w_mongo w))) (revoked_fallback ts cx tid)" for tid
    unfolding revoked_fallback_def sel option.case NewRevokedTokenRepository_def RevokedTokenRepository.select_convs
    by (intro keeps_intros keeps_cache find)
  then have black: "keeps (\<lambda>w. J (colls (w_mongo w))) (IsAccessTokenBlacklisted ts cx tid)" for tid
    unfolding IsAccessTokenBlacklisted_def sel option.case
    by (intro keeps_if keeps_ret keeps_bind keeps_cache keeps_case_sum) (auto split: json.splits intro!: keeps_intros)
  have "keeps (\<lambda>w. J (colls (w_mongo w))) (key_func ts t)" for t
    unfolding key_func_def keyForID_def by (intro keeps_intros)
  then have "keeps (\<lambda>w. J (colls (w_mongo w))) (jl_ParseWithClaims (pf_jwt pf) raw (key_func ts) time_Now)"
    by (intro jwt_contract.parse_frame [OF jwt] keeps_intros)
  then show "keeps (\<lambda>w. J (colls (w_mongo w))) (ValidateAccessToken ts cx raw)"
    unfolding ValidateAccessToken_def sel by (intro keeps_intros black)
qed

subsection \<open>The service meets the contract\<close>

lemma main_authService_sel:
  "sv_users (main_authService pf st ts) = Some (NewUserRepository (main_db pf st))"
  "sv_sessions (main_authService pf st ts) = Some (NewSessionRepository (main_db pf st))"
  "sv_loginHistory (main_authService pf st ts) = Some (main_loginHistoryRepo (pf_json pf) (main_db pf st) (main_mongoOutbox pf st))"
  "sv_auditLogs (main_authService pf st ts) = Some (main_auditLogRepo (pf_json pf) (main_db pf st) (main_mongoOutbox pf st))"
  "sv_revokedTokens (main_authService pf st ts) = Some (NewRevokedTokenRepository (main_db pf st))"
  "sv_tokens (main_authService pf st ts) = Some (token_interface ts)"
  "sv_passwords (main_authService pf st ts) = Some (BcryptHasher (pf_bcrypt pf) (st_BcryptCost st))"
  "sv_transactions (main_authService pf st ts) = txRunner pf st (st_TransactionsEnabled st)"
  by (simp_all add: main_authService_def NewService_def Let_def)

lemma main_auth_env:
  assumes ts: "main_tokenService pf st = Inr ts"
  shows "auth_env (main_db pf st) colls (main_authService pf st ts) (token_interface ts) (BcryptHasher (pf_bcrypt pf) (st_BcryptCost st))"
proof -
  note sel = main_authService_sel [of st ts]
  let ?ob = "main_mongoOutbox pf st"
  have ob: "mo_db ?ob = main_db pf st" by (simp add: main_mongoOutbox_def)
  note outbox = store.keeps_outbox_appends [OF db_store ob]
  note all_eq = keeps_eqD [where f = "\<lambda>w. colls (w_mongo w)"]
  show ?thesis
  proof (intro auth_env.intro auth_env_axioms.intro db_store, goal_cases)
    case (6 ar cx a w x1 w' c)
    then have "c \<noteq> ''outbox_events''" by (auto simp: core_collections_def)
    moreover have "run_state (Outbox_Audit_Append (pf_json pf) (NewAuditLogRepository (main_db pf st)) (Some (mongo_outbox ?ob)) cx a) w = (x1, w')"
      using 6(1,2) by (auto simp: sel(4) main_auditLogRepo_def Outbox_NewAuditLogRepository_def)
    ultimately show ?case by (metis keeps_eqD [where f = "\<lambda>w. colls (w_mongo w) c", OF outbox(1)])
  next
    case (7 lr cx h w x1 w' c)
    then have "c \<noteq> ''outbox_events''" "c \<noteq> ''login_history''" by (auto simp: core_collections_def)
    moreover have "run_state (Outbox_Login_Append (pf_json pf) (Some (NewLoginHistoryRepository (main_db pf st))) (Some (mongo_outbox ?ob)) cx h) w
        = (x1, w')"
      using 7(1,2) by (auto simp: sel(3) main_loginHistoryRepo_def Outbox_NewLoginHistoryRepository_def)
    ultimately show ?case by (metis keeps_eqD [where f = "\<lambda>w. colls (w_mongo w) c", OF outbox(3)])
  next
    case (8 cx ac w x2 w') then show ?case using all_eq [OF keeps_tokens(1) [OF ts]] by simp
  next
    case (9 cx raw w x3 w') then show ?case using all_eq [OF keeps_tokens(4) [OF ts]] by simp
  next
    case (10 w x4 w') then show ?case using all_eq [OF keeps_tokens(2) [OF ts]] by simp
  next
    case (11 cx raw ttl w x1 w') then show ?case using all_eq [OF keeps_tokens(3) [OF ts]] by simp
  next
    case (12 w plain hash w')
    then show ?case by (auto simp: GenerateRefreshToken_def Let_def split: option.splits)
  next
    case (13 pw w x5 w') then show ?case using bcrypt_frame by (simp add: BcryptHasher_def Bcrypt_Hash_def Let_def)
  next
    case (14 run_tx) then show ?case using transactions by (simp add: sel)
  qed (simp_all add: sel)
qed

end

section \<open>A platform in memory\<close>

text \<open>Sessions with rollback over the server in memory.\<close>

definition mem_sessions :: "(mem, 'r, 'a) tx_driver" where
  "mem_sessions =
     \<lparr>txd_StartSession = ret None,
      txd_WithTransaction = (\<lambda>cx fn. State (\<lambda>w. case run_state (fn (cx\<lparr>ctx_in_tx := True\<rparr>)) w of
         (Inl e, w') \<Rightarrow> (Inl e, w'\<lparr>w_mongo := w_mongo w\<rparr>) | (Inr v, w') \<Rightarrow> (Inr v, w')))\<rparr>"

interpretation mem_tx: mongo_sessions mem_sessions "\<lambda>m. m"
proof (unfold_locales, goal_cases)
  case (2 J fn cx)
  show ?case
  proof (rule keepsI)
    fix w x w' assume J: "J (w_mongo w)" and run: "run_state (txd_WithTransaction mem_sessions cx fn) w = (x, w')"
    obtain y v where y: "run_state (fn (cx\<lparr>ctx_in_tx := True\<rparr>)) w = (y, v)" by fastforce
    show "J (w_mongo w')" using run y keepsD [OF 2 J y] J by (auto simp: mem_sessions_def split: sum.splits)
  qed
next
  case (3 cx fn w v w')
  then show ?case
    by (intro exI [of _ "cx\<lparr>ctx_in_tx := True\<rparr>"] exI [of _ w] exI [of _ w'])
       (auto simp: mem_sessions_def split: prod.splits sum.splits)
qed (simp add: mem_sessions_def)

text \<open>A password hasher whose hash is the password itself, marked.\<close>

definition plain_bcrypt :: "('m, 'r) bcrypt_lib" where
  "plain_bcrypt = \<lparr>bc_GenerateFromPassword = (\<lambda>pw n. ret (Inr (''hash:'' @ pw))),
     bc_CompareHashAndPassword = (\<lambda>h pw. if h = ''hash:'' @ pw then None else Some (Errorf ''mismatch'' None))\<rparr>"

definition mem_platform :: "(mem, mem_kv) platform" where
  "mem_platform = \<lparr>pf_driver = mem_driver, pf_sessions = mem_sessions, pf_redis = mem_redis,
     pf_jwt = one_token demo_token (replicate 16 0), pf_sha256 = (\<lambda>s. map (\<lambda>c. of_nat (of_char c)) s),
     pf_bcrypt = plain_bcrypt, pf_json = demo_json\<rparr>"

interpretation mem_api: api_platform mem_platform "\<lambda>m. m" "\<lambda>s. s"
  "\<lambda>raw t' k'. raw = ''token'' \<and> t' = demo_token\<lparr>jt_Valid := True\<rparr> \<and> k' = replicate 16 0"
  by (rule api_platform.intro)
     (simp_all add: mem_platform_def mem_mongo.mongo_server_axioms mem_tx.mongo_sessions_axioms mem_redis.redis_server_axioms
        one_token.jwt_contract_axioms plain_bcrypt_def)

definition mem_settings :: settings where
  "mem_settings = \<lparr>st_LockPrefix = ''lock:'', st_Production = True, st_TransactionsEnabled = True, st_OutboxRetries = 3,
     st_OutboxRetryDelay = minute,
     st_Tokens = \<lparr>tc_CurrentKey = ''k1/AAAAAAAAAAAAAAAAAAAAAA'', tc_PreviousKey = [], tc_PreviousNotAfter = 0, tc_AccessTTL = 15 * minute,
                  tc_RefreshTTL = 24 * hour\<rparr>,
     st_BcryptCost = 4, st_LockoutMaxFailures = 3, st_LockoutDuration = 15 * minute, st_RefreshIPAnomalyAction = ''audit'',
     st_Stack = []\<rparr>"

definition mem_tokens :: "(mem, mem_kv) TokenService" where
  "mem_tokens = \<lparr>ts_current = \<lparr>jk_ID = ''k1'', jk_Secret = replicate 16 0, jk_NotAfter = 0\<rparr>, ts_previous = None,
     ts_accessTTL = 15 * minute, ts_refreshTTL = 24 * hour, ts_cache = Some (main_cache mem_platform mem_settings),
     ts_revoked = Some (NewRevokedTokenRepository (main_db mem_platform mem_settings)),
     ts_jwt = pf_jwt mem_platform, ts_sha256 = pf_sha256 mem_platform\<rparr>"

lemma mem_key: "ParseJWTKey ''k1/AAAAAAAAAAAAAAAAAAAAAA'' 0 = Inr \<lparr>jk_ID = ''k1'', jk_Secret = replicate 16 0, jk_NotAfter = 0\<rparr>"
  by code_simp

lemma mem_tokenService: "main_tokenService mem_platform mem_settings = Inr mem_tokens"
  by (simp add: main_tokenService_def mem_settings_def NewTokenService_def mem_key mem_tokens_def minute_def hour_def second_def
      TrimSpace_def)

text \<open>
  C7. The authentication service as the API process wires it (cached database, enqueueing audit and
  history repositories, transactions of the cached database, JWT tokens and bcrypt) is an environment
  in which the guarantees of the service hold, over any MongoDB, Redis and libraries that meet their
  documented contracts.
\<close>

theorem main_service_meets_contract:
  assumes "api_platform pf colls kv verifies" and "main_tokenService pf st = Inr ts"
  shows "auth_env (main_db pf st) colls (main_authService pf st ts) (token_interface ts) (BcryptHasher (pf_bcrypt pf) (st_BcryptCost st))"
  by (rule api_platform.main_auth_env [OF assms])

theorem main_service_meets_contract_witness:
  "auth_env (main_db mem_platform mem_settings) (\<lambda>m. m) (main_authService mem_platform mem_settings mem_tokens)
     (token_interface mem_tokens) (BcryptHasher plain_bcrypt 4)"
  using main_service_meets_contract [OF mem_api.api_platform_axioms mem_tokenService] by (simp add: mem_platform_def mem_settings_def)

end
