(* ===== verification/AuthGuarantees.thy ===== *)
theory AuthGuarantees
  imports AuthSystem
begin

text \<open>
  The guarantees of the authentication service, stated for any environment that meets \<open>auth_env\<close>
  (which \<open>AuthSystem\<close> shows of the service the API process builds): rotation and single use of refresh
  tokens, finality of revocation over any history of calls, logout, login and registration, lockout.

  The witnesses run the service over the database in memory, without cache, outbox and transactions.
\<close>

section \<open>A small service for the witnesses\<close>

definition mini_db :: "(mem, unit) Database" where
  "mini_db = MongoDatabase mem_driver"

definition mini_tokens :: "(mem, unit) TokenService" where
  "mini_tokens = demo_tokens None None"

definition mini_auth :: "(mem, unit) Service" where
  "mini_auth = \<lparr>sv_users = Some (NewUserRepository mini_db), sv_sessions = Some (NewSessionRepository mini_db),
     sv_loginHistory = None, sv_auditLogs = None, sv_revokedTokens = Some (NewRevokedTokenRepository mini_db),
     sv_tokens = Some (token_interface mini_tokens), sv_passwords = Some (BcryptHasher plain_bcrypt 4),
     sv_transactions = None, sv_metrics = False, sv_refreshTTL = hour, sv_lockoutMaxFailures = 1,
     sv_lockoutDuration = 15 * minute, sv_refreshIPAnomalyAction = ''audit'', sv_stack = []\<rparr>"

lemma mini_not_blacklisted: "IsAccessTokenBlacklisted mini_tokens cx tid = ret (Inr False)"
  by (simp add: IsAccessTokenBlacklisted_def revoked_fallback_def mini_tokens_def demo_tokens_def)

lemma keeps_mini_validate: "keeps (\<lambda>w. K (w_mongo w)) (ValidateAccessToken mini_tokens cx raw)"
proof -
  have key: "keeps (\<lambda>w. K (w_mongo w)) (key_func mini_tokens t)" for t
    unfolding key_func_def keyForID_def by (intro keeps_intros)
  have "ts_jwt mini_tokens = one_token demo_token (jk_Secret demo_key)" by (simp add: mini_tokens_def demo_tokens_def)
  then have "keeps (\<lambda>w. K (w_mongo w)) (jl_ParseWithClaims (ts_jwt mini_tokens) raw (key_func mini_tokens) time_Now)"
    using one_token.parse_frame [OF key keeps_mongo_prims(1)] by simp
  then show ?thesis unfolding ValidateAccessToken_def mini_not_blacklisted by (intro keeps_intros)
qed

interpretation mini: auth_env mini_db "\<lambda>m. m" mini_auth "token_interface mini_tokens" "BcryptHasher plain_bcrypt 4"
proof (intro auth_env.intro auth_env_axioms.intro, goal_cases)
  case 1 show ?case unfolding mini_db_def by (rule mem_store.store_axioms)
next
  case (9 cx ac w x2 w') then show ?case by (auto simp: GenerateAccessToken_def Let_def)
next
  case (10 cx raw w x3 w')
  then show ?case using keeps_eqD [where f = w_mongo, OF keeps_mini_validate] by simp
next
  case (13 w plain hash w') then show ?case by (auto simp: GenerateRefreshToken_def Let_def split: option.splits)
qed (auto simp: mini_auth_def mini_tokens_def demo_tokens_def GenerateRefreshToken_def BlacklistAccessToken_def BcryptHasher_def
    Bcrypt_Hash_def plain_bcrypt_def)

definition mini_session :: Session where
  "mini_session = \<lparr>s_ID = ''s1'', s_UserID = ''u1'', s_RefreshTokenHash = HashRefreshToken mini_tokens ''old'',
     s_RefreshTokenExpiresAt = hour, s_DeviceID = [], s_DeviceName = [], s_UserAgent = [], s_IP = [], s_TokenFamilyID = ''f1'',
     s_RevokedAt = None, s_RevokedReason = [], s_LastSeenAt = 0, s_CreatedAt = 0, s_UpdatedAt = 0\<rparr>"

definition mini_user :: User where
  "mini_user = (User_New ''a@b'' ''hash:password1'' ''A'' 0)\<lparr>u_ID := ''u1''\<rparr>"

definition mini_world :: "(mem, unit) world" where
  "mini_world = start_world ((\<lambda>_. [])(''users'' := [userDocumentFromDomain mini_user],
     ''sessions'' := [sessionDocumentFromDomain mini_session])) () 0"

lemma mini_refresh:
  "case fst (run_state (Refresh mini_auth background ''old'' no_meta) mini_world) of
     Inl e \<Rightarrow> False
   | Inr ans \<Rightarrow> HashRefreshToken mini_tokens (ar_RefreshToken ans) \<noteq> HashRefreshToken mini_tokens ''old''"
  by code_simp

lemma run_case:
  assumes "case fst (run_state m w) of Inl e \<Rightarrow> False | Inr v \<Rightarrow> P v"
  obtains v w' where "run_state m w = (Inr v, w')" "P v"
  using assms by (cases "run_state m w") (auto split: sum.splits)

lemma run_Inr:
  assumes "\<not> isl (fst (run_state m w))"
  obtains v w' where "run_state m w = (Inr v, w')"
  using assms by (cases "run_state m w") (auto simp: isl_def split: sum.splits, metis old.sum.exhaust)

lemma run_None:
  assumes "fst (run_state m w) = None"
  obtains w' where "run_state m w = (None, w')"
  using assms by (cases "run_state m w") auto

section \<open>Missing dependencies\<close>

lemma requireAuthCore_guards:
  "requireAuthCore s ''AuthService.Register'' = Some e \<Longrightarrow> Register s cx ri meta = ret (Inl e)"
  "requireAuthCore s ''AuthService.Login'' = Some e \<Longrightarrow> Login s cx li meta = ret (Inl e)"
  "requireAuthCore s ''AuthService.Refresh'' = Some e \<Longrightarrow> Refresh s cx raw meta = ret (Inl e)"
  "requireAuthCore s ''AuthService.Logout'' = Some e \<Longrightarrow> Logout s cx raw target = ret (Some e)"
  by (auto simp: requireAuthCore_def Register_def Login_def Refresh_def Logout_def split: option.splits if_splits)

section \<open>Refresh tokens\<close>

text \<open>
  C2. A refresh rotates exactly one session: when \<open>Refresh\<close> answers with new tokens, exactly one
  session document has changed, it is the one the answer names, it held the hash of the presented
  token, was not revoked and not expired, and it now holds the hash and expiry of the new token;
  every other field of it, and every other session, is as before.
\<close>

theorem refresh_rotates_one_session:
  assumes "auth_env db colls s tok ph"
    and "run_state (Refresh s cx raw meta) w = (Inr ans, w')"
  shows "\<exists>pre d d' post now. colls (w_mongo w) ''sessions'' = pre @ d # post \<and> colls (w_mongo w') ''sessions'' = pre @ d' # post \<and>
     map_of d ''_id'' = Some (BString (ar_SessionID ans)) \<and>
     map_of d ''refresh_token_hash'' = Some (BString (ti_HashRefreshToken tok raw)) \<and>
     \<not> revoked d \<and> (\<exists>ms. map_of d ''refresh_token_expires_at'' = Some (BDate ms) \<and> now div millisecond < ms) \<and>
     map_of d' = (map_of d)(''refresh_token_hash'' \<mapsto> BString (ti_HashRefreshToken tok (ar_RefreshToken ans)),
       ''refresh_token_expires_at'' \<mapsto> bson_date (ar_RefreshTokenExpiresAt ans),
       ''last_seen_at'' \<mapsto> bson_date now, ''updated_at'' \<mapsto> bson_date now)"
proof -
  have "rotated (ar_SessionID ans) (ti_HashRefreshToken tok raw) (ti_HashRefreshToken tok (ar_RefreshToken ans))
          (ar_RefreshTokenExpiresAt ans) (colls (w_mongo w) ''sessions'') (colls (w_mongo w') ''sessions'')"
    using htD [OF auth_env.Refresh_ht [OF assms(1)] refl assms(2)] by simp
  then obtain now pre d post where r: "colls (w_mongo w) ''sessions'' = pre @ d # post"
    "matches (rotate_query (ar_SessionID ans) (ti_HashRefreshToken tok raw) now) d"
    "colls (w_mongo w') ''sessions'' = pre @ apply_update (rotate_update (ti_HashRefreshToken tok (ar_RefreshToken ans))
       (ar_RefreshTokenExpiresAt ans) now) d # post"
    unfolding rotated_def by blast
  moreover have "map_of (apply_update (rotate_update h e now) d) = (map_of d)(''refresh_token_hash'' \<mapsto> BString h,
       ''refresh_token_expires_at'' \<mapsto> bson_date e, ''last_seen_at'' \<mapsto> bson_date now, ''updated_at'' \<mapsto> bson_date now)" for h e
    by (auto simp: rotate_update_def fun_eq_iff)
  ultimately show ?thesis unfolding matches_rotate_query by blast
qed

theorem refresh_rotates_one_session_witness:
  "\<exists>ans w' d'. run_state (Refresh mini_auth background ''old'' no_meta) mini_world = (Inr ans, w') \<and>
     w_mongo w' ''sessions'' = [d'] \<and> ar_SessionID ans = ''s1'' \<and>
     map_of d' ''refresh_token_hash'' = Some (BString (HashRefreshToken mini_tokens (ar_RefreshToken ans)))"
proof -
  obtain ans w' where run: "run_state (Refresh mini_auth background ''old'' no_meta) mini_world = (Inr ans, w')"
    using mini_refresh by (rule run_case)
  from refresh_rotates_one_session [OF mini.auth_env_axioms run] run show ?thesis
    by (fastforce simp: mini_world_def sessionDocumentFromDomain_def mini_session_def Cons_eq_append_conv)
qed

section \<open>Histories of the service\<close>

text \<open>
  A history of the service: calls of its operations with any arguments, in any order, and in between
  anything that leaves the sessions collection alone (the clock, the cache, other collections).
\<close>

inductive service_step :: "('m, 'r) Service \<Rightarrow> ('m \<Rightarrow> string \<Rightarrow> doc list) \<Rightarrow> ('m, 'r) world \<Rightarrow> ('m, 'r) world \<Rightarrow> bool"
  for s colls where
  step_register: "run_state (Register s cx ri meta) w = (r1, w') \<Longrightarrow> service_step s colls w w'"
| step_login: "run_state (Login s cx li meta) w = (r1, w') \<Longrightarrow> service_step s colls w w'"
| step_refresh: "run_state (Refresh s cx raw meta) w = (r1, w') \<Longrightarrow> service_step s colls w w'"
| step_logout: "run_state (Logout s cx raw target) w = (r2, w') \<Longrightarrow> service_step s colls w w'"
| step_logout_all: "run_state (LogoutAll s cx uid) w = (r2, w') \<Longrightarrow> service_step s colls w w'"
| step_devices: "run_state (ListDevices s cx uid) w = (r3, w') \<Longrightarrow> service_step s colls w w'"
| step_other: "colls (w_mongo w') ''sessions'' = colls (w_mongo w) ''sessions'' \<Longrightarrow> service_step s colls w w'"

inductive_cases service_stepE: "service_step s colls w w'"

section \<open>Single use of refresh tokens\<close>

definition holds_hash :: "string \<Rightarrow> doc list \<Rightarrow> bool" where
  "holds_hash h ds \<longleftrightarrow> (\<exists>d \<in> set ds. map_of d ''refresh_token_hash'' = Some (BString h))"

lemma rotated_holds_hash: "rotated sid oldHash newHash e ds ds' \<Longrightarrow> holds_hash oldHash ds"
  by (auto simp: rotated_def matches_rotate_query holds_hash_def)

text \<open>After a rotation to another hash no session holds the old one, since a hash is held by one session at most.\<close>

lemma rotated_retires:
  assumes "rotated sid oldHash newHash e ds ds'" "uniq ''sessions'' ds" "newHash \<noteq> oldHash"
  shows "\<not> holds_hash oldHash ds'"
proof -
  obtain now pre d post where d: "ds = pre @ d # post" "map_of d ''refresh_token_hash'' = Some (BString oldHash)"
    "ds' = pre @ apply_update (rotate_update newHash e now) d # post"
    using assms(1) unfolding rotated_def matches_rotate_query by blast
  have "distinct (map (\<lambda>d. map_of d ''refresh_token_hash'') (pre @ d # post))"
    using assms(2) d(1) by (simp add: uniq_def unique_fields_def)
  then have "x \<in> set (pre @ post) \<Longrightarrow> map_of x ''refresh_token_hash'' \<noteq> Some (BString oldHash)" for x
    using d(2) by (auto simp: image_iff)
  then show ?thesis using d(3) assms(3) by (auto simp: holds_hash_def rotate_update_def)
qed

text \<open>
  C3. A refresh token is used at most once: after a successful \<open>Refresh\<close>, and any history of the
  service in which no new token has the hash of the old one, presenting the old token fails. This
  includes a request that ran at the same time and had already looked the session up before the
  token was rotated: its own rotation fails, whatever session it had read.
\<close>

theorem refresh_token_single_use:
  assumes env: "auth_env db colls s tok ph"
    and uniq: "uniq ''sessions'' (colls (w_mongo w) ''sessions'')"
    and first: "run_state (Refresh s cx raw meta) w = (Inr ans, w1)"
    and new: "ti_HashRefreshToken tok (ar_RefreshToken ans) \<noteq> ti_HashRefreshToken tok raw"
    and history: "(\<lambda>a b. service_step s colls a b \<and>
           (holds_hash (ti_HashRefreshToken tok raw) (colls (w_mongo b) ''sessions'') \<longrightarrow>
            holds_hash (ti_HashRefreshToken tok raw) (colls (w_mongo a) ''sessions'')))\<^sup>*\<^sup>* w1 w2"
  shows "isl (fst (run_state (Refresh s cx' raw meta') w2)) \<and>
    isl (fst (run_state (refresh_rotate s (NewSessionRepository db) tok cx' (ti_HashRefreshToken tok raw) usr session meta') w2))"
proof -
  let ?old = "ti_HashRefreshToken tok raw"
  have rot: "rotated (ar_SessionID x) ?old (ti_HashRefreshToken tok (ar_RefreshToken x)) (ar_RefreshTokenExpiresAt x)
      (colls (w_mongo v) ''sessions'') (colls (w_mongo v') ''sessions'')"
    if "run_state (Refresh s c raw m) v = (Inr x, v')" for c m v x v'
    using htD [OF auth_env.Refresh_ht [OF env] refl that] by simp
  from history have retired: "\<not> holds_hash ?old (colls (w_mongo w2) ''sessions'')"
    by (induction rule: rtranclp_induct) (use rotated_retires [OF rot [OF first] uniq new] in blast)+
  have "isl r" if "run_state (Refresh s cx' raw meta') w2 = (r, w3)" for r w3
    using rotated_holds_hash [OF rot] that retired by (cases r) auto
  moreover have "isl r"
    if "run_state (refresh_rotate s (NewSessionRepository db) tok cx' ?old usr session meta') w2 = (r, w3)" for r w3
    using rotated_holds_hash htD [OF auth_env.refresh_rotate_ht [OF env] refl that] retired by (cases r) auto
  ultimately show ?thesis by (metis surjective_pairing)
qed

theorem refresh_token_single_use_witness:
  "\<exists>ans w1. run_state (Refresh mini_auth background ''old'' no_meta) mini_world = (Inr ans, w1) \<and>
     isl (fst (run_state (Refresh mini_auth background ''old'' no_meta) w1)) \<and>
     isl (fst (run_state (refresh_rotate mini_auth (NewSessionRepository mini_db) (token_interface mini_tokens) background
       (HashRefreshToken mini_tokens ''old'') mini_user mini_session no_meta) w1))"
proof -
  obtain ans w1 where first: "run_state (Refresh mini_auth background ''old'' no_meta) mini_world = (Inr ans, w1)"
    and new: "HashRefreshToken mini_tokens (ar_RefreshToken ans) \<noteq> HashRefreshToken mini_tokens ''old''"
    using mini_refresh by (rule run_case)
  have "uniq ''sessions'' (w_mongo mini_world ''sessions'')" by (simp add: uniq_def mini_world_def)
  from refresh_token_single_use [OF mini.auth_env_axioms this first _ rtranclp.rtrancl_refl] new first show ?thesis by simp
qed

lemma family_revoked:
  assumes "d \<in> set (updated_all (unrevoked_of ''token_family_id'' fid) (revoke_update reason at) ds)"
    "map_of d ''token_family_id'' = Some (BString fid)"
  shows "revoked d"
  using assms revoke_update_revokes by (auto simp: updated_all_def matches_def unrevoked_of_def revoked_def)

text \<open>
  C4. Reuse of a refresh token ends its family: when a refresh has lost the token to a concurrent
  one (its rotation found nothing, while the session is still active) and the write of the revocation
  is accepted, every session of the token family is revoked and the answer is that of an invalid token.
\<close>

theorem reuse_revokes_family:
  assumes env: "auth_env db colls s tok ph"
    and lost: "errors_Is e DbErrNotFound" "s_TokenFamilyID session \<noteq> []"
    and active: "run_state (Session_FindActiveByID db cx (s_ID session)) w = (Inr (Some a), w1)"
    and accepted: "run_state (time_Now \<bind> Session_RevokeByTokenFamilyID db cx (s_TokenFamilyID session) ''refresh_reuse_suspected'') w1 = (None, w2)"
    and run: "run_state (rotation_failed s (NewSessionRepository db) cx usr session meta e) w = (r, w')"
  shows "r = Inl (invalidRefreshToken ''AuthService.Refresh'') \<and>
    (\<forall>d \<in> set (colls (w_mongo w') ''sessions''). map_of d ''token_family_id'' = Some (BString (s_TokenFamilyID session)) \<longrightarrow> revoked d)"
proof -
  let ?J = "\<lambda>ds. \<forall>d \<in> set ds. map_of d ''token_family_id'' = Some (BString (s_TokenFamilyID session)) \<longrightarrow> revoked d"
  let ?rest = "do { recordRefresh s False; recordRefreshReuseSuspected s;
     appendAuditLog s cx (auditEvent ''auth.refresh_reuse_suspected'' (u_ID usr) ''session'' (s_ID session) meta
       [(''token_family_id'', s_TokenFamilyID session)]);
     ret (Inl (invalidRefreshToken ''AuthService.Refresh'')) } :: ('a, 'b, err + AuthResult) M"
  obtain now v where now: "run_state time_Now w1 = (now, v)" by fastforce
  then have revoke: "run_state (Session_RevokeByTokenFamilyID db cx (s_TokenFamilyID session) ''refresh_reuse_suspected'' now) v = (None, w2)"
    using accepted by (simp del: run_time_Now)
  then have rest: "run_state ?rest w2 = (r, w')"
    using run lost active now by (simp add: rotation_failed_def NewSessionRepository_def del: run_time_Now)
  have keeps: "keeps (\<lambda>w. ?J (colls (w_mongo w) ''sessions'')) ?rest"
    by (intro keeps_intros auth_env.keeps_record [OF env] auth_env.keeps_audit [OF env] auth_env.core [OF env])
  have "?J (colls (w_mongo w2) ''sessions'')"
    using store.RevokeByTokenFamilyID_law(2) [OF auth_env.axioms(1) [OF env] revoke refl] family_revoked by simp
  then have "?J (colls (w_mongo w') ''sessions'')" by (rule keepsD [OF keeps _ rest])
  moreover have "r = Inl (invalidRefreshToken ''AuthService.Refresh'')" using rest by (simp add: case_prod_beta)
  ultimately show ?thesis by simp
qed

definition after_refresh :: "(mem, unit) world" where
  "after_refresh = snd (run_state (Refresh mini_auth background ''old'' no_meta) mini_world)"

lemma mini_reuse:
  "case run_state (Session_FindActiveByID mini_db background (s_ID mini_session)) after_refresh of
     (Inr (Some a), w1) \<Rightarrow>
       fst (run_state (time_Now \<bind> Session_RevokeByTokenFamilyID mini_db background (s_TokenFamilyID mini_session) ''refresh_reuse_suspected'') w1) = None
   | _ \<Rightarrow> False"
  by code_simp

theorem reuse_revokes_family_witness:
  "fst (run_state (rotation_failed mini_auth (NewSessionRepository mini_db) background mini_user mini_session no_meta (Sentinel DbErrNotFound))
     after_refresh) = Inl (invalidRefreshToken ''AuthService.Refresh'')"
proof -
  obtain a w1 where active: "run_state (Session_FindActiveByID mini_db background (s_ID mini_session)) after_refresh = (Inr (Some a), w1)"
    and acc: "fst (run_state (time_Now \<bind> Session_RevokeByTokenFamilyID mini_db background (s_TokenFamilyID mini_session)
       ''refresh_reuse_suspected'') w1) = None"
    using mini_reuse by (auto split: prod.splits sum.splits option.splits)
  obtain w2 where revoke: "run_state (time_Now \<bind> Session_RevokeByTokenFamilyID mini_db background (s_TokenFamilyID mini_session)
       ''refresh_reuse_suspected'') w1 = (None, w2)"
    using acc by (rule run_None)
  have "errors_Is (Sentinel DbErrNotFound) DbErrNotFound" "s_TokenFamilyID mini_session \<noteq> []" by (simp_all add: mini_session_def)
  from reuse_revokes_family [OF mini.auth_env_axioms this active revoke] show ?thesis by (metis surjective_pairing)
qed

section \<open>Revocation is final\<close>

lemma ListDevices_sessions:
  assumes "auth_env db colls s tok ph" "run_state (ListDevices s cx uid) w = (r, w')"
  shows "colls (w_mongo w') ''sessions'' = colls (w_mongo w) ''sessions''"
proof -
  have "sv_sessions s = Some (NewSessionRepository db)"
    using assms(1) unfolding auth_env_def auth_env_axioms_def by blast
  then obtain l where l: "run_state (Session_ListActiveByUserID db cx uid) w = (l, w')"
    using assms(2) by (auto simp: ListDevices_def NewSessionRepository_def split: prod.splits)
  show ?thesis
    by (simp add: keeps_eqD [where f = "\<lambda>w. colls (w_mongo w)", OF store.keeps_repo_reads(6) [OF auth_env.axioms(1) [OF assms(1)]] l])
qed

lemma step_keeps_revoked:
  assumes env: "auth_env db colls s tok ph" and "service_step s colls w w'"
    and "session_revoked (colls (w_mongo w) ''sessions'') sid"
  shows "session_revoked (colls (w_mongo w') ''sessions'') sid"
proof -
  note K = keepsD [where I = "\<lambda>w. session_revoked (colls (w_mongo w) ''sessions'') sid", OF _ assms(3)]
  from assms(2) show ?thesis
  proof cases
    case step_register then show ?thesis by (rule K [OF auth_env.keeps_revoked_Register [OF env]])
  next
    case step_login then show ?thesis by (rule K [OF auth_env.keeps_revoked_Login [OF env]])
  next
    case step_refresh then show ?thesis by (rule K [OF auth_env.keeps_revoked_Refresh [OF env]])
  next
    case step_logout then show ?thesis by (rule K [OF auth_env.keeps_revoked_Logout [OF env]])
  next
    case step_logout_all then show ?thesis by (rule K [OF auth_env.keeps_revoked_LogoutAll [OF env]])
  next
    case step_devices then show ?thesis using ListDevices_sessions [OF env] assms(3) by simp
  next
    case step_other then show ?thesis using assms(3) by simp
  qed
qed

lemma rotated_not_revoked:
  "rotated sid oldHash newHash e ds ds' \<Longrightarrow> \<not> session_revoked ds sid"
  by (auto simp: rotated_def matches_rotate_query session_revoked_def)

text \<open>
  C1. Revocation is final: once a session is revoked it stays revoked through every history of the
  service, and no refresh at any later point answers with that session again, whatever token is
  presented.
\<close>

theorem revocation_is_final:
  assumes env: "auth_env db colls s tok ph"
    and revoked: "session_revoked (colls (w_mongo w) ''sessions'') sid"
    and history: "(service_step s colls)\<^sup>*\<^sup>* w w'"
  shows "session_revoked (colls (w_mongo w') ''sessions'') sid \<and>
     (\<forall>cx raw meta ans w''. run_state (Refresh s cx raw meta) w' = (Inr ans, w'') \<longrightarrow> ar_SessionID ans \<noteq> sid)"
proof -
  from history have final: "session_revoked (colls (w_mongo w') ''sessions'') sid"
    by (induction rule: rtranclp_induct) (use revoked step_keeps_revoked [OF env] in auto)
  moreover have "ar_SessionID ans \<noteq> sid" if "run_state (Refresh s cx raw meta) w' = (Inr ans, w'')" for cx raw meta ans w''
    using htD [OF auth_env.Refresh_ht [OF env] refl that] rotated_not_revoked final by blast
  ultimately show ?thesis by blast
qed

definition revoked_session_world :: "(mem, unit) world" where
  "revoked_session_world = mini_world\<lparr>w_mongo := (w_mongo mini_world)(''sessions'' :=
     [sessionDocumentFromDomain (mini_session\<lparr>s_RevokedAt := Some 0\<rparr>)])\<rparr>"

theorem revocation_is_final_witness:
  "session_revoked (w_mongo (snd (run_state (Refresh mini_auth background ''old'' no_meta) revoked_session_world)) ''sessions'') ''s1''"
proof -
  let ?w = "revoked_session_world"
  obtain r w' where run: "run_state (Refresh mini_auth background ''old'' no_meta) ?w = (r, w')" by fastforce
  have "session_revoked (w_mongo ?w ''sessions'') ''s1''"
    by (simp add: session_revoked_def revoked_session_world_def revoked_def sessionDocumentFromDomain_def mini_session_def)
  moreover have "(service_step mini_auth (\<lambda>m. m))\<^sup>*\<^sup>* ?w w'" using step_refresh [OF run] by (rule r_into_rtranclp)
  ultimately show ?thesis using revocation_is_final [OF mini.auth_env_axioms] run by simp
qed

section \<open>Logout\<close>

text \<open>
  C16. After \<open>LogoutAll\<close> reports success, every session document of the user is revoked.
\<close>

theorem logout_all_revokes_all:
  assumes "auth_env db colls s tok ph"
    and "run_state (LogoutAll s cx uid) w = (None, w')"
    and "d \<in> set (colls (w_mongo w') ''sessions'')" "map_of d ''user_id'' = Some (BString uid)"
  shows "revoked d"
  using htD [OF auth_env.LogoutAll_ht [OF assms(1)] TrueI assms(2)] assms(3,4) by blast

lemma mini_logout_all:
  "(case run_state (LogoutAll mini_auth background ''u1'') mini_world of (r, w) \<Rightarrow>
      r = None \<and> filter (\<lambda>d. map_of d ''user_id'' = Some (BString ''u1'')) (w_mongo w ''sessions'') \<noteq> [])"
  by code_simp

theorem logout_all_revokes_all_witness:
  "\<exists>w' d. run_state (LogoutAll mini_auth background ''u1'') mini_world = (None, w') \<and>
     d \<in> set (w_mongo w' ''sessions'') \<and> map_of d ''user_id'' = Some (BString ''u1'') \<and> revoked d"
proof -
  obtain w' where run: "run_state (LogoutAll mini_auth background ''u1'') mini_world = (None, w')"
    and "filter (\<lambda>d. map_of d ''user_id'' = Some (BString ''u1'')) (w_mongo w' ''sessions'') \<noteq> []"
    using mini_logout_all by (auto split: prod.splits)
  then obtain d where "d \<in> set (w_mongo w' ''sessions'')" "map_of d ''user_id'' = Some (BString ''u1'')"
    by (auto simp: filter_empty_conv)
  then show ?thesis using run logout_all_revokes_all [OF mini.auth_env_axioms run] by blast
qed

text \<open>
  C31. \<open>LogoutAll\<close> never succeeds for a user without an unrevoked session: the database layer answers
  \<open>ErrNotFound\<close>, which the service passes on as an error (an internal error to the client) instead of
  reporting that there is nothing to revoke.
\<close>

theorem logout_all_fails_without_sessions:
  assumes env: "auth_env db colls s tok ph"
    and none: "\<forall>d \<in> set (colls (w_mongo w) ''sessions''). map_of d ''user_id'' = Some (BString uid) \<longrightarrow> revoked d"
    and run: "run_state (LogoutAll s cx uid) w = (r, w')"
  shows "r \<noteq> None"
proof
  assume "r = None"
  have st: "store db colls" using env by (rule auth_env.axioms(1))
  have repo: "sv_sessions s = Some (NewSessionRepository db)"
    using env unfolding auth_env_def auth_env_axioms_def by blast
  obtain l w1 where l: "run_state (Session_ListActiveByUserID db cx uid) w = (l, w1)" by fastforce
  have w1: "colls (w_mongo w1) = colls (w_mongo w)"
    by (rule keeps_eqD [where f = "\<lambda>w. colls (w_mongo w)", OF store.keeps_repo_reads(6) [OF st] l])
  let ?now = "w_clock w1 (w_tick w1)" and ?w2 = "w1\<lparr>w_tick := Suc (w_tick w1)\<rparr>"
  obtain x w3 where x: "run_state (Session_RevokeAllByUserID db cx uid ''logout_all'' ?now) ?w2 = (x, w3)" by fastforce
  have "x = None"
    using run \<open>r = None\<close> l x by (auto simp: LogoutAll_def repo NewSessionRepository_def split: sum.splits option.splits)
  obtain f w4 where f: "run_state (findActiveSessionsByUserIDNoCache db cx uid) ?w2 = (f, w4)" by fastforce
  have w4: "colls (w_mongo w4) = colls (w_mongo w)"
    using keeps_eqD [where f = "\<lambda>w. colls (w_mongo w)", OF store.keeps_repo_reads(4) [OF st] f] w1 by simp
  obtain d where "d \<in> set (colls (w_mongo w4) ''sessions'')" "matches (unrevoked_of ''user_id'' uid) d"
    using x \<open>x = None\<close> f store.st_update_many_missing [OF st store.once_strict [OF st]]
    by (auto simp: Session_RevokeAllByUserID_def split: sum.splits) blast
  then show False using none w4 by (auto simp: matches_def unrevoked_of_def revoked_def)
qed

theorem logout_all_fails_without_sessions_witness:
  "fst (run_state (LogoutAll mini_auth background ''nobody'') mini_world) \<noteq> None"
proof -
  obtain r w' where run: "run_state (LogoutAll mini_auth background ''nobody'') mini_world = (r, w')" by fastforce
  have "\<forall>d \<in> set (w_mongo mini_world ''sessions''). map_of d ''user_id'' = Some (BString ''nobody'') \<longrightarrow> revoked d"
    by (simp add: mini_world_def sessionDocumentFromDomain_def mini_session_def)
  from logout_all_fails_without_sessions [OF mini.auth_env_axioms this run] run show ?thesis by simp
qed

text \<open>
  C12. After \<open>Logout\<close> reports success, the access token's identifier is in the collection of revoked
  tokens with the token's expiry, and the session named in the request (or else the token's own
  session) is revoked. The session named in the request is revoked whoever it belongs to: nothing
  relates it to the user of the token.
\<close>

theorem logout_revokes:
  assumes env: "auth_env db colls s tok ph" and repo: "sv_revokedTokens s = Some rr"
    and valid: "run_state (ti_ValidateAccessToken tok cx raw) w = (Inr (Some claims), w1)" "ac_TokenID claims \<noteq> []"
    and run: "run_state (Logout s cx raw sessionID) w = (None, w')"
    and target: "target = (if TrimSpace sessionID = [] then ac_SessionID claims else TrimSpace sessionID)" "target \<noteq> []"
  shows "(\<exists>d \<in> set (colls (w_mongo w') ''revoked_tokens''). map_of d ''_id'' = Some (BString (ac_TokenID claims)) \<and>
            map_of d ''expires_at'' = Some (bson_date (ac_ExpiresAt claims))) \<and>
         (\<exists>d \<in> set (colls (w_mongo w') ''sessions''). map_of d ''_id'' = Some (BString target) \<and> revoked d)"
proof -
  have sv: "sv_users s = Some (NewUserRepository db)" "sv_sessions s = Some (NewSessionRepository db)" "sv_tokens s = Some tok"
    "sv_passwords s = Some ph"
    using env unfolding auth_env_def auth_env_axioms_def by blast+
  have "run_state (logout_claims s (NewSessionRepository db) tok cx claims sessionID) w1 = (None, w')"
    using run valid(1) by (simp add: Logout_def sv)
  from htD [OF auth_env.logout_claims_ht [OF env repo valid(2)] TrueI this] target show ?thesis
    by (simp add: Let_def)
qed

lemma mini_logout: "fst (run_state (Logout mini_auth background ''token'' []) mini_world) = None"
  by code_simp

lemma mini_validate:
  "case fst (run_state (ValidateAccessToken mini_tokens background ''token'') mini_world) of
     Inl e \<Rightarrow> False | Inr c \<Rightarrow> (case c of None \<Rightarrow> False | Some a \<Rightarrow> ac_TokenID a = ''t1'' \<and> ac_SessionID a = ''s1'')"
  by code_simp

theorem logout_revokes_witness:
  "\<exists>d \<in> set (w_mongo (snd (run_state (Logout mini_auth background ''token'' []) mini_world)) ''sessions'').
     map_of d ''_id'' = Some (BString ''s1'') \<and> revoked d"
proof -
  obtain c w1 where v: "run_state (ValidateAccessToken mini_tokens background ''token'') mini_world = (Inr c, w1)"
    "case c of None \<Rightarrow> False | Some a \<Rightarrow> ac_TokenID a = ''t1'' \<and> ac_SessionID a = ''s1''"
    using mini_validate by (rule run_case)
  then obtain a where a: "c = Some a" "ac_TokenID a = ''t1''" "ac_SessionID a = ''s1''" by (auto split: option.splits)
  obtain w' where run: "run_state (Logout mini_auth background ''token'' []) mini_world = (None, w')"
    using mini_logout by (rule run_None)
  have "sv_revokedTokens mini_auth = Some (NewRevokedTokenRepository mini_db)" by (simp add: mini_auth_def)
  from logout_revokes [OF mini.auth_env_axioms this _ _ run refl] v a run show ?thesis by simp
qed

section \<open>Login and registration\<close>

text \<open>
  C8. A login succeeds only with the right password of an active account, and then creates exactly
  one session: the password matched the account's hash, the account is active, and the sessions
  collection has exactly one document more, of the session the answer names, for that user, holding
  the hash of the refresh token handed out.
\<close>

theorem login_success:
  assumes "auth_env db colls s tok ph"
    and "run_state (Login s cx li meta) w = (Inr ans, w')"
  shows "ph_Compare ph (u_PasswordHash (ar_User ans)) (li_Password li) = None \<and> u_Status (ar_User ans) = StatusActive \<and>
     (\<exists>session. s_ID session = ar_SessionID ans \<and> s_UserID session = u_ID (ar_User ans) \<and> s_RevokedAt session = None \<and>
        s_RefreshTokenHash session = ti_HashRefreshToken tok (ar_RefreshToken ans) \<and>
        s_RefreshTokenExpiresAt session = ar_RefreshTokenExpiresAt ans \<and>
        colls (w_mongo w') ''sessions'' = colls (w_mongo w) ''sessions'' @ [sessionDocumentFromDomain session])"
  using htD [OF auth_env.Login_ht [OF assms(1)] refl assms(2)] unfolding session_of_def by blast

lemma mini_login:
  "\<not> isl (fst (run_state (Login mini_auth background \<lparr>li_Email = '' A@b'', li_Password = ''password1''\<rparr> no_meta) mini_world))"
  by code_simp

theorem login_success_witness:
  "\<exists>ans w'. run_state (Login mini_auth background \<lparr>li_Email = '' A@b'', li_Password = ''password1''\<rparr> no_meta) mini_world = (Inr ans, w') \<and>
     length (w_mongo w' ''sessions'') = 2"
proof -
  obtain ans w' where run: "run_state (Login mini_auth background \<lparr>li_Email = '' A@b'', li_Password = ''password1''\<rparr> no_meta) mini_world
      = (Inr ans, w')"
    using mini_login by (rule run_Inr)
  from login_success [OF mini.auth_env_axioms run] run show ?thesis by (auto simp: mini_world_def)
qed

text \<open>
  C9. A login is refused in the same way for an unknown address and for a wrong password, and an
  account that is not active or is locked is refused whatever the password: the answer depends only
  on what the lookup by the normalised address found and on the clock at that moment.
\<close>

theorem login_refusals:
  assumes sv: "sv_users s = Some users" "sv_sessions s = Some sessions" "sv_tokens s = Some tok" "sv_passwords s = Some ph"
    and find: "run_state (ur_FindByEmail users cx (NormalizeEmail (li_Email li))) w = (found, w1)"
  shows "(\<forall>e. found = Inl e \<longrightarrow> errors_Is e DbErrNotFound \<longrightarrow>
            fst (run_state (Login s cx li meta) w) = Inl (invalidCredentials ''AuthService.Login'')) \<and>
         (\<forall>usr. found = Inr (Some usr) \<longrightarrow> u_Status usr \<noteq> StatusActive \<or> IsLocked usr (w_clock w1 (w_tick w1)) \<longrightarrow>
            fst (run_state (Login s cx li meta) w) = Inl (unavailable ''AuthService.Login'')) \<and>
         (\<forall>usr. found = Inr (Some usr) \<longrightarrow> u_Status usr = StatusActive \<longrightarrow> \<not> IsLocked usr (w_clock w1 (w_tick w1)) \<longrightarrow>
            ph_Compare ph (u_PasswordHash usr) (li_Password li) \<noteq> None \<longrightarrow>
            fst (run_state (Login s cx li meta) w) = Inl (invalidCredentials ''AuthService.Login''))"
proof -
  show ?thesis
    using sv find by (auto simp: Login_def Let_def split: prod.splits)
qed

definition locked_user_world :: "(mem, unit) world" where
  "locked_user_world = start_world ((\<lambda>_. [])(''users'' := [userDocumentFromDomain (mini_user\<lparr>u_LockedUntil := Some hour\<rparr>)])) () minute"

lemma locked_user_found:
  "case fst (run_state (User_FindByEmail mini_db background ''a@b'') locked_user_world) of
     Inl e \<Rightarrow> False | Inr x \<Rightarrow> (case x of None \<Rightarrow> False | Some usr \<Rightarrow> IsLocked usr minute)"
  by code_simp

theorem login_refusals_witness:
  "fst (run_state (Login mini_auth background \<lparr>li_Email = '' A@b'', li_Password = ''password1''\<rparr> no_meta) locked_user_world)
     = Inl (unavailable ''AuthService.Login'')"
proof -
  let ?li = "\<lparr>li_Email = '' A@b'', li_Password = ''password1''\<rparr>"
  have email: "NormalizeEmail (li_Email ?li) = ''a@b''" by code_simp
  obtain x w1 where f: "run_state (User_FindByEmail mini_db background ''a@b'') locked_user_world = (Inr x, w1)"
    "case x of None \<Rightarrow> False | Some usr \<Rightarrow> IsLocked usr minute"
    using locked_user_found by (rule run_case)
  then obtain usr where usr: "x = Some usr" "IsLocked usr minute" by (auto split: option.splits)
  have "keeps (\<lambda>w. w_clock w = (\<lambda>_. minute)) (User_FindByEmail mini_db background ''a@b'')"
    unfolding User_FindByEmail_def mini_db_def MongoDatabase_sel Mongo_FindOne_def encode_filter_def Let_def filter.case
    by (intro keeps_intros) (auto intro!: keepsI simp: run_on_mongo split: prod.splits)
  then have "w_clock w1 = (\<lambda>_. minute)" by (rule keepsD [OF _ _ f(1)]) (simp add: locked_user_world_def)
  then have clock: "w_clock w1 (w_tick w1) = minute" by simp
  have "run_state (ur_FindByEmail (NewUserRepository mini_db) background (NormalizeEmail (li_Email ?li))) locked_user_world = (Inr x, w1)"
    using f(1) email by (simp add: NewUserRepository_def)
  from login_refusals [OF _ _ _ _ this] usr clock show ?thesis by (simp add: mini_auth_def)
qed

text \<open>
  C10. A registration succeeds only for an address no account has yet, and then creates exactly one
  account with the normalised address and the role of an ordinary user, and exactly one session for
  it.
\<close>

theorem register_success:
  assumes "auth_env db colls s tok ph"
    and "run_state (Register s cx ri meta) w = (Inr ans, w')"
  shows "u_Email (ar_User ans) = NormalizeEmail (ri_Email ri) \<and> u_Roles (ar_User ans) = [RoleUser] \<and>
     (\<forall>d \<in> set (colls (w_mongo w) ''users''). map_of d ''email'' \<noteq> Some (BString (NormalizeEmail (ri_Email ri)))) \<and>
     colls (w_mongo w') ''users'' = colls (w_mongo w) ''users'' @ [userDocumentFromDomain (ar_User ans)] \<and>
     (\<exists>session. s_ID session = ar_SessionID ans \<and> s_UserID session = u_ID (ar_User ans) \<and> s_RevokedAt session = None \<and>
        s_RefreshTokenHash session = ti_HashRefreshToken tok (ar_RefreshToken ans) \<and>
        colls (w_mongo w') ''sessions'' = colls (w_mongo w) ''sessions'' @ [sessionDocumentFromDomain session])"
  using htD [OF auth_env.Register_ht [OF assms(1)] refl assms(2)] unfolding session_of_def by blast

lemma mini_register:
  "\<not> isl (fst (run_state (Register mini_auth background \<lparr>ri_Email = ''C@d'', ri_Password = ''password2'', ri_Name = ''C''\<rparr> no_meta) mini_world))"
  by code_simp

theorem register_success_witness:
  "\<exists>ans w'. run_state (Register mini_auth background \<lparr>ri_Email = ''C@d'', ri_Password = ''password2'', ri_Name = ''C''\<rparr> no_meta) mini_world
       = (Inr ans, w') \<and> length (w_mongo w' ''users'') = 2"
proof -
  let ?ri = "\<lparr>ri_Email = ''C@d'', ri_Password = ''password2'', ri_Name = ''C''\<rparr>"
  obtain ans w' where run: "run_state (Register mini_auth background ?ri no_meta) mini_world = (Inr ans, w')"
    using mini_register by (rule run_Inr)
  from register_success [OF mini.auth_env_axioms run] run show ?thesis by (auto simp: mini_world_def)
qed

section \<open>Lockout\<close>

lemma touched_docs:
  assumes "touched q [USet kvs] c cs cs'" and "d' \<in> set (cs' c)"
    and stable: "\<And>d. matches q d \<Longrightarrow> matches q (apply_update [USet kvs] d)"
  shows "\<exists>d \<in> set (cs c). map_of d' = map_of d \<or> matches q d \<and> map_of d' = map_of d ++ map_of (rev kvs)"
proof -
  obtain ds where "(updated_some q [USet kvs])\<^sup>*\<^sup>* (cs c) ds" "cs' c = ds" using assms(1) by (auto simp: touched_def)
  then show ?thesis using assms(2)
  proof (induction arbitrary: d' cs' rule: rtranclp_induct)
    case base then show ?case by auto
  next
    case (step ds1 ds2)
    obtain d1 where d1: "d1 \<in> set ds1" "d' = d1 \<or> matches q d1 \<and> d' = apply_update [USet kvs] d1"
      using list_all2_right [OF step.hyps(2) [unfolded updated_some_def], of d'] step.prems by blast
    obtain d where d: "d \<in> set (cs c)" "map_of d1 = map_of d \<or> matches q d \<and> map_of d1 = map_of d ++ map_of (rev kvs)"
      using step.IH [of "cs(c := ds1)" d1] d1(1) by auto
    let ?M = "map_of (rev kvs)"
    have same: "matches q x = matches q y" if "map_of x = map_of y" for x y
    proof -
      have "clause_holds x k = clause_holds y k" for k using that by (cases k) simp_all
      then show ?thesis by (simp add: matches_def)
    qed
    have idem: "(m ++ ?M) ++ ?M = m ++ ?M" for m by (auto simp: fun_eq_iff map_add_def split: option.splits)
    show ?case
    proof (rule bexI [OF _ d(1)], cases "d' = d1")
      case False
      then have "matches q d1" "map_of d' = map_of d1 ++ ?M" using d1(2) by auto
      then show "map_of d' = map_of d \<or> matches q d \<and> map_of d' = map_of d ++ ?M" using d(2) same idem by metis
    qed (use d(2) in simp)
  qed
qed

text \<open>
  C17. A failed password check counts towards the lockout: with a positive threshold, the attempt counts
  one more, and the account is to be locked until the configured time exactly when that reaches the
  threshold. When the repository's write of these values succeeds (its error is ignored otherwise),
  the users collection holds a document of the account with the new count and, if locked, the time of
  the lock; in any case the only user documents that change are those of the account, in these fields
  and the time of the update.
\<close>

theorem lockout_counts:
  assumes env: "auth_env db colls s tok ph" and max: "0 < sv_lockoutMaxFailures s"
    and range: "0 \<le> u_FailedLoginAttempts usr" "u_FailedLoginAttempts usr < max_int64"
    and run: "run_state (recordLoginFailure s cx usr now) w = (locked, w')"
  shows "locked = (if u_FailedLoginAttempts usr + 1 \<ge> sv_lockoutMaxFailures s then Some (time_Add now (sv_lockoutDuration s)) else None) \<and>
     (fst (run_state (User_RecordLoginFailure db cx (u_ID usr) (u_Email usr) (u_FailedLoginAttempts usr + 1) locked now) w) = None \<longrightarrow>
        (\<exists>d' \<in> set (colls (w_mongo w') ''users''). map_of d' ''_id'' = Some (BString (u_ID usr)) \<and>
           map_of d' ''failed_login_attempts'' = Some (BInt (u_FailedLoginAttempts usr + 1)) \<and>
           (\<forall>t. locked = Some t \<longrightarrow> map_of d' ''locked_until'' = Some (bson_date t)))) \<and>
     (\<forall>d' \<in> set (colls (w_mongo w') ''users''). \<exists>d \<in> set (colls (w_mongo w) ''users''). map_of d' = map_of d \<or>
        map_of d ''_id'' = Some (BString (u_ID usr)) \<and>
        map_of d' ''failed_login_attempts'' = Some (BInt (u_FailedLoginAttempts usr + 1)) \<and>
        (\<forall>t. locked = Some t \<longrightarrow> map_of d' ''locked_until'' = Some (bson_date t)) \<and>
        (\<forall>k. k \<notin> {''failed_login_attempts'', ''updated_at'', ''locked_until''} \<longrightarrow> map_of d' k = map_of d k))"
    (is "_ \<and> (?ok \<longrightarrow> ?written) \<and> (\<forall>d' \<in> _. ?kept d')")
proof -
  let ?n = "u_FailedLoginAttempts usr + 1"
  have sv: "sv_users s = Some (NewUserRepository db)" using env unfolding auth_env_def auth_env_axioms_def by blast
  have n: "wrap64 ?n = ?n" using range by (intro wrap64_id) (simp_all add: min_int64_def max_int64_def)
  define kvs where "kvs = [(''failed_login_attempts'', BInt ?n), (''updated_at'', bson_date now)] @ omit_time ''locked_until'' locked"
  define wo where "wo = write_opts\<lparr>wo_LockKey := userIDKey (u_ID usr),
      wo_InvalidateKeys := [userIDKey (u_ID usr), userEmailKey (NormalizeEmail (u_Email usr))]\<rparr>"
  have rec: "User_RecordLoginFailure db cx (u_ID usr) (u_Email usr) ?n locked now =
      db_UpdateOne db cx ''users'' (Query (id_query (u_ID usr))) [USet kvs] wo"
    by (simp add: User_RecordLoginFailure_def kvs_def wo_def Let_def)
  obtain x where locked: "locked = (if ?n \<ge> sv_lockoutMaxFailures s then Some (time_Add now (sv_lockoutDuration s)) else None)"
    and upd: "run_state (db_UpdateOne db cx ''users'' (Query (id_query (u_ID usr))) [USet kvs] wo) w = (x, w')"
    using run max rec by (auto simp: recordLoginFailure_def sv n NewUserRepository_def Let_def split: prod.splits if_splits)
  have kv: "map_of (rev kvs) = [''failed_login_attempts'' \<mapsto> BInt ?n, ''updated_at'' \<mapsto> bson_date now] ++
      (case locked of None \<Rightarrow> Map.empty | Some t \<Rightarrow> [''locked_until'' \<mapsto> bson_date t])"
    by (auto simp: kvs_def omit_time_def fun_eq_iff map_add_def split: option.splits)
  have stable: "matches (id_query (u_ID usr)) d \<Longrightarrow> matches (id_query (u_ID usr)) (apply_update [USet kvs] d)" for d
    by (simp add: matches_def id_query_def kv map_add_def split: option.splits)
  note db = auth_env.axioms(1) [OF env]
  have "?kept d'" if "d' \<in> set (colls (w_mongo w') ''users'')" for d'
    using touched_docs [OF store.st_update_one_any [OF db upd] that] stable
    by (fastforce simp: kv map_add_def matches_def id_query_def split: option.splits)
  moreover have "?written" if ?ok
  proof -
    have "x = None" using that upd by (simp add: rec)
    with store.st_update_one_last [OF db] upd obtain cs ds where "updated_one (id_query (u_ID usr)) [USet kvs] (cs ''users'') ds"
      "colls (w_mongo w') ''users'' = ds" by fastforce
    then obtain d where "apply_update [USet kvs] d \<in> set (colls (w_mongo w') ''users'')" "matches (id_query (u_ID usr)) d"
      unfolding updated_one_def by (metis in_set_conv_decomp)
    then show ?thesis
      by (intro bexI [of _ "apply_update [USet kvs] d"]) (auto simp: kv map_add_def matches_def id_query_def split: option.splits)
  qed
  ultimately show ?thesis using locked by blast
qed

theorem lockout_counts_witness:
  "fst (run_state (recordLoginFailure mini_auth background mini_user 0) mini_world) = Some (15 * minute) \<and>
   (\<exists>d \<in> set (w_mongo (snd (run_state (recordLoginFailure mini_auth background mini_user 0) mini_world)) ''users'').
      map_of d ''_id'' = Some (BString ''u1'') \<and> map_of d ''failed_login_attempts'' = Some (BInt 1) \<and>
      map_of d ''locked_until'' = Some (bson_date (15 * minute)))"
proof -
  obtain l w' where run: "run_state (recordLoginFailure mini_auth background mini_user 0) mini_world = (l, w')" by fastforce
  have stored: "fst (run_state (User_RecordLoginFailure mini_db background (u_ID mini_user) (u_Email mini_user)
      (u_FailedLoginAttempts mini_user + 1) (Some (15 * minute)) 0) mini_world) = None"
    by code_simp
  have sel: "u_ID mini_user = ''u1''" "u_FailedLoginAttempts mini_user = 0" "sv_lockoutMaxFailures mini_auth = 1"
    "time_Add 0 (sv_lockoutDuration mini_auth) = 15 * minute"
    by (simp_all add: mini_user_def User_New_def mini_auth_def time_defs)
  from lockout_counts [OF mini.auth_env_axioms _ _ _ run] run stored show ?thesis by (clarsimp simp: sel max_int64_def) blast
qed

end
