(* ===== verification/Monitoring.thy ===== *)
theory Monitoring
  imports Repositories Formats
begin

text \<open>
  Health and monitoring: \<open>internal/domain/monitoring/entity.go\<close>, the readiness checker of
  \<open>internal/platform/health\<close>, the monitoring service of \<open>internal/app/monitoring\<close>, and the profile
  service of \<open>internal/app/user\<close>.

  The numbers that the Go runtime reports about itself, and the conversion of a duration to whole
  seconds through a floating-point number, are parameters.
\<close>

section \<open>Entities\<close>

datatype HealthLevel = Healthy | Degraded | Unhealthy

record SystemStatus =
  ss_Status :: HealthLevel
  ss_ServiceName :: string
  ss_Version :: string
  ss_Env :: string
  ss_StartedAt :: time
  ss_UptimeSeconds :: int
  ss_CheckedAt :: time

record RuntimeMetrics =
  rm_Goroutines :: int
  rm_AllocBytes :: int
  rm_HeapBytes :: int
  rm_NumGC :: int
  rm_UptimeSeconds :: int
  rm_CollectedAt :: time

record DependencyCheck =
  dk_Status :: HealthLevel
  dk_LatencyMs :: int
  dk_Error :: string
  dk_CheckedAt :: time

record DependencyStatus =
  ds_MongoDB :: DependencyCheck
  ds_Redis :: DependencyCheck

definition failed_check :: "string \<Rightarrow> time \<Rightarrow> DependencyCheck" where
  "failed_check msg now = \<lparr>dk_Status = Unhealthy, dk_LatencyMs = 0, dk_Error = msg, dk_CheckedAt = now\<rparr>"

section \<open>Readiness\<close>

type_synonym ('m, 'r) Pinger = "ctx \<Rightarrow> ('m, 'r, err option) M"

record ReadinessConfig =
  rc_Timeout :: duration
  rc_RequiresRedis :: bool
  rc_MongoDegradedThreshold :: duration
  rc_RedisDegradedThreshold :: duration

record ('m, 'r) ReadinessChecker =
  rk_mongo :: "('m, 'r) Pinger option"
  rk_redis :: "('m, 'r) Pinger option"
  rk_cfg :: ReadinessConfig

definition NewReadinessChecker :: "('m, 'r) Pinger option \<Rightarrow> ('m, 'r) Pinger option \<Rightarrow> ReadinessConfig \<Rightarrow> ('m, 'r) ReadinessChecker" where
  "NewReadinessChecker mongo redis cfg =
     \<lparr>rk_mongo = mongo, rk_redis = redis,
      rk_cfg = cfg\<lparr>rc_Timeout := (if rc_Timeout cfg \<le> 0 then 2 * second else rc_Timeout cfg),
        rc_MongoDegradedThreshold := (if rc_MongoDegradedThreshold cfg \<le> 0 then 500 * millisecond else rc_MongoDegradedThreshold cfg),
        rc_RedisDegradedThreshold := (if rc_RedisDegradedThreshold cfg \<le> 0 then 200 * millisecond else rc_RedisDegradedThreshold cfg)\<rparr>\<rparr>"

text \<open>\<open>Duration.Milliseconds\<close> truncates towards zero.\<close>

definition Milliseconds :: "duration \<Rightarrow> int" where
  "Milliseconds d = (if d < 0 then - (- d div millisecond) else d div millisecond)"

definition checkOne :: "('m, 'r) Pinger option \<Rightarrow> ctx \<Rightarrow> duration \<Rightarrow> ('m, 'r, DependencyCheck) M" where
  "checkOne pinger cx degradedThreshold = do {
     checkedAt \<leftarrow> time_Now;
     case pinger of
       None \<Rightarrow> ret (failed_check ''dependency not configured'' checkedAt)
     | Some Ping \<Rightarrow> do {
         start \<leftarrow> time_Now;
         e \<leftarrow> Ping cx;
         after \<leftarrow> time_Now;
         let latency = time_Sub after start;
         let check = \<lparr>dk_Status = Healthy, dk_LatencyMs = Milliseconds latency, dk_Error = [], dk_CheckedAt = checkedAt\<rparr>;
         ret (case e of
                Some err \<Rightarrow> check\<lparr>dk_Status := Unhealthy, dk_Error := err_Error err\<rparr>
              | None \<Rightarrow> if latency > degradedThreshold then check\<lparr>dk_Status := Degraded\<rparr> else check)
       }
   }"

text \<open>
  The deadline that \<open>Check\<close> adds to the context is left to the dependencies, which answer with an
  error once it has passed.
\<close>

definition Check :: "('m, 'r) ReadinessChecker \<Rightarrow> ctx \<Rightarrow> ('m, 'r, DependencyStatus \<times> bool) M" where
  "Check c cx = do {
     m \<leftarrow> checkOne (rk_mongo c) cx (rc_MongoDegradedThreshold (rk_cfg c));
     r \<leftarrow> checkOne (rk_redis c) cx (rc_RedisDegradedThreshold (rk_cfg c));
     let ready = (dk_Status m \<noteq> Unhealthy);
     ret (\<lparr>ds_MongoDB = m, ds_Redis = r\<rparr>,
          if rc_RequiresRedis (rk_cfg c) \<and> dk_Status r = Unhealthy then False else ready)
   }"

text \<open>The summary that the readiness endpoint and the monitoring service give of a check.\<close>

definition overall :: "DependencyStatus \<times> bool \<Rightarrow> HealthLevel" where
  "overall s = (case s of (dependencies, ready) \<Rightarrow>
     if \<not> ready then Unhealthy
     else if dk_Status (ds_MongoDB dependencies) = Degraded \<or> dk_Status (ds_Redis dependencies) = Degraded \<or>
             dk_Status (ds_Redis dependencies) = Unhealthy then Degraded
     else Healthy)"

section \<open>The monitoring service\<close>

record go_runtime =
  gr_NumGoroutine :: int
  gr_Alloc :: int
  gr_HeapAlloc :: int
  gr_NumGC :: int
  gr_Seconds :: "duration \<Rightarrow> int"

type_synonym ('m, 'r) DependencyChecker = "ctx \<Rightarrow> ('m, 'r, DependencyStatus \<times> bool) M"
type_synonym ('m, 'r) AuthStatsRepository = "ctx \<Rightarrow> time \<Rightarrow> time \<Rightarrow> ('m, 'r, err + AuthStats) M"

record ('m, 'r) MonitoringService =
  mo_serviceName :: string
  mo_version :: string
  mo_env :: string
  mo_startedAt :: time
  mo_dependencyChecker :: "('m, 'r) DependencyChecker option"
  mo_authStats :: "('m, 'r) AuthStatsRepository option"
  mo_auditLogs :: "('m, 'r) AuditLogRepository option"
  mo_errorEvents :: "('m, 'r) ErrorEventRepository option"
  mo_cache :: "('m, 'r) Cache option"
  mo_authStatsTTL :: duration

definition NewMonitoringService :: "('m, 'r) MonitoringService \<Rightarrow> ('m, 'r, ('m, 'r) MonitoringService) M" where
  "NewMonitoringService deps = do {
     startedAt \<leftarrow> (if IsZero (mo_startedAt deps) then time_Now else ret (mo_startedAt deps));
     ret (deps\<lparr>mo_serviceName := (if mo_serviceName deps = [] then ''be-go-template'' else mo_serviceName deps),
       mo_version := (if mo_version deps = [] then ''dev'' else mo_version deps),
       mo_env := (if mo_env deps = [] then ''local'' else mo_env deps),
       mo_startedAt := startedAt,
       mo_authStatsTTL := (if mo_authStatsTTL deps \<le> 0 then 30 * second else mo_authStatsTTL deps)\<rparr>)
   }"

definition GetSystemStatus :: "go_runtime \<Rightarrow> ('m, 'r) MonitoringService \<Rightarrow> ctx \<Rightarrow> ('m, 'r, err + SystemStatus) M" where
  "GetSystemStatus gr s cx = do {
     now \<leftarrow> time_Now;
     status \<leftarrow> (case mo_dependencyChecker s of None \<Rightarrow> ret Healthy | Some chk \<Rightarrow> do { d \<leftarrow> chk cx; ret (overall d) });
     ret (Inr \<lparr>ss_Status = status, ss_ServiceName = mo_serviceName s, ss_Version = mo_version s, ss_Env = mo_env s,
               ss_StartedAt = mo_startedAt s, ss_UptimeSeconds = gr_Seconds gr (time_Sub now (mo_startedAt s)), ss_CheckedAt = now\<rparr>)
   }"

definition GetRuntimeMetrics :: "go_runtime \<Rightarrow> ('m, 'r) MonitoringService \<Rightarrow> ctx \<Rightarrow> ('m, 'r, err + RuntimeMetrics) M" where
  "GetRuntimeMetrics gr s cx = do {
     now \<leftarrow> time_Now;
     ret (Inr \<lparr>rm_Goroutines = gr_NumGoroutine gr, rm_AllocBytes = gr_Alloc gr, rm_HeapBytes = gr_HeapAlloc gr,
               rm_NumGC = gr_NumGC gr, rm_UptimeSeconds = gr_Seconds gr (time_Sub now (mo_startedAt s)), rm_CollectedAt = now\<rparr>)
   }"

definition GetDependencyStatus :: "('m, 'r) MonitoringService \<Rightarrow> ctx \<Rightarrow> ('m, 'r, err + DependencyStatus) M" where
  "GetDependencyStatus s cx =
     (case mo_dependencyChecker s of
        None \<Rightarrow> do {
          now \<leftarrow> time_Now;
          ret (Inr \<lparr>ds_MongoDB = failed_check ''dependency checker not configured'' now,
                    ds_Redis = failed_check ''dependency checker not configured'' now\<rparr>)
        }
      | Some chk \<Rightarrow> do { d \<leftarrow> chk cx; ret (Inr (fst d)) })"

definition strconvFormatTime :: "time \<Rightarrow> string" where
  "strconvFormatTime v = (if IsZero v then ''0'' else RFC3339Nano v)"

definition authStatsCacheKey :: "time \<Rightarrow> time \<Rightarrow> string" where
  "authStatsCacheKey from to = ''monitoring:auth_stats:'' @ strconvFormatTime from @ '':'' @ strconvFormatTime to"

text \<open>The part of \<open>GetAuthStats\<close> that runs when the cache did not answer.\<close>

definition fresh_auth_stats :: "('m, 'r) MonitoringService \<Rightarrow> ctx \<Rightarrow> time \<Rightarrow> time \<Rightarrow> ('m, 'r, err + AuthStats) M" where
  "fresh_auth_stats s cx from to =
     (case mo_authStats s of
        None \<Rightarrow> ret (Inr \<lparr>as_LoginSuccessCount = 0, as_LoginFailureCount = 0, as_ActiveSessionCount = 0,
                  as_RevokedSessionCount = 0, as_RefreshCount = 0, as_LogoutCount = 0, as_From = from, as_To = to\<rparr>)
      | Some repo \<Rightarrow> do {
          r \<leftarrow> repo cx from to;
          case r of
            Inl e \<Rightarrow> ret (Inl e)
          | Inr stats \<Rightarrow>
              (case mo_cache s of
                 None \<Rightarrow> ret (Inr stats)
               | Some ca \<Rightarrow> do {
                   _ \<leftarrow> ca_Set ca cx (authStatsCacheKey from to) (JStats stats) (mo_authStatsTTL s);
                   ret (Inr stats)
                 })
        })"

definition Monitoring_GetAuthStats :: "('m, 'r) MonitoringService \<Rightarrow> ctx \<Rightarrow> time \<Rightarrow> time \<Rightarrow> ('m, 'r, err + AuthStats) M" where
  "Monitoring_GetAuthStats s cx from to =
     (case mo_cache s of
        None \<Rightarrow> fresh_auth_stats s cx from to
      | Some ca \<Rightarrow> do {
          g \<leftarrow> ca_Get ca cx (authStatsCacheKey from to) KStats;
          case g of
            Inr (JStats stats) \<Rightarrow> ret (Inr stats)
          | _ \<Rightarrow> fresh_auth_stats s cx from to
        })"

definition GetRecentErrors ::
  "('m, 'r) MonitoringService \<Rightarrow> ctx \<Rightarrow> ErrorEventFilter \<Rightarrow> Pagination \<Rightarrow> ('m, 'r, err + ErrorEvent list) M" where
  "GetRecentErrors s cx filt pagination =
     (case mo_errorEvents s of
        None \<Rightarrow> ret (Inr [])
      | Some repo \<Rightarrow> er_List repo cx filt (Normalized pagination 20 100))"

definition GetRecentAuditLogs ::
  "('m, 'r) MonitoringService \<Rightarrow> ctx \<Rightarrow> AuditLogFilter \<Rightarrow> Pagination \<Rightarrow> ('m, 'r, err + AuditLog list) M" where
  "GetRecentAuditLogs s cx filt pagination =
     (case mo_auditLogs s of
        None \<Rightarrow> ret (Inr [])
      | Some repo \<Rightarrow> ar_List repo cx filt (Normalized pagination 20 100))"

text \<open>The interface \<open>monitoring.Service\<close>.\<close>

record ('m, 'r) MonitoringI =
  mi_GetSystemStatus :: "ctx \<Rightarrow> ('m, 'r, err + SystemStatus) M"
  mi_GetRuntimeMetrics :: "ctx \<Rightarrow> ('m, 'r, err + RuntimeMetrics) M"
  mi_GetDependencyStatus :: "ctx \<Rightarrow> ('m, 'r, err + DependencyStatus) M"
  mi_GetAuthStats :: "ctx \<Rightarrow> time \<Rightarrow> time \<Rightarrow> ('m, 'r, err + AuthStats) M"
  mi_GetRecentErrors :: "ctx \<Rightarrow> ErrorEventFilter \<Rightarrow> Pagination \<Rightarrow> ('m, 'r, err + ErrorEvent list) M"
  mi_GetRecentAuditLogs :: "ctx \<Rightarrow> AuditLogFilter \<Rightarrow> Pagination \<Rightarrow> ('m, 'r, err + AuditLog list) M"

definition monitoring_interface :: "go_runtime \<Rightarrow> ('m, 'r) MonitoringService \<Rightarrow> ('m, 'r) MonitoringI" where
  "monitoring_interface gr s =
     \<lparr>mi_GetSystemStatus = GetSystemStatus gr s, mi_GetRuntimeMetrics = GetRuntimeMetrics gr s,
      mi_GetDependencyStatus = GetDependencyStatus s, mi_GetAuthStats = Monitoring_GetAuthStats s,
      mi_GetRecentErrors = GetRecentErrors s, mi_GetRecentAuditLogs = GetRecentAuditLogs s\<rparr>"

section \<open>The profile service\<close>

record ('m, 'r) UserService =
  us_users :: "('m, 'r) UserRepository option"

definition GetMe :: "('m, 'r) UserService \<Rightarrow> ctx \<Rightarrow> string \<Rightarrow> ('m, 'r, err + User option) M" where
  "GetMe s cx userID =
     (let uid = TrimSpace userID
      in if uid = [] then ret (Inl (AppErr (New CodeUnauthorized ''Unauthorized'' 401)))
         else case us_users s of
           None \<Rightarrow> ret (Inl (AppErr (New CodeInternal ''User service is not configured'' 500)))
         | Some users \<Rightarrow> ur_FindByID users cx uid)"

end
