(* ===== verification/RateLimit.thy ===== *)
theory RateLimit
  imports Cache
begin

text \<open>
  \<open>internal/platform/ratelimit/limiter.go\<close>: a fixed-window limiter over a counter that expires with
  its window. The counter is the \<open>Increment\<close> operation of the cache.
\<close>

record Decision =
  dc_Allowed :: bool
  dc_Limit :: int
  dc_Remaining :: int
  dc_ResetAfter :: duration

text \<open>The interfaces \<open>Limiter\<close> and \<open>Counter\<close>, each with its one method.\<close>

type_synonym ('m, 'r) Limiter = "ctx \<Rightarrow> string \<Rightarrow> int \<Rightarrow> duration \<Rightarrow> ('m, 'r, err + Decision) M"
type_synonym ('m, 'r) Counter = "ctx \<Rightarrow> string \<Rightarrow> duration \<Rightarrow> ('m, 'r, err + int) M"

record ('m, 'r) RedisLimiter =
  rl_counter :: "('m, 'r) Counter"

definition NewRedisLimiter :: "('m, 'r) Counter \<Rightarrow> ('m, 'r) RedisLimiter" where
  "NewRedisLimiter counter = \<lparr>rl_counter = counter\<rparr>"

definition Allow :: "('m, 'r) RedisLimiter \<Rightarrow> ('m, 'r) Limiter" where
  "Allow l cx key limit window =
     (if key = [] then ret (Inl (Errorf ''rate limit key must not be empty'' None))
      else if limit \<le> 0 then ret (Inr \<lparr>dc_Allowed = True, dc_Limit = limit, dc_Remaining = 0, dc_ResetAfter = window\<rparr>)
      else if window \<le> 0 then ret (Inl (Errorf ''rate limit window must be positive'' None))
      else do {
        r \<leftarrow> rl_counter l cx key window;
        ret (case r of
               Inl e \<Rightarrow> Inl e
             | Inr n \<Rightarrow>
                 let remaining = wrap64 (limit - n)
                 in Inr \<lparr>dc_Allowed = (n \<le> limit), dc_Limit = limit, dc_Remaining = (if remaining < 0 then 0 else remaining),
                         dc_ResetAfter = window\<rparr>)
      })"

section \<open>The contract of a counter\<close>

text \<open>
  \<open>held s key\<close> is the count the server holds for the key, \<open>free s key\<close> says that it holds nothing for
  it. An increment answers with the count it has stored, one if there was none; the key may expire at
  any moment. A failed increment may have been carried out or not.
\<close>

locale window_counter =
  fixes incr :: "('m, 'r) Counter"
    and held :: "'r \<Rightarrow> string \<Rightarrow> int option"
    and free :: "'r \<Rightarrow> string \<Rightarrow> bool"
  assumes free_held: "free s key \<Longrightarrow> held s key = None"
    and incr_next: "run_state (incr cx key ttl) w = (Inr n, w') \<Longrightarrow> held (w_redis w) key = Some i \<Longrightarrow> n = i + 1"
    and incr_first: "run_state (incr cx key ttl) w = (Inr n, w') \<Longrightarrow> free (w_redis w) key \<Longrightarrow> n = 1"
    and incr_stored: "run_state (incr cx key ttl) w = (Inr n, w') \<Longrightarrow> held (w_redis w') key \<in> {None, Some n}"
    and incr_failed: "run_state (incr cx key ttl) w = (Inl e, w') \<Longrightarrow> held (w_redis w) key = Some i \<Longrightarrow>
           held (w_redis w') key \<in> {None, Some i, Some (i + 1)}"
    and incr_failed_first: "run_state (incr cx key ttl) w = (Inl e, w') \<Longrightarrow> free (w_redis w) key \<Longrightarrow>
           held (w_redis w') key \<in> {None, Some 1}"

text \<open>
  A window of a key: it opens when the server holds nothing for the key and lasts as long as the
  server holds its count. \<open>window \<dots> k f n w\<close>: the limiter was asked \<open>k\<close> times in the window that leads
  to \<open>w\<close>, failed \<open>f\<close> times and allowed \<open>n\<close> requests; between the calls, anything may happen that
  leaves the count of the key alone.
\<close>

inductive window ::
  "('m, 'r) Counter \<Rightarrow> ('r \<Rightarrow> string \<Rightarrow> int option) \<Rightarrow> ('r \<Rightarrow> string \<Rightarrow> bool) \<Rightarrow> string \<Rightarrow> int \<Rightarrow> nat \<Rightarrow> nat \<Rightarrow> nat
     \<Rightarrow> ('m, 'r) world \<Rightarrow> bool"
  for incr held free key limit where
  opens: "free (w_redis w) key \<Longrightarrow> window incr held free key limit 0 0 0 w"
| asked: "window incr held free key limit k f n w \<Longrightarrow>
    run_state (Allow (NewRedisLimiter incr) cx key limit ttl) w = (Inr d, w') \<Longrightarrow> held (w_redis w') key \<noteq> None \<Longrightarrow>
    window incr held free key limit (Suc k) f (if dc_Allowed d then Suc n else n) w'"
| failed: "window incr held free key limit k f n w \<Longrightarrow>
    run_state (Allow (NewRedisLimiter incr) cx key limit ttl) w = (Inl e, w') \<Longrightarrow> held (w_redis w') key \<noteq> None \<Longrightarrow>
    window incr held free key limit (Suc k) (Suc f) n w'"
| other: "window incr held free key limit k f n w \<Longrightarrow>
    held (w_redis w') key = held (w_redis w) key \<Longrightarrow> held (w_redis w') key \<noteq> None \<Longrightarrow> window incr held free key limit k f n w'"

lemma Allow_Inr:
  assumes "run_state (Allow (NewRedisLimiter incr) cx key limit ttl) w = (Inr d, w')" "0 < limit"
  shows "\<exists>n. run_state (incr cx key ttl) w = (Inr n, w') \<and> dc_Allowed d = (n \<le> limit)"
  using assms by (auto simp: Allow_def NewRedisLimiter_def Let_def split: if_splits prod.splits sum.splits)

lemma Allow_Inl:
  assumes "run_state (Allow (NewRedisLimiter incr) cx key limit ttl) w = (Inl e, w')" "0 < limit"
  shows "w' = w \<or> run_state (incr cx key ttl) w = (Inl e, w')"
  using assms by (auto simp: Allow_def NewRedisLimiter_def Let_def split: if_splits prod.splits sum.splits)

context window_counter
begin

text \<open>The count is the number of requests, give or take the failed ones; it bounds what was allowed.\<close>

definition within :: "string \<Rightarrow> int \<Rightarrow> nat \<Rightarrow> nat \<Rightarrow> nat \<Rightarrow> 'r \<Rightarrow> bool" where
  "within key limit k f n s \<longleftrightarrow>
     (free s key \<and> k = 0 \<and> f = 0 \<and> n = 0) \<or>
     (\<exists>c. held s key = Some c \<and> int k - int f \<le> c \<and> c \<le> int k \<and> int n \<le> c \<and> int n \<le> limit \<and>
        (f = 0 \<longrightarrow> int n = min (int k) limit))"

lemma within_asked:
  assumes "within key limit k f n (w_redis w)" "run_state (incr cx key ttl) w = (Inr c', w')" "0 < limit"
    and "held (w_redis w') key \<noteq> None"
  shows "within key limit (Suc k) f (if c' \<le> limit then Suc n else n) (w_redis w')"
proof -
  have held: "held (w_redis w') key = Some c'" using incr_stored [OF assms(2)] assms(4) by auto
  from assms(1) show ?thesis
  proof (unfold within_def [of key limit k f n], elim disjE exE conjE)
    assume "free (w_redis w) key" and z: "k = 0" "f = 0" "n = 0"
    then have "c' = 1" using incr_first [OF assms(2)] by simp
    with held z assms(3) show ?thesis by (simp add: within_def)
  next
    fix c assume c: "held (w_redis w) key = Some c" "int k - int f \<le> c" "c \<le> int k" "int n \<le> c" "int n \<le> limit"
      "f = 0 \<longrightarrow> int n = min (int k) limit"
    then have "c' = c + 1" using incr_next [OF assms(2)] by simp
    with held c show ?thesis by (auto simp: within_def min_def split: if_splits)
  qed
qed

lemma within_failed:
  assumes "within key limit k f n (w_redis w)" "run_state (incr cx key ttl) w = (Inl e, w') \<or> w' = w" "0 < limit"
    and "held (w_redis w') key \<noteq> None"
  shows "within key limit (Suc k) (Suc f) n (w_redis w')"
  using assms(1)
proof (unfold within_def [of key limit k f n], elim disjE exE conjE)
  assume free: "free (w_redis w) key" and z: "k = 0" "f = 0" "n = 0"
  then have "held (w_redis w') key = Some 1"
    using incr_failed_first [of cx key ttl w e w'] assms(2,4) free_held by auto
  with z assms(3) show ?thesis by (simp add: within_def)
next
  fix c assume c: "held (w_redis w) key = Some c" "int k - int f \<le> c" "c \<le> int k" "int n \<le> c" "int n \<le> limit"
  then have "held (w_redis w') key \<in> {Some c, Some (c + 1)}"
    using incr_failed [of cx key ttl w e w'] assms(2,4) by auto
  with c show ?thesis by (auto simp: within_def)
qed

lemma window_within:
  assumes "window incr held free key limit k f n w" "0 < limit"
  shows "within key limit k f n (w_redis w)"
  using assms
proof (induction rule: window.induct)
  case (opens w)
  then show ?case by (simp add: within_def)
next
  case (asked k f n w cx ttl d w')
  then obtain c where "run_state (incr cx key ttl) w = (Inr c, w')" "dc_Allowed d = (c \<le> limit)"
    using Allow_Inr by blast
  with asked within_asked show ?case by simp
next
  case (failed k f n w cx ttl e w')
  then show ?case using Allow_Inl within_failed by blast
next
  case (other k f n w w')
  then show ?case using free_held by (fastforce simp: within_def)
qed

lemma window_bound:
  assumes "window incr held free key limit k f n w" "0 < limit"
  shows "int n \<le> limit \<and> (f = 0 \<longrightarrow> int n = min (int k) limit)"
  using window_within [OF assms] assms(2) by (auto simp: within_def)

end

section \<open>The counter of the Redis cache\<close>

definition counted :: "(string \<Rightarrow> rval option) \<Rightarrow> string \<Rightarrow> int option" where
  "counted m k = (case m k of Some (RCounter i) \<Rightarrow> Some i | _ \<Rightarrow> None)"

context redis_server
begin

lemma increment_script_law:
  assumes "run_state (increment_script cl key ms) s = (n, s')"
  shows "kv s' key \<in> {None, Some (RCounter n)} \<and> (kv s key = None \<longrightarrow> n = 1) \<and> (\<forall>i. kv s key = Some (RCounter i) \<longrightarrow> n = i + 1)"
proof -
  obtain s1 where i: "run_state (cmd_INCR cl key) s = (n, s1)" and s': "kv s' \<subseteq>\<^sub>m kv s1"
    using assms by (auto simp: increment_script_def split: prod.splits if_splits dest: cmd_pexpire)
  have "kv s' \<subseteq>\<^sub>m (kv s)(key \<mapsto> RCounter n)" using cmd_incr [OF i] s' map_le_trans by blast
  then have "kv s' key \<in> {None, Some (RCounter n)}"
    unfolding map_le_def by (metis domIff fun_upd_same insertCI)
  with cmd_incr [OF i] show ?thesis by auto
qed

lemma redis_window_counter:
  "window_counter (Redis_Increment (NewRedisWithClient cl p)) (\<lambda>s. counted (kv s)) (\<lambda>s key. kv s key = None)"
proof -
  let ?incr = "Redis_Increment (NewRedisWithClient cl p)"
  have ok: "run_state (increment_script cl key (ttl div millisecond)) (w_redis w) = (n, w_redis w')"
    if "run_state (?incr cx key ttl) w = (Inr n, w')" for cx key ttl n and w w' :: "('m, 'r) world"
    using that by (auto simp: Redis_Increment_def NewRedisWithClient_def run_on_redis split: if_splits prod.splits dest: eval_ok)
  have err: "kv (w_redis w') = kv (w_redis w) \<or> w_redis w' = snd (run_state (increment_script cl key (ttl div millisecond)) (w_redis w))"
    if "run_state (?incr cx key ttl) w = (Inl e, w')" for cx key ttl e and w w' :: "('m, 'r) world"
    using that by (auto simp: Redis_Increment_def NewRedisWithClient_def run_on_redis split: if_splits prod.splits dest: eval_err)
  have snd: "kv (snd (run_state (increment_script cl key ms) s)) key \<in> {None, Some (RCounter n)}"
    if "n = (case kv s key of Some (RCounter i) \<Rightarrow> i + 1 | _ \<Rightarrow> 1)" "kv s key = None \<or> (\<exists>i. kv s key = Some (RCounter i))" for key ms s n
    using that increment_script_law [of key ms s] by (cases "run_state (increment_script cl key ms) s") auto
  show ?thesis
  proof
    fix cx key ttl w e w' i
    assume "run_state (?incr cx key ttl) w = (Inl e, w')" "counted (kv (w_redis w)) key = Some i"
    then show "counted (kv (w_redis w')) key \<in> {None, Some i, Some (i + 1)}"
      using err snd [of "i + 1" "w_redis w" key "ttl div millisecond"] by (fastforce simp: counted_def split: option.splits rval.splits)
  next
    fix cx key ttl w e w'
    assume "run_state (?incr cx key ttl) w = (Inl e, w')" "kv (w_redis w) key = None"
    then show "counted (kv (w_redis w')) key \<in> {None, Some 1}"
      using err snd [of 1 "w_redis w" key "ttl div millisecond"] by (fastforce simp: counted_def split: option.splits rval.splits)
  qed (auto simp: counted_def split: option.splits rval.splits dest!: ok increment_script_law)
qed

end

sublocale redis_server \<subseteq> counter: window_counter "Redis_Increment (NewRedisWithClient cl p)" "\<lambda>s. counted (kv s)" "\<lambda>s key. kv s key = None"
  for p
  by (rule redis_window_counter)

text \<open>
  C37. The limiter over Redis lets through at most \<open>limit\<close> requests for a key within one window (from
  the moment the server holds nothing for the key until the key expires), whatever happens to other
  keys in between; as long as the server does not fail it lets through exactly the first \<open>limit\<close>.
\<close>

theorem rate_limit_window:
  assumes "redis_server cl kv" "0 < limit"
    and "window (Redis_Increment (NewRedisWithClient cl p)) (\<lambda>s. counted (kv s)) (\<lambda>s key. kv s key = None) key limit k f n w"
  shows "int n \<le> limit \<and> (f = 0 \<longrightarrow> int n = min (int k) limit)"
  using window_counter.window_bound [OF redis_server.redis_window_counter [OF assms(1)] assms(3,2)] .

abbreviation mem_incr :: "(unit, mem_kv) Counter" where
  "mem_incr \<equiv> Redis_Increment (NewRedisWithClient mem_redis [])"

lemma mem_Allow:
  "run_state (Allow (NewRedisLimiter mem_incr) background ''k'' 1 minute) (start_world () m 0) =
     (Inr \<lparr>dc_Allowed = (counted m ''k'' = None \<or> counted m ''k'' = Some 0), dc_Limit = 1, dc_Remaining = 0, dc_ResetAfter = minute\<rparr>,
      start_world () (m(''k'' \<mapsto> RCounter (case counted m ''k'' of None \<Rightarrow> 1 | Some i \<Rightarrow> i + 1))) 0)"
  if "counted m ''k'' = None \<or> counted m ''k'' = Some 1"
  using that
  by (auto simp: Allow_def NewRedisLimiter_def Redis_Increment_def NewRedisWithClient_def duration_defs run_on_redis
      mem_redis_def increment_script_def counted_def start_world_def wrap64_def split: option.splits rval.splits)

theorem rate_limit_window_witness:
  "\<exists>w. window mem_incr counted (\<lambda>s key. s key = None) ''k'' 1 2 0 1 w \<and> int 1 = min (int 2) 1"
proof -
  let ?w = "\<lambda>m. start_world () m 0"
  let ?win = "window mem_incr counted (\<lambda>s key. s key = None) ''k'' 1"
  have "?win 0 0 0 (?w Map.empty)" by (rule window.opens) simp
  then have "?win (Suc 0) 0 (Suc 0) (?w [''k'' \<mapsto> RCounter 1])"
    using window.asked [OF _ mem_Allow [of Map.empty]] by (fastforce simp: counted_def)
  then have two: "?win (Suc (Suc 0)) 0 (Suc 0) (?w [''k'' \<mapsto> RCounter 2])"
    using window.asked [OF _ mem_Allow [of "[''k'' \<mapsto> RCounter 1]"]] by (fastforce simp: counted_def)
  show ?thesis
    using two rate_limit_window [OF mem_redis.redis_server_axioms _ two] by (auto simp: numeral_2_eq_2)
qed

end
