(* ===== verification/Http.thy ===== *)
theory Http
  imports AuthService Monitoring RateLimit
begin

text \<open>
  The HTTP side: what a handler sees of a request and leaves as a response, and the envelopes of
  \<open>internal/handler/http/response.go\<close> and \<open>internal/middleware/response.go\<close>.

  The framework is not part of the repository. What it computes of a request (the matched route, the
  client address, header and query values, what reading the body gives) is data of the record
  \<open>request\<close>; what handlers tell it (headers, status, JSON bodies, errors, values set for later
  handlers) is collected in the record \<open>gctx\<close>, in order. A middleware takes the rest of the chain as
  an argument: \<open>c.Next()\<close> is its call, \<open>c.Abort()\<close> is leaving it out. A handler that panics sets
  \<open>g_panic\<close>, and whatever would run after it is skipped until \<open>Recovery\<close>.
\<close>

section \<open>Requests and contexts\<close>

text \<open>\<open>internal/platform/ctxkeys\<close>.\<close>

definition key_RequestID :: string where "key_RequestID = ''request_id''"
definition key_UserID :: string where "key_UserID = ''user_id''"
definition key_SessionID :: string where "key_SessionID = ''session_id''"
definition key_TokenID :: string where "key_TokenID = ''token_id''"
definition key_Roles :: string where "key_Roles = ''roles''"
definition key_TraceID :: string where "key_TraceID = ''trace_id''"
definition key_SpanID :: string where "key_SpanID = ''span_id''"
definition key_RequestStartedAt :: string where "key_RequestStartedAt = ''request_started_at''"

lemmas ctxkey_defs = key_RequestID_def key_UserID_def key_SessionID_def key_TokenID_def key_Roles_def
  key_TraceID_def key_SpanID_def key_RequestStartedAt_def

datatype gvalue = VString string | VTime time | VStrings "string list"

text \<open>
  A request. \<open>rq_values\<close> are the values of its context (\<open>context.WithValue\<close>); \<open>rq_ctx\<close> is the part of
  the context that the layers below look at. \<open>rq_body\<close> is what reading the body gives, \<open>None\<close> when
  there is no body.
\<close>

record request =
  rq_Method :: string
  rq_Path :: string
  rq_FullPath :: string
  rq_Header :: "string \<Rightarrow> string"
  rq_Query :: "string \<Rightarrow> string"
  rq_ClientIP :: string
  rq_UserAgent :: string
  rq_ContentLength :: int
  rq_body :: "(err + bytes) option"
  rq_ctx :: ctx
  rq_values :: "string \<Rightarrow> gvalue option"

section \<open>Responses\<close>

record userResponse =
  ur_ID' :: string
  ur_Email' :: string
  ur_Name' :: string
  ur_Roles' :: "Role list"

record authResultResponse =
  arr_User :: userResponse
  arr_SessionID :: string
  arr_Session :: DeviceSession
  arr_AccessToken :: string
  arr_AccessTokenExpiresAt :: string
  arr_RefreshToken :: string
  arr_RefreshTokenExpiresAt :: string

record monitoringErrorEventView =
  mev_RequestID :: string
  mev_ErrorCode :: string
  mev_Operation :: string
  mev_Message :: string
  mev_Path :: string
  mev_Method :: string
  mev_Status :: int
  mev_UserID :: string
  mev_CreatedAt :: time

record monitoringAuditLogView =
  mav_ID :: string
  mav_ActorUserID :: string
  mav_Action :: string
  mav_ResourceType :: string
  mav_ResourceID :: string
  mav_IP :: string
  mav_UserAgent :: string
  mav_RequestID :: string
  mav_Metadata :: "(string \<times> string) list"
  mav_CreatedAt :: time

datatype payload =
    PAuthResult authResultResponse
  | PUser userResponse
  | PDevices "DeviceSession list"
  | PLoginHistory "LoginHistory list"
  | PLoggedOut
  | PHealth time
  | PReadiness HealthLevel DependencyStatus
  | PSystemStatus SystemStatus
  | PDependencies DependencyStatus
  | PRuntime RuntimeMetrics
  | PAuthStats AuthStats
  | PErrors "monitoringErrorEventView list"
  | PAuditLogs "monitoringAuditLogView list"

text \<open>The error part of an envelope; the middleware package leaves \<open>retryable\<close> out.\<close>

record error_body =
  eb_Code :: code
  eb_Message :: string
  eb_Details :: "ValidationDetail list"
  eb_Retryable :: "bool option"

text \<open>\<open>Response\<close> omits the request identifier when it is empty.\<close>

record envelope =
  en_Success :: bool
  en_RequestID :: "string option"
  en_Data :: "payload option"
  en_Error :: "error_body option"

text \<open>
  What a handler hands to the framework: a header, a status without a body (written when the chain
  ends), a JSON body, or a status written at once.
\<close>

datatype reply = OHeader string string | OStatus int | OJSON int envelope | OWriteStatus int

record gctx =
  g_Request :: request
  g_keys :: "string \<Rightarrow> gvalue option"
  g_out :: "reply list"
  g_Errors :: "err list"
  g_panic :: bool

type_synonym ('m, 'r) handler = "gctx \<Rightarrow> ('m, 'r, gctx) M"
type_synonym ('m, 'r) middleware = "('m, 'r) handler \<Rightarrow> ('m, 'r) handler"

abbreviation g_ctx :: "gctx \<Rightarrow> ctx" where
  "g_ctx c \<equiv> rq_ctx (g_Request c)"

definition GetHeader :: "gctx \<Rightarrow> string \<Rightarrow> string" where
  "GetHeader c k = rq_Header (g_Request c) k"

definition emit :: "reply \<Rightarrow> gctx \<Rightarrow> gctx" where
  "emit x c = c\<lparr>g_out := g_out c @ [x]\<rparr>"

definition gin_Set :: "string \<Rightarrow> gvalue \<Rightarrow> gctx \<Rightarrow> gctx" where
  "gin_Set k v c = c\<lparr>g_keys := (g_keys c)(k \<mapsto> v)\<rparr>"

definition WithValue :: "string \<Rightarrow> gvalue \<Rightarrow> gctx \<Rightarrow> gctx" where
  "WithValue k v c = c\<lparr>g_Request := (g_Request c)\<lparr>rq_values := (rq_values (g_Request c))(k \<mapsto> v)\<rparr>\<rparr>"

fun is_written :: "reply \<Rightarrow> bool" where
  "is_written (OJSON s e) = True"
| "is_written (OWriteStatus s) = True"
| "is_written _ = False"

definition Written :: "gctx \<Rightarrow> bool" where
  "Written c = list_ex is_written (g_out c)"

text \<open>The status the client sees: the first one written, else the last one set, else 200.\<close>

fun written_status :: "reply \<Rightarrow> int option" where
  "written_status (OJSON s e) = Some s"
| "written_status (OWriteStatus s) = Some s"
| "written_status _ = None"

fun set_status' :: "reply \<Rightarrow> int option" where
  "set_status' (OStatus s) = Some s"
| "set_status' _ = None"

definition Writer_Status :: "gctx \<Rightarrow> int" where
  "Writer_Status c =
     (case List.map_filter written_status (g_out c) of
        s # _ \<Rightarrow> s
      | [] \<Rightarrow> (case rev (List.map_filter set_status' (g_out c)) of s # _ \<Rightarrow> s | [] \<Rightarrow> 200))"

section \<open>Values of a context\<close>

definition contextString :: "gctx \<Rightarrow> string \<Rightarrow> string" where
  "contextString c key =
     (case g_keys c key of
        Some (VString s) \<Rightarrow> s
      | _ \<Rightarrow> (case rq_values (g_Request c) key of Some (VString s) \<Rightarrow> s | _ \<Rightarrow> []))"

definition contextTime :: "gctx \<Rightarrow> string \<Rightarrow> time" where
  "contextTime c key =
     (case g_keys c key of
        Some (VTime t) \<Rightarrow> t
      | _ \<Rightarrow> (case rq_values (g_Request c) key of Some (VTime t) \<Rightarrow> t | _ \<Rightarrow> 0))"

definition contextRoles :: "gctx \<Rightarrow> string list" where
  "contextRoles c =
     (case g_keys c key_Roles of
        Some (VStrings rs) \<Rightarrow> rs
      | _ \<Rightarrow> (case rq_values (g_Request c) key_Roles of Some (VStrings rs) \<Rightarrow> rs | _ \<Rightarrow> []))"

definition RequestID :: "gctx \<Rightarrow> string" where
  "RequestID c = contextString c key_RequestID"

section \<open>Envelopes\<close>

definition error_status :: "AppError \<Rightarrow> int" where
  "error_status e = (if HTTPStatus e = 0 then StatusForCode (Code e) else HTTPStatus e)"

definition omitempty :: "string \<Rightarrow> string option" where
  "omitempty s = (if s = [] then None else Some s)"

definition OK :: "gctx \<Rightarrow> payload \<Rightarrow> gctx" where
  "OK c data = emit (OJSON 200 \<lparr>en_Success = True, en_RequestID = omitempty (RequestID c), en_Data = Some data, en_Error = None\<rparr>) c"

definition Created :: "gctx \<Rightarrow> payload \<Rightarrow> gctx" where
  "Created c data = emit (OJSON 201 \<lparr>en_Success = True, en_RequestID = omitempty (RequestID c), en_Data = Some data, en_Error = None\<rparr>) c"

definition http_Error :: "string \<Rightarrow> gctx \<Rightarrow> err \<Rightarrow> gctx" where
  "http_Error stack c e =
     (let appErr = FromError stack e
      in emit (OJSON (error_status appErr)
           \<lparr>en_Success = False, en_RequestID = omitempty (RequestID c), en_Data = None,
            en_Error = Some \<lparr>eb_Code = Code appErr, eb_Message = SafeMessage appErr, eb_Details = Details appErr,
                              eb_Retryable = Some (Retryable appErr)\<rparr>\<rparr>) c)"

definition writeError :: "gctx \<Rightarrow> AppError \<Rightarrow> gctx" where
  "writeError c appErr =
     emit (OJSON (error_status appErr)
       \<lparr>en_Success = False, en_RequestID = Some (RequestID c), en_Data = None,
        en_Error = Some \<lparr>eb_Code = Code appErr, eb_Message = SafeMessage appErr, eb_Details = Details appErr,
                          eb_Retryable = None\<rparr>\<rparr>) c"

text \<open>\<open>c.Error\<close> on a non-nil error attaches it to the context.\<close>

definition reportContextError :: "gctx \<Rightarrow> err \<Rightarrow> gctx" where
  "reportContextError c e = c\<lparr>g_Errors := g_Errors c @ [e]\<rparr>"

end
