(* ===== verification/Middleware.thy ===== *)
theory Middleware
  imports Http
begin

text \<open>
  \<open>internal/middleware\<close>: the handlers around every route and the guards of the protected ones. The
  logger is left out; where building a log line reads the clock, the reading is kept. \<open>stack\<close> is the
  text that \<open>debug.Stack()\<close> gives.
\<close>

section \<open>Request identifiers\<close>

definition request_newID :: "('m, 'r, string) M" where
  "request_newID = do {
     b \<leftarrow> rand_Read 16;
     ret (case b of None \<Rightarrow> ''request-id-unavailable'' | Some bs \<Rightarrow> hex_EncodeToString bs)
   }"

definition id_char :: "char \<Rightarrow> bool" where
  "id_char r \<longleftrightarrow> r = CHR ''-'' \<or> r = CHR ''_'' \<or> r = CHR ''.'' \<or> r = CHR '':'' \<or>
     (let n = (of_char r :: nat) in 48 \<le> n \<and> n \<le> 57 \<or> 97 \<le> n \<and> n \<le> 122 \<or> 65 \<le> n \<and> n \<le> 90)"

definition sanitizeID :: "string \<Rightarrow> string" where
  "sanitizeID value =
     (let v = TrimSpace value
      in if length v > 128 then [] else if list_all id_char v then v else [])"

definition RequestID_mw :: "('m, 'r) middleware" where
  "RequestID_mw next c = do {
     startedAt \<leftarrow> time_Now;
     let given = sanitizeID (GetHeader c ''X-Request-ID'');
     requestID \<leftarrow> (if given = [] then request_newID else ret given);
     let trace = sanitizeID (GetHeader c ''X-Trace-ID'');
     let traceID = (if trace = [] then requestID else trace);
     let spanID = sanitizeID (GetHeader c ''X-Span-ID'');
     let c1 = WithValue key_SpanID (VString spanID) (WithValue key_TraceID (VString traceID)
                (WithValue key_RequestStartedAt (VTime startedAt) (WithValue key_RequestID (VString requestID) c)));
     let c2 = gin_Set key_TraceID (VString traceID) (gin_Set key_RequestStartedAt (VTime startedAt)
                (gin_Set key_RequestID (VString requestID) c1));
     let c3 = (if spanID \<noteq> [] then gin_Set key_SpanID (VString spanID) c2 else c2);
     next (emit (OHeader ''X-Request-ID'' requestID) c3)
   }"

section \<open>Bodies, origins, deadlines\<close>

text \<open>\<open>http.MaxBytesReader\<close>: reading more than the limit is an error.\<close>

definition MaxBytesReader :: "int \<Rightarrow> err + bytes \<Rightarrow> err + bytes" where
  "MaxBytesReader limitBytes body =
     (case body of
        Inl e \<Rightarrow> Inl e
      | Inr bs \<Rightarrow> if int (length bs) > limitBytes then Inl (Errorf ''http: request body too large'' None) else Inr bs)"

definition BodyLimit :: "int \<Rightarrow> ('m, 'r) middleware" where
  "BodyLimit limitBytes next c =
     (case rq_body (g_Request c) of
        None \<Rightarrow> next c
      | Some body \<Rightarrow>
          if limitBytes \<le> 0 then next c
          else
            let c1 = c\<lparr>g_Request := (g_Request c)\<lparr>rq_body := Some (MaxBytesReader limitBytes body)\<rparr>\<rparr>
            in if rq_ContentLength (g_Request c1) > limitBytes
               then ret (writeError c1 (New CodeRequestTooLarge ''Request body too large'' 413))
               else next c1)"

definition CORS :: "string list \<Rightarrow> string list \<Rightarrow> string list \<Rightarrow> ('m, 'r) middleware" where
  "CORS allowedOrigins allowedMethods allowedHeaders next c =
     (let origin = GetHeader c ''Origin'';
          c1 = (if origin \<in> set allowedOrigins
                then emit (OHeader ''Access-Control-Allow-Headers'' (Join allowedHeaders '',''))
                       (emit (OHeader ''Access-Control-Allow-Methods'' (Join allowedMethods '',''))
                         (emit (OHeader ''Vary'' ''Origin'') (emit (OHeader ''Access-Control-Allow-Origin'' origin) c)))
                else c)
      in if rq_Method (g_Request c1) = ''OPTIONS'' then ret (emit (OWriteStatus 204) c1) else next c1)"

text \<open>The deadline has passed when the clock, read after the chain, is past it.\<close>

definition Timeout :: "duration \<Rightarrow> ('m, 'r) middleware" where
  "Timeout timeout next c =
     (if timeout \<le> 0 then next c
      else do {
        start \<leftarrow> time_Now;
        c1 \<leftarrow> next c;
        if g_panic c1 then ret c1
        else do {
          now \<leftarrow> time_Now;
          ret (if \<not> Before now (time_Add start timeout) \<and> \<not> Written c1
               then writeError c1 (New CodeTimeout ''Request timed out'' 504) else c1)
        }
      })"

section \<open>Observation\<close>

definition Logging :: "('m, 'r) middleware" where
  "Logging next c = do {
     start \<leftarrow> time_Now;
     c1 \<leftarrow> next c;
     if g_panic c1 then ret c1 else do { _ \<leftarrow> time_Now; ret c1 }
   }"

text \<open>The collector is \<open>False\<close> when it is nil.\<close>

definition Metrics :: "bool \<Rightarrow> string \<Rightarrow> ('m, 'r) middleware" where
  "Metrics collector skipPath next c =
     (if \<not> collector then next c
      else if skipPath \<noteq> [] \<and> rq_Path (g_Request c) = skipPath then next c
      else do {
        start \<leftarrow> time_Now;
        c1 \<leftarrow> next c;
        if g_panic c1 then ret c1
        else do {
          let route = (if rq_FullPath (g_Request c1) = [] then rq_Path (g_Request c1) else rq_FullPath (g_Request c1));
          now \<leftarrow> time_Now;
          record_metric (MHTTPRequest (rq_Method (g_Request c1)) route (Writer_Status c1) (time_Sub now start));
          ret c1
        }
      })"

section \<open>Errors\<close>

type_synonym ('m, 'r) ErrorEventReporter = "ctx \<Rightarrow> ErrorEvent \<Rightarrow> ('m, 'r, err option) M"

definition isClientError :: "int \<Rightarrow> bool" where
  "isClientError status \<longleftrightarrow> status > 0 \<and> status < 500"

definition requestLatency :: "gctx \<Rightarrow> ('m, 'r, int) M" where
  "requestLatency c =
     (let startedAt = contextTime c key_RequestStartedAt
      in if IsZero startedAt then ret (-1) else do { now \<leftarrow> time_Now; ret (Milliseconds (time_Sub now startedAt)) })"

definition error_event :: "gctx \<Rightarrow> AppError \<Rightarrow> time \<Rightarrow> ErrorEvent" where
  "error_event c appErr now =
     \<lparr>ee_RequestID = RequestID c, ee_ErrorCode = code_string (Code appErr), ee_Operation = Op appErr,
      ee_Message = SafeMessage appErr, ee_Cause = Message appErr, ee_Stack = Stack appErr, ee_Path = rq_Path (g_Request c),
      ee_Method = rq_Method (g_Request c), ee_Status = error_status appErr, ee_UserID = contextString c key_UserID,
      ee_CreatedAt = now\<rparr>"

definition reportErrorEvent :: "gctx \<Rightarrow> ('m, 'r) ErrorEventReporter option \<Rightarrow> AppError \<Rightarrow> ('m, 'r, unit) M" where
  "reportErrorEvent c reporter appErr =
     (case reporter of
        None \<Rightarrow> ret ()
      | Some Append \<Rightarrow> do {
          now \<leftarrow> time_Now;
          _ \<leftarrow> Append (g_ctx c) (error_event c appErr now);
          ret ()
        })"

definition ErrorHandler :: "string \<Rightarrow> ('m, 'r) ErrorEventReporter option \<Rightarrow> ('m, 'r) middleware" where
  "ErrorHandler stack reporter next c = do {
     c1 \<leftarrow> next c;
     if g_panic c1 \<or> g_Errors c1 = [] \<or> Written c1 then ret c1
     else do {
       let appErr = FromError stack (last (g_Errors c1));
       _ \<leftarrow> requestLatency c1;
       _ \<leftarrow> reportErrorEvent c1 reporter appErr;
       ret (writeError c1 appErr)
     }
   }"

definition Recovery :: "('m, 'r) middleware" where
  "Recovery next c = do {
     c1 \<leftarrow> next c;
     ret (if g_panic c1
          then writeError (c1\<lparr>g_panic := False\<rparr>)
                 (WithOp (New CodeInternal ''Internal server error'' 500) ''middleware.Recovery'')
          else c1)
   }"

section \<open>Authentication and roles\<close>

definition bearerToken :: "string \<Rightarrow> string" where
  "bearerToken value =
     (let v = TrimSpace value in if HasPrefix (ToLower v) ''bearer '' then TrimSpace (drop 7 v) else [])"

definition unauthorized :: AppError where
  "unauthorized = New CodeUnauthorized ''Unauthorized'' 401"

definition setAuthContext :: "AccessClaims \<Rightarrow> gctx \<Rightarrow> gctx" where
  "setAuthContext claims c =
     (let c1 = gin_Set key_Roles (VStrings (ac_Roles claims)) (gin_Set key_TokenID (VString (ac_TokenID claims))
                 (gin_Set key_SessionID (VString (ac_SessionID claims)) (gin_Set key_UserID (VString (ac_UserID claims)) c)))
      in WithValue key_Roles (VStrings (ac_Roles claims)) (WithValue key_TokenID (VString (ac_TokenID claims))
           (WithValue key_SessionID (VString (ac_SessionID claims)) (WithValue key_UserID (VString (ac_UserID claims)) c1))))"

text \<open>The answer to a token that did not validate.\<close>

definition reject_token :: "string \<Rightarrow> err option \<Rightarrow> AppError" where
  "reject_token stack e =
     (case e of
        Some err \<Rightarrow> (let appErr = FromError stack err in if Code appErr \<noteq> CodeInternal then appErr else unauthorized)
      | None \<Rightarrow> unauthorized)"

definition Authenticate ::
  "string \<Rightarrow> ('m, 'r) TokenServiceI option \<Rightarrow> ('m, 'r) SessionRepository option \<Rightarrow> ('m, 'r) middleware" where
  "Authenticate stack tokens sessions next c =
     (let rawToken = bearerToken (GetHeader c ''Authorization'') in
      case tokens of
        None \<Rightarrow> ret (writeError c unauthorized)
      | Some tok \<Rightarrow>
          if rawToken = [] then ret (writeError c unauthorized)
          else do {
            v \<leftarrow> ti_ValidateAccessToken tok (g_ctx c) rawToken;
            case v of
              Inl e \<Rightarrow> ret (writeError c (reject_token stack (Some e)))
            | Inr None \<Rightarrow> ret (writeError c (reject_token stack None))
            | Inr (Some claims) \<Rightarrow>
                if ac_UserID claims = [] then ret (writeError c (reject_token stack None))
                else
                  (case sessions of
                     None \<Rightarrow> next (setAuthContext claims c)
                   | Some sr \<Rightarrow> do {
                       f \<leftarrow> sr_FindActiveByID sr (g_ctx c) (ac_SessionID claims);
                       case f of
                         Inl e \<Rightarrow>
                           ret (writeError c (if errors_Is e DbErrNotFound then unauthorized
                                              else New CodeDependency ''Dependency error'' 503))
                       | Inr None \<Rightarrow> ret (writeError c unauthorized)
                       | Inr (Some session) \<Rightarrow> next (setAuthContext claims c)
                     })
          })"

definition hasAnyRole :: "gctx \<Rightarrow> string list \<Rightarrow> bool" where
  "hasAnyRole c allowedRoles =
     (if allowedRoles = [] then False else list_ex (\<lambda>candidate. candidate \<in> set allowedRoles) (contextRoles c))"

definition AdminGuard :: "string list \<Rightarrow> ('m, 'r) middleware" where
  "AdminGuard allowedRoles next c =
     (let allowed = (if allowedRoles = [] then [RoleAdmin] else allowedRoles)
      in if \<not> hasAnyRole c allowed then ret (writeError c (New CodeForbidden ''Forbidden'' 403)) else next c)"

section \<open>Rate limits\<close>

definition RateLimitFallbackAllow :: string where "RateLimitFallbackAllow = ''allow''"
definition RateLimitFallbackBlock :: string where "RateLimitFallbackBlock = ''block''"

record RateLimitPolicy =
  rp_Enabled :: bool
  rp_Limit :: int
  rp_Window :: duration
  rp_Fallback :: string
  rp_KeyFunc :: "(gctx \<Rightarrow> string) option"

definition too_many :: AppError where
  "too_many = New CodeRateLimited ''Too many requests'' 429"

definition rate_limit_key :: "RateLimitPolicy \<Rightarrow> gctx \<Rightarrow> string" where
  "rate_limit_key policy c =
     (let key = (case rp_KeyFunc policy of None \<Rightarrow> [] | Some f \<Rightarrow> f c)
      in if key = [] then ''route:'' @ rq_FullPath (g_Request c) @ '':ip:'' @ rq_ClientIP (g_Request c) else key)"

definition RateLimit :: "('m, 'r) Limiter option \<Rightarrow> RateLimitPolicy \<Rightarrow> ('m, 'r) middleware" where
  "RateLimit limiter policy0 next c =
     (let policy = policy0\<lparr>rp_Window := (if rp_Window policy0 \<le> 0 then minute else rp_Window policy0),
            rp_Fallback := (if rp_Fallback policy0 = [] then RateLimitFallbackBlock else rp_Fallback policy0)\<rparr>
      in case limiter of
           None \<Rightarrow> next c
         | Some allow \<Rightarrow>
             if \<not> rp_Enabled policy \<or> rp_Limit policy \<le> 0 then next c
             else do {
               r \<leftarrow> allow (g_ctx c) (rate_limit_key policy c) (rp_Limit policy) (rp_Window policy);
               case r of
                 Inl e \<Rightarrow> if rp_Fallback policy = RateLimitFallbackAllow then next c else ret (writeError c too_many)
               | Inr decision \<Rightarrow>
                   let c1 = emit (OHeader ''X-RateLimit-Remaining'' (Itoa (dc_Remaining decision)))
                              (emit (OHeader ''X-RateLimit-Limit'' (Itoa (dc_Limit decision))) c)
                   in if \<not> dc_Allowed decision then ret (writeError c1 too_many) else next c1
             })"

text \<open>A chain of middleware around a final handler.\<close>

definition chain :: "('m, 'r) middleware list \<Rightarrow> ('m, 'r) handler \<Rightarrow> ('m, 'r) handler" where
  "chain ms final = foldr (\<lambda>m h. m h) ms final"

lemma chain_simps [simp]: "chain [] h = h" "chain (m # ms) h = m (chain ms h)"
  by (simp_all add: chain_def)

end
