(* ===== verification/Parsing.thy ===== *)
theory Parsing
  imports Formats
begin

text \<open>
  The parsers of \<open>strconv\<close> that the program uses: \<open>ParseInt\<close> in base 10 for 64 bits (and \<open>Atoi\<close>, the
  same on a 64-bit machine) and \<open>ParseBool\<close>.
\<close>

definition is_digit :: "char \<Rightarrow> bool" where
  "is_digit c \<longleftrightarrow> (let n = (of_char c :: nat) in 48 \<le> n \<and> n \<le> 57)"

definition ParseDigits :: "string \<Rightarrow> int option" where
  "ParseDigits s = (if s \<noteq> [] \<and> list_all is_digit s then Some (int (undigits s)) else None)"

definition in_int64 :: "int \<Rightarrow> int option" where
  "in_int64 i = (if min_int64 \<le> i \<and> i \<le> max_int64 then Some i else None)"

definition ParseInt64 :: "string \<Rightarrow> int option" where
  "ParseInt64 s =
     (case s of
        [] \<Rightarrow> None
      | c # cs \<Rightarrow>
          if c = CHR ''-'' then Option.bind (ParseDigits cs) (\<lambda>n. in_int64 (- n))
          else if c = CHR ''+'' then Option.bind (ParseDigits cs) in_int64
          else Option.bind (ParseDigits s) in_int64)"

definition ParseBool :: "string \<Rightarrow> bool option" where
  "ParseBool s =
     (if s \<in> {''1'', ''t'', ''T'', ''true'', ''TRUE'', ''True''} then Some True
      else if s \<in> {''0'', ''f'', ''F'', ''false'', ''FALSE'', ''False''} then Some False
      else None)"

section \<open>Printing and parsing\<close>

lemma is_digit_char: "k < 10 \<Longrightarrow> is_digit (char_of (48 + k))" for k :: nat
  by (simp add: is_digit_def)

lemma digits_digits: "list_all is_digit (digits n)"
proof (induction n rule: digits.induct)
  case (1 n)
  then show ?case using is_digit_char [of n] is_digit_char [of "n mod 10"] by (subst digits.simps) auto
qed

lemma ParseDigits_digits [simp]: "ParseDigits (digits n) = Some (int n)"
  using digits_digits [of n] by (simp add: ParseDigits_def)

lemma digit_not_sign: "is_digit c \<Longrightarrow> c \<noteq> CHR ''-'' \<and> c \<noteq> CHR ''+''"
  by (auto simp: is_digit_def)

text \<open>What \<open>Itoa\<close> prints of a 64-bit integer is parsed back to it.\<close>

lemma ParseInt64_Itoa: "min_int64 \<le> i \<Longrightarrow> i \<le> max_int64 \<Longrightarrow> ParseInt64 (Itoa i) = Some i"
proof (cases "i < 0")
  case True
  then show "min_int64 \<le> i \<Longrightarrow> i \<le> max_int64 \<Longrightarrow> ?thesis" by (simp add: Itoa_def ParseInt64_def in_int64_def)
next
  case False
  obtain c cs where c: "digits (nat i) = c # cs" by (cases "digits (nat i)") auto
  then have "c \<noteq> CHR ''-'' \<and> c \<noteq> CHR ''+''" using digits_digits [of "nat i"] digit_not_sign by simp
  moreover have "ParseDigits (c # cs) = Some i" using False c ParseDigits_digits [of "nat i"] by simp
  ultimately show "min_int64 \<le> i \<Longrightarrow> i \<le> max_int64 \<Longrightarrow> ?thesis" using False c by (simp add: Itoa_def ParseInt64_def in_int64_def)
qed

lemma ParseInt64_range: "ParseInt64 s = Some i \<Longrightarrow> min_int64 \<le> i \<and> i \<le> max_int64"
  by (auto simp: ParseInt64_def in_int64_def bind_eq_Some_conv split: list.splits if_splits)

lemma ParseBool_FormatBool: "ParseBool (FormatBool b) = Some b"
  by (simp add: ParseBool_def FormatBool_def)

end
