(* ===== verification/Handlers.thy ===== *)
theory Handlers
  imports Middleware Parsing
begin

text \<open>
  \<open>internal/handler/http\<close>: the handlers of the authentication, profile and monitoring routes, entity
  tags, and the reading of bodies and query parameters.

  The services are records of computations (the interfaces of \<open>internal/domain\<close>). JSON encoding and
  decoding, the errors it reports, SHA-256 and \<open>time.Parse\<close> are parameters, in the record \<open>http_lib\<close>.
  \<open>unmarshal_map\<close> gives the members of a JSON object that are strings.
\<close>

type_synonym body = "(err + bytes) option"

record http_lib =
  hl_bind_register :: "body \<Rightarrow> err + RegisterInput"
  hl_bind_login :: "body \<Rightarrow> err + LoginInput"
  hl_bind_refresh :: "body \<Rightarrow> err + string"
  hl_bind_logout :: "body \<Rightarrow> err + string"
  hl_unmarshal_map :: "bytes \<Rightarrow> err + (string \<Rightarrow> string option)"
  hl_As_SyntaxError :: "err \<Rightarrow> int option"
  hl_As_UnmarshalTypeError :: "err \<Rightarrow> (string \<times> string \<times> int) option"
  hl_Marshal :: "payload \<Rightarrow> err + bytes"
  hl_Sum256 :: "bytes \<Rightarrow> bytes"
  hl_ParseRFC3339 :: "string \<Rightarrow> time option"
  hl_stack :: string

section \<open>Services\<close>

record ('m, 'r) AuthServiceI =
  asv_Register :: "ctx \<Rightarrow> RegisterInput \<Rightarrow> RequestMeta \<Rightarrow> ('m, 'r, err + AuthResult option) M"
  asv_Login :: "ctx \<Rightarrow> LoginInput \<Rightarrow> RequestMeta \<Rightarrow> ('m, 'r, err + AuthResult option) M"
  asv_Refresh :: "ctx \<Rightarrow> string \<Rightarrow> RequestMeta \<Rightarrow> ('m, 'r, err + AuthResult option) M"
  asv_Logout :: "ctx \<Rightarrow> string \<Rightarrow> string \<Rightarrow> ('m, 'r, err option) M"
  asv_LogoutAll :: "ctx \<Rightarrow> string \<Rightarrow> ('m, 'r, err option) M"
  asv_ListDevices :: "ctx \<Rightarrow> string \<Rightarrow> ('m, 'r, err + DeviceSession list) M"
  asv_ListLoginHistory :: "ctx \<Rightarrow> string \<Rightarrow> Pagination \<Rightarrow> ('m, 'r, err + LoginHistory list) M"

definition some_result :: "('m, 'r, err + 'a) M \<Rightarrow> ('m, 'r, err + 'a option) M" where
  "some_result m = do { r \<leftarrow> m; ret (map_sum id Some r) }"

definition auth_interface :: "('m, 'r) Service \<Rightarrow> ('m, 'r) AuthServiceI" where
  "auth_interface s =
     \<lparr>asv_Register = (\<lambda>cx i m. some_result (Register s cx i m)), asv_Login = (\<lambda>cx i m. some_result (Login s cx i m)),
      asv_Refresh = (\<lambda>cx t m. some_result (Refresh s cx t m)), asv_Logout = Logout s, asv_LogoutAll = LogoutAll s,
      asv_ListDevices = ListDevices s, asv_ListLoginHistory = ListLoginHistory s\<rparr>"

section \<open>Entity tags\<close>

definition StableETag :: "http_lib \<Rightarrow> payload \<Rightarrow> string" where
  "StableETag hl p =
     (let data = (case hl_Marshal hl p of Inl e \<Rightarrow> map (\<lambda>c. of_nat (of_char c)) ''null'' | Inr bs \<Rightarrow> bs)
      in [CHR 34] @ hex_EncodeToString (hl_Sum256 hl data) @ [CHR 34])"

definition ifNoneMatch :: "string \<Rightarrow> string \<Rightarrow> bool" where
  "ifNoneMatch header etag = list_ex (\<lambda>part. TrimSpace part = etag) (Split header CHR '','')"

definition WriteETagOrNotModified :: "http_lib \<Rightarrow> bool \<Rightarrow> gctx \<Rightarrow> payload \<Rightarrow> gctx \<times> bool" where
  "WriteETagOrNotModified hl etagEnabled c p =
     (if \<not> etagEnabled then (c, False)
      else
        let etag = StableETag hl p; c1 = emit (OHeader ''ETag'' etag) c
        in if ifNoneMatch (GetHeader c1 ''If-None-Match'') etag then (emit (OStatus 304) c1, True) else (c1, False))"

section \<open>Validation errors\<close>

definition normalizeJSONFieldPath :: "string \<Rightarrow> string" where
  "normalizeJSONFieldPath field = Join (map (\<lambda>p. ToLower (TrimSpace p)) (Split field CHR ''.'')) ''.''"

definition isJSONSyntaxError :: "err \<Rightarrow> bool" where
  "isJSONSyntaxError e \<longleftrightarrow> (let msg = ToLower (err_Error e) in Contains msg ''unexpected eof'' \<or> Contains msg ''invalid character'')"

definition validationError :: "http_lib \<Rightarrow> err \<Rightarrow> AppError" where
  "validationError hl e =
     (let detail = \<lparr>vd_Field = ''body'', vd_Reason = ''invalid_json'', vd_Meta = [(''kind'', MetaString ''binding'')]\<rparr> in
      if hl_As_SyntaxError hl e \<noteq> None \<or> isJSONSyntaxError e then
        Validation ''Invalid input''
          [detail\<lparr>vd_Meta := (''kind'', MetaString ''syntax'') #
             (case hl_As_SyntaxError hl e of None \<Rightarrow> [] | Some off \<Rightarrow> [(''offset'', MetaInt off)])\<rparr>]
      else case hl_As_UnmarshalTypeError hl e of
        Some (field, typ', off) \<Rightarrow>
          Validation ''Invalid input''
            [\<lparr>vd_Field = (if field \<noteq> [] then ''body.'' @ normalizeJSONFieldPath field else ''body''), vd_Reason = ''invalid_type'',
              vd_Meta = [(''expected'', MetaString typ'), (''offset'', MetaInt off)]\<rparr>]
      | None \<Rightarrow> Validation ''Invalid input'' [detail])"

section \<open>The authentication handler\<close>

definition timeFormat :: "time \<Rightarrow> string" where
  "timeFormat t =
     (let secs = t div second; (y, m, d) = civil_of_days (secs div 86400); s = secs mod 86400
      in padded 4 y @ ''-'' @ padded 2 m @ ''-'' @ padded 2 d @ ''T'' @ padded 2 (s div 3600) @ '':'' @
         padded 2 (s div 60 mod 60) @ '':'' @ padded 2 (s mod 60) @ ''Z'')"

definition userResponseFromDomain :: "User \<Rightarrow> userResponse" where
  "userResponseFromDomain usr = \<lparr>ur_ID' = u_ID usr, ur_Email' = u_Email usr, ur_Name' = u_Name usr, ur_Roles' = u_Roles usr\<rparr>"

definition zero_device :: DeviceSession where
  "zero_device = \<lparr>ds_SessionID = [], ds_DeviceID = [], ds_DeviceName = [], ds_UserAgent = [], ds_IP = [], ds_LastSeenAt = 0,
     ds_CreatedAt = 0, ds_Current = False, ds_RevokedAt = None, ds_RevokeReason = []\<rparr>"

definition authResultResponseFromDomain :: "AuthResult option \<Rightarrow> authResultResponse" where
  "authResultResponseFromDomain result =
     (case result of
        None \<Rightarrow> \<lparr>arr_User = \<lparr>ur_ID' = [], ur_Email' = [], ur_Name' = [], ur_Roles' = []\<rparr>, arr_SessionID = [],
                  arr_Session = zero_device, arr_AccessToken = [], arr_AccessTokenExpiresAt = [], arr_RefreshToken = [],
                  arr_RefreshTokenExpiresAt = []\<rparr>
      | Some r \<Rightarrow> \<lparr>arr_User = userResponseFromDomain (ar_User r), arr_SessionID = ar_SessionID r, arr_Session = ar_Session r,
                   arr_AccessToken = ar_AccessToken r, arr_AccessTokenExpiresAt = timeFormat (ar_AccessTokenExpiresAt r),
                   arr_RefreshToken = ar_RefreshToken r, arr_RefreshTokenExpiresAt = timeFormat (ar_RefreshTokenExpiresAt r)\<rparr>)"

definition requestMeta :: "gctx \<Rightarrow> RequestMeta" where
  "requestMeta c =
     \<lparr>m_RequestID = RequestID c, m_IP = rq_ClientIP (g_Request c), m_UserAgent = rq_UserAgent (g_Request c),
      m_DeviceID = GetHeader c ''X-Device-ID'', m_DeviceName = GetHeader c ''X-Device-Name''\<rparr>"

definition http_bearerToken :: "gctx \<Rightarrow> string" where
  "http_bearerToken c =
     (let v = TrimSpace (GetHeader c ''Authorization'')
      in if HasPrefix (ToLower v) ''bearer '' then TrimSpace (drop 7 v) else [])"

definition http_Register :: "http_lib \<Rightarrow> ('m, 'r) AuthServiceI \<Rightarrow> ('m, 'r) handler" where
  "http_Register hl h c =
     (case hl_bind_register hl (rq_body (g_Request c)) of
        Inl e \<Rightarrow> ret (http_Error (hl_stack hl) c (AppErr (validationError hl e)))
      | Inr input \<Rightarrow> do {
          r \<leftarrow> asv_Register h (g_ctx c) input (requestMeta c);
          ret (case r of
                 Inl e \<Rightarrow> reportContextError c e
               | Inr result \<Rightarrow> Created c (PAuthResult (authResultResponseFromDomain result)))
        })"

definition http_Login :: "http_lib \<Rightarrow> ('m, 'r) AuthServiceI \<Rightarrow> ('m, 'r) handler" where
  "http_Login hl h c =
     (case hl_bind_login hl (rq_body (g_Request c)) of
        Inl e \<Rightarrow> ret (http_Error (hl_stack hl) c (AppErr (validationError hl e)))
      | Inr input \<Rightarrow> do {
          r \<leftarrow> asv_Login h (g_ctx c) input (requestMeta c);
          ret (case r of
                 Inl e \<Rightarrow> reportContextError c e
               | Inr result \<Rightarrow> OK c (PAuthResult (authResultResponseFromDomain result)))
        })"

definition http_Refresh :: "http_lib \<Rightarrow> ('m, 'r) AuthServiceI \<Rightarrow> ('m, 'r) handler" where
  "http_Refresh hl h c =
     (case hl_bind_refresh hl (rq_body (g_Request c)) of
        Inl e \<Rightarrow> ret (http_Error (hl_stack hl) c (AppErr (validationError hl e)))
      | Inr refreshToken \<Rightarrow> do {
          r \<leftarrow> asv_Refresh h (g_ctx c) refreshToken (requestMeta c);
          ret (case r of
                 Inl e \<Rightarrow> reportContextError c e
               | Inr result \<Rightarrow> OK c (PAuthResult (authResultResponseFromDomain result)))
        })"

definition http_Logout :: "http_lib \<Rightarrow> ('m, 'r) AuthServiceI \<Rightarrow> ('m, 'r) handler" where
  "http_Logout hl h c =
     (case hl_bind_logout hl (rq_body (g_Request c)) of
        Inl e \<Rightarrow> ret (http_Error (hl_stack hl) c (AppErr (validationError hl e)))
      | Inr bodySessionID \<Rightarrow> do {
          let sessionID = (if bodySessionID = [] then contextString c key_SessionID else bodySessionID);
          r \<leftarrow> asv_Logout h (g_ctx c) (http_bearerToken c) sessionID;
          ret (case r of Some e \<Rightarrow> reportContextError c e | None \<Rightarrow> OK c PLoggedOut)
        })"

definition http_LogoutAll :: "http_lib \<Rightarrow> ('m, 'r) AuthServiceI \<Rightarrow> ('m, 'r) handler" where
  "http_LogoutAll hl h c =
     (let userID = contextString c key_UserID
      in if userID = [] then ret (http_Error (hl_stack hl) c (AppErr unauthorized))
         else do {
           r \<leftarrow> asv_LogoutAll h (g_ctx c) userID;
           ret (case r of Some e \<Rightarrow> reportContextError c e | None \<Rightarrow> OK c PLoggedOut)
         })"

definition http_ListDevices :: "http_lib \<Rightarrow> bool \<Rightarrow> ('m, 'r) AuthServiceI \<Rightarrow> ('m, 'r) handler" where
  "http_ListDevices hl etagEnabled h c =
     (let userID = contextString c key_UserID
      in if userID = [] then ret (http_Error (hl_stack hl) c (AppErr unauthorized))
         else do {
           r \<leftarrow> asv_ListDevices h (g_ctx c) userID;
           ret (case r of
                  Inl e \<Rightarrow> reportContextError c e
                | Inr devices \<Rightarrow>
                    (case WriteETagOrNotModified hl etagEnabled c (PDevices devices) of
                       (c1, True) \<Rightarrow> c1
                     | (c1, False) \<Rightarrow> OK c1 (PDevices devices)))
         })"

section \<open>Query parameters\<close>

definition queryInt :: "gctx \<Rightarrow> string \<Rightarrow> int" where
  "queryInt c key = (case ParseInt64 (rq_Query (g_Request c) key) of None \<Rightarrow> 0 | Some v \<Rightarrow> v)"

definition queryTime :: "http_lib \<Rightarrow> gctx \<Rightarrow> string \<Rightarrow> time" where
  "queryTime hl c key =
     (let v = rq_Query (g_Request c) key
      in if v = [] then 0 else case hl_ParseRFC3339 hl v of None \<Rightarrow> 0 | Some t \<Rightarrow> t)"

definition queryPagination :: "gctx \<Rightarrow> Pagination" where
  "queryPagination c = \<lparr>pg_Limit = queryInt c ''limit'', pg_Offset = queryInt c ''offset'', pg_Cursor = rq_Query (g_Request c) ''cursor''\<rparr>"

definition queryErrorEventFilter :: "http_lib \<Rightarrow> gctx \<Rightarrow> ErrorEventFilter" where
  "queryErrorEventFilter hl c =
     \<lparr>ef_ErrorCode = rq_Query (g_Request c) ''error_code'', ef_RequestID = rq_Query (g_Request c) ''request_id'',
      ef_Operation = rq_Query (g_Request c) ''operation'', ef_Status = queryInt c ''status'',
      ef_From = queryTime hl c ''from'', ef_To = queryTime hl c ''to''\<rparr>"

definition queryAuditLogFilter :: "http_lib \<Rightarrow> gctx \<Rightarrow> AuditLogFilter" where
  "queryAuditLogFilter hl c =
     \<lparr>af_ActorUserID = rq_Query (g_Request c) ''actor_user_id'', af_Action = rq_Query (g_Request c) ''action'',
      af_ResourceType = rq_Query (g_Request c) ''resource_type'', af_ResourceID = rq_Query (g_Request c) ''resource_id'',
      af_RequestID = rq_Query (g_Request c) ''request_id'', af_From = queryTime hl c ''from'', af_To = queryTime hl c ''to''\<rparr>"

definition http_ListLoginHistory :: "http_lib \<Rightarrow> ('m, 'r) AuthServiceI \<Rightarrow> ('m, 'r) handler" where
  "http_ListLoginHistory hl h c =
     (let userID = contextString c key_UserID
      in if userID = [] then ret (http_Error (hl_stack hl) c (AppErr unauthorized))
         else do {
           r \<leftarrow> asv_ListLoginHistory h (g_ctx c) userID (Normalized (queryPagination c) 20 100);
           ret (case r of Inl e \<Rightarrow> reportContextError c e | Inr history \<Rightarrow> OK c (PLoginHistory history))
         })"

section \<open>The profile handler\<close>

text \<open>A nil user without an error would be dereferenced: the handler panics.\<close>

definition http_GetMe :: "http_lib \<Rightarrow> bool \<Rightarrow> (ctx \<Rightarrow> string \<Rightarrow> ('m, 'r, err + User option) M) \<Rightarrow> ('m, 'r) handler" where
  "http_GetMe hl etagEnabled getMe c =
     (let userID = contextString c key_UserID
      in if userID = [] then ret (http_Error (hl_stack hl) c (AppErr unauthorized))
         else do {
           r \<leftarrow> getMe (g_ctx c) userID;
           ret (case r of
                  Inl e \<Rightarrow> reportContextError c e
                | Inr None \<Rightarrow> c\<lparr>g_panic := True\<rparr>
                | Inr (Some usr) \<Rightarrow>
                    (let response = PUser (userResponseFromDomain usr)
                     in case WriteETagOrNotModified hl etagEnabled c response of
                          (c1, True) \<Rightarrow> c1
                        | (c1, False) \<Rightarrow> OK c1 response))
         })"

section \<open>The monitoring handler\<close>

definition answer :: "gctx \<Rightarrow> ('a \<Rightarrow> payload) \<Rightarrow> err + 'a \<Rightarrow> gctx" where
  "answer c f r = (case r of Inl e \<Rightarrow> reportContextError c e | Inr v \<Rightarrow> OK c (f v))"

definition http_SystemStatus :: "('m, 'r) MonitoringI \<Rightarrow> ('m, 'r) handler" where
  "http_SystemStatus h c = do { r \<leftarrow> mi_GetSystemStatus h (g_ctx c); ret (answer c PSystemStatus r) }"

definition http_Dependencies :: "('m, 'r) MonitoringI \<Rightarrow> ('m, 'r) handler" where
  "http_Dependencies h c = do { r \<leftarrow> mi_GetDependencyStatus h (g_ctx c); ret (answer c PDependencies r) }"

definition http_Runtime :: "('m, 'r) MonitoringI \<Rightarrow> ('m, 'r) handler" where
  "http_Runtime h c = do { r \<leftarrow> mi_GetRuntimeMetrics h (g_ctx c); ret (answer c PRuntime r) }"

definition http_AuthStats :: "http_lib \<Rightarrow> ('m, 'r) MonitoringI \<Rightarrow> ('m, 'r) handler" where
  "http_AuthStats hl h c = do {
     r \<leftarrow> mi_GetAuthStats h (g_ctx c) (queryTime hl c ''from'') (queryTime hl c ''to'');
     ret (answer c PAuthStats r)
   }"

definition sanitizeErrorEvents :: "ErrorEvent list \<Rightarrow> monitoringErrorEventView list" where
  "sanitizeErrorEvents events =
     map (\<lambda>e. \<lparr>mev_RequestID = ee_RequestID e, mev_ErrorCode = ee_ErrorCode e, mev_Operation = ee_Operation e,
       mev_Message = ee_Message e, mev_Path = ee_Path e, mev_Method = ee_Method e, mev_Status = ee_Status e,
       mev_UserID = ee_UserID e, mev_CreatedAt = ee_CreatedAt e\<rparr>) events"

definition isSensitiveField :: "string \<Rightarrow> bool" where
  "isSensitiveField key \<longleftrightarrow>
     list_ex (Contains (ToLower key)) [''password'', ''token'', ''secret'', ''authorization'', ''refresh'']"

definition redactMetadata :: "(string \<times> string) list \<Rightarrow> (string \<times> string) list" where
  "redactMetadata metadata = map (\<lambda>(k, v). (k, if isSensitiveField k then ''[REDACTED]'' else v)) metadata"

definition sanitizeAuditLogs :: "AuditLog list \<Rightarrow> monitoringAuditLogView list" where
  "sanitizeAuditLogs logs =
     map (\<lambda>l. \<lparr>mav_ID = al_ID l, mav_ActorUserID = al_ActorUserID l, mav_Action = al_Action l, mav_ResourceType = al_ResourceType l,
       mav_ResourceID = al_ResourceID l, mav_IP = al_IP l, mav_UserAgent = al_UserAgent l, mav_RequestID = al_RequestID l,
       mav_Metadata = redactMetadata (al_Metadata l), mav_CreatedAt = al_CreatedAt l\<rparr>) logs"

definition http_Errors :: "http_lib \<Rightarrow> ('m, 'r) MonitoringI \<Rightarrow> ('m, 'r) handler" where
  "http_Errors hl h c = do {
     r \<leftarrow> mi_GetRecentErrors h (g_ctx c) (queryErrorEventFilter hl c) (queryPagination c);
     ret (answer c (\<lambda>events. PErrors (sanitizeErrorEvents events)) r)
   }"

definition http_AuditLogs :: "http_lib \<Rightarrow> ('m, 'r) MonitoringI \<Rightarrow> ('m, 'r) handler" where
  "http_AuditLogs hl h c = do {
     r \<leftarrow> mi_GetRecentAuditLogs h (g_ctx c) (queryAuditLogFilter hl c) (queryPagination c);
     ret (answer c (\<lambda>logs. PAuditLogs (sanitizeAuditLogs logs)) r)
   }"

end
