(* ===== verification/Config.thy ===== *)
theory Config
  imports TokenService Parsing
begin

text \<open>
  \<open>internal/config/config.go\<close>: reading the configuration from environment variables and validating it.

  The environment is a function from names to values, empty for a variable that is not set.
  \<open>time.ParseDuration\<close> and \<open>time.Parse\<close> are parameters, in the record \<open>time_lib\<close>.
\<close>

section \<open>The configuration\<close>

record AppConfig =
  ap_Name :: string
  ap_Version :: string
  ap_Env :: string

record HTTPConfig =
  hc_Addr :: string
  hc_ReadTimeout :: duration
  hc_WriteTimeout :: duration
  hc_IdleTimeout :: duration
  hc_BodyLimitBytes :: int
  hc_RouteTimeout :: duration
  hc_ETagEnabled :: bool
  hc_CORSAllowOrigins :: "string list"
  hc_CORSAllowMethods :: "string list"
  hc_CORSAllowHeaders :: "string list"

record LogConfig =
  lg_Level :: string
  lg_Format :: string
  lg_FilePath :: string
  lg_ToTerminal :: bool
  lg_ToFile :: bool
  lg_MaxSizeMB :: int
  lg_MaxBackups :: int
  lg_MaxAgeDays :: int
  lg_Compress :: bool

record JWTConfig =
  jw_AccessCurrentKey :: string
  jw_AccessPreviousKey :: string
  jw_PreviousNotAfter :: time
  jw_AccessTTL :: duration
  jw_RefreshTTL :: duration

record MongoConfig =
  mc_URI :: string
  mc_Database :: string
  mc_MaxPoolSize :: int
  mc_MinPoolSize :: int
  mc_ConnectTimeout :: duration
  mc_ReadPreference :: string
  mc_TransactionsEnabled :: bool

record RedisConfig =
  rs_Addr :: string
  rs_Password :: string
  rs_DB :: int
  rs_LockPrefix :: string
  rs_TLSEnabled :: bool
  rs_TLSCACert :: string
  rs_TLSServerName :: string

record RateLimitConfig =
  rlc_AuthEnabled :: bool
  rlc_LoginPerMinute :: int
  rlc_RefreshPerMinute :: int
  rlc_RegisterPerMinute :: int
  rlc_Fallback :: string

record AuthConfig =
  au_LockoutMaxFailures :: int
  au_LockoutDuration :: duration
  au_BcryptCost :: int
  au_RefreshIPAnomalyAction :: string

record MonitoringConfig =
  mt_Enabled :: bool
  mt_AdminRoles :: "string list"
  mt_MetricsCollectInterval :: duration

record ErrorConfig =
  er_IncludeStack :: bool

record OutboxConfig =
  ox_Enabled :: bool
  ox_DrainInterval :: duration
  ox_BatchSize :: int
  ox_DefaultMaxRetries :: int
  ox_RetryDelay :: duration

record MetricsConfig =
  mx_Enabled :: bool
  mx_Path :: string

record ReadinessSettings =
  rdc_Timeout :: duration
  rdc_RequiresRedis :: bool
  rdc_MongoDegradedThreshold :: duration
  rdc_RedisDegradedThreshold :: duration

record Config =
  cf_App :: AppConfig
  cf_HTTP :: HTTPConfig
  cf_Log :: LogConfig
  cf_JWT :: JWTConfig
  cf_Mongo :: MongoConfig
  cf_Redis :: RedisConfig
  cf_RateLimit :: RateLimitConfig
  cf_Auth :: AuthConfig
  cf_Monitoring :: MonitoringConfig
  cf_Errors :: ErrorConfig
  cf_Outbox :: OutboxConfig
  cf_Metrics :: MetricsConfig
  cf_Readiness :: ReadinessSettings

section \<open>Reading variables\<close>

record time_lib =
  tl_ParseDuration :: "string \<Rightarrow> duration option"
  tl_ParseRFC3339 :: "string \<Rightarrow> time option"

type_synonym environ = "string \<Rightarrow> string"

definition getString :: "environ \<Rightarrow> string \<Rightarrow> string \<Rightarrow> string" where
  "getString env key fallback = (let value = TrimSpace (env key) in if value \<noteq> [] then value else fallback)"

definition getBool :: "environ \<Rightarrow> string \<Rightarrow> bool \<Rightarrow> bool" where
  "getBool env key fallback =
     (let value = TrimSpace (env key)
      in if value = [] then fallback else case ParseBool value of None \<Rightarrow> fallback | Some b \<Rightarrow> b)"

definition set_bool :: "environ \<Rightarrow> string \<Rightarrow> bool option" where
  "set_bool env key = (let value = TrimSpace (env key) in if value \<noteq> [] then ParseBool value else None)"

definition getBoolAny :: "environ \<Rightarrow> string \<Rightarrow> string \<Rightarrow> bool \<Rightarrow> bool" where
  "getBoolAny env key alias fallback =
     (case set_bool env key of
        Some b \<Rightarrow> b
      | None \<Rightarrow>
          (case (if alias \<noteq> [] then set_bool env alias else None) of Some b \<Rightarrow> b | None \<Rightarrow> fallback))"

definition getInt64 :: "environ \<Rightarrow> string \<Rightarrow> int \<Rightarrow> int" where
  "getInt64 env key fallback =
     (let value = TrimSpace (env key)
      in if value = [] then fallback else case ParseInt64 value of None \<Rightarrow> fallback | Some i \<Rightarrow> i)"

definition getDuration :: "time_lib \<Rightarrow> environ \<Rightarrow> string \<Rightarrow> duration \<Rightarrow> duration" where
  "getDuration tm env key fallback =
     (let value = TrimSpace (env key)
      in if value = [] then fallback else case tl_ParseDuration tm value of None \<Rightarrow> fallback | Some d \<Rightarrow> d)"

definition getCSV :: "environ \<Rightarrow> string \<Rightarrow> string list \<Rightarrow> string list" where
  "getCSV env key fallback =
     (let value = TrimSpace (env key)
      in if value = [] then fallback else List.filter (\<lambda>part. part \<noteq> []) (map TrimSpace (Split value CHR '','')))"

definition getTime :: "time_lib \<Rightarrow> environ \<Rightarrow> string \<Rightarrow> time \<Rightarrow> time" where
  "getTime tm env key fallback =
     (let value = TrimSpace (env key)
      in if value = [] then fallback else case tl_ParseRFC3339 tm value of None \<Rightarrow> fallback | Some t \<Rightarrow> t)"

definition base64Secret :: "string \<Rightarrow> string" where
  "base64Secret secret = EncodeToString (map (\<lambda>c. of_nat (of_char c)) secret)"

definition rateLimitFallbackDefault :: "string \<Rightarrow> string" where
  "rateLimitFallbackDefault env = (if env = ''production'' then ''block'' else ''allow'')"

definition read_config :: "time_lib \<Rightarrow> environ \<Rightarrow> Config" where
  "read_config tm env =
     \<lparr>cf_App = \<lparr>ap_Name = getString env ''APP_NAME'' ''be-go-template'',
        ap_Version = getString env ''APP_VERSION'' ''dev'',
        ap_Env = getString env ''APP_ENV'' ''local''\<rparr>,
      cf_HTTP = \<lparr>hc_Addr = getString env ''HTTP_ADDR'' '':8080'',
        hc_ReadTimeout = getDuration tm env ''HTTP_READ_TIMEOUT'' (5 * second),
        hc_WriteTimeout = getDuration tm env ''HTTP_WRITE_TIMEOUT'' (10 * second),
        hc_IdleTimeout = getDuration tm env ''HTTP_IDLE_TIMEOUT'' (60 * second),
        hc_BodyLimitBytes = getInt64 env ''HTTP_BODY_LIMIT_BYTES'' 1048576,
        hc_RouteTimeout = getDuration tm env ''ROUTE_TIMEOUT_DEFAULT'' (5 * second),
        hc_ETagEnabled = getBool env ''ETAG_ENABLED'' True,
        hc_CORSAllowOrigins = getCSV env ''CORS_ALLOWED_ORIGINS'' [''http://localhost:3000'', ''http://localhost:5173'', ''http://127.0.0.1:3000'', ''http://127.0.0.1:5173''],
        hc_CORSAllowMethods = getCSV env ''CORS_ALLOWED_METHODS'' [''GET'', ''POST'', ''PUT'', ''PATCH'', ''DELETE'', ''OPTIONS''],
        hc_CORSAllowHeaders = getCSV env ''CORS_ALLOWED_HEADERS'' [''Authorization'', ''Content-Type'', ''X-Request-ID'', ''X-Trace-ID'', ''X-Span-ID'', ''X-Device-ID'', ''X-Device-Name'']\<rparr>,
      cf_Log = \<lparr>lg_Level = ToLower (getString env ''LOG_LEVEL'' ''info''),
        lg_Format = ToLower (getString env ''LOG_FORMAT'' ''json''),
        lg_FilePath = getString env ''LOG_FILE_PATH'' ''logs/app.log'',
        lg_ToTerminal = getBoolAny env ''LOG_TO_CONSOLE'' ''LOG_TO_TERMINAL'' True,
        lg_ToFile = getBool env ''LOG_TO_FILE'' False,
        lg_MaxSizeMB = getInt64 env ''LOG_MAX_SIZE_MB'' 100,
        lg_MaxBackups = getInt64 env ''LOG_MAX_BACKUPS'' 10,
        lg_MaxAgeDays = getInt64 env ''LOG_MAX_AGE_DAYS'' 30,
        lg_Compress = getBool env ''LOG_COMPRESS'' True\<rparr>,
      cf_JWT = \<lparr>jw_AccessCurrentKey = getString env ''JWT_ACCESS_CURRENT_KEY'' (''local/'' @ base64Secret ''local-access-secret-change-me''),
        jw_AccessPreviousKey = getString env ''JWT_ACCESS_PREVIOUS_KEY'' [],
        jw_PreviousNotAfter = getTime tm env ''JWT_ACCESS_PREVIOUS_NOT_AFTER'' 0,
        jw_AccessTTL = getDuration tm env ''JWT_ACCESS_TTL'' (15 * minute),
        jw_RefreshTTL = getDuration tm env ''JWT_REFRESH_TTL'' (30 * 24 * hour)\<rparr>,
      cf_Mongo = \<lparr>mc_URI = getString env ''MONGO_URI'' ''mongodb://localhost:27017'',
        mc_Database = getString env ''MONGO_DATABASE'' ''be_go_template'',
        mc_MaxPoolSize = getInt64 env ''MONGO_MAX_POOL_SIZE'' 100,
        mc_MinPoolSize = getInt64 env ''MONGO_MIN_POOL_SIZE'' 0,
        mc_ConnectTimeout = getDuration tm env ''MONGO_CONNECT_TIMEOUT'' (10 * second),
        mc_ReadPreference = getString env ''MONGO_READ_PREFERENCE'' ''primary'',
        mc_TransactionsEnabled = getBool env ''MONGO_TRANSACTIONS_ENABLED'' False\<rparr>,
      cf_Redis = \<lparr>rs_Addr = getString env ''REDIS_ADDR'' ''localhost:6379'',
        rs_Password = getString env ''REDIS_PASSWORD'' [],
        rs_DB = getInt64 env ''REDIS_DB'' 0,
        rs_LockPrefix = getString env ''REDIS_LOCK_PREFIX'' ''lock:'',
        rs_TLSEnabled = getBool env ''REDIS_TLS_ENABLED'' False,
        rs_TLSCACert = getString env ''REDIS_TLS_CA_CERT'' [],
        rs_TLSServerName = getString env ''REDIS_TLS_SERVER_NAME'' []\<rparr>,
      cf_RateLimit = \<lparr>rlc_AuthEnabled = getBool env ''AUTH_RATE_LIMIT_ENABLED'' True,
        rlc_LoginPerMinute = getInt64 env ''AUTH_RATE_LIMIT_LOGIN_PER_MINUTE'' 10,
        rlc_RefreshPerMinute = getInt64 env ''AUTH_RATE_LIMIT_REFRESH_PER_MINUTE'' 30,
        rlc_RegisterPerMinute = getInt64 env ''AUTH_RATE_LIMIT_REGISTER_PER_MINUTE'' 5,
        rlc_Fallback = ToLower (getString env ''RATE_LIMIT_FALLBACK'' (rateLimitFallbackDefault (getString env ''APP_ENV'' ''local'')))\<rparr>,
      cf_Auth = \<lparr>au_LockoutMaxFailures = getInt64 env ''AUTH_LOCKOUT_MAX_FAILURES'' 5,
        au_LockoutDuration = getDuration tm env ''AUTH_LOCKOUT_DURATION'' (15 * minute),
        au_BcryptCost = getInt64 env ''BCRYPT_COST'' DefaultCost,
        au_RefreshIPAnomalyAction = ToLower (getString env ''AUTH_REFRESH_IP_ANOMALY_ACTION'' ''audit'')\<rparr>,
      cf_Monitoring = \<lparr>mt_Enabled = getBool env ''MONITORING_ENABLED'' True,
        mt_AdminRoles = getCSV env ''MONITORING_ADMIN_ROLES'' [''admin''],
        mt_MetricsCollectInterval = getDuration tm env ''METRICS_COLLECT_INTERVAL'' (30 * second)\<rparr>,
      cf_Errors = \<lparr>er_IncludeStack = getBool env ''ERROR_INCLUDE_STACK'' (getString env ''APP_ENV'' ''local'' \<noteq> ''production'')\<rparr>,
      cf_Outbox = \<lparr>ox_Enabled = getBool env ''OUTBOX_ENABLED'' True,
        ox_DrainInterval = getDuration tm env ''OUTBOX_DRAIN_INTERVAL'' (5 * second),
        ox_BatchSize = getInt64 env ''OUTBOX_BATCH_SIZE'' 10,
        ox_DefaultMaxRetries = getInt64 env ''OUTBOX_MAX_RETRIES'' 10,
        ox_RetryDelay = getDuration tm env ''OUTBOX_RETRY_DELAY'' minute\<rparr>,
      cf_Metrics = \<lparr>mx_Enabled = getBoolAny env ''PROMETHEUS_ENABLED'' ''METRICS_ENABLED'' True,
        mx_Path = getString env ''PROMETHEUS_PATH'' (getString env ''METRICS_PATH'' ''/metrics'')\<rparr>,
      cf_Readiness = \<lparr>rdc_Timeout = getDuration tm env ''READY_TIMEOUT'' (2 * second),
        rdc_RequiresRedis = getBool env ''READY_REQUIRES_REDIS'' (getString env ''APP_ENV'' ''local'' = ''production''),
        rdc_MongoDegradedThreshold = getDuration tm env ''MONGO_DEGRADED_THRESHOLD'' (500 * millisecond),
        rdc_RedisDegradedThreshold = getDuration tm env ''REDIS_DEGRADED_THRESHOLD'' (200 * millisecond)\<rparr>\<rparr>"

section \<open>Validation\<close>

definition validateJWTKey :: "string \<Rightarrow> string \<Rightarrow> err option" where
  "validateJWTKey value field =
     (let parts = SplitN2 (TrimSpace value) CHR ''/''
      in if length parts \<noteq> 2 \<or> parts ! 0 = [] \<or> parts ! 1 = []
         then Some (Errorf (field @ '' must use <key-id>/<base64-secret> format'') None)
         else case DecodeString (parts ! 1) of
                None \<Rightarrow> Some (Errorf (field @ '' must contain valid base64 secret'') None)
              | Some secret \<Rightarrow>
                  if length secret < 16 then Some (Errorf (field @ '' secret must be at least 16 bytes'') None) else None)"

text \<open>The conditions of \<open>Validate\<close> in the order of the source: the first that holds is the error.\<close>

fun first_of :: "(bool \<times> string) list \<Rightarrow> err option" where
  "first_of [] = None"
| "first_of ((bad, msg) # rest) = (if bad then Some (Errorf msg None) else first_of rest)"

definition MinCost :: int where "MinCost = 4"
definition MaxCost :: int where "MaxCost = 31"

definition validate_server :: "Config \<Rightarrow> err option" where
  "validate_server cfg = first_of
     [(ap_Name (cf_App cfg) = [], ''APP_NAME must not be empty''),
      (ap_Env (cf_App cfg) = ''production'' \<and> hc_CORSAllowOrigins (cf_HTTP cfg) = [], ''CORS_ALLOWED_ORIGINS is required in production''),
      (ap_Env (cf_App cfg) = ''production'' \<and> list_ex (\<lambda>origin. Contains origin ''*'') (hc_CORSAllowOrigins (cf_HTTP cfg)),
         ''CORS_ALLOWED_ORIGINS must not contain wildcard in production''),
      (hc_BodyLimitBytes (cf_HTTP cfg) \<le> 0, ''HTTP_BODY_LIMIT_BYTES must be positive''),
      (hc_ReadTimeout (cf_HTTP cfg) \<le> 0, ''HTTP_READ_TIMEOUT must be positive''),
      (hc_WriteTimeout (cf_HTTP cfg) \<le> 0, ''HTTP_WRITE_TIMEOUT must be positive''),
      (hc_IdleTimeout (cf_HTTP cfg) \<le> 0, ''HTTP_IDLE_TIMEOUT must be positive''),
      (hc_RouteTimeout (cf_HTTP cfg) \<le> 0, ''ROUTE_TIMEOUT_DEFAULT must be positive''),
      (mc_MaxPoolSize (cf_Mongo cfg) \<le> 0, ''MONGO_MAX_POOL_SIZE must be positive''),
      (mc_MinPoolSize (cf_Mongo cfg) < 0, ''MONGO_MIN_POOL_SIZE must not be negative''),
      (mc_MinPoolSize (cf_Mongo cfg) > mc_MaxPoolSize (cf_Mongo cfg), ''MONGO_MIN_POOL_SIZE must not exceed MONGO_MAX_POOL_SIZE''),
      (mc_ReadPreference (cf_Mongo cfg) \<notin> {''primary'', ''primaryPreferred'', ''secondary'', ''secondaryPreferred'', ''nearest''},
         ''MONGO_READ_PREFERENCE must be one of primary, primaryPreferred, secondary, secondaryPreferred, nearest''),
      (lg_Level (cf_Log cfg) \<notin> {''debug'', ''info'', ''warn'', ''error''}, ''LOG_LEVEL must be one of debug, info, warn, error''),
      (lg_Format (cf_Log cfg) \<notin> {''json'', ''text''}, ''LOG_FORMAT must be json or text''),
      (\<not> lg_ToTerminal (cf_Log cfg) \<and> \<not> lg_ToFile (cf_Log cfg), ''at least one log output must be enabled''),
      (lg_ToFile (cf_Log cfg) \<and> lg_FilePath (cf_Log cfg) = [], ''LOG_FILE_PATH must not be empty when file logging is enabled''),
      (lg_ToFile (cf_Log cfg) \<and> lg_MaxSizeMB (cf_Log cfg) \<le> 0, ''LOG_MAX_SIZE_MB must be positive''),
      (lg_ToFile (cf_Log cfg) \<and> lg_MaxBackups (cf_Log cfg) < 0, ''LOG_MAX_BACKUPS must not be negative''),
      (lg_ToFile (cf_Log cfg) \<and> lg_MaxAgeDays (cf_Log cfg) < 0, ''LOG_MAX_AGE_DAYS must not be negative''),
      (jw_AccessCurrentKey (cf_JWT cfg) = [], ''JWT_ACCESS_CURRENT_KEY must not be empty'')]"

text \<open>The signing keys; the clock is read only when there is a previous key that is well-formed.\<close>

definition validate_keys :: "Config \<Rightarrow> ('m, 'r, err option) M" where
  "validate_keys cfg =
     (case validateJWTKey (jw_AccessCurrentKey (cf_JWT cfg)) ''JWT_ACCESS_CURRENT_KEY'' of
        Some e \<Rightarrow> ret (Some e)
      | None \<Rightarrow>
          if TrimSpace (jw_AccessPreviousKey (cf_JWT cfg)) = [] then ret None
          else case validateJWTKey (jw_AccessPreviousKey (cf_JWT cfg)) ''JWT_ACCESS_PREVIOUS_KEY'' of
            Some e \<Rightarrow> ret (Some e)
          | None \<Rightarrow>
              if IsZero (jw_PreviousNotAfter (cf_JWT cfg))
              then ret (Some (Errorf ''JWT_ACCESS_PREVIOUS_NOT_AFTER must be set when JWT_ACCESS_PREVIOUS_KEY is configured'' None))
              else do {
                now \<leftarrow> time_Now;
                ret (if \<not> After (jw_PreviousNotAfter (cf_JWT cfg)) now
                     then Some (Errorf ''JWT_ACCESS_PREVIOUS_NOT_AFTER must be in the future when JWT_ACCESS_PREVIOUS_KEY is configured'' None)
                     else None)
              })"

definition validate_rest :: "Config \<Rightarrow> err option" where
  "validate_rest cfg = first_of
     [(jw_AccessTTL (cf_JWT cfg) \<le> 0, ''JWT_ACCESS_TTL must be positive''),
      (jw_RefreshTTL (cf_JWT cfg) \<le> 0, ''JWT_REFRESH_TTL must be positive''),
      (mc_URI (cf_Mongo cfg) = [], ''MONGO_URI must not be empty''),
      (mc_Database (cf_Mongo cfg) = [], ''MONGO_DATABASE must not be empty''),
      (mc_ConnectTimeout (cf_Mongo cfg) \<le> 0, ''MONGO_CONNECT_TIMEOUT must be positive''),
      (rs_Addr (cf_Redis cfg) = [], ''REDIS_ADDR must not be empty''),
      (rs_DB (cf_Redis cfg) < 0, ''REDIS_DB must not be negative''),
      (rlc_LoginPerMinute (cf_RateLimit cfg) < 0 \<or> rlc_RefreshPerMinute (cf_RateLimit cfg) < 0 \<or> rlc_RegisterPerMinute (cf_RateLimit cfg) < 0,
         ''auth rate limit values must not be negative''),
      (au_LockoutMaxFailures (cf_Auth cfg) < 0, ''AUTH_LOCKOUT_MAX_FAILURES must not be negative''),
      (au_LockoutMaxFailures (cf_Auth cfg) > 0 \<and> au_LockoutDuration (cf_Auth cfg) \<le> 0,
         ''AUTH_LOCKOUT_DURATION must be positive when lockout is enabled''),
      (au_BcryptCost (cf_Auth cfg) < MinCost \<or> au_BcryptCost (cf_Auth cfg) > MaxCost, ''BCRYPT_COST must be between 4 and 31''),
      (au_RefreshIPAnomalyAction (cf_Auth cfg) \<notin> {''audit'', ''revoke''}, ''AUTH_REFRESH_IP_ANOMALY_ACTION must be audit or revoke''),
      (mt_AdminRoles (cf_Monitoring cfg) = [], ''MONITORING_ADMIN_ROLES must not be empty''),
      (mt_MetricsCollectInterval (cf_Monitoring cfg) \<le> 0, ''METRICS_COLLECT_INTERVAL must be positive''),
      (ox_DrainInterval (cf_Outbox cfg) \<le> 0, ''OUTBOX_DRAIN_INTERVAL must be positive''),
      (ox_BatchSize (cf_Outbox cfg) \<le> 0, ''OUTBOX_BATCH_SIZE must be positive''),
      (ox_DefaultMaxRetries (cf_Outbox cfg) \<le> 0, ''OUTBOX_MAX_RETRIES must be positive''),
      (ox_RetryDelay (cf_Outbox cfg) \<le> 0, ''OUTBOX_RETRY_DELAY must be positive''),
      (rlc_Fallback (cf_RateLimit cfg) \<notin> {''allow'', ''block''}, ''RATE_LIMIT_FALLBACK must be allow or block''),
      (mx_Enabled (cf_Metrics cfg) \<and> (mx_Path (cf_Metrics cfg) = [] \<or> \<not> HasPrefix (mx_Path (cf_Metrics cfg)) ''/''),
         ''METRICS_PATH must start with /''),
      (rdc_Timeout (cf_Readiness cfg) \<le> 0, ''READY_TIMEOUT must be positive''),
      (rdc_MongoDegradedThreshold (cf_Readiness cfg) \<le> 0, ''MONGO_DEGRADED_THRESHOLD must be positive''),
      (rdc_RedisDegradedThreshold (cf_Readiness cfg) \<le> 0, ''REDIS_DEGRADED_THRESHOLD must be positive'')]"

definition Config_Validate :: "Config \<Rightarrow> ('m, 'r, err option) M" where
  "Config_Validate cfg =
     (case validate_server cfg of
        Some e \<Rightarrow> ret (Some e)
      | None \<Rightarrow> do {
          k \<leftarrow> validate_keys cfg;
          ret (case k of Some e \<Rightarrow> Some e | None \<Rightarrow> validate_rest cfg)
        })"

definition Load :: "time_lib \<Rightarrow> environ \<Rightarrow> ('m, 'r, err + Config) M" where
  "Load tm env = do {
     let cfg = read_config tm env;
     e \<leftarrow> Config_Validate cfg;
     ret (case e of Some err \<Rightarrow> Inl err | None \<Rightarrow> Inr cfg)
   }"

section \<open>Lemmas\<close>

lemma first_of_None: "first_of cs = None \<longleftrightarrow> (\<forall>(bad, msg) \<in> set cs. \<not> bad)"
  by (induction cs rule: first_of.induct) auto

text \<open>The check of a key and its parser in the token service accept the same keys.\<close>

lemma validateJWTKey_ParseJWTKey: "validateJWTKey value field = None \<longleftrightarrow> (\<exists>k. ParseJWTKey value na = Inr k)"
  by (auto simp: validateJWTKey_def ParseJWTKey_def Let_def split: option.splits)

end
