(* ===== verification/Router.thy ===== *)
theory Router
  imports Handlers Config
begin

text \<open>
  \<open>internal/handler/http/router.go\<close>: the routes, the middleware around them and the rate limits of the
  authentication routes.

  The matching of a path to a route is the framework's: \<open>rq_FullPath\<close> is the route it matched, and the
  table of routes is searched for it. A request without a route passes the same middleware and gets
  404. The framework panics while the router is built when a route conflicts with an earlier one; its
  registration is a parameter, with the contract \<open>gin_registration\<close>. The Prometheus handler is a
  parameter.
\<close>

record ('m, 'r) RouterDependencies =
  dep_AuthService :: "('m, 'r) AuthServiceI option"
  dep_UserService :: "(ctx \<Rightarrow> string \<Rightarrow> ('m, 'r, err + User option) M) option"
  dep_TokenService :: "('m, 'r) TokenServiceI option"
  dep_Sessions :: "('m, 'r) SessionRepository option"
  dep_Monitoring :: "('m, 'r) MonitoringI option"
  dep_ErrorEvents :: "('m, 'r) ErrorEventReporter option"
  dep_HTTPMetrics :: bool
  dep_RateLimiter :: "('m, 'r) Limiter option"
  dep_MetricsHandler :: "('m, 'r) handler option"
  dep_Readiness :: "('m, 'r) DependencyChecker option"

section \<open>Health\<close>

definition healthz :: "('m, 'r) handler" where
  "healthz c = do { now \<leftarrow> time_Now; ret (OK c (PHealth now)) }"

definition readyz_envelope :: "bool \<Rightarrow> HealthLevel \<Rightarrow> DependencyStatus \<Rightarrow> envelope" where
  "readyz_envelope ready status dependencies =
     \<lparr>en_Success = ready, en_RequestID = None, en_Data = Some (PReadiness status dependencies), en_Error = None\<rparr>"

definition readyz :: "('m, 'r) DependencyChecker option \<Rightarrow> ('m, 'r) handler" where
  "readyz checker c =
     (case checker of
        None \<Rightarrow> do {
          t1 \<leftarrow> time_Now;
          t2 \<leftarrow> time_Now;
          ret (emit (OJSON 503 (readyz_envelope False Unhealthy
            \<lparr>ds_MongoDB = failed_check ''readiness checker not configured'' t1,
             ds_Redis = failed_check ''readiness checker not configured'' t2\<rparr>)) c)
        }
      | Some chk \<Rightarrow> do {
          d \<leftarrow> chk (g_ctx c);
          let ready = snd d;
          ret (emit (OJSON (if ready then 200 else 503) (readyz_envelope ready (overall d) (fst d))) c)
        })"

section \<open>Rate limits of the authentication routes\<close>

definition ipRateLimitKey :: "string \<Rightarrow> gctx \<Rightarrow> string" where
  "ipRateLimitKey pref c = pref @ '':ip:'' @ rq_ClientIP (g_Request c)"

definition jsonBodyField :: "http_lib \<Rightarrow> gctx \<Rightarrow> string \<Rightarrow> string" where
  "jsonBodyField hl c field =
     (case rq_body (g_Request c) of
        None \<Rightarrow> []
      | Some (Inl e) \<Rightarrow> []
      | Some (Inr body) \<Rightarrow>
          (case hl_unmarshal_map hl body of
             Inl e \<Rightarrow> []
           | Inr members \<Rightarrow> (case members field of None \<Rightarrow> [] | Some value \<Rightarrow> ToLower (TrimSpace value))))"

definition jsonFieldRateLimitKey :: "http_lib \<Rightarrow> string \<Rightarrow> string \<Rightarrow> gctx \<Rightarrow> string" where
  "jsonFieldRateLimitKey hl pref field c =
     (let value = jsonBodyField hl c field
      in if value = [] then pref @ '':ip:'' @ rq_ClientIP (g_Request c)
         else pref @ '':ip:'' @ rq_ClientIP (g_Request c) @ '':'' @ field @ '':'' @ value)"

definition auth_policy :: "Config \<Rightarrow> int \<Rightarrow> (gctx \<Rightarrow> string) \<Rightarrow> RateLimitPolicy" where
  "auth_policy cfg limit keyFunc =
     \<lparr>rp_Enabled = rlc_AuthEnabled (cf_RateLimit cfg), rp_Limit = limit, rp_Window = minute,
      rp_Fallback = rlc_Fallback (cf_RateLimit cfg), rp_KeyFunc = Some keyFunc\<rparr>"

record ('m, 'r) AuthRouteMiddleware =
  am_Register :: "('m, 'r) middleware list"
  am_Login :: "('m, 'r) middleware list"
  am_Refresh :: "('m, 'r) middleware list"
  am_Protected :: "('m, 'r) middleware list"

definition authRouteMiddleware ::
  "http_lib \<Rightarrow> Config \<Rightarrow> ('m, 'r) Limiter option \<Rightarrow> ('m, 'r) TokenServiceI option \<Rightarrow> ('m, 'r) SessionRepository option
     \<Rightarrow> ('m, 'r) AuthRouteMiddleware" where
  "authRouteMiddleware hl cfg limiter tokens sessions =
     \<lparr>am_Register = [RateLimit limiter (auth_policy cfg (rlc_RegisterPerMinute (cf_RateLimit cfg)) (ipRateLimitKey ''auth:register''))],
      am_Login = [RateLimit limiter (auth_policy cfg (rlc_LoginPerMinute (cf_RateLimit cfg)) (jsonFieldRateLimitKey hl ''auth:login'' ''email''))],
      am_Refresh = [RateLimit limiter (auth_policy cfg (rlc_RefreshPerMinute (cf_RateLimit cfg)) (ipRateLimitKey ''auth:refresh''))],
      am_Protected = [Authenticate (hl_stack hl) tokens sessions]\<rparr>"

section \<open>Routes\<close>

type_synonym ('m, 'r) routes = "((string \<times> string) \<times> ('m, 'r) handler) list"

definition auth_routes :: "http_lib \<Rightarrow> bool \<Rightarrow> ('m, 'r) AuthRouteMiddleware \<Rightarrow> ('m, 'r) AuthServiceI \<Rightarrow> ('m, 'r) routes" where
  "auth_routes hl etag am h =
     [((''POST'', ''/v1/auth/register''), chain (am_Register am) (http_Register hl h)),
      ((''POST'', ''/v1/auth/login''), chain (am_Login am) (http_Login hl h)),
      ((''POST'', ''/v1/auth/refresh''), chain (am_Refresh am) (http_Refresh hl h)),
      ((''POST'', ''/v1/auth/logout''), chain (am_Protected am) (http_Logout hl h)),
      ((''POST'', ''/v1/auth/logout-all''), chain (am_Protected am) (http_LogoutAll hl h)),
      ((''GET'', ''/v1/auth/devices''), chain (am_Protected am) (http_ListDevices hl etag h)),
      ((''GET'', ''/v1/auth/login-history''), chain (am_Protected am) (http_ListLoginHistory hl h))]"

definition user_routes ::
  "http_lib \<Rightarrow> bool \<Rightarrow> ('m, 'r) middleware list \<Rightarrow> (ctx \<Rightarrow> string \<Rightarrow> ('m, 'r, err + User option) M) \<Rightarrow> ('m, 'r) routes" where
  "user_routes hl etag ms getMe = [((''GET'', ''/v1/users/me''), chain ms (http_GetMe hl etag getMe))]"

definition monitoring_routes :: "http_lib \<Rightarrow> ('m, 'r) middleware list \<Rightarrow> ('m, 'r) MonitoringI \<Rightarrow> ('m, 'r) routes" where
  "monitoring_routes hl ms h =
     [((''GET'', ''/v1/admin/monitoring/status''), chain ms (http_SystemStatus h)),
      ((''GET'', ''/v1/admin/monitoring/dependencies''), chain ms (http_Dependencies h)),
      ((''GET'', ''/v1/admin/monitoring/runtime''), chain ms (http_Runtime h)),
      ((''GET'', ''/v1/admin/monitoring/auth-stats''), chain ms (http_AuthStats hl h)),
      ((''GET'', ''/v1/admin/monitoring/errors''), chain ms (http_Errors hl h)),
      ((''GET'', ''/v1/admin/monitoring/audit-logs''), chain ms (http_AuditLogs hl h))]"

text \<open>The routes outside \<open>/v1\<close>.\<close>

definition system_routes :: "('m, 'r) handler \<Rightarrow> Config \<Rightarrow> ('m, 'r) RouterDependencies \<Rightarrow> ('m, 'r) routes" where
  "system_routes promhttp cfg deps =
     [((''GET'', ''/healthz''), healthz), ((''GET'', ''/readyz''), readyz (dep_Readiness deps))] @
     (if mx_Enabled (cf_Metrics cfg)
      then [((''GET'', mx_Path (cf_Metrics cfg)), case dep_MetricsHandler deps of Some h \<Rightarrow> h | None \<Rightarrow> promhttp)] else [])"

definition v1_routes :: "http_lib \<Rightarrow> Config \<Rightarrow> ('m, 'r) RouterDependencies \<Rightarrow> ('m, 'r) routes" where
  "v1_routes hl cfg deps =
     (let etag = hc_ETagEnabled (cf_HTTP cfg);
          authenticate = Authenticate (hl_stack hl) (dep_TokenService deps) (dep_Sessions deps) in
      (case dep_AuthService deps of
         None \<Rightarrow> []
       | Some h \<Rightarrow> auth_routes hl etag (authRouteMiddleware hl cfg (dep_RateLimiter deps) (dep_TokenService deps) (dep_Sessions deps)) h) @
      (case dep_UserService deps of None \<Rightarrow> [] | Some getMe \<Rightarrow> user_routes hl etag [authenticate] getMe) @
      (case dep_Monitoring deps of
         None \<Rightarrow> []
       | Some h \<Rightarrow>
           if mt_Enabled (cf_Monitoring cfg)
           then monitoring_routes hl [authenticate, AdminGuard (mt_AdminRoles (cf_Monitoring cfg))] h else []))"

text \<open>
  The middleware of every request. A new collector for the HTTP metrics can fail to register, which
  the source only logs: \<open>registered\<close> says whether it did.
\<close>

definition global_middleware :: "http_lib \<Rightarrow> bool \<Rightarrow> Config \<Rightarrow> ('m, 'r) RouterDependencies \<Rightarrow> ('m, 'r) middleware list" where
  "global_middleware hl registered cfg deps =
     [Recovery, RequestID_mw,
      CORS (hc_CORSAllowOrigins (cf_HTTP cfg)) (hc_CORSAllowMethods (cf_HTTP cfg)) (hc_CORSAllowHeaders (cf_HTTP cfg)),
      BodyLimit (hc_BodyLimitBytes (cf_HTTP cfg)),
      Timeout (hc_RouteTimeout (cf_HTTP cfg))] @
     (if mx_Enabled (cf_Metrics cfg)
      then [Metrics (dep_HTTPMetrics deps \<or> registered) (mx_Path (cf_Metrics cfg))] else []) @
     [Logging, ErrorHandler (hl_stack hl) (dep_ErrorEvents deps)]"

definition not_found :: "('m, 'r) handler" where
  "not_found c = ret (emit (OWriteStatus 404) c)"

text \<open>\<open>NewRouterWithDependencies\<close>, as the handler of a request that the framework has matched.\<close>

definition NewRouterWithDependencies ::
  "http_lib \<Rightarrow> ('m, 'r) handler \<Rightarrow> bool \<Rightarrow> Config \<Rightarrow> ('m, 'r) RouterDependencies \<Rightarrow> ('m, 'r) handler" where
  "NewRouterWithDependencies hl promhttp registered cfg deps c =
     chain (global_middleware hl registered cfg deps)
       (case map_of (system_routes promhttp cfg deps @ v1_routes hl cfg deps)
               (rq_Method (g_Request c), rq_FullPath (g_Request c)) of
          Some h \<Rightarrow> h
        | None \<Rightarrow> not_found) c"

section \<open>Registration\<close>

text \<open>The routes in the order in which \<open>NewRouterWithDependencies\<close> registers them.\<close>

definition registered_routes ::
  "http_lib \<Rightarrow> ('m, 'r) handler \<Rightarrow> Config \<Rightarrow> ('m, 'r) RouterDependencies \<Rightarrow> (string \<times> string) list" where
  "registered_routes hl promhttp cfg deps = map fst (system_routes promhttp cfg deps @ v1_routes hl cfg deps)"

text \<open>A path without parameters, wildcards and segments that the framework cleans away.\<close>

definition plain_path :: "string \<Rightarrow> bool" where
  "plain_path path \<longleftrightarrow> HasPrefix path ''/'' \<and> list_all (\<lambda>c. c \<noteq> CHR '':'' \<and> c \<noteq> CHR ''*'' \<and> c \<noteq> CHR ''.'') path \<and> \<not> Contains path ''//''"

text \<open>
  The framework's registration of a list of routes: \<open>Some\<close> is the message it panics with. A second
  handler for a method and path is refused; routes with different plain paths never conflict.
\<close>

locale gin_registration =
  fixes register :: "(string \<times> string) list \<Rightarrow> string option"
  assumes duplicate_panics: "\<not> distinct rs \<Longrightarrow> register rs \<noteq> None"
    and plain_registered: "distinct rs \<Longrightarrow> list_all (\<lambda>r. plain_path (snd r)) rs \<Longrightarrow> register rs = None"
begin

lemma plain_routes: "list_all (\<lambda>r. plain_path (snd r)) rs \<Longrightarrow> register rs = None \<longleftrightarrow> distinct rs"
  using duplicate_panics plain_registered by blast

end

definition mem_gin :: "(string \<times> string) list \<Rightarrow> string option" where
  "mem_gin rs = (if distinct rs \<and> list_all (\<lambda>r. plain_path (snd r)) rs then None else Some ''conflict'')"

interpretation mem_gin: gin_registration mem_gin
  by unfold_locales (auto simp: mem_gin_def)

end
