(* ===== verification/RouterProperties.thy ===== *)
theory RouterProperties
  imports Router
begin

text \<open>
  What the HTTP layer guarantees: every request is answered, with at most one body, and the handlers
  behind a guard are out of reach for a request whose token the guard does not accept.
\<close>

section \<open>Results of computations\<close>

definition gives :: "('s, 'a) state \<Rightarrow> ('a \<Rightarrow> bool) \<Rightarrow> bool" where
  "gives m Q \<longleftrightarrow> (\<forall>s. Q (fst (run_state m s)))"

named_theorems gives_intros \<open>rules for the results of computations\<close>

lemma gives_ret [gives_intros]: "Q x \<Longrightarrow> gives (ret x) Q"
  by (simp add: gives_def)

lemma gives_bind: "gives m P \<Longrightarrow> (\<And>a. P a \<Longrightarrow> gives (f a) Q) \<Longrightarrow> gives (State_Monad.bind m f) Q"
  unfolding gives_def by (simp split: prod.splits) (metis fst_conv)

lemma gives_bind_any [gives_intros]: "(\<And>a. gives (f a) Q) \<Longrightarrow> gives (State_Monad.bind m f) Q"
  unfolding gives_def by (simp split: prod.splits)

lemma gives_mono: "gives m P \<Longrightarrow> (\<And>x. P x \<Longrightarrow> Q x) \<Longrightarrow> gives m Q"
  by (simp add: gives_def)

lemma gives_if [gives_intros]: "(b \<Longrightarrow> gives m Q) \<Longrightarrow> (\<not> b \<Longrightarrow> gives n Q) \<Longrightarrow> gives (if b then m else n) Q"
  by simp

lemma gives_case_sum [gives_intros]:
  "(\<And>e. x = Inl e \<Longrightarrow> gives (f e) Q) \<Longrightarrow> (\<And>v. x = Inr v \<Longrightarrow> gives (g v) Q) \<Longrightarrow> gives (case x of Inl e \<Rightarrow> f e | Inr v \<Rightarrow> g v) Q"
  by (cases x) simp_all

lemma gives_case_option [gives_intros]:
  "(x = None \<Longrightarrow> gives m Q) \<Longrightarrow> (\<And>v. x = Some v \<Longrightarrow> gives (g v) Q) \<Longrightarrow> gives (case x of None \<Rightarrow> m | Some v \<Rightarrow> g v) Q"
  by (cases x) simp_all

lemma gives_let [gives_intros]: "(\<And>x. x = t \<Longrightarrow> gives (f x) Q) \<Longrightarrow> gives (Let t f) Q"
  by simp

text \<open>Two continuations that agree on the results make the same computation.\<close>

lemma bind_cong_results:
  "(\<And>s. f (fst (run_state m s)) = g (fst (run_state m s))) \<Longrightarrow> State_Monad.bind m f = State_Monad.bind m g"
  by (rule state.expand) (simp add: fun_eq_iff split: prod.splits, metis fst_conv)

section \<open>Every request is answered\<close>

definition bodies :: "gctx \<Rightarrow> nat" where
  "bodies c = length (List.filter is_written (g_out c))"

text \<open>
  A context before an answer; one with an answer (a body or a written status, or the status 304,
  which has no body); and one whose answer is left to the middleware: an error was attached, or the
  handler panicked.
\<close>

definition unanswered :: "gctx \<Rightarrow> bool" where
  "unanswered c \<longleftrightarrow> bodies c = 0 \<and> \<not> g_panic c \<and> g_Errors c = []"

definition answered :: "gctx \<Rightarrow> bool" where
  "answered c \<longleftrightarrow> \<not> g_panic c \<and> (bodies c = 1 \<or> bodies c = 0 \<and> OStatus 304 \<in> set (g_out c))"

definition deferred :: "gctx \<Rightarrow> bool" where
  "deferred c \<longleftrightarrow> bodies c = 0 \<and> (g_panic c \<or> g_Errors c \<noteq> [])"

definition panicked :: "gctx \<Rightarrow> bool" where
  "panicked c \<longleftrightarrow> bodies c = 0 \<and> g_panic c"

text \<open>Handlers that answer or defer, and handlers that answer or panic.\<close>

definition replies :: "('m, 'r) handler \<Rightarrow> bool" where
  "replies h \<longleftrightarrow> (\<forall>c. unanswered c \<longrightarrow> gives (h c) (\<lambda>c'. answered c' \<or> deferred c'))"

definition settles :: "('m, 'r) handler \<Rightarrow> bool" where
  "settles h \<longleftrightarrow> (\<forall>c. unanswered c \<longrightarrow> gives (h c) (\<lambda>c'. answered c' \<or> panicked c'))"

lemma bodies_panic [simp]: "bodies (c\<lparr>g_panic := b\<rparr>) = bodies c"
  by (simp add: bodies_def)

lemma Written_bodies: "Written c \<longleftrightarrow> 0 < bodies c"
  by (auto simp: Written_def bodies_def list_ex_iff filter_empty_conv)

lemma emit_simps [simp]:
  "bodies (emit x c) = bodies c + (if is_written x then 1 else 0)" "g_panic (emit x c) = g_panic c"
  "g_Errors (emit x c) = g_Errors c" "g_Request (emit x c) = g_Request c" "g_keys (emit x c) = g_keys c"
  "g_out (emit x c) = g_out c @ [x]"
  by (simp_all add: emit_def bodies_def)

lemma gin_Set_simps [simp]:
  "bodies (gin_Set k v c) = bodies c" "g_panic (gin_Set k v c) = g_panic c" "g_Errors (gin_Set k v c) = g_Errors c"
  "g_Request (gin_Set k v c) = g_Request c" "g_out (gin_Set k v c) = g_out c" "g_keys (gin_Set k v c) = (g_keys c)(k \<mapsto> v)"
  by (simp_all add: gin_Set_def bodies_def)

lemma WithValue_simps [simp]:
  "bodies (WithValue k v c) = bodies c" "g_panic (WithValue k v c) = g_panic c" "g_Errors (WithValue k v c) = g_Errors c"
  "g_out (WithValue k v c) = g_out c" "g_keys (WithValue k v c) = g_keys c"
  "rq_Header (g_Request (WithValue k v c)) = rq_Header (g_Request c)" "rq_ctx (g_Request (WithValue k v c)) = rq_ctx (g_Request c)"
  "rq_Method (g_Request (WithValue k v c)) = rq_Method (g_Request c)" "rq_FullPath (g_Request (WithValue k v c)) = rq_FullPath (g_Request c)"
  by (simp_all add: WithValue_def bodies_def)

lemma reply_simps [simp]:
  "bodies (OK c p) = Suc (bodies c)" "g_panic (OK c p) = g_panic c"
  "bodies (Created c p) = Suc (bodies c)" "g_panic (Created c p) = g_panic c"
  "bodies (http_Error st c e) = Suc (bodies c)" "g_panic (http_Error st c e) = g_panic c"
  "bodies (writeError c a) = Suc (bodies c)" "g_panic (writeError c a) = g_panic c"
  "bodies (reportContextError c e) = bodies c" "g_Errors (reportContextError c e) = g_Errors c @ [e]"
  "g_panic (reportContextError c e) = g_panic c"
  by (simp_all add: OK_def Created_def http_Error_def writeError_def reportContextError_def Let_def bodies_def emit_def)

lemma answered_reply [simp]:
  "unanswered c \<Longrightarrow> answered (OK c p)" "unanswered c \<Longrightarrow> answered (Created c p)"
  "unanswered c \<Longrightarrow> answered (http_Error st c e)" "unanswered c \<Longrightarrow> answered (writeError c a)"
  "unanswered c \<Longrightarrow> deferred (reportContextError c e)" "unanswered c \<Longrightarrow> is_written x \<Longrightarrow> answered (emit x c)"
  by (simp_all add: unanswered_def answered_def deferred_def)

lemma unanswered_context [simp]:
  "unanswered (gin_Set k v c) = unanswered c" "unanswered (WithValue k v c) = unanswered c"
  "unanswered (emit (OHeader k' v') c) = unanswered c" "unanswered (setAuthContext claims c) = unanswered c"
  "unanswered (c\<lparr>g_Request := r\<rparr>) = unanswered c"
  by (simp_all add: unanswered_def setAuthContext_def Let_def bodies_def)

lemma deferred_panic: "unanswered c \<Longrightarrow> deferred (c\<lparr>g_panic := True\<rparr>)"
  by (simp add: unanswered_def deferred_def bodies_def)

subsection \<open>Handlers\<close>

lemma repliesI: "(\<And>c. unanswered c \<Longrightarrow> gives (h c) (\<lambda>c'. answered c' \<or> deferred c')) \<Longrightarrow> replies h"
  by (simp add: replies_def)

lemma repliesD: "replies h \<Longrightarrow> unanswered c \<Longrightarrow> gives (h c) (\<lambda>c'. answered c' \<or> deferred c')"
  by (simp add: replies_def)

lemma settlesI: "(\<And>c. unanswered c \<Longrightarrow> gives (h c) (\<lambda>c'. answered c' \<or> panicked c')) \<Longrightarrow> settles h"
  by (simp add: settles_def)

lemma settlesD: "settles h \<Longrightarrow> unanswered c \<Longrightarrow> gives (h c) (\<lambda>c'. answered c' \<or> panicked c')"
  by (simp add: settles_def)

lemma etag_replies:
  assumes "unanswered c"
  shows "answered (case WriteETagOrNotModified hl b c p of (c1, True) \<Rightarrow> c1 | (c1, False) \<Rightarrow> OK c1 p')"
  using assms by (simp add: WriteETagOrNotModified_def Let_def unanswered_def answered_def)

lemmas auth_handler_defs = http_Register_def http_Login_def http_Refresh_def http_Logout_def http_LogoutAll_def
  http_ListDevices_def http_ListLoginHistory_def

lemma auth_handlers_reply:
  "replies (http_Register hl h)" "replies (http_Login hl h)" "replies (http_Refresh hl h)" "replies (http_Logout hl h)"
  "replies (http_LogoutAll hl h)" "replies (http_ListDevices hl b h)" "replies (http_ListLoginHistory hl h)"
  by (auto intro!: repliesI gives_intros etag_replies simp: auth_handler_defs split: sum.splits option.splits)

lemma http_GetMe_replies: "replies (http_GetMe hl b getMe)"
  by (auto intro!: repliesI gives_intros etag_replies simp: http_GetMe_def deferred_panic Let_def split: sum.splits option.splits)

lemma answer_replies: "unanswered c \<Longrightarrow> answered (answer c f r) \<or> deferred (answer c f r)"
  by (cases r) (simp_all add: answer_def)

lemma monitoring_handlers_reply:
  "replies (http_SystemStatus m)" "replies (http_Dependencies m)" "replies (http_Runtime m)" "replies (http_AuthStats hl m)"
  "replies (http_Errors hl m)" "replies (http_AuditLogs hl m)"
  by (auto intro!: repliesI gives_intros answer_replies simp: http_SystemStatus_def http_Dependencies_def http_Runtime_def
      http_AuthStats_def http_Errors_def http_AuditLogs_def)

lemma system_handlers_reply: "replies healthz" "replies (readyz chk)" "replies not_found"
  by (auto intro!: repliesI gives_intros simp: healthz_def readyz_def not_found_def)

subsection \<open>Middleware\<close>

lemma guards_reply:
  assumes "replies h"
  shows "replies (Authenticate st tokens sessions h)" "replies (AdminGuard roles h)" "replies (RateLimit limiter policy h)"
  using repliesD [OF assms]
  by (auto intro!: repliesI gives_intros simp: Authenticate_def AdminGuard_def RateLimit_def Let_def split: sum.splits option.splits)

text \<open>The error handler turns what was deferred into an answer, unless the handler panicked.\<close>

lemma ErrorHandler_settles:
  assumes "replies h"
  shows "settles (ErrorHandler st reporter h)"
proof (rule settlesI)
  fix c assume "unanswered c"
  show "gives (ErrorHandler st reporter h c) (\<lambda>c'. answered c' \<or> panicked c')"
    unfolding ErrorHandler_def
  proof (rule gives_bind [OF repliesD [OF assms \<open>unanswered c\<close>]], intro gives_intros)
    fix c1 assume "answered c1 \<or> deferred c1" "g_panic c1 \<or> g_Errors c1 = [] \<or> Written c1"
    then show "answered c1 \<or> panicked c1" by (auto simp: answered_def deferred_def panicked_def Written_bodies)
  next
    fix c1 a assume "\<not> (g_panic c1 \<or> g_Errors c1 = [] \<or> Written c1)"
    then show "answered (writeError c1 a) \<or> panicked (writeError c1 a)" by (simp add: answered_def Written_bodies)
  qed
qed

text \<open>Middleware that reads the clock before the rest of the chain.\<close>

lemma settles_around:
  assumes "settles h" "unanswered c" "\<And>s c1. answered c1 \<or> panicked c1 \<Longrightarrow> gives (f s c1) (\<lambda>c'. answered c' \<or> panicked c')"
  shows "gives (do { s \<leftarrow> m; c1 \<leftarrow> h c; f s c1 }) (\<lambda>c'. answered c' \<or> panicked c')"
  using gives_bind [OF settlesD [OF assms(1,2)] assms(3)] by (rule gives_bind_any)

lemma observers_settle:
  assumes "settles h"
  shows "settles (Logging h)" "settles (Metrics collector skip h)"
proof -
  show "settles (Logging h)"
    unfolding Logging_def by (intro settlesI settles_around [OF assms]) (auto intro!: gives_intros)
  have "gives (Metrics collector skip h c) (\<lambda>c'. answered c' \<or> panicked c')" if "unanswered c" for c
  proof (cases "\<not> collector \<or> skip \<noteq> [] \<and> rq_Path (g_Request c) = skip")
    case True
    then show ?thesis using settlesD [OF assms that] by (auto simp: Metrics_def)
  next
    case False
    then have "Metrics collector skip h c = do {
        start \<leftarrow> time_Now;
        c1 \<leftarrow> h c;
        if g_panic c1 then ret c1
        else do {
          let route = (if rq_FullPath (g_Request c1) = [] then rq_Path (g_Request c1) else rq_FullPath (g_Request c1));
          now \<leftarrow> time_Now;
          record_metric (MHTTPRequest (rq_Method (g_Request c1)) route (Writer_Status c1) (time_Sub now start));
          ret c1
        }
      }" by (auto simp: Metrics_def)
    then show ?thesis by simp (rule settles_around [OF assms that], auto intro!: gives_intros)
  qed
  then show "settles (Metrics collector skip h)" by (rule settlesI)
qed

lemma late_answer: "answered c1 \<or> panicked c1 \<Longrightarrow> \<not> g_panic c1 \<Longrightarrow> \<not> Written c1 \<Longrightarrow> answered (writeError c1 a)"
  by (auto simp: answered_def panicked_def Written_bodies)

lemma Timeout_settles:
  assumes "settles h"
  shows "settles (Timeout d h)"
proof (rule settlesI)
  fix c assume c: "unanswered c"
  show "gives (Timeout d h c) (\<lambda>c'. answered c' \<or> panicked c')"
  proof (cases "d \<le> 0")
    case True
    then show ?thesis using settlesD [OF assms c] by (simp add: Timeout_def)
  next
    case False
    then show ?thesis
      by (simp add: Timeout_def) (rule settles_around [OF assms c], auto simp: late_answer intro!: gives_intros)
  qed
qed

lemma gates_settle:
  assumes "settles h"
  shows "settles (RequestID_mw h)" "settles (CORS os ms hs h)" "settles (BodyLimit n h)"
  using settlesD [OF assms]
  by (auto intro!: settlesI gives_intros simp: RequestID_mw_def CORS_def BodyLimit_def Let_def split: option.splits)

lemma Recovery_answers: "settles h \<Longrightarrow> unanswered c \<Longrightarrow> gives (Recovery h c) answered"
  unfolding Recovery_def
  by (rule gives_bind [OF settlesD]) (auto intro!: gives_ret simp: answered_def panicked_def)

subsection \<open>The router\<close>

lemma routes_reply:
  assumes "replies promhttp" "\<And>h. dep_MetricsHandler deps = Some h \<Longrightarrow> replies h"
    and "map_of (system_routes promhttp cfg deps @ v1_routes hl cfg deps) r = Some h"
  shows "replies h"
proof -
  have "(r, h) \<in> set (system_routes promhttp cfg deps @ v1_routes hl cfg deps)" using assms(3) by (rule map_of_SomeD)
  then show ?thesis
    using assms(1,2)
    by (auto simp: system_routes_def v1_routes_def auth_routes_def user_routes_def monitoring_routes_def authRouteMiddleware_def Let_def
        intro!: system_handlers_reply auth_handlers_reply http_GetMe_replies monitoring_handlers_reply guards_reply
        split: option.splits if_splits)
qed

lemma global_middleware_answers:
  assumes "replies h" "unanswered c"
  shows "gives (chain (global_middleware hl registered cfg deps) h c) answered"
  using ErrorHandler_settles [OF assms(1)] assms(2)
  by (auto simp: global_middleware_def intro!: Recovery_answers gates_settle Timeout_settles observers_settle)

text \<open>
  C11. Every request gets an answer, and one only: whatever the services, the token service, the
  sessions, the limiter and the error reporter do, errors and panics of handlers included, the router
  ends with exactly one body (or written status), or with the status 304, which has none.
\<close>

theorem every_request_answered:
  assumes "replies promhttp" "\<forall>h. dep_MetricsHandler deps = Some h \<longrightarrow> replies h" "unanswered c"
    and "run_state (NewRouterWithDependencies hl promhttp registered cfg deps c) w = (c', w')"
  shows "\<not> g_panic c' \<and> (length (List.filter is_written (g_out c')) = 1 \<or>
           length (List.filter is_written (g_out c')) = 0 \<and> OStatus 304 \<in> set (g_out c'))"
proof -
  let ?h = "case map_of (system_routes promhttp cfg deps @ v1_routes hl cfg deps) (rq_Method (g_Request c), rq_FullPath (g_Request c)) of
      Some h \<Rightarrow> h | None \<Rightarrow> not_found"
  have "replies ?h"
    using routes_reply [OF assms(1), of deps cfg hl "(rq_Method (g_Request c), rq_FullPath (g_Request c))"] assms(2) system_handlers_reply(3)
    by (cases "map_of (system_routes promhttp cfg deps @ v1_routes hl cfg deps) (rq_Method (g_Request c), rq_FullPath (g_Request c))")
      (simp_all del: map_of_append)
  then have "gives (NewRouterWithDependencies hl promhttp registered cfg deps c) answered"
    unfolding NewRouterWithDependencies_def using assms(3) by (rule global_middleware_answers)
  then have "answered c'" using assms(4) unfolding gives_def by (metis fst_conv)
  then show ?thesis by (simp add: answered_def bodies_def)
qed

text \<open>A request for the profile, a library that decodes nothing and a router without services.\<close>

definition example_lib :: http_lib where
  "example_lib =
     \<lparr>hl_bind_register = (\<lambda>_. Inl (Errorf ''EOF'' None)), hl_bind_login = (\<lambda>_. Inl (Errorf ''EOF'' None)),
      hl_bind_refresh = (\<lambda>_. Inl (Errorf ''EOF'' None)), hl_bind_logout = (\<lambda>_. Inl (Errorf ''EOF'' None)),
      hl_unmarshal_map = (\<lambda>_. Inl (Errorf ''EOF'' None)), hl_As_SyntaxError = (\<lambda>_. None), hl_As_UnmarshalTypeError = (\<lambda>_. None),
      hl_Marshal = (\<lambda>_. Inr []), hl_Sum256 = (\<lambda>bs. bs), hl_ParseRFC3339 = (\<lambda>_. None), hl_stack = []\<rparr>"

definition get_request :: "string \<Rightarrow> string \<Rightarrow> gctx" where
  "get_request path authorization =
     \<lparr>g_Request = \<lparr>rq_Method = ''GET'', rq_Path = path, rq_FullPath = path,
        rq_Header = (\<lambda>k. if k = ''Authorization'' then authorization else []), rq_Query = (\<lambda>_. []), rq_ClientIP = ''10.0.0.1'',
        rq_UserAgent = ''curl'', rq_ContentLength = 0, rq_body = None, rq_ctx = background, rq_values = Map.empty\<rparr>,
      g_keys = Map.empty, g_out = [], g_Errors = [], g_panic = False\<rparr>"

definition default_config :: Config where
  "default_config = read_config \<lparr>tl_ParseDuration = (\<lambda>_. None), tl_ParseRFC3339 = (\<lambda>_. None)\<rparr> (\<lambda>_. [])"

definition no_services :: "('m, 'r) RouterDependencies" where
  "no_services = \<lparr>dep_AuthService = None, dep_UserService = None, dep_TokenService = None, dep_Sessions = None, dep_Monitoring = None,
     dep_ErrorEvents = None, dep_HTTPMetrics = False, dep_RateLimiter = None, dep_MetricsHandler = None, dep_Readiness = None\<rparr>"

theorem every_request_answered_witness:
  "\<exists>c' w'. run_state (NewRouterWithDependencies example_lib not_found True default_config no_services (get_request ''/readyz'' []))
       (start_world () () 0) = (c', w') \<and> \<not> g_panic c' \<and>
     (length (List.filter is_written (g_out c')) = 1 \<or> length (List.filter is_written (g_out c')) = 0 \<and> OStatus 304 \<in> set (g_out c'))"
proof -
  obtain c' w' where run: "run_state (NewRouterWithDependencies example_lib not_found True default_config no_services
      (get_request ''/readyz'' [])) (start_world () () 0) = (c', w')" by fastforce
  have "\<forall>h. dep_MetricsHandler (no_services :: (unit, unit) RouterDependencies) = Some h \<longrightarrow> replies h" by (simp add: no_services_def)
  moreover have "unanswered (get_request ''/readyz'' [])" by (simp add: get_request_def unanswered_def bodies_def)
  ultimately show ?thesis using every_request_answered [OF system_handlers_reply(3) _ _ run] run by blast
qed

section \<open>Guarded routes\<close>

text \<open>The routes behind \<open>Authenticate\<close>, and those behind \<open>AdminGuard\<close> as well.\<close>

definition admin_routes :: "(string \<times> string) set" where
  "admin_routes = {''GET''} \<times> {''/v1/admin/monitoring/status'', ''/v1/admin/monitoring/dependencies'', ''/v1/admin/monitoring/runtime'',
     ''/v1/admin/monitoring/auth-stats'', ''/v1/admin/monitoring/errors'', ''/v1/admin/monitoring/audit-logs''}"

definition protected_routes :: "(string \<times> string) set" where
  "protected_routes = admin_routes \<union> {(''POST'', ''/v1/auth/logout''), (''POST'', ''/v1/auth/logout-all''), (''GET'', ''/v1/auth/devices''),
     (''GET'', ''/v1/auth/login-history''), (''GET'', ''/v1/users/me'')}"

text \<open>What a token must carry to pass.\<close>

definition may_pass :: "Config \<Rightarrow> string \<times> string \<Rightarrow> AccessClaims \<Rightarrow> bool" where
  "may_pass cfg route claims \<longleftrightarrow>
     ac_UserID claims \<noteq> [] \<and>
     (route \<in> admin_routes \<longrightarrow>
        (\<exists>role \<in> set (ac_Roles claims). role \<in> set (if mt_AdminRoles (cf_Monitoring cfg) = [] then [RoleAdmin] else mt_AdminRoles (cf_Monitoring cfg))))"

text \<open>Two requests that the guards cannot tell apart.\<close>

definition same_request :: "gctx \<Rightarrow> gctx \<Rightarrow> bool" where
  "same_request c c0 \<longleftrightarrow> rq_Header (g_Request c) = rq_Header (g_Request c0) \<and> g_ctx c = g_ctx c0"

text \<open>Handlers that agree on a request and whatever middleware makes of it.\<close>

definition agree :: "gctx \<Rightarrow> ('m, 'r) handler \<Rightarrow> ('m, 'r) handler \<Rightarrow> bool" where
  "agree c0 h h' \<longleftrightarrow> (\<forall>c. same_request c c0 \<longrightarrow> h c = h' c)"

lemma agreeD: "agree c0 h h' \<Longrightarrow> same_request c c0 \<Longrightarrow> h c = h' c"
  by (simp add: agree_def)

lemma same_request_simps [simp]:
  "same_request (emit x c) c0 = same_request c c0" "same_request (gin_Set k v c) c0 = same_request c c0"
  "same_request (WithValue k v c) c0 = same_request c c0" "same_request c c"
  "same_request (c\<lparr>g_Request := (g_Request c)\<lparr>rq_body := b\<rparr>\<rparr>) c0 = same_request c c0"
  by (simp_all add: same_request_def)

lemma agree_middleware:
  assumes "agree c0 h h'"
  shows "agree c0 (Recovery h) (Recovery h')" "agree c0 (RequestID_mw h) (RequestID_mw h')" "agree c0 (CORS os ms hs h) (CORS os ms hs h')"
    "agree c0 (BodyLimit n h) (BodyLimit n h')" "agree c0 (Timeout d h) (Timeout d h')" "agree c0 (Metrics b s h) (Metrics b s h')"
    "agree c0 (Logging h) (Logging h')" "agree c0 (ErrorHandler st rep h) (ErrorHandler st rep h')"
  using agreeD [OF assms]
  by (auto simp: agree_def Recovery_def RequestID_mw_def CORS_def BodyLimit_def Timeout_def Metrics_def Logging_def ErrorHandler_def Let_def
      split: option.splits)

lemma contextRoles_setAuthContext [simp]: "contextRoles (setAuthContext claims c) = ac_Roles claims"
  by (simp add: contextRoles_def setAuthContext_def Let_def)

text \<open>The token of a request, as the guard reads it.\<close>

definition presented :: "gctx \<Rightarrow> string" where
  "presented c = bearerToken (GetHeader c ''Authorization'')"

lemma agree_Authenticate:
  assumes "\<And>tok w claims c. tokens = Some tok \<Longrightarrow> fst (run_state (ti_ValidateAccessToken tok (g_ctx c0) (presented c0)) w) = Inr (Some claims) \<Longrightarrow>
      ac_UserID claims = [] \<or> h (setAuthContext claims c) = h' (setAuthContext claims c)"
  shows "agree c0 (Authenticate st tokens ss h) (Authenticate st tokens ss h')"
proof -
  have "Authenticate st tokens ss h c = Authenticate st tokens ss h' c" if same: "same_request c c0" for c
  proof (cases tokens)
    case (Some tok)
    have pres: "bearerToken (GetHeader c ''Authorization'') = presented c0" "g_ctx c = g_ctx c0"
      using same by (simp_all add: presented_def same_request_def GetHeader_def)
    show ?thesis
      unfolding Authenticate_def Let_def Some option.case pres
      by (rule if_cong [OF refl refl bind_cong_results])
        (use assms [OF Some] in \<open>fastforce split: sum.split option.split intro!: bind_cong_results\<close>)
  qed (simp add: Authenticate_def)
  then show ?thesis by (simp add: agree_def)
qed

text \<open>A token that never passes: whatever the token service answers, the claims are not enough.\<close>

definition never_passes :: "Config \<Rightarrow> ('m, 'r) TokenServiceI option \<Rightarrow> gctx \<Rightarrow> bool" where
  "never_passes cfg tokens c \<longleftrightarrow>
     (\<forall>tok w claims. tokens = Some tok \<longrightarrow>
        fst (run_state (ti_ValidateAccessToken tok (g_ctx c) (presented c)) w) = Inr (Some claims) \<longrightarrow>
        \<not> may_pass cfg (rq_Method (g_Request c), rq_FullPath (g_Request c)) claims)"

lemma AdminGuard_denies:
  assumes "\<forall>role \<in> set (contextRoles c). role \<notin> set (if roles = [] then [RoleAdmin] else roles)"
  shows "AdminGuard roles h c = AdminGuard roles h' c"
  using assms by (auto simp: AdminGuard_def hasAnyRole_def list_ex_iff Let_def)

lemma agree_protected:
  assumes np: "never_passes cfg tokens c" and c: "(rq_Method (g_Request c), rq_FullPath (g_Request c)) = k"
  shows "k \<notin> admin_routes \<Longrightarrow> agree c (Authenticate st tokens ss h) (Authenticate st tokens ss h')"
    and "k \<in> admin_routes \<Longrightarrow>
      agree c (Authenticate st tokens ss (AdminGuard (mt_AdminRoles (cf_Monitoring cfg)) h))
        (Authenticate st tokens ss (AdminGuard (mt_AdminRoles (cf_Monitoring cfg)) h'))"
  using np c
  by (auto simp: never_passes_def may_pass_def intro!: agree_Authenticate AdminGuard_denies split: if_splits) metis+

text \<open>Two sets of services behind the same guards.\<close>

definition with_services ::
  "('m, 'r) AuthServiceI \<Rightarrow> (ctx \<Rightarrow> string \<Rightarrow> ('m, 'r, err + User option) M) \<Rightarrow> ('m, 'r) MonitoringI
     \<Rightarrow> ('m, 'r) RouterDependencies \<Rightarrow> ('m, 'r) RouterDependencies" where
  "with_services a u m deps = deps\<lparr>dep_AuthService := Some a, dep_UserService := Some u, dep_Monitoring := Some m\<rparr>"

lemma with_services_simps [simp]:
  "system_routes p cfg (with_services a u m deps) = system_routes p cfg deps"
  "global_middleware hl registered cfg (with_services a u m deps) = global_middleware hl registered cfg deps"
  by (simp_all add: with_services_def system_routes_def global_middleware_def)

lemma agree_refl [simp, intro]: "agree c h h"
  by (simp add: agree_def)

lemma map_of_rel:
  assumes "list_all2 (\<lambda>p q. fst p = fst q \<and> (fst p = k \<longrightarrow> R (snd p) (snd q))) xs ys"
  shows "rel_option R (map_of xs k) (map_of ys k)"
  using assms by (induction xs ys rule: list_all2_induct) auto

lemma admin_route_simps [simp]:
  "(''POST'', p) \<notin> admin_routes" "(''GET'', ''/v1/auth/devices'') \<notin> admin_routes"
  "(''GET'', ''/v1/auth/login-history'') \<notin> admin_routes" "(''GET'', ''/v1/users/me'') \<notin> admin_routes"
  "(''GET'', ''/v1/admin/monitoring/status'') \<in> admin_routes" "(''GET'', ''/v1/admin/monitoring/dependencies'') \<in> admin_routes"
  "(''GET'', ''/v1/admin/monitoring/runtime'') \<in> admin_routes" "(''GET'', ''/v1/admin/monitoring/auth-stats'') \<in> admin_routes"
  "(''GET'', ''/v1/admin/monitoring/errors'') \<in> admin_routes" "(''GET'', ''/v1/admin/monitoring/audit-logs'') \<in> admin_routes"
  by (simp_all add: admin_routes_def)

lemma open_route_simps [simp]:
  "(''POST'', ''/v1/auth/register'') \<notin> protected_routes" "(''POST'', ''/v1/auth/login'') \<notin> protected_routes"
  "(''POST'', ''/v1/auth/refresh'') \<notin> protected_routes"
  by (simp_all add: protected_routes_def)

lemma guarded_v1_routes:
  assumes k: "(rq_Method (g_Request c), rq_FullPath (g_Request c)) = k" "k \<in> protected_routes"
    and np: "never_passes cfg (dep_TokenService deps) c"
  shows "rel_option (agree c) (map_of (v1_routes hl cfg (with_services a u m deps)) k)
           (map_of (v1_routes hl cfg (with_services a' u' m' deps)) k)"
proof (rule map_of_rel)
  have user: "agree c (Authenticate st (dep_TokenService deps) ss h) (Authenticate st (dep_TokenService deps) ss h')"
    if "r = k" "r \<notin> admin_routes" for r st ss h h'
    using agree_protected(1) [OF np k(1)] that by simp
  have admin: "agree c (Authenticate st (dep_TokenService deps) ss (AdminGuard (mt_AdminRoles (cf_Monitoring cfg)) h))
      (Authenticate st (dep_TokenService deps) ss (AdminGuard (mt_AdminRoles (cf_Monitoring cfg)) h'))"
    if "r = k" "r \<in> admin_routes" for r st ss h h'
    using agree_protected(2) [OF np k(1)] that by simp
  have "open": "agree c h h'" if "r = k" "r \<notin> protected_routes" for r h h'
    using that k(2) by simp
  show "list_all2 (\<lambda>p q. fst p = fst q \<and> (fst p = k \<longrightarrow> agree c (snd p) (snd q)))
      (v1_routes hl cfg (with_services a u m deps)) (v1_routes hl cfg (with_services a' u' m' deps))"
    unfolding v1_routes_def with_services_def auth_routes_def user_routes_def monitoring_routes_def authRouteMiddleware_def Let_def
    by simp (intro conjI impI; (erule user, simp; fail | erule admin, simp; fail | erule "open", simp; fail))
qed

lemma agree_global: "agree c h h' \<Longrightarrow> agree c (chain (global_middleware hl registered cfg deps) h) (chain (global_middleware hl registered cfg deps) h')"
  by (auto simp: global_middleware_def intro!: agree_middleware)

text \<open>
  The services behind the guards are out of reach without a token that passes: for a request on a
  protected route whose token the token service never validates to claims that name a user (and, on
  an admin route, one of the configured admin roles), the router behaves in exactly the same way, in
  its answer and in its effects on the databases, whatever the authentication, user and monitoring
  services are. None of them can have been called.
\<close>

lemma guarded_routes:
  assumes "(rq_Method (g_Request c), rq_FullPath (g_Request c)) \<in> protected_routes"
    and "never_passes cfg (dep_TokenService deps) c"
  shows "NewRouterWithDependencies hl promhttp registered cfg (with_services a u m deps) c =
         NewRouterWithDependencies hl promhttp registered cfg (with_services a' u' m' deps) c"
proof -
  let ?k = "(rq_Method (g_Request c), rq_FullPath (g_Request c))"
  have rel: "rel_option (agree c) (map_of (system_routes promhttp cfg deps @ v1_routes hl cfg (with_services a u m deps)) ?k)
      (map_of (system_routes promhttp cfg deps @ v1_routes hl cfg (with_services a' u' m' deps)) ?k)"
    using guarded_v1_routes [OF refl assms, of hl a u m a' u' m']
    by (cases "map_of (system_routes promhttp cfg deps) ?k") (auto simp: map_add_def)
  have "agree c
      (case map_of (system_routes promhttp cfg deps @ v1_routes hl cfg (with_services a u m deps)) ?k of Some h \<Rightarrow> h | None \<Rightarrow> not_found)
      (case map_of (system_routes promhttp cfg deps @ v1_routes hl cfg (with_services a' u' m' deps)) ?k of Some h \<Rightarrow> h | None \<Rightarrow> not_found)"
    using rel by (auto split: option.splits simp del: map_of_append elim: option.rel_cases)
  from agreeD [OF agree_global [OF this], of c] show ?thesis
    by (simp add: NewRouterWithDependencies_def del: map_of_append)
qed

end
