(* ===== verification/Migration.thy ===== *)
theory Migration
  imports Mongo_Server "HOL-Library.List_Lexorder" "HOL-Library.Char_ord"
begin

text \<open>
  \<open>internal/platform/migration\<close> and the migrations of \<open>cmd/migrate\<close>: migrations run in the order of
  their versions, each at most once; what was applied is recorded in \<open>schema_migrations\<close>.

  \<open>sort.Slice\<close> does not fix the order of migrations with the same version, so the sort is a parameter
  with the contract of locale \<open>slice_sort\<close>. The creation of indexes by the driver is a parameter as
  well.
\<close>

record ('m, 'r) Migration =
  mg_Version :: string
  mg_Name :: string
  mg_Apply :: "(ctx \<Rightarrow> ('m, 'r, err option) M) option"

record AppliedMigration =
  am_Version :: string
  am_Name :: string
  am_AppliedAt :: time

record ('m, 'r) MigrationStore =
  ms_Ensure :: "ctx \<Rightarrow> ('m, 'r, err option) M"
  ms_Has :: "ctx \<Rightarrow> string \<Rightarrow> ('m, 'r, err + bool) M"
  ms_Record :: "ctx \<Rightarrow> AppliedMigration \<Rightarrow> ('m, 'r, err option) M"

record ('m, 'r) Runner =
  rn_store :: "('m, 'r) MigrationStore option"

definition NewRunner :: "('m, 'r) MigrationStore \<Rightarrow> ('m, 'r) Runner" where
  "NewRunner store = \<lparr>rn_store = Some store\<rparr>"

text \<open>The loop over the sorted migrations, with the migrations applied so far.\<close>

fun apply_migrations ::
  "('m, 'r) MigrationStore \<Rightarrow> ctx \<Rightarrow> ('m, 'r) Migration list \<Rightarrow> AppliedMigration list \<Rightarrow> ('m, 'r, err + AppliedMigration list) M" where
  "apply_migrations store cx [] applied = ret (Inr applied)"
| "apply_migrations store cx (migration # rest) applied =
     (if mg_Version migration = [] then ret (Inl (Errorf ''migration version is required'' None))
      else case mg_Apply migration of
        None \<Rightarrow> ret (Inl (Errorf (''migration '' @ mg_Version migration @ '' apply function is required'') None))
      | Some Apply \<Rightarrow> do {
          h \<leftarrow> ms_Has store cx (mg_Version migration);
          case h of
            Inl e \<Rightarrow> ret (Inl e)
          | Inr True \<Rightarrow> apply_migrations store cx rest applied
          | Inr False \<Rightarrow> do {
              a \<leftarrow> Apply cx;
              case a of
                Some e \<Rightarrow> ret (Inl (Errorf (''apply migration '' @ mg_Version migration @ '': '' @ err_Error e) (Some e)))
              | None \<Rightarrow> do {
                  now \<leftarrow> time_Now;
                  let record = \<lparr>am_Version = mg_Version migration, am_Name = mg_Name migration, am_AppliedAt = now\<rparr>;
                  r \<leftarrow> ms_Record store cx record;
                  case r of
                    Some e \<Rightarrow> ret (Inl e)
                  | None \<Rightarrow> apply_migrations store cx rest (applied @ [record])
                }
            }
        })"

definition Runner_Run ::
  "(('m, 'r) Migration list \<Rightarrow> ('m, 'r) Migration list) \<Rightarrow> ('m, 'r) Runner \<Rightarrow> ctx \<Rightarrow> ('m, 'r) Migration list
     \<Rightarrow> ('m, 'r, err + AppliedMigration list) M" where
  "Runner_Run sort_Slice r cx migrations =
     (case rn_store r of
        None \<Rightarrow> ret (Inl (Errorf ''migration store is required'' None))
      | Some store \<Rightarrow> do {
          e \<leftarrow> ms_Ensure store cx;
          case e of
            Some err \<Rightarrow> ret (Inl err)
          | None \<Rightarrow> apply_migrations store cx (sort_Slice migrations) []
        })"

section \<open>The store in MongoDB\<close>

definition schema_migrations :: string where "schema_migrations = ''schema_migrations''"

text \<open>Index models of the driver, and its operations that create indexes of a collection.\<close>

record IndexModel =
  ix_Keys :: "(string \<times> int) list"
  ix_Unique :: bool
  ix_ExpireAfterSeconds :: "int option"

record 'm index_driver =
  id_CreateOne :: "ctx \<Rightarrow> string \<Rightarrow> IndexModel \<Rightarrow> ('m, err option) state"
  id_CreateMany :: "ctx \<Rightarrow> string \<Rightarrow> IndexModel list \<Rightarrow> ('m, err option) state"

definition plain_index :: "(string \<times> int) list \<Rightarrow> IndexModel" where
  "plain_index keys = \<lparr>ix_Keys = keys, ix_Unique = False, ix_ExpireAfterSeconds = None\<rparr>"

definition unique_index :: "string \<Rightarrow> IndexModel" where
  "unique_index key = \<lparr>ix_Keys = [(key, 1)], ix_Unique = True, ix_ExpireAfterSeconds = None\<rparr>"

definition Store_Ensure :: "'m index_driver \<Rightarrow> ctx \<Rightarrow> ('m, 'r, err option) M" where
  "Store_Ensure ix cx = on_mongo (id_CreateOne ix cx schema_migrations (unique_index ''version''))"

definition Store_Has :: "'m mongo_driver \<Rightarrow> ctx \<Rightarrow> string \<Rightarrow> ('m, 'r, err + bool) M" where
  "Store_Has drv cx version = do {
     r \<leftarrow> on_mongo (drv_CountDocuments drv cx schema_migrations [On ''version'' [CEq (BString version)]]);
     ret (map_sum id (\<lambda>n. n > 0) r)
   }"

text \<open>The driver adds the \<open>_id\<close> the document does not have, a fresh object identifier.\<close>

definition Store_Record :: "('m, 'r, string) M \<Rightarrow> 'm mongo_driver \<Rightarrow> ctx \<Rightarrow> AppliedMigration \<Rightarrow> ('m, 'r, err option) M" where
  "Store_Record new_oid drv cx migration = do {
     oid \<leftarrow> new_oid;
     on_mongo (drv_InsertOne drv cx schema_migrations
       [(''_id'', BString oid), (''version'', BString (am_Version migration)), (''name'', BString (am_Name migration)),
        (''applied_at'', bson_date (am_AppliedAt migration))])
   }"

definition NewMongoStore :: "('m, 'r, string) M \<Rightarrow> 'm mongo_driver \<Rightarrow> 'm index_driver \<Rightarrow> ('m, 'r) MigrationStore" where
  "NewMongoStore new_oid drv ix =
     \<lparr>ms_Ensure = Store_Ensure ix, ms_Has = Store_Has drv, ms_Record = Store_Record new_oid drv\<rparr>"

section \<open>Indexes\<close>

text \<open>
  \<open>bootstrap.EnsureIndexes\<close>. The source ranges over a map, whose order is not fixed: the order of the
  collections is a parameter.
\<close>

definition index_models :: "(string \<times> IndexModel list) list" where
  "index_models =
     [(''users'', [unique_index ''email'']),
      (''sessions'', [plain_index [(''user_id'', 1)], unique_index ''refresh_token_hash'', plain_index [(''device_id'', 1)],
         plain_index [(''revoked_at'', 1)], plain_index [(''token_family_id'', 1)]]),
      (''login_history'', [plain_index [(''user_id'', 1), (''created_at'', -1)], plain_index [(''email'', 1), (''created_at'', -1)],
         plain_index [(''created_at'', -1)]]),
      (''audit_logs'', [plain_index [(''request_id'', 1)], plain_index [(''action'', 1), (''created_at'', -1)],
         plain_index [(''actor_user_id'', 1), (''created_at'', -1)], plain_index [(''created_at'', -1)]]),
      (''error_events'', [plain_index [(''created_at'', -1)], plain_index [(''error_code'', 1), (''created_at'', -1)],
         plain_index [(''request_id'', 1)], plain_index [(''user_id'', 1), (''created_at'', -1)]]),
      (''revoked_tokens'', [(plain_index [(''expires_at'', 1)])\<lparr>ix_ExpireAfterSeconds := Some 0\<rparr>]),
      (''outbox_events'', [unique_index ''idempotency_key'', plain_index [(''status'', 1), (''process_after'', 1)]]),
      (''schema_migrations'', [unique_index ''version''])]"

fun create_indexes :: "'m index_driver \<Rightarrow> ctx \<Rightarrow> (string \<times> IndexModel list) list \<Rightarrow> ('m, 'r, err option) M" where
  "create_indexes ix cx [] = ret None"
| "create_indexes ix cx ((collection, indexes) # rest) = do {
     r \<leftarrow> on_mongo (id_CreateMany ix cx collection indexes);
     case r of Some e \<Rightarrow> ret (Some e) | None \<Rightarrow> create_indexes ix cx rest
   }"

definition EnsureIndexes ::
  "((string \<times> IndexModel list) list \<Rightarrow> (string \<times> IndexModel list) list) \<Rightarrow> 'm index_driver \<Rightarrow> ctx \<Rightarrow> ('m, 'r, err option) M" where
  "EnsureIndexes order ix cx = create_indexes ix cx (order index_models)"

text \<open>The migrations of the command: one, which creates the indexes.\<close>

definition migrations ::
  "((string \<times> IndexModel list) list \<Rightarrow> (string \<times> IndexModel list) list) \<Rightarrow> 'm index_driver \<Rightarrow> ('m, 'r) Migration list" where
  "migrations order ix =
     [\<lparr>mg_Version = ''202606110001'', mg_Name = ''bootstrap_indexes'', mg_Apply = Some (EnsureIndexes order ix)\<rparr>]"

section \<open>Contracts\<close>

text \<open>What \<open>sort.Slice\<close> with the order of versions documents.\<close>

locale slice_sort =
  fixes sort_Slice :: "('m, 'r) Migration list \<Rightarrow> ('m, 'r) Migration list"
  assumes sorted: "sorted (map mg_Version (sort_Slice ms))"
    and same: "mset (sort_Slice ms) = mset ms"

interpretation stable_sort: slice_sort "sort_key mg_Version"
  by unfold_locales simp_all

text \<open>
  A store of migrations: \<open>recorded s\<close> are the recorded versions. Asking and preparing record nothing,
  recording adds the version; a failed call may have recorded it.
\<close>

locale migration_store =
  fixes store :: "('m, 'r) MigrationStore"
    and recorded :: "'m \<Rightarrow> string set"
  assumes ensure_frame: "run_state (ms_Ensure store cx) w = (e, w') \<Longrightarrow> recorded (w_mongo w') = recorded (w_mongo w)"
    and has_frame: "run_state (ms_Has store cx v) w = (h, w') \<Longrightarrow> recorded (w_mongo w') = recorded (w_mongo w)"
    and has_ok: "run_state (ms_Has store cx v) w = (Inr b, w') \<Longrightarrow> b = (v \<in> recorded (w_mongo w))"
    and record_any: "run_state (ms_Record store cx am) w = (re, w') \<Longrightarrow>
          recorded (w_mongo w') \<in> {recorded (w_mongo w), insert (am_Version am) (recorded (w_mongo w))}"
    and record_ok: "run_state (ms_Record store cx am) w = (re, w') \<Longrightarrow> re = None \<Longrightarrow>
          recorded (w_mongo w') = insert (am_Version am) (recorded (w_mongo w))"

text \<open>The versions a run still has to apply, in order, each once.\<close>

fun pending :: "string set \<Rightarrow> string list \<Rightarrow> string list" where
  "pending R [] = []"
| "pending R (v # vs) = (if v \<in> R then pending R vs else v # pending (insert v R) vs)"

lemma set_pending: "set (pending R vs) = set vs - R"
  by (induction R vs rule: pending.induct) auto

lemma distinct_pending: "distinct (pending R vs)"
  by (induction R vs rule: pending.induct) (auto simp: set_pending)

lemma sorted_pending: "sorted vs \<Longrightarrow> sorted (pending R vs)"
  by (induction R vs rule: pending.induct) (auto simp: set_pending)

text \<open>Migrations that leave the record of the applied migrations alone.\<close>

definition leave_record :: "('m \<Rightarrow> string set) \<Rightarrow> ('m, 'r) Migration list \<Rightarrow> bool" where
  "leave_record recorded ms \<longleftrightarrow>
     (\<forall>m \<in> set ms. \<forall>f. mg_Apply m = Some f \<longrightarrow> (\<forall>cx R. keeps (\<lambda>w. recorded (w_mongo w) = R) (f cx)))"

lemma leave_record_Cons [simp]:
  "leave_record recorded (m # ms) \<longleftrightarrow>
     (\<forall>f. mg_Apply m = Some f \<longrightarrow> (\<forall>cx R. keeps (\<lambda>w. recorded (w_mongo w) = R) (f cx))) \<and> leave_record recorded ms"
  by (simp add: leave_record_def)

text \<open>
  A trace of what the migrations did to the database: the store's own operations leave it alone, and
  each successful application of a migration adds its version at the end.
\<close>

definition store_keeps :: "('m \<Rightarrow> string list) \<Rightarrow> ('m, 'r) MigrationStore \<Rightarrow> bool" where
  "store_keeps trace st \<longleftrightarrow> (\<forall>t cx. keeps (\<lambda>w. trace (w_mongo w) = t) (ms_Ensure st cx) \<and>
     (\<forall>v. keeps (\<lambda>w. trace (w_mongo w) = t) (ms_Has st cx v)) \<and> (\<forall>am. keeps (\<lambda>w. trace (w_mongo w) = t) (ms_Record st cx am)))"

definition traced :: "('m \<Rightarrow> string list) \<Rightarrow> ('m, 'r) Migration list \<Rightarrow> bool" where
  "traced trace ms \<longleftrightarrow> (\<forall>m \<in> set ms. \<forall>f. mg_Apply m = Some f \<longrightarrow>
     (\<forall>cx w w'. run_state (f cx) w = (None, w') \<longrightarrow> trace (w_mongo w') = trace (w_mongo w) @ [mg_Version m]))"

lemma traced_Cons [simp]:
  "traced trace (m # ms) \<longleftrightarrow> (\<forall>f. mg_Apply m = Some f \<longrightarrow>
     (\<forall>cx w w'. run_state (f cx) w = (None, w') \<longrightarrow> trace (w_mongo w') = trace (w_mongo w) @ [mg_Version m])) \<and> traced trace ms"
  by (simp add: traced_def)

lemma store_keepsD:
  assumes "store_keeps trace st"
  shows "run_state (ms_Ensure st cx) w = (e, w') \<Longrightarrow> trace (w_mongo w') = trace (w_mongo w)"
    and "run_state (ms_Has st cx v) w = (h, w') \<Longrightarrow> trace (w_mongo w') = trace (w_mongo w)"
    and "run_state (ms_Record st cx am) w = (e, w') \<Longrightarrow> trace (w_mongo w') = trace (w_mongo w)"
proof -
  let ?I = "\<lambda>u. trace (w_mongo u) = trace (w_mongo w)"
  have "keeps ?I (ms_Ensure st cx)" "keeps ?I (ms_Has st cx v)" "keeps ?I (ms_Record st cx am)"
    using assms unfolding store_keeps_def by blast+
  from keepsD [OF this(1) refl] keepsD [OF this(2) refl] keepsD [OF this(3) refl]
  show "run_state (ms_Ensure st cx) w = (e, w') \<Longrightarrow> trace (w_mongo w') = trace (w_mongo w)"
    "run_state (ms_Has st cx v) w = (h, w') \<Longrightarrow> trace (w_mongo w') = trace (w_mongo w)"
    "run_state (ms_Record st cx am) w = (e, w') \<Longrightarrow> trace (w_mongo w') = trace (w_mongo w)"
    by blast+
qed

context migration_store
begin

lemma apply_migrations_ok:
  assumes "leave_record recorded ms" and "store_keeps trace store" and "traced trace ms"
    and "run_state (apply_migrations store cx ms acc) w = (Inr applied, w')"
  shows "recorded (w_mongo w') = recorded (w_mongo w) \<union> set (map mg_Version ms) \<and>
         map am_Version applied = map am_Version acc @ pending (recorded (w_mongo w)) (map mg_Version ms) \<and>
         trace (w_mongo w') = trace (w_mongo w) @ pending (recorded (w_mongo w)) (map mg_Version ms)"
  using assms(1,3,4)
proof (induction ms arbitrary: acc w)
  case (Cons m ms)
  then obtain f where f: "mg_Apply m = Some f" by (auto split: option.splits if_splits)
  obtain h w1 where h: "run_state (ms_Has store cx (mg_Version m)) w = (h, w1)" by fastforce
  obtain b where b: "h = Inr b" using Cons.prems(3) f h by (cases h) (auto split: if_splits)
  have w1: "recorded (w_mongo w1) = recorded (w_mongo w)" "b = (mg_Version m \<in> recorded (w_mongo w))" "trace (w_mongo w1) = trace (w_mongo w)"
    using has_frame [OF h] has_ok [OF h [unfolded b]] store_keepsD(2) [OF assms(2) h] by auto
  show ?case
  proof (cases b)
    case True
    then have "run_state (apply_migrations store cx ms acc) w1 = (Inr applied, w')"
      using Cons.prems(3) f h b by (simp split: if_splits)
    with Cons.IH Cons.prems(1,2) True w1 show ?thesis by auto
  next
    case False
    obtain a w2 where a: "run_state (f cx) w1 = (a, w2)" by fastforce
    let ?rec = "\<lparr>am_Version = mg_Version m, am_Name = mg_Name m, am_AppliedAt = w_clock w2 (w_tick w2)\<rparr>"
    let ?w3 = "w2\<lparr>w_tick := Suc (w_tick w2)\<rparr>"
    obtain r w4 where r: "run_state (ms_Record store cx ?rec) ?w3 = (r, w4)" by fastforce
    have ok: "a = None" "r = None" and rest: "run_state (apply_migrations store cx ms (acc @ [?rec])) w4 = (Inr applied, w')"
      using Cons.prems(3) f h b False a r by (auto simp: Let_def split: if_splits option.splits)
    have "recorded (w_mongo w2) = recorded (w_mongo w1)"
      using keepsD [where I = "\<lambda>w. recorded (w_mongo w) = recorded (w_mongo w1)", OF _ refl a] Cons.prems(1) f by auto
    moreover have "recorded (w_mongo w4) = insert (mg_Version m) (recorded (w_mongo w2))"
      using record_ok [OF r ok(2)] by simp
    moreover have "trace (w_mongo w2) = trace (w_mongo w1) @ [mg_Version m]"
      using Cons.prems(2) f a ok(1) by simp
    moreover have "trace (w_mongo w4) = trace (w_mongo w2)"
      using store_keepsD(3) [OF assms(2) r] by simp
    ultimately show ?thesis using Cons.IH [OF _ _ rest] Cons.prems(1,2) False w1 by simp
  qed
qed simp

lemma Runner_Run_ok:
  assumes "slice_sort sort_Slice"
    and "leave_record recorded ms" and "store_keeps trace store" and "traced trace ms"
    and "run_state (Runner_Run sort_Slice (NewRunner store) cx ms) w = (Inr applied, w')"
  shows "recorded (w_mongo w') = recorded (w_mongo w) \<union> mg_Version ` set ms \<and>
         map am_Version applied = pending (recorded (w_mongo w)) (map mg_Version (sort_Slice ms)) \<and>
         trace (w_mongo w') = trace (w_mongo w) @ map am_Version applied"
proof -
  have same: "set (sort_Slice ms) = set ms" using slice_sort.same [OF assms(1)] by (metis set_mset_mset)
  obtain e w1 where e: "run_state (ms_Ensure store cx) w = (e, w1)" by fastforce
  then have "run_state (apply_migrations store cx (sort_Slice ms) []) w1 = (Inr applied, w')"
    using assms(5) by (auto simp: Runner_Run_def NewRunner_def split: option.splits)
  moreover have "leave_record recorded (sort_Slice ms)" "traced trace (sort_Slice ms)"
    using assms(2,4) by (simp_all add: leave_record_def traced_def same)
  ultimately show ?thesis using apply_migrations_ok [OF _ assms(3)] ensure_frame [OF e] store_keepsD(1) [OF assms(3) e] by (simp add: same)
qed

end

section \<open>The store over a MongoDB server\<close>

text \<open>The versions recorded in the collection; creating an index changes no document.\<close>

definition versions :: "doc list \<Rightarrow> string set" where
  "versions ds = {v. \<exists>d \<in> set ds. map_of d ''version'' = Some (BString v)}"

locale index_creation =
  fixes ix :: "'m index_driver"
    and colls :: "'m \<Rightarrow> string \<Rightarrow> doc list"
  assumes create_one_frame: "run_state (id_CreateOne ix cx c model) m = (e, m') \<Longrightarrow> colls m' = colls m"
    and create_many_frame: "run_state (id_CreateMany ix cx c models) m = (e, m') \<Longrightarrow> colls m' = colls m"
begin

lemma keeps_create_indexes: "keeps (\<lambda>w. I (colls (w_mongo w))) (create_indexes ix cx cs)"
proof (induction cs)
  case (Cons m cs)
  have "keeps (\<lambda>w. I (colls (w_mongo w))) (on_mongo (id_CreateMany ix cx c models))" for c models
    by (rule keepsI) (auto simp: run_on_mongo split: prod.splits dest: create_many_frame)
  then show ?case using Cons by (cases m) (auto intro!: keeps_intros)
qed (simp add: keeps_ret)

end

lemma versions_snoc: "map_of d ''version'' = Some (BString v) \<Longrightarrow> versions (ds @ [d]) = insert v (versions ds)"
  by (auto simp: versions_def)

lemma mongo_migration_store:
  assumes srv: "mongo_server drv colls" and idx: "index_creation ix colls"
    and oid: "\<And>I. keeps (\<lambda>w. I (w_mongo w)) new_oid"
  shows "migration_store (NewMongoStore new_oid drv ix) (\<lambda>m. versions (colls m schema_migrations))"
proof
  fix cx w e w'
  assume "run_state (ms_Ensure (NewMongoStore new_oid drv ix) cx) w = (e, w')"
  then show "versions (colls (w_mongo w') schema_migrations) = versions (colls (w_mongo w) schema_migrations)"
    by (auto simp: NewMongoStore_def Store_Ensure_def run_on_mongo split: prod.splits
        dest: index_creation.create_one_frame [OF idx])
next
  fix cx v w h w'
  assume "run_state (ms_Has (NewMongoStore new_oid drv ix) cx v) w = (h, w')"
  then show "versions (colls (w_mongo w') schema_migrations) = versions (colls (w_mongo w) schema_migrations)"
    by (auto simp: NewMongoStore_def Store_Has_def run_on_mongo split: prod.splits dest: mongo_server.count_frame [OF srv])
next
  fix cx v w b w'
  assume "run_state (ms_Has (NewMongoStore new_oid drv ix) cx v) w = (Inr b, w')"
  then show "b = (v \<in> versions (colls (w_mongo w) schema_migrations))"
    by (auto simp: NewMongoStore_def Store_Has_def run_on_mongo versions_def filter_empty_conv matches_def map_sum_def
        split: prod.splits sum.splits dest!: mongo_server.count_ok [OF srv])
next
  fix cx am w re w'
  assume run: "run_state (ms_Record (NewMongoStore new_oid drv ix) cx am) w = (re, w')"
  let ?c = "\<lambda>w. colls (w_mongo w) schema_migrations"
  obtain oid w1 where o: "run_state new_oid w = (oid, w1)" by fastforce
  have w1: "colls (w_mongo w1) = colls (w_mongo w)" using keeps_eqD [where f = "\<lambda>w. colls (w_mongo w)", OF assms(3) o] .
  let ?d = "[(''_id'', BString oid), (''version'', BString (am_Version am)), (''name'', BString (am_Name am)),
     (''applied_at'', bson_date (am_AppliedAt am))]"
  have ins: "run_state (drv_InsertOne drv cx schema_migrations ?d) (w_mongo w1) = (re, w_mongo w')"
    using run o by (auto simp: NewMongoStore_def Store_Record_def run_on_mongo split: prod.splits)
  have snoc: "versions (?c w1 @ [?d]) = insert (am_Version am) (versions (?c w1))" by (rule versions_snoc) simp
  show "versions (?c w') \<in> {versions (?c w), insert (am_Version am) (versions (?c w))}"
    using mongo_server.insert_any [OF srv ins] by (elim disjE) (simp_all add: snoc w1 [symmetric])
  show "versions (?c w') = insert (am_Version am) (versions (?c w))" if "re = None"
    using mongo_server.insert_ok [OF srv ins [unfolded that]] by (simp add: snoc w1 [symmetric])
qed

section \<open>Index creation in memory, and what the indexes make unique\<close>

definition mem_indexes :: "'m index_driver" where
  "mem_indexes = \<lparr>id_CreateOne = (\<lambda>cx c model. ret None), id_CreateMany = (\<lambda>cx c models. ret None)\<rparr>"

interpretation mem_index: index_creation mem_indexes colls
  for colls
  by unfold_locales (auto simp: mem_indexes_def)

text \<open>The uniqueness the server's contract speaks of is the one \<open>EnsureIndexes\<close> asks for.\<close>

definition made_unique :: "IndexModel list \<Rightarrow> string list" where
  "made_unique models = map (fst \<circ> hd \<circ> ix_Keys) (List.filter ix_Unique models)"

lemma unique_fields_index_models:
  "unique_fields c = ''_id'' # (case map_of index_models c of None \<Rightarrow> [] | Some models \<Rightarrow> made_unique models)"
  by (simp add: unique_fields_def index_models_def plain_index_def unique_index_def made_unique_def)

section \<open>Properties\<close>

lemma leave_record_migrations:
  "index_creation ix colls \<Longrightarrow> leave_record (\<lambda>m. versions (colls m schema_migrations)) (migrations order ix)"
  using index_creation.keeps_create_indexes [where I = "\<lambda>cs. versions (cs schema_migrations) = R" for R]
  by (auto simp: leave_record_def migrations_def EnsureIndexes_def)

text \<open>
  C38. A run of the migrations that reports success has run the \<open>Apply\<close> function of exactly the
  migrations that were not recorded yet, each once and in ascending order of versions, and has recorded
  them; a second successful run applies nothing. What was run is read off any trace that the database
  keeps: a function of its state that the store's own operations leave alone and to which every
  successful \<open>Apply\<close> adds the version of its migration; the run adds to it exactly the versions that it
  reports.
\<close>

theorem migrations_in_order_once:
  assumes srv: "mongo_server drv colls" "index_creation ix colls" "\<And>I. keeps (\<lambda>w. I (w_mongo w)) new_oid"
    and sort: "slice_sort sort_Slice" and rec: "leave_record (\<lambda>m. versions (colls m schema_migrations)) ms"
    and trace: "store_keeps trace (NewMongoStore new_oid drv ix)" "traced trace ms"
    and run: "run_state (Runner_Run sort_Slice (NewRunner (NewMongoStore new_oid drv ix)) cx ms) w = (Inr applied, w')"
  shows "trace (w_mongo w') = trace (w_mongo w) @ map am_Version applied \<and>
     sorted (map am_Version applied) \<and> distinct (map am_Version applied) \<and>
     am_Version ` set applied = mg_Version ` set ms - versions (colls (w_mongo w) schema_migrations) \<and>
     versions (colls (w_mongo w') schema_migrations) = versions (colls (w_mongo w) schema_migrations) \<union> mg_Version ` set ms \<and>
     (\<forall>cx' again w''. run_state (Runner_Run sort_Slice (NewRunner (NewMongoStore new_oid drv ix)) cx' ms) w' = (Inr again, w'') \<longrightarrow>
        again = [] \<and> trace (w_mongo w'') = trace (w_mongo w'))"
proof -
  have set_sort: "set (sort_Slice ms) = set ms" using slice_sort.same [OF sort] by (metis set_mset_mset)
  note ok = migration_store.Runner_Run_ok [OF mongo_migration_store [OF srv] sort rec trace]
  from ok [OF run] have applied: "map am_Version applied = pending (versions (colls (w_mongo w) schema_migrations)) (map mg_Version (sort_Slice ms))"
    and after: "versions (colls (w_mongo w') schema_migrations) = versions (colls (w_mongo w) schema_migrations) \<union> mg_Version ` set ms"
    and ran: "trace (w_mongo w') = trace (w_mongo w) @ map am_Version applied"
    by auto
  have "am_Version ` set applied = mg_Version ` set ms - versions (colls (w_mongo w) schema_migrations)"
    using arg_cong [OF applied, of set] by (simp add: set_pending set_sort)
  moreover have "again = [] \<and> trace (w_mongo w'') = trace (w_mongo w')"
    if "run_state (Runner_Run sort_Slice (NewRunner (NewMongoStore new_oid drv ix)) cx' ms) w' = (Inr again, w'')" for cx' again w''
  proof -
    have "set (map am_Version again) = {}"
      using ok [OF that] after by (simp only: set_pending) (auto simp: set_sort)
    then show ?thesis using ok [OF that] by simp
  qed
  ultimately show ?thesis
    using applied after ran slice_sort.sorted [OF sort] by (simp add: sorted_pending distinct_pending)
qed

text \<open>Three migrations, out of order, that each add a document to a collection; one is applied already.\<close>

definition note_migration :: "string \<Rightarrow> (mem, unit) Migration" where
  "note_migration v = \<lparr>mg_Version = v, mg_Name = ''note'',
     mg_Apply = Some (\<lambda>cx. on_mongo (drv_InsertOne mem_driver cx ''notes'' [(''_id'', BString v)]))\<rparr>"

definition note_lines :: "mem \<Rightarrow> string list" where
  "note_lines m = map (\<lambda>d. case map_of d ''_id'' of Some (BString v) \<Rightarrow> v | _ \<Rightarrow> []) (m ''notes'')"

definition tick_oid :: "(mem, unit, string) M" where
  "tick_oid = do { w \<leftarrow> State_Monad.get; ret (replicate (w_tick w) CHR ''x'') }"

definition noted_world :: "(mem, unit) world" where
  "noted_world = start_world ((\<lambda>_. [])(schema_migrations := [[(''_id'', BString ''o''), (''version'', BString ''2'')]])) () 0"

definition note_run :: "(err + AppliedMigration list) \<times> (mem, unit) world" where
  "note_run = run_state (Runner_Run (sort_key mg_Version) (NewRunner (NewMongoStore tick_oid mem_driver mem_indexes)) background
     [note_migration ''3'', note_migration ''1'', note_migration ''2'']) noted_world"

lemma note_run: "case fst note_run of Inr applied \<Rightarrow> map am_Version applied = [''1'', ''3''] | Inl e \<Rightarrow> False"
  by code_simp

lemma keeps_tick_oid: "keeps (\<lambda>w. I (w_mongo w)) tick_oid"
  by (rule keepsI) (auto simp: tick_oid_def)

lemma note_lines_kept: "store_keeps note_lines (NewMongoStore tick_oid mem_driver mem_indexes)"
proof -
  have other: "note_lines (m(schema_migrations := ds)) = note_lines m" for m ds by (simp add: note_lines_def schema_migrations_def)
  show ?thesis
    unfolding store_keeps_def NewMongoStore_def Store_Ensure_def Store_Has_def Store_Record_def MigrationStore.select_convs
    by (intro conjI allI keeps_intros keeps_tick_oid; rule keepsI)
       (auto simp: run_on_mongo mem_driver_def mem_indexes_def other split: prod.splits if_splits)
qed

theorem migrations_in_order_once_witness:
  "note_lines (w_mongo (snd note_run)) = [''1'', ''3''] \<and> versions (w_mongo (snd note_run) schema_migrations) = {''1'', ''2'', ''3''}"
proof -
  let ?ms = "[note_migration ''3'', note_migration ''1'', note_migration ''2'']"
  obtain applied w' where run: "note_run = (Inr applied, w')" "map am_Version applied = [''1'', ''3'']"
    using note_run by (cases "fst note_run") (auto simp: prod_eq_iff)
  note srv = mem_mongo.mongo_server_axioms mem_index.index_creation_axioms [where colls = "\<lambda>m. m"] keeps_tick_oid
  have "leave_record (\<lambda>m. versions (m schema_migrations)) ?ms" "traced note_lines ?ms"
    by (auto simp: leave_record_def traced_def note_migration_def schema_migrations_def note_lines_def run_on_mongo mem_driver_def
        split: prod.splits if_splits intro!: keepsI)
  note after = migrations_in_order_once [OF srv stable_sort.slice_sort_axioms this(1) note_lines_kept this(2) run(1) [unfolded note_run_def]]
  have "note_lines (w_mongo noted_world) = []" "versions (w_mongo noted_world schema_migrations) = {''2''}"
    by (auto simp: noted_world_def note_lines_def schema_migrations_def versions_def)
  moreover have "mg_Version ` set ?ms = {''3'', ''1'', ''2''}" by (simp add: note_migration_def)
  moreover have "{''2''} \<union> {''3'', ''1'', ''2''} = {''1'', ''2'', ''3''}" by auto
  ultimately show ?thesis using after unfolding run by (simp only: snd_conv append_Nil simp_thms)
qed

end
