(* ===== verification/Seed.thy ===== *)
theory Seed
  imports SessionStore TokenService
begin

text \<open>
  \<open>internal/app/seed/admin.go\<close>: making sure that there is an account with the administrator's role.
  \<open>cmd/seed\<close> runs it over the user repository of \<open>MongoDatabase\<close>, without the cache.
\<close>

record AdminInput =
  ai_Email :: string
  ai_Password :: string
  ai_Name :: string

record AdminResult =
  ad_UserID :: string
  ad_Email :: string
  ad_Created :: bool
  ad_Updated :: bool

definition seed_randomID :: "('m, 'r, err + string) M" where
  "seed_randomID = do {
     b \<leftarrow> rand_Read 16;
     ret (case b of None \<Rightarrow> Inl (Errorf ''entropy source failed'' None) | Some bs \<Rightarrow> Inr (hex_EncodeToString bs))
   }"

text \<open>The clock is \<open>time.Now\<close>; the field that replaces it is for tests.\<close>

record ('m, 'r) AdminSeeder =
  sd_users :: "('m, 'r) UserRepository option"
  sd_passwords :: "('m, 'r) PasswordHasher"
  sd_newID :: "('m, 'r, err + string) M"

record ('m, 'r) AdminSeederDependencies =
  sdd_Users :: "('m, 'r) UserRepository option"
  sdd_Passwords :: "('m, 'r) PasswordHasher option"
  sdd_NewID :: "('m, 'r, err + string) M option"

definition NewAdminSeeder :: "('m, 'r) bcrypt_lib \<Rightarrow> ('m, 'r) AdminSeederDependencies \<Rightarrow> ('m, 'r) AdminSeeder" where
  "NewAdminSeeder bc deps =
     \<lparr>sd_users = sdd_Users deps,
      sd_passwords = (case sdd_Passwords deps of None \<Rightarrow> BcryptHasher bc 0 | Some p \<Rightarrow> p),
      sd_newID = (case sdd_NewID deps of None \<Rightarrow> seed_randomID | Some f \<Rightarrow> f)\<rparr>"

text \<open>The account that a run creates.\<close>

definition admin_user :: "string \<Rightarrow> string \<Rightarrow> string \<Rightarrow> string \<Rightarrow> time \<Rightarrow> User" where
  "admin_user i email hash name now =
     (let admin = (User_New email hash name now)\<lparr>u_ID := i, u_Roles := [RoleAdmin]\<rparr>
      in if u_Name admin = [] then admin\<lparr>u_Name := ''Administrator''\<rparr> else admin)"

definition seed_create :: "('m, 'r) AdminSeeder \<Rightarrow> ('m, 'r) UserRepository \<Rightarrow> ctx \<Rightarrow> AdminInput \<Rightarrow> string \<Rightarrow> ('m, 'r, err + AdminResult) M" where
  "seed_create s users cx input email = do {
     now \<leftarrow> time_Now;
     i \<leftarrow> sd_newID s;
     case i of
       Inl e \<Rightarrow> ret (Inl e)
     | Inr i' \<Rightarrow> do {
         h \<leftarrow> ph_Hash (sd_passwords s) (ai_Password input);
         case h of
           Inl e \<Rightarrow> ret (Inl e)
         | Inr passwordHash \<Rightarrow> do {
             let admin = admin_user i' email passwordHash (ai_Name input) now;
             c \<leftarrow> ur_Create users cx admin;
             ret (case c of
                    Some e \<Rightarrow> Inl e
                  | None \<Rightarrow> Inr \<lparr>ad_UserID = u_ID admin, ad_Email = u_Email admin, ad_Created = True, ad_Updated = False\<rparr>)
           }
       }
   }"

definition SeedAdmin :: "('m, 'r) AdminSeeder \<Rightarrow> ctx \<Rightarrow> AdminInput \<Rightarrow> ('m, 'r, err + AdminResult) M" where
  "SeedAdmin s cx input =
     (case sd_users s of
        None \<Rightarrow> ret (Inl (Errorf ''user repository is required'' None))
      | Some users \<Rightarrow>
          let email = NormalizeEmail (ai_Email input)
          in if email = [] then ret (Inl (Errorf ''admin email is required'' None))
             else if TrimSpace (ai_Password input) = [] then ret (Inl (Errorf ''admin password is required'' None))
             else do {
               f \<leftarrow> ur_FindByEmail users cx email;
               case f of
                 Inr (Some existing) \<Rightarrow>
                   if HasRole existing RoleAdmin
                   then ret (Inr \<lparr>ad_UserID = u_ID existing, ad_Email = u_Email existing, ad_Created = False, ad_Updated = False\<rparr>)
                   else do {
                     now \<leftarrow> time_Now;
                     r \<leftarrow> ur_EnsureRole users cx (u_ID existing) RoleAdmin now;
                     ret (case r of
                            Some e \<Rightarrow> Inl e
                          | None \<Rightarrow> Inr \<lparr>ad_UserID = u_ID existing, ad_Email = u_Email existing, ad_Created = False, ad_Updated = True\<rparr>)
                   }
               | Inr None \<Rightarrow> seed_create s users cx input email
               | Inl e \<Rightarrow> if \<not> errors_Is e DbErrNotFound then ret (Inl e) else seed_create s users cx input email
             })"

section \<open>The accounts a seeder relies on\<close>

text \<open>
  The three operations of the user repository the seeder calls, read off the collection of users:
  a lookup answers from the collection, granting a role changes one matching account, creating an
  account adds it and is refused when the address is taken.
\<close>

definition grant :: "Role \<Rightarrow> time \<Rightarrow> update" where
  "grant role now = [UAddToSet ''roles'' role, USet [(''updated_at'', bson_date now)]]"

definition with_email :: "string \<Rightarrow> doc \<Rightarrow> bool" where
  "with_email email d \<longleftrightarrow> map_of d ''email'' = Some (BString email)"

locale accounts =
  fixes repo :: "('m, 'r) UserRepository"
    and users :: "'m \<Rightarrow> doc list"
  assumes find_frame: "run_state (ur_FindByEmail repo cx email) w = (r, w') \<Longrightarrow> users (w_mongo w') = users (w_mongo w)"
    and find_ok: "run_state (ur_FindByEmail repo cx email) w = (Inr u, w') \<Longrightarrow>
          \<exists>d \<in> set (users (w_mongo w)). with_email (NormalizeEmail email) d \<and> u = Some (user_toDomain d)"
    and find_none: "run_state (ur_FindByEmail repo cx email) w = (Inl e, w') \<Longrightarrow> errors_Is e DbErrNotFound \<Longrightarrow>
          d \<in> set (users (w_mongo w)) \<Longrightarrow> \<not> with_email (NormalizeEmail email) d"
    and grant_ok: "run_state (ur_EnsureRole repo cx i role now) w = (None, w') \<Longrightarrow>
          updated_one (id_query i) (grant role now) (users (w_mongo w)) (users (w_mongo w'))"
    and create_ok: "run_state (ur_Create repo cx usr) w = (None, w') \<Longrightarrow>
          users (w_mongo w') = users (w_mongo w) @ [userDocumentFromDomain usr]"
    and create_fresh: "run_state (ur_Create repo cx usr) w = (None, w') \<Longrightarrow> d \<in> set (users (w_mongo w)) \<Longrightarrow>
          \<not> clashes ''users'' (userDocumentFromDomain usr) d"

context mongo_server
begin

lemma mongo_accounts: "accounts (NewUserRepository (MongoDatabase drv)) (\<lambda>m. colls m ''users'')"
proof
  fix cx i role now w w'
  assume "run_state (ur_EnsureRole (NewUserRepository (MongoDatabase drv)) cx i role now) w = (None, w')"
  then show "updated_one (id_query i) (grant role now) (colls (w_mongo w) ''users'') (colls (w_mongo w') ''users'')"
    using update_one_ok
    by (fastforce simp: NewUserRepository_def User_EnsureRole_def grant_def Mongo_update_law WriteOptions_Validate_def write_opts_def
        affected_def split: prod.splits sum.splits if_splits)
next
  fix cx usr w w'
  assume "run_state (ur_Create (NewUserRepository (MongoDatabase drv)) cx usr) w = (None, w')"
  then show "colls (w_mongo w') ''users'' = colls (w_mongo w) ''users'' @ [userDocumentFromDomain usr]"
    by (auto simp: NewUserRepository_def dest: store.User_Create_law(1) [OF mongo_store])
next
  fix cx usr w w' d
  assume "run_state (ur_Create (NewUserRepository (MongoDatabase drv)) cx usr) w = (None, w')" "d \<in> set (colls (w_mongo w) ''users'')"
  then show "\<not> clashes ''users'' (userDocumentFromDomain usr) d"
    using store.st_insert_clash [OF mongo_store, of "write_opts\<lparr>wo_InvalidateKeys := [userIDKey (u_ID usr), userEmailKey (u_Email usr)]\<rparr>"]
    by (fastforce simp: NewUserRepository_def User_Create_def mapWriteError_def once_def write_opts_def
        split: prod.splits option.splits if_splits)
next
  fix cx email w r w'
  assume run: "run_state (ur_FindByEmail (NewUserRepository (MongoDatabase drv)) cx email) w = (r, w')"
  then show "colls (w_mongo w') ''users'' = colls (w_mongo w) ''users''"
    by (auto simp: NewUserRepository_def User_FindByEmail_def Let_def split: prod.splits dest: Mongo_find_one_law(1))
next
  fix cx email w u w'
  assume run: "run_state (ur_FindByEmail (NewUserRepository (MongoDatabase drv)) cx email) w = (Inr u, w')"
  then show "\<exists>d \<in> set (colls (w_mongo w) ''users''). with_email (NormalizeEmail email) d \<and> u = Some (user_toDomain d)"
    by (fastforce simp: NewUserRepository_def User_FindByEmail_def Let_def map_sum_def with_email_def matches_def
        split: prod.splits sum.splits dest: Mongo_find_one_law(2))
next
  fix cx email w e w' d
  assume run: "run_state (ur_FindByEmail (NewUserRepository (MongoDatabase drv)) cx email) w = (Inl e, w')"
    and "errors_Is e DbErrNotFound" "d \<in> set (colls (w_mongo w) ''users'')"
  then show "\<not> with_email (NormalizeEmail email) d"
    by (fastforce simp: NewUserRepository_def User_FindByEmail_def Let_def map_sum_def with_email_def matches_def
        split: prod.splits sum.splits dest: Mongo_find_one_law(3))
qed

end

sublocale mongo_server \<subseteq> acc: accounts "NewUserRepository (MongoDatabase drv)" "\<lambda>m. colls m ''users''"
  by (rule mongo_accounts)

section \<open>What a run achieves\<close>

text \<open>\<open>cmd/seed/main.go\<close>: the seeder of the command.\<close>

definition buildAdminSeeder :: "'m mongo_driver \<Rightarrow> ('m, 'r) bcrypt_lib \<Rightarrow> int \<Rightarrow> ('m, 'r) AdminSeeder" where
  "buildAdminSeeder drv bc cost =
     NewAdminSeeder bc \<lparr>sdd_Users = Some (NewUserRepository (MongoDatabase drv)), sdd_Passwords = Some (BcryptHasher bc cost),
       sdd_NewID = None\<rparr>"

definition is_admin :: "doc \<Rightarrow> bool" where
  "is_admin d \<longleftrightarrow> HasRole (user_toDomain d) RoleAdmin"

lemma map_of_grant:
  "map_of (apply_update (grant role now) d) =
     (map_of d)(''roles'' \<mapsto> BStrings (let rs = get_strings d ''roles'' in if role \<in> set rs then rs else rs @ [role]),
                ''updated_at'' \<mapsto> bson_date now)"
  by (auto simp: grant_def apply_update_def update_conv' get_strings_def Let_def fun_eq_iff split: option.splits bson.splits)

lemma is_admin_grant: "is_admin (apply_update (grant RoleAdmin now) d)"
  by (auto simp: is_admin_def HasRole_set user_toDomain_def get_strings_def map_of_grant Let_def)

lemma is_admin_created: "is_admin (userDocumentFromDomain (admin_user i email h n now))"
  by (simp add: is_admin_def user_codec_roundtrip HasRole_set admin_user_def Let_def)

lemma uniq_same:
  "uniq c ds \<Longrightarrow> f \<in> set (unique_fields c) \<Longrightarrow> d \<in> set ds \<Longrightarrow> d' \<in> set ds \<Longrightarrow> map_of d f = map_of d' f \<Longrightarrow> d = d'"
  unfolding uniq_def by (metis distinct_map inj_onD)

text \<open>The accounts of the collection: addresses and identifiers are unique, identifiers are text.\<close>

definition well_keyed :: "doc list \<Rightarrow> bool" where
  "well_keyed ds \<longleftrightarrow> uniq ''users'' ds \<and> (\<forall>d \<in> set ds. \<exists>i. map_of d ''_id'' = Some (BString i))"

text \<open>What a run did: nothing, granted the role to the account it found, or created the account.\<close>

definition seeded :: "AdminInput \<Rightarrow> AdminResult \<Rightarrow> doc list \<Rightarrow> doc list \<Rightarrow> bool" where
  "seeded input r ds ds' \<longleftrightarrow>
     (let email = NormalizeEmail (ai_Email input) in
      if ad_Created r then
        (\<exists>h now i. ds' = ds @ [userDocumentFromDomain (admin_user i email h (ai_Name input) now)] \<and> ad_UserID r = i \<and>
           (\<forall>d \<in> set ds. \<not> with_email email d \<and> \<not> clashes ''users'' (userDocumentFromDomain (admin_user i email h (ai_Name input) now)) d))
      else if ad_Updated r then
        (\<exists>pre d post now. ds = pre @ d # post \<and> with_email email d \<and> \<not> is_admin d \<and> ad_UserID r = get_string d ''_id'' \<and>
           ds' = pre @ apply_update (grant RoleAdmin now) d # post)
      else ds' = ds \<and> (\<exists>d \<in> set ds. with_email email d \<and> is_admin d \<and> ad_UserID r = get_string d ''_id''))"

context accounts
begin

lemma seed_create_law:
  assumes s: "\<And>I. keeps (\<lambda>w. I (w_mongo w)) (sd_newID s)" "\<And>I p. keeps (\<lambda>w. I (w_mongo w)) (ph_Hash (sd_passwords s) p)"
    and create: "run_state (seed_create s repo cx input email) w = (Inr r, w')"
  shows "\<exists>i h now. users (w_mongo w') = users (w_mongo w) @ [userDocumentFromDomain (admin_user i email h (ai_Name input) now)] \<and>
     (\<forall>d \<in> set (users (w_mongo w)). \<not> clashes ''users'' (userDocumentFromDomain (admin_user i email h (ai_Name input) now)) d) \<and>
     ad_Created r \<and> ad_UserID r = i"
proof -
  let ?w1 = "w\<lparr>w_tick := Suc (w_tick w)\<rparr>" and ?now = "w_clock w (w_tick w)"
  obtain i w2 where i: "run_state (sd_newID s) ?w1 = (i, w2)" by fastforce
  obtain h w3 where h: "run_state (ph_Hash (sd_passwords s) (ai_Password input)) w2 = (h, w3)" by fastforce
  obtain i' h' where ih: "i = Inr i'" "h = Inr h'" using create i h by (auto simp: seed_create_def split: sum.splits)
  let ?u = "admin_user i' email h' (ai_Name input) ?now"
  obtain c w4 where c: "run_state (ur_Create repo cx ?u) w3 = (c, w4)" by fastforce
  have r: "c = None" "w' = w4" "ad_Created r" "ad_UserID r = i'"
    using create i h ih c by (auto simp: seed_create_def Let_def admin_user_def split: option.splits)
  have m: "w_mongo w3 = w_mongo w"
    using keeps_eqD [where f = w_mongo, OF s(1) i] keeps_eqD [where f = w_mongo, OF s(2) h] by simp
  show ?thesis
    using create_ok [OF c [unfolded r(1)]] create_fresh [OF c [unfolded r(1)]] r m
    by (intro exI [of _ i'] exI [of _ h'] exI [of _ ?now]) auto
qed

lemma seed_grant_law:
  assumes e: "run_state (ur_EnsureRole repo cx (get_string d ''_id'') RoleAdmin now) w = (None, w')"
    and keyed: "well_keyed (users (w_mongo w))" and d: "d \<in> set (users (w_mongo w))"
  shows "\<exists>pre post. users (w_mongo w) = pre @ d # post \<and> users (w_mongo w') = pre @ apply_update (grant RoleAdmin now) d # post"
proof -
  from grant_ok [OF e] obtain pre d' post where
    split: "users (w_mongo w) = pre @ d' # post" and d': "matches (id_query (get_string d ''_id'')) d'"
    and after: "users (w_mongo w') = pre @ apply_update (grant RoleAdmin now) d' # post"
    by (auto simp: updated_one_def)
  obtain i where i: "map_of d ''_id'' = Some (BString i)" using keyed d by (auto simp: well_keyed_def)
  then have "map_of d' ''_id'' = map_of d ''_id''" using d' by (simp add: matches_def id_query_def get_string_def)
  then have "d' = d"
    using uniq_same [of "''users''" "users (w_mongo w)" "''_id''" d' d] keyed split d
    by (simp add: well_keyed_def unique_fields_def)
  then show ?thesis using split after by blast
qed

lemma SeedAdmin_law:
  assumes s: "sd_users s = Some repo" "\<And>I. keeps (\<lambda>w. I (w_mongo w)) (sd_newID s)"
      "\<And>I p. keeps (\<lambda>w. I (w_mongo w)) (ph_Hash (sd_passwords s) p)"
    and keyed: "well_keyed (users (w_mongo w))"
    and run: "run_state (SeedAdmin s cx input) w = (Inr r, w')"
  shows "seeded input r (users (w_mongo w)) (users (w_mongo w'))"
proof -
  let ?email = "NormalizeEmail (ai_Email input)"
  obtain f w1 where f: "run_state (ur_FindByEmail repo cx ?email) w = (f, w1)" by fastforce
  have w1: "users (w_mongo w1) = users (w_mongo w)" by (rule find_frame [OF f])
  have norm: "NormalizeEmail ?email = ?email" by simp
  show ?thesis
  proof (cases f)
    case (Inr u)
    then obtain d where d: "d \<in> set (users (w_mongo w))" "with_email ?email d" and u: "u = Some (user_toDomain d)"
      using find_ok [OF f [unfolded Inr]] norm by auto
    show ?thesis
    proof (cases "is_admin d")
      case True
      then show ?thesis
        using run s(1) f Inr u d w1
        by (auto simp: SeedAdmin_def Let_def seeded_def is_admin_def user_toDomain_def split: if_splits)
    next
      case False
      obtain e w2 where e: "run_state (ur_EnsureRole repo cx (get_string d ''_id'') RoleAdmin (w_clock w1 (w_tick w1)))
          (w1\<lparr>w_tick := Suc (w_tick w1)\<rparr>) = (e, w2)" by fastforce
      have r: "e = None" "w' = w2" "ad_UserID r = get_string d ''_id''" "\<not> ad_Created r" "ad_Updated r"
        using run s(1) f Inr u False e
        by (auto simp: SeedAdmin_def Let_def is_admin_def user_toDomain_def split: if_splits option.splits)
      obtain pre post where "users (w_mongo w) = pre @ d # post"
        "users (w_mongo w2) = pre @ apply_update (grant RoleAdmin (w_clock w1 (w_tick w1))) d # post"
        using seed_grant_law [OF e [unfolded r(1)]] keyed d(1) by (auto simp: w1)
      then show ?thesis using r d False by (auto simp: seeded_def Let_def)
    qed
  next
    case (Inl err)
    then have nf: "errors_Is err DbErrNotFound" and create: "run_state (seed_create s repo cx input ?email) w1 = (Inr r, w')"
      using run s(1) f by (auto simp: SeedAdmin_def Let_def split: if_splits)
    have none: "\<not> with_email ?email d" if "d \<in> set (users (w_mongo w))" for d
      using find_none [OF f [unfolded Inl] nf that] norm by simp
    from seed_create_law [OF s(2,3) create] w1 none show ?thesis by (auto simp: seeded_def Let_def)
  qed
qed

end

lemma created_keys:
  "with_email (NormalizeEmail email) (userDocumentFromDomain (admin_user i (NormalizeEmail email) h n now))"
  "get_string (userDocumentFromDomain (admin_user i email h n now)) ''_id'' = i"
  by (simp_all add: with_email_def userDocumentFromDomain_def admin_user_def User_New_def get_string_def Let_def)

lemma granted_keys:
  "with_email email (apply_update (grant role now) d) = with_email email d"
  "get_string (apply_update (grant role now) d) ''_id'' = get_string d ''_id''"
  by (simp_all add: with_email_def get_string_def map_of_grant)

lemma seeded_admin:
  assumes "seeded input r ds ds'"
  shows "\<exists>d \<in> set ds'. with_email (NormalizeEmail (ai_Email input)) d \<and> is_admin d \<and> get_string d ''_id'' = ad_UserID r"
proof (cases "ad_Created r \<or> ad_Updated r")
  case True
  with assms show ?thesis
    using is_admin_created is_admin_grant created_keys granted_keys
    by (fastforce simp: seeded_def Let_def split: if_splits)
next
  case False
  with assms show ?thesis by (auto simp: seeded_def Let_def)
qed

lemma uniq_snoc: "uniq c ds \<Longrightarrow> (\<And>d'. d' \<in> set ds \<Longrightarrow> \<not> clashes c d d') \<Longrightarrow> uniq c (ds @ [d])"
  by (fastforce simp: uniq_def clashes_def)

lemma uniq_replaced:
  "uniq c (pre @ d # post) \<Longrightarrow> (\<And>f. f \<in> set (unique_fields c) \<Longrightarrow> map_of d' f = map_of d f) \<Longrightarrow> uniq c (pre @ d' # post)"
  by (simp add: uniq_def)

lemma well_keyed_seeded:
  assumes "seeded input r ds ds'" "well_keyed ds"
  shows "well_keyed ds'"
proof -
  have "\<exists>i. map_of d ''_id'' = Some (BString i)" if "d \<in> set ds'" for d
    using assms that
    by (auto simp: seeded_def Let_def well_keyed_def map_of_grant userDocumentFromDomain_def split: if_splits)
  moreover have "uniq ''users'' ds'"
  proof (cases "ad_Created r")
    case True
    with assms show ?thesis by (auto simp: seeded_def Let_def well_keyed_def intro!: uniq_snoc)
  next
    case False
    with assms show ?thesis
      by (auto simp: seeded_def Let_def well_keyed_def map_of_grant unique_fields_def split: if_splits elim!: uniq_replaced)
  qed
  ultimately show ?thesis by (simp add: well_keyed_def)
qed

text \<open>A run after a successful one finds the administrator and changes nothing.\<close>

lemma seeded_again:
  assumes first: "seeded input r ds ds'" and again: "seeded input r' ds' ds''" and keyed: "well_keyed ds'"
  shows "\<not> ad_Created r' \<and> \<not> ad_Updated r' \<and> ds'' = ds'"
proof -
  obtain d where d: "d \<in> set ds'" "with_email (NormalizeEmail (ai_Email input)) d" "is_admin d"
    using seeded_admin [OF first] by blast
  have same: "d' = d" if "d' \<in> set ds'" "with_email (NormalizeEmail (ai_Email input)) d'" for d'
    using uniq_same [of "''users''" ds' "''email''" d' d] that d keyed
    by (simp add: well_keyed_def unique_fields_def with_email_def)
  have "\<not> ad_Created r'" using again d(1,2) by (auto simp: seeded_def Let_def)
  moreover have "\<not> ad_Updated r'"
  proof
    assume "ad_Updated r'"
    with again calculation obtain d' where "d' \<in> set ds'" "with_email (NormalizeEmail (ai_Email input)) d'" "\<not> is_admin d'"
      unfolding seeded_def Let_def by (auto intro: that)
    with same d(3) show False by blast
  qed
  ultimately show ?thesis using again by (simp add: seeded_def Let_def)
qed

text \<open>
  Seeding the administrator is idempotent: after a successful run of \<open>cmd/seed\<close> exactly the
  account with the normalised address has the administrator's role, either because it had it (nothing
  changed), or was granted it (no other account and no other field but the time of update changed), or
  was created; and a second successful run neither creates nor changes an account.
\<close>

lemma seed_admin_idempotent:
  assumes srv: "mongo_server drv colls" and bc: "\<And>I p c. keeps (\<lambda>w. I (w_mongo w)) (bc_GenerateFromPassword bc p c)"
    and keyed: "well_keyed (colls (w_mongo w) ''users'')"
    and run: "run_state (SeedAdmin (buildAdminSeeder drv bc cost) cx input) w = (Inr r, w')"
  shows "seeded input r (colls (w_mongo w) ''users'') (colls (w_mongo w') ''users'') \<and>
     (\<exists>d \<in> set (colls (w_mongo w') ''users''). with_email (NormalizeEmail (ai_Email input)) d \<and> is_admin d \<and>
        get_string d ''_id'' = ad_UserID r) \<and>
     (\<forall>cx' r' w''. run_state (SeedAdmin (buildAdminSeeder drv bc cost) cx' input) w' = (Inr r', w'') \<longrightarrow>
        \<not> ad_Created r' \<and> \<not> ad_Updated r' \<and> colls (w_mongo w'') ''users'' = colls (w_mongo w') ''users'')"
proof -
  let ?s = "buildAdminSeeder drv bc cost"
  have newID: "keeps (\<lambda>w. I (w_mongo w)) (sd_newID ?s)" for I
    by (simp add: buildAdminSeeder_def NewAdminSeeder_def seed_randomID_def keeps_intros)
  have hash: "keeps (\<lambda>w. I (w_mongo w)) (ph_Hash (sd_passwords ?s) p)" for I p
    by (simp add: buildAdminSeeder_def NewAdminSeeder_def BcryptHasher_def Bcrypt_Hash_def Let_def bc)
  have users: "sd_users ?s = Some (NewUserRepository (MongoDatabase drv))"
    by (simp add: buildAdminSeeder_def NewAdminSeeder_def)
  note law = accounts.SeedAdmin_law [OF mongo_server.mongo_accounts [OF srv] users newID hash]
  have first: "seeded input r (colls (w_mongo w) ''users'') (colls (w_mongo w') ''users'')"
    by (rule law [OF keyed run])
  have keyed': "well_keyed (colls (w_mongo w') ''users'')" by (rule well_keyed_seeded [OF first keyed])
  show ?thesis
    by (intro conjI allI impI first seeded_admin [OF first] seeded_again [OF first law [OF keyed'] keyed']) 
qed

end
