(* ===== verification/Logger.thy ===== *)
theory Logger
  imports Prelude Formats Errors "HOL-Library.AList" "HOL-Library.List_Lexorder" "HOL-Library.Char_ord"
begin

text \<open>
  \<open>internal/platform/logger/logger.go\<close>: levels, fields that every line of a logger carries, the
  redaction of sensitive fields and the two formats of a line.

  Writing a line is a computation whose result is the line handed to the writers, \<open>None\<close> below the
  level of the logger. A value of Go's type \<open>any\<close> is a string, a \<open>fmt.Stringer\<close> with its text, or
  another value with the text that \<open>fmt.Sprint\<close> gives. \<open>json.Marshal\<close> of an entry and the creation of
  the directory of the log file are parameters.
\<close>

section \<open>Fields and levels\<close>

datatype any_value = AString string | AStringer string | AOther string

record Field =
  fd_Key :: string
  fd_Value :: any_value

definition logger_String :: "string \<Rightarrow> string \<Rightarrow> Field" where
  "logger_String key value = \<lparr>fd_Key = key, fd_Value = AString value\<rparr>"

definition logger_Int :: "string \<Rightarrow> int \<Rightarrow> Field" where
  "logger_Int key value = \<lparr>fd_Key = key, fd_Value = AOther (Itoa value)\<rparr>"

definition logger_Any :: "string \<Rightarrow> any_value \<Rightarrow> Field" where
  "logger_Any key value = \<lparr>fd_Key = key, fd_Value = value\<rparr>"

text \<open>\<open>slog.Level\<close>: an integer; the text of the four named levels.\<close>

definition LevelDebug :: int where "LevelDebug = - 4"
definition LevelInfo :: int where "LevelInfo = 0"
definition LevelWarn :: int where "LevelWarn = 4"
definition LevelError :: int where "LevelError = 8"

lemmas level_defs = LevelDebug_def LevelInfo_def LevelWarn_def LevelError_def

definition level_text :: "int \<Rightarrow> string" where
  "level_text l =
     (if l = LevelDebug then ''debug'' else if l = LevelInfo then ''info'' else if l = LevelWarn then ''warn'' else ''error'')"

definition parseLevel :: "string \<Rightarrow> int" where
  "parseLevel level =
     (let l = ToLower (TrimSpace level)
      in if l = ''debug'' then LevelDebug else if l = ''warn'' then LevelWarn else if l = ''error'' then LevelError else LevelInfo)"

section \<open>Construction\<close>

record LoggerConfig =
  lgc_Level :: string
  lgc_Format :: string
  lgc_FilePath :: string
  lgc_ToTerminal :: bool
  lgc_ToFile :: bool
  lgc_MaxSizeMB :: int
  lgc_MaxBackups :: int
  lgc_MaxAgeDays :: int
  lgc_Compress :: bool

text \<open>A writer: the standard output, or a rotating file with its settings.\<close>

datatype writer = Stdout | RotatingFile string int int int bool

record structuredLogger =
  lo_level :: int
  lo_format :: string
  lo_writers :: "writer list"
  lo_fields :: "Field list"

definition positiveOrDefault :: "int \<Rightarrow> int \<Rightarrow> int" where
  "positiveOrDefault value fallback = (if value > 0 then value else fallback)"

definition nonNegativeOrDefault :: "int \<Rightarrow> int \<Rightarrow> int" where
  "nonNegativeOrDefault value fallback = (if value \<ge> 0 then value else fallback)"

definition rotating_file :: "LoggerConfig \<Rightarrow> writer" where
  "rotating_file cfg =
     RotatingFile (lgc_FilePath cfg) (positiveOrDefault (lgc_MaxSizeMB cfg) 100) (nonNegativeOrDefault (lgc_MaxBackups cfg) 10)
       (nonNegativeOrDefault (lgc_MaxAgeDays cfg) 30) (lgc_Compress cfg)"

text \<open>\<open>mkdir path\<close> is the creation of the directory of a file. The second result are the files to close.\<close>

definition logger_New :: "(string \<Rightarrow> err option) \<Rightarrow> LoggerConfig \<Rightarrow> err + (structuredLogger \<times> writer list)" where
  "logger_New mkdir cfg =
     (if lgc_ToFile cfg \<and> lgc_FilePath cfg = []
      then Inl (Errorf ''log file path is required when file logging is enabled'' None)
      else case (if lgc_ToFile cfg then mkdir (lgc_FilePath cfg) else None) of
        Some e \<Rightarrow> Inl e
      | None \<Rightarrow>
          let files = (if lgc_ToFile cfg then [rotating_file cfg] else []);
              writers = (if lgc_ToTerminal cfg then [Stdout] else []) @ files
          in if writers = [] then Inl (Errorf ''at least one logger writer is required'' None)
             else Inr (\<lparr>lo_level = parseLevel (lgc_Level cfg), lo_format = ToLower (TrimSpace (lgc_Format cfg)),
                        lo_writers = writers, lo_fields = []\<rparr>, files))"

text \<open>The closing function: every file is closed, the first failure is returned.\<close>

fun close_files :: "(writer \<Rightarrow> err option) \<Rightarrow> writer list \<Rightarrow> err option" where
  "close_files close [] = None"
| "close_files close (w # ws) = (case close w of Some e \<Rightarrow> Some e | None \<Rightarrow> close_files close ws)"

definition logger_With :: "structuredLogger \<Rightarrow> Field list \<Rightarrow> structuredLogger" where
  "logger_With l fs = l\<lparr>lo_fields := lo_fields l @ fs\<rparr>"

section \<open>Lines\<close>

definition sensitive_markers :: "string list" where
  "sensitive_markers = [''password'', ''token'', ''secret'', ''authorization'', ''refresh'']"

definition redact :: "string \<Rightarrow> any_value \<Rightarrow> any_value" where
  "redact key value =
     (if list_ex (\<lambda>marker. Contains (ToLower key) marker) sensitive_markers then AString ''[REDACTED]'' else value)"

text \<open>A Go map as an association list with one pair per key.\<close>

type_synonym entry = "(string \<times> any_value) list"

fun add_fields :: "entry \<Rightarrow> Field list \<Rightarrow> entry" where
  "add_fields entry [] = entry"
| "add_fields entry (f # fs) =
     add_fields (if fd_Key f = [] then entry else AList.update (fd_Key f) (redact (fd_Key f) (fd_Value f)) entry) fs"

definition log_entry :: "structuredLogger \<Rightarrow> int \<Rightarrow> string \<Rightarrow> time \<Rightarrow> Field list \<Rightarrow> entry" where
  "log_entry l level msg now fs =
     add_fields [(''time'', AString (RFC3339Nano now)), (''level'', AString (level_text level)), (''msg'', AString msg)]
       (lo_fields l @ fs)"

text \<open>
  \<open>strconv.Quote\<close>: escapes for quotes, backslashes and control characters; the bytes above 127 are
  those of printable characters.
\<close>

definition hex_digit :: "nat \<Rightarrow> char" where
  "hex_digit n = (if n < 10 then char_of (48 + n) else char_of (87 + n))"

definition quote_char :: "char \<Rightarrow> string" where
  "quote_char c =
     (let n = (of_char c :: nat); bs = CHR 92
      in if n = 34 \<or> n = 92 then [bs, c]
         else if n = 7 then [bs, CHR ''a''] else if n = 8 then [bs, CHR ''b''] else if n = 9 then [bs, CHR ''t'']
         else if n = 10 then [bs, CHR ''n''] else if n = 11 then [bs, CHR ''v''] else if n = 12 then [bs, CHR ''f'']
         else if n = 13 then [bs, CHR ''r'']
         else if n < 32 \<or> n = 127 then [bs, CHR ''x'', hex_digit (n div 16), hex_digit (n mod 16)]
         else [c])"

definition Quote :: "string \<Rightarrow> string" where
  "Quote s = [CHR 34] @ concat (map quote_char s) @ [CHR 34]"

fun formatFieldValue :: "any_value \<Rightarrow> string" where
  "formatFieldValue (AString v) = Quote v"
| "formatFieldValue (AStringer v) = Quote v"
| "formatFieldValue (AOther v) = v"

definition formatTextEntry :: "entry \<Rightarrow> string" where
  "formatTextEntry entry = Join (map (\<lambda>(k, v). k @ ''='' @ formatFieldValue v) (sort_key fst entry)) '' ''"

definition formatEntry :: "(entry \<Rightarrow> err + string) \<Rightarrow> string \<Rightarrow> entry \<Rightarrow> err + string" where
  "formatEntry marshal format entry = (if format = ''text'' then Inr (formatTextEntry entry) else marshal entry)"

definition failed_line :: string where
  "failed_line =
     (let q = [CHR 34] in
      ''{'' @ q @ ''level'' @ q @ '':'' @ q @ ''error'' @ q @ '','' @ q @ ''msg'' @ q @ '':'' @ q @ ''failed to marshal log entry'' @ q @ ''}'')"

definition log_write ::
  "(entry \<Rightarrow> err + string) \<Rightarrow> structuredLogger \<Rightarrow> int \<Rightarrow> string \<Rightarrow> Field list \<Rightarrow> ('m, 'r, string option) M" where
  "log_write marshal l level msg fs =
     (if level < lo_level l then ret None
      else do {
        now \<leftarrow> time_Now;
        let line = (case formatEntry marshal (lo_format l) (log_entry l level msg now fs) of
                      Inl e \<Rightarrow> failed_line
                    | Inr s \<Rightarrow> s);
        ret (Some (line @ [CHR 10]))
      })"

definition logger_Debug :: "(entry \<Rightarrow> err + string) \<Rightarrow> structuredLogger \<Rightarrow> string \<Rightarrow> Field list \<Rightarrow> ('m, 'r, string option) M" where
  "logger_Debug marshal l msg fs = log_write marshal l LevelDebug msg fs"

definition logger_Info :: "(entry \<Rightarrow> err + string) \<Rightarrow> structuredLogger \<Rightarrow> string \<Rightarrow> Field list \<Rightarrow> ('m, 'r, string option) M" where
  "logger_Info marshal l msg fs = log_write marshal l LevelInfo msg fs"

definition logger_Warn :: "(entry \<Rightarrow> err + string) \<Rightarrow> structuredLogger \<Rightarrow> string \<Rightarrow> Field list \<Rightarrow> ('m, 'r, string option) M" where
  "logger_Warn marshal l msg fs = log_write marshal l LevelWarn msg fs"

definition logger_Error :: "(entry \<Rightarrow> err + string) \<Rightarrow> structuredLogger \<Rightarrow> string \<Rightarrow> Field list \<Rightarrow> ('m, 'r, string option) M" where
  "logger_Error marshal l msg fs = log_write marshal l LevelError msg fs"

section \<open>Loggers in contexts\<close>

text \<open>The interface \<open>Logger\<close> has two implementations: the structured logger and one that writes nothing.\<close>

datatype some_logger = Structured structuredLogger | noopLogger

definition NewNoop :: some_logger where "NewNoop = noopLogger"

fun Logger_With :: "some_logger \<Rightarrow> Field list \<Rightarrow> some_logger" where
  "Logger_With (Structured l) fs = Structured (logger_With l fs)"
| "Logger_With noopLogger fs = noopLogger"

fun Logger_write :: "(entry \<Rightarrow> err + string) \<Rightarrow> some_logger \<Rightarrow> int \<Rightarrow> string \<Rightarrow> Field list \<Rightarrow> ('m, 'r, string option) M" where
  "Logger_write marshal (Structured l) level msg fs = log_write marshal l level msg fs"
| "Logger_write marshal noopLogger level msg fs = ret None"

text \<open>The loggers that a context holds, by key; a context may be nil.\<close>

type_synonym logger_context = "string \<Rightarrow> some_logger option"

definition key_Logger :: string where "key_Logger = ''logger''"

definition WithContext :: "logger_context \<Rightarrow> some_logger \<Rightarrow> logger_context" where
  "WithContext cx log = cx(key_Logger \<mapsto> log)"

definition FromContext :: "logger_context option \<Rightarrow> some_logger" where
  "FromContext cx =
     (case cx of
        None \<Rightarrow> noopLogger
      | Some c \<Rightarrow> (case c key_Logger of None \<Rightarrow> noopLogger | Some log \<Rightarrow> log))"

lemma FromContext_WithContext [simp]: "FromContext (Some (WithContext cx log)) = log"
  by (simp add: FromContext_def WithContext_def)

text \<open>
  What a request's logger writes after the middleware has added fields to it, twice, is what the
  logger writes with the fields in that order.
\<close>

lemma log_write_With:
  "Logger_write marshal (Logger_With (Logger_With log fs) gs) level msg hs = Logger_write marshal log level msg (fs @ gs @ hs)"
  by (cases log) (simp_all add: logger_With_def log_write_def log_entry_def)

section \<open>Entries\<close>

lemma add_fields_append: "add_fields entry (fs @ gs) = add_fields (add_fields entry fs) gs"
  by (induction fs arbitrary: entry) auto

text \<open>The last field of a key decides, and a key that no field names keeps its value.\<close>

lemma map_of_add_fields:
  "map_of (add_fields entry fs) k =
     (case List.filter (\<lambda>f. fd_Key f = k \<and> k \<noteq> []) (rev fs) of [] \<Rightarrow> map_of entry k | f # _ \<Rightarrow> Some (redact k (fd_Value f)))"
proof (induction fs rule: rev_induct)
  case (snoc f fs)
  then show ?case by (auto simp: add_fields_append update_conv')
qed simp

lemma distinct_add_fields: "distinct (map fst entry) \<Longrightarrow> distinct (map fst (add_fields entry fs))"
  by (induction fs arbitrary: entry) (auto simp: distinct_update)

text \<open>Fields that differ at most in the values of sensitive keys.\<close>

definition is_sensitive :: "string \<Rightarrow> bool" where
  "is_sensitive key \<longleftrightarrow> (\<exists>m \<in> {''password'', ''token'', ''secret'', ''authorization'', ''refresh''}. Contains (ToLower key) m)"

definition same_public :: "Field list \<Rightarrow> Field list \<Rightarrow> bool" where
  "same_public fs gs \<longleftrightarrow>
     list_all2 (\<lambda>f g. fd_Key f = fd_Key g \<and> (\<not> is_sensitive (fd_Key f) \<longrightarrow> fd_Value f = fd_Value g)) fs gs"

lemma redact_cases: "redact key value = (if is_sensitive key then AString ''[REDACTED]'' else value)"
  by (auto simp: redact_def is_sensitive_def sensitive_markers_def)

lemma add_fields_public: "same_public fs gs \<Longrightarrow> add_fields entry fs = add_fields entry gs"
  unfolding same_public_def
  by (induction fs gs arbitrary: entry rule: list_all2_induct) (auto simp: redact_cases)

lemma same_public_append: "same_public fs gs \<Longrightarrow> same_public fs2 gs2 \<Longrightarrow> same_public (fs @ fs2) (gs @ gs2)"
  by (simp add: same_public_def list_all2_appendI)

section \<open>Properties\<close>

text \<open>
  C36. A log line tells nothing about the values of sensitive fields, and loses nothing else: two calls
  whose fields, those the logger carries included, differ only in values under keys that name a
  password, a token, a secret, an authorization or a refresh write the same line, in both formats; and
  a call at an enabled level writes the line of an entry that holds, for every non-empty key that a
  carried field or a field of the call names, the value of the last such field, or \<open>[REDACTED]\<close> if the
  key is a sensitive one.
\<close>

theorem log_redacts:
  assumes "same_public carried carried'" and "same_public fs gs'"
  shows "(log_write marshal (l\<lparr>lo_fields := carried\<rparr>) level msg fs :: ('m, 'r, string option) M) =
           log_write marshal (l\<lparr>lo_fields := carried'\<rparr>) level msg gs' \<and>
         (lo_level l \<le> level \<longrightarrow>
           (\<exists>e. fst (run_state (log_write marshal (l\<lparr>lo_fields := carried\<rparr>) level msg fs) (w :: ('m, 'r) world)) =
                  Some ((case formatEntry marshal (lo_format l) e of Inl _ \<Rightarrow> failed_line | Inr s \<Rightarrow> s) @ [CHR 10]) \<and>
              (\<forall>pre f post. carried @ fs = pre @ f # post \<longrightarrow> fd_Key f \<noteq> [] \<longrightarrow> fd_Key f \<notin> fd_Key ` set post \<longrightarrow>
                 map_of e (fd_Key f) = Some (if is_sensitive (fd_Key f) then AString ''[REDACTED]'' else fd_Value f))))"
proof (rule conjI)
  have "add_fields e (carried @ fs) = add_fields e (carried' @ gs')" for e
    by (rule add_fields_public [OF same_public_append [OF assms]])
  then have "log_entry (l\<lparr>lo_fields := carried\<rparr>) level msg now fs = log_entry (l\<lparr>lo_fields := carried'\<rparr>) level msg now gs'" for now
    by (simp add: log_entry_def)
  then show "(log_write marshal (l\<lparr>lo_fields := carried\<rparr>) level msg fs :: ('m, 'r, string option) M) =
      log_write marshal (l\<lparr>lo_fields := carried'\<rparr>) level msg gs'"
    by (simp add: log_write_def)
next
  let ?e = "log_entry (l\<lparr>lo_fields := carried\<rparr>) level msg (w_clock w (w_tick w)) fs"
  have "map_of ?e (fd_Key f) = Some (redact (fd_Key f) (fd_Value f))"
    if "carried @ fs = pre @ f # post" "fd_Key f \<noteq> []" "fd_Key f \<notin> fd_Key ` set post" for pre f post
  proof -
    have "List.filter (\<lambda>g. fd_Key g = fd_Key f \<and> fd_Key f \<noteq> []) (rev post) = []" using that(3) by (auto simp: filter_empty_conv image_iff)
    then show ?thesis using that(1,2) by (simp add: log_entry_def map_of_add_fields)
  qed
  then show "lo_level l \<le> level \<longrightarrow>
      (\<exists>e. fst (run_state (log_write marshal (l\<lparr>lo_fields := carried\<rparr>) level msg fs) w) =
             Some ((case formatEntry marshal (lo_format l) e of Inl _ \<Rightarrow> failed_line | Inr s \<Rightarrow> s) @ [CHR 10]) \<and>
         (\<forall>pre f post. carried @ fs = pre @ f # post \<longrightarrow> fd_Key f \<noteq> [] \<longrightarrow> fd_Key f \<notin> fd_Key ` set post \<longrightarrow>
            map_of e (fd_Key f) = Some (if is_sensitive (fd_Key f) then AString ''[REDACTED]'' else fd_Value f)))"
    by (intro impI exI [of _ ?e]) (simp add: log_write_def Let_def redact_cases)
qed

text \<open>A logger that carries a request identifier, and a login with an address and a token.\<close>

definition json_logger :: structuredLogger where
  "json_logger = \<lparr>lo_level = LevelInfo, lo_format = ''json'', lo_writers = [Stdout], lo_fields = []\<rparr>"

definition demo_fields :: "string \<Rightarrow> Field list" where
  "demo_fields secret = [logger_String ''email'' ''a@b'', logger_String ''Refresh_Token'' secret]"

definition demo_line :: "(entry \<Rightarrow> err + string) \<Rightarrow> string \<Rightarrow> string option" where
  "demo_line marshal secret =
     fst (run_state (logger_Info marshal (json_logger\<lparr>lo_fields := [logger_String ''request_id'' ''r1'']\<rparr>) ''login'' (demo_fields secret))
       (start_world () () 0))"

theorem log_redacts_witness:
  "\<forall>marshal. demo_line marshal ''s1'' = demo_line marshal ''s2'' \<and>
   (\<exists>e. demo_line marshal ''s1'' = Some ((case marshal e of Inl _ \<Rightarrow> failed_line | Inr s \<Rightarrow> s) @ [CHR 10]) \<and>
      map_of e ''request_id'' = Some (AString ''r1'') \<and> map_of e ''email'' = Some (AString ''a@b'') \<and>
      map_of e ''Refresh_Token'' = Some (AString ''[REDACTED]''))"
proof
  fix marshal
  let ?carried = "[logger_String ''request_id'' ''r1'']" and ?w = "start_world () () 0 :: (unit, unit) world"
  have sens: "is_sensitive ''Refresh_Token''" "\<not> is_sensitive ''request_id''" "\<not> is_sensitive ''email''"
    unfolding is_sensitive_def by code_simp+
  have "same_public (demo_fields ''s1'') (demo_fields ''s2'')" "same_public ?carried ?carried"
    by (simp_all add: same_public_def demo_fields_def logger_String_def sens)
  note both = log_redacts [OF this(2,1), where l = json_logger and marshal = marshal and level = LevelInfo and msg = "''login''" and w = ?w]
  have line: "demo_line marshal s = fst (run_state (log_write marshal (json_logger\<lparr>lo_fields := ?carried\<rparr>) LevelInfo ''login'' (demo_fields s)) ?w)" for s
    by (simp add: demo_line_def logger_Info_def)
  have "lo_level json_logger \<le> LevelInfo" by (simp add: json_logger_def)
  with both obtain e where e: "demo_line marshal ''s1'' = Some ((case formatEntry marshal (lo_format json_logger) e of Inl _ \<Rightarrow> failed_line | Inr s \<Rightarrow> s) @ [CHR 10])"
    and fields: "\<And>pre f post. ?carried @ demo_fields ''s1'' = pre @ f # post \<Longrightarrow> fd_Key f \<noteq> [] \<Longrightarrow> fd_Key f \<notin> fd_Key ` set post \<Longrightarrow>
      map_of e (fd_Key f) = Some (if is_sensitive (fd_Key f) then AString ''[REDACTED]'' else fd_Value f)"
    unfolding line by blast
  have "map_of e ''request_id'' = Some (AString ''r1'')"
    using fields [of "[]" "logger_String ''request_id'' ''r1''"] by (simp add: demo_fields_def logger_String_def sens)
  moreover have "map_of e ''email'' = Some (AString ''a@b'')"
    using fields [of ?carried "logger_String ''email'' ''a@b''"] by (simp add: demo_fields_def logger_String_def sens)
  moreover have "map_of e ''Refresh_Token'' = Some (AString ''[REDACTED]'')"
    using fields [of "?carried @ [logger_String ''email'' ''a@b'']" "logger_String ''Refresh_Token'' ''s1''"]
    by (simp add: demo_fields_def logger_String_def sens)
  ultimately show "demo_line marshal ''s1'' = demo_line marshal ''s2'' \<and>
     (\<exists>e. demo_line marshal ''s1'' = Some ((case marshal e of Inl _ \<Rightarrow> failed_line | Inr s \<Rightarrow> s) @ [CHR 10]) \<and>
        map_of e ''request_id'' = Some (AString ''r1'') \<and> map_of e ''email'' = Some (AString ''a@b'') \<and>
        map_of e ''Refresh_Token'' = Some (AString ''[REDACTED]''))"
    using both e by (auto simp: line json_logger_def formatEntry_def)
qed

end
