(* ===== verification/Collectors.thy ===== *)
theory Collectors
  imports Prelude Formats Errors
begin

text \<open>
  \<open>internal/platform/metrics\<close>: the Prometheus collectors of the authentication service, the database
  and the HTTP layer, and what recording does to their samples.

  The registry is external: registering a collector is a computation over its state \<open>'g\<close> that answers
  that the collector is new, that an equal one is registered already, or with an error. Samples are
  integers and observed durations; Prometheus keeps 64-bit floats, which hold every count below
  \<open>2 ^ 53\<close> exactly.
\<close>

section \<open>Collectors and registration\<close>

datatype collector_kind = CounterVec | HistogramVec | Gauge

record collector =
  co_kind :: collector_kind
  co_Namespace :: string
  co_Name :: string
  co_Labels :: "string list"

datatype register_result = Registered | AlreadyRegistered collector | Refused err

type_synonym 'g registerer = "collector \<Rightarrow> ('g, register_result) state"

definition already_registered :: err where
  "already_registered = Errorf ''duplicate metrics collector registration attempted'' None"

text \<open>An existing collector is taken over when it has the expected type.\<close>

definition register_as :: "collector_kind \<Rightarrow> 'g registerer \<Rightarrow> collector \<Rightarrow> ('g, err + collector) state" where
  "register_as kind reg c = do {
     r \<leftarrow> reg c;
     ret (case r of
            Registered \<Rightarrow> Inr c
          | AlreadyRegistered existing \<Rightarrow> if co_kind existing = kind then Inr existing else Inl already_registered
          | Refused e \<Rightarrow> Inl e)
   }"

definition registerCounterVec :: "'g registerer \<Rightarrow> collector \<Rightarrow> ('g, err + collector) state" where
  "registerCounterVec = register_as CounterVec"

definition registerHistogramVec :: "'g registerer \<Rightarrow> collector \<Rightarrow> ('g, err + collector) state" where
  "registerHistogramVec = register_as HistogramVec"

definition default_namespace :: "string \<Rightarrow> string" where
  "default_namespace namespace = (if namespace = [] then ''be_go_template'' else namespace)"

record AuthMetrics =
  au_loginEvents :: collector
  au_refreshEvents :: collector
  au_logoutEvents :: collector
  au_sessionEvents :: collector
  au_activeSessionsGauge :: collector

record DatabaseMetrics =
  dm_cacheEvents :: collector
  dm_cacheLockDuration :: collector
  dm_dependencyErrors :: collector

record HTTPMetrics =
  hm_requests :: collector
  hm_duration :: collector

definition NewAuthMetrics :: "'g registerer \<Rightarrow> string \<Rightarrow> ('g, err + AuthMetrics) state" where
  "NewAuthMetrics reg namespace0 =
     (let namespace = default_namespace namespace0;
          counter = (\<lambda>name label. \<lparr>co_kind = CounterVec, co_Namespace = namespace, co_Name = name, co_Labels = [label]\<rparr>)
      in do {
        r1 \<leftarrow> registerCounterVec reg (counter ''auth_login_total'' ''result'');
        case r1 of Inl e \<Rightarrow> ret (Inl e) | Inr loginEvents \<Rightarrow> do {
        r2 \<leftarrow> registerCounterVec reg (counter ''auth_refresh_total'' ''result'');
        case r2 of Inl e \<Rightarrow> ret (Inl e) | Inr refreshEvents \<Rightarrow> do {
        r3 \<leftarrow> registerCounterVec reg (counter ''auth_logout_total'' ''kind'');
        case r3 of Inl e \<Rightarrow> ret (Inl e) | Inr logoutEvents \<Rightarrow> do {
        r4 \<leftarrow> registerCounterVec reg (counter ''auth_session_events_total'' ''kind'');
        case r4 of Inl e \<Rightarrow> ret (Inl e) | Inr sessionEvents \<Rightarrow> do {
        r5 \<leftarrow> register_as Gauge reg
               \<lparr>co_kind = Gauge, co_Namespace = namespace, co_Name = ''auth_active_sessions'', co_Labels = []\<rparr>;
        ret (case r5 of
               Inl e \<Rightarrow> Inl e
             | Inr gauge \<Rightarrow> Inr \<lparr>au_loginEvents = loginEvents, au_refreshEvents = refreshEvents, au_logoutEvents = logoutEvents,
                                 au_sessionEvents = sessionEvents, au_activeSessionsGauge = gauge\<rparr>)
        }}}}
      })"

definition NewDatabaseMetrics :: "'g registerer \<Rightarrow> string \<Rightarrow> ('g, err + DatabaseMetrics) state" where
  "NewDatabaseMetrics reg namespace0 =
     (let namespace = default_namespace namespace0;
          collector = (\<lambda>k name labels. \<lparr>co_kind = k, co_Namespace = namespace, co_Name = name, co_Labels = labels\<rparr>)
      in do {
        r1 \<leftarrow> registerCounterVec reg (collector CounterVec ''database_cache_events_total'' [''operation'', ''result'']);
        case r1 of Inl e \<Rightarrow> ret (Inl e) | Inr cacheEvents \<Rightarrow> do {
        r2 \<leftarrow> registerHistogramVec reg (collector HistogramVec ''database_cache_lock_seconds'' [''operation'']);
        case r2 of Inl e \<Rightarrow> ret (Inl e) | Inr cacheLockDuration \<Rightarrow> do {
        r3 \<leftarrow> registerCounterVec reg (collector CounterVec ''database_dependency_errors_total'' [''operation'']);
        ret (case r3 of
               Inl e \<Rightarrow> Inl e
             | Inr dependencyErrors \<Rightarrow> Inr \<lparr>dm_cacheEvents = cacheEvents, dm_cacheLockDuration = cacheLockDuration,
                                            dm_dependencyErrors = dependencyErrors\<rparr>)
        }}
      })"

definition NewHTTPMetrics :: "'g registerer \<Rightarrow> string \<Rightarrow> ('g, err + HTTPMetrics) state" where
  "NewHTTPMetrics reg namespace0 =
     (let namespace = default_namespace namespace0; labels = [''method'', ''route'', ''status'']
      in do {
        r1 \<leftarrow> registerCounterVec reg
               \<lparr>co_kind = CounterVec, co_Namespace = namespace, co_Name = ''http_requests_total'', co_Labels = labels\<rparr>;
        case r1 of Inl e \<Rightarrow> ret (Inl e) | Inr requests \<Rightarrow> do {
        r2 \<leftarrow> registerHistogramVec reg
               \<lparr>co_kind = HistogramVec, co_Namespace = namespace, co_Name = ''http_request_duration_seconds'', co_Labels = labels\<rparr>;
        ret (case r2 of Inl e \<Rightarrow> Inl e | Inr duration \<Rightarrow> Inr \<lparr>hm_requests = requests, hm_duration = duration\<rparr>)
        }
      })"

section \<open>Samples\<close>

record samples =
  sa_counter :: "collector \<Rightarrow> string list \<Rightarrow> int"
  sa_gauge :: "collector \<Rightarrow> int"
  sa_histogram :: "collector \<Rightarrow> string list \<Rightarrow> duration list"

definition Add :: "collector \<Rightarrow> string list \<Rightarrow> int \<Rightarrow> samples \<Rightarrow> samples" where
  "Add c labels n s = s\<lparr>sa_counter := (sa_counter s)(c := (sa_counter s c)(labels := sa_counter s c labels + n))\<rparr>"

definition gauge_Add :: "collector \<Rightarrow> int \<Rightarrow> samples \<Rightarrow> samples" where
  "gauge_Add c n s = s\<lparr>sa_gauge := (sa_gauge s)(c := sa_gauge s c + n)\<rparr>"

definition histogram_Observe :: "collector \<Rightarrow> string list \<Rightarrow> duration \<Rightarrow> samples \<Rightarrow> samples" where
  "histogram_Observe c labels d s =
     s\<lparr>sa_histogram := (sa_histogram s)(c := (sa_histogram s c)(labels := sa_histogram s c labels @ [d]))\<rparr>"

definition boolOutcome :: "bool \<Rightarrow> string" where
  "boolOutcome success = (if success then ''success'' else ''failure'')"

definition RecordLogin :: "AuthMetrics option \<Rightarrow> bool \<Rightarrow> samples \<Rightarrow> samples" where
  "RecordLogin m success s = (case m of None \<Rightarrow> s | Some a \<Rightarrow> Add (au_loginEvents a) [boolOutcome success] 1 s)"

definition RecordRefresh :: "AuthMetrics option \<Rightarrow> bool \<Rightarrow> samples \<Rightarrow> samples" where
  "RecordRefresh m success s = (case m of None \<Rightarrow> s | Some a \<Rightarrow> Add (au_refreshEvents a) [boolOutcome success] 1 s)"

definition RecordLogout :: "AuthMetrics option \<Rightarrow> samples \<Rightarrow> samples" where
  "RecordLogout m s = (case m of None \<Rightarrow> s | Some a \<Rightarrow> Add (au_logoutEvents a) [''logout''] 1 s)"

definition RecordSessionCreated :: "AuthMetrics option \<Rightarrow> samples \<Rightarrow> samples" where
  "RecordSessionCreated m s =
     (case m of None \<Rightarrow> s | Some a \<Rightarrow> gauge_Add (au_activeSessionsGauge a) 1 (Add (au_sessionEvents a) [''created''] 1 s))"

definition RecordSessionRevoked :: "AuthMetrics option \<Rightarrow> int \<Rightarrow> samples \<Rightarrow> samples" where
  "RecordSessionRevoked m n s =
     (case m of
        None \<Rightarrow> s
      | Some a \<Rightarrow> if n \<le> 0 then s else gauge_Add (au_activeSessionsGauge a) (- n) (Add (au_sessionEvents a) [''revoked''] n s))"

definition RecordRefreshReuseSuspected :: "AuthMetrics option \<Rightarrow> samples \<Rightarrow> samples" where
  "RecordRefreshReuseSuspected m s = (case m of None \<Rightarrow> s | Some a \<Rightarrow> Add (au_refreshEvents a) [''reuse_suspected''] 1 s)"

definition label_or_unknown :: "string \<Rightarrow> string" where
  "label_or_unknown l = (if l = [] then ''unknown'' else l)"

definition RecordCacheEvent :: "DatabaseMetrics option \<Rightarrow> string \<Rightarrow> string \<Rightarrow> samples \<Rightarrow> samples" where
  "RecordCacheEvent m operation outcome s =
     (case m of None \<Rightarrow> s | Some d \<Rightarrow> Add (dm_cacheEvents d) [label_or_unknown operation, label_or_unknown outcome] 1 s)"

definition ObserveCacheLock :: "DatabaseMetrics option \<Rightarrow> string \<Rightarrow> duration \<Rightarrow> samples \<Rightarrow> samples" where
  "ObserveCacheLock m operation duration s =
     (case m of None \<Rightarrow> s | Some d \<Rightarrow> histogram_Observe (dm_cacheLockDuration d) [label_or_unknown operation] duration s)"

definition RecordDependencyError :: "DatabaseMetrics option \<Rightarrow> string \<Rightarrow> samples \<Rightarrow> samples" where
  "RecordDependencyError m operation s =
     (case m of None \<Rightarrow> s | Some d \<Rightarrow> Add (dm_dependencyErrors d) [label_or_unknown operation] 1 s)"

definition Observe :: "HTTPMetrics option \<Rightarrow> string \<Rightarrow> string \<Rightarrow> int \<Rightarrow> duration \<Rightarrow> samples \<Rightarrow> samples" where
  "Observe m meth route0 status duration s =
     (case m of
        None \<Rightarrow> s
      | Some h \<Rightarrow>
          let labels = [meth, label_or_unknown route0, Itoa status]
          in histogram_Observe (hm_duration h) labels duration (Add (hm_requests h) labels 1 s))"

text \<open>The samples after the recorded events of a run of the program.\<close>

fun record_event :: "AuthMetrics option \<Rightarrow> DatabaseMetrics option \<Rightarrow> HTTPMetrics option \<Rightarrow> metric_event \<Rightarrow> samples \<Rightarrow> samples" where
  "record_event a d h (MLogin b) = RecordLogin a b"
| "record_event a d h (MRefresh b) = RecordRefresh a b"
| "record_event a d h MRefreshReuse = RecordRefreshReuseSuspected a"
| "record_event a d h MLogout = RecordLogout a"
| "record_event a d h MSessionCreated = RecordSessionCreated a"
| "record_event a d h (MSessionRevoked n) = RecordSessionRevoked a n"
| "record_event a d h (MCacheEvent operation outcome) = RecordCacheEvent d operation outcome"
| "record_event a d h (MCacheLock operation t) = ObserveCacheLock d operation t"
| "record_event a d h (MDependencyError operation) = RecordDependencyError d operation"
| "record_event a d h (MHTTPRequest meth route status t) = Observe h meth route status t"

definition record_events ::
  "AuthMetrics option \<Rightarrow> DatabaseMetrics option \<Rightarrow> HTTPMetrics option \<Rightarrow> metric_event list \<Rightarrow> samples \<Rightarrow> samples" where
  "record_events a d h es s = foldl (\<lambda>s e. record_event a d h e s) s es"

definition no_samples :: samples where
  "no_samples = \<lparr>sa_counter = (\<lambda>c labels. 0), sa_gauge = (\<lambda>c. 0), sa_histogram = (\<lambda>c labels. [])\<rparr>"

section \<open>What the collectors show\<close>

lemmas record_defs = RecordLogin_def RecordRefresh_def RecordLogout_def RecordSessionCreated_def RecordSessionRevoked_def
  RecordRefreshReuseSuspected_def RecordCacheEvent_def ObserveCacheLock_def RecordDependencyError_def Observe_def
  Add_def gauge_Add_def histogram_Observe_def Let_def

text \<open>
  What a registry promises: the collector it reports as registered already has the name and the
  labels of the one that was offered.
\<close>

locale registry =
  fixes reg :: "'g registerer"
  assumes same_descriptor: "run_state (reg c) g = (AlreadyRegistered x, g') \<Longrightarrow>
     co_Namespace x = co_Namespace c \<and> co_Name x = co_Name c \<and> co_Labels x = co_Labels c"
begin

lemma register_as_same: "run_state (register_as (co_kind c) reg c) g = (Inr x, g') \<Longrightarrow> x = c"
  by (auto simp: register_as_def split: register_result.splits if_splits prod.splits dest: same_descriptor)

lemma register_same:
  "run_state (registerCounterVec reg c) g = (Inr x, g') \<Longrightarrow> co_kind c = CounterVec \<Longrightarrow> x = c"
  "run_state (registerHistogramVec reg c) g = (Inr x, g') \<Longrightarrow> co_kind c = HistogramVec \<Longrightarrow> x = c"
  using register_as_same by (metis registerCounterVec_def, metis registerHistogramVec_def)

lemma auth_collectors:
  assumes "run_state (NewAuthMetrics reg ns) g = (Inr a, g')"
  shows "co_Name (au_loginEvents a) = ''auth_login_total''" "co_Name (au_refreshEvents a) = ''auth_refresh_total''"
    "co_Name (au_logoutEvents a) = ''auth_logout_total''" "co_Name (au_sessionEvents a) = ''auth_session_events_total''"
  using assms
  by (auto simp: NewAuthMetrics_def Let_def split: sum.splits prod.splits dest!: register_same register_as_same)

lemma database_collectors:
  assumes "run_state (NewDatabaseMetrics reg ns) g = (Inr d, g')"
  shows "co_Name (dm_cacheEvents d) = ''database_cache_events_total''" "co_Name (dm_dependencyErrors d) = ''database_dependency_errors_total''"
  using assms by (auto simp: NewDatabaseMetrics_def Let_def split: sum.splits prod.splits dest!: register_same)

lemma http_collectors:
  assumes "run_state (NewHTTPMetrics reg ns) g = (Inr h, g')"
  shows "co_Name (hm_requests h) = ''http_requests_total''"
  using assms by (auto simp: NewHTTPMetrics_def Let_def split: sum.splits prod.splits dest!: register_same)

end

text \<open>A registry in memory.\<close>

definition mem_register :: "collector list registerer" where
  "mem_register c = State (\<lambda>g.
     case List.find (\<lambda>x. co_Namespace x = co_Namespace c \<and> co_Name x = co_Name c \<and> co_Labels x = co_Labels c) g of
       Some x \<Rightarrow> (AlreadyRegistered x, g)
     | None \<Rightarrow> (Registered, g @ [c]))"

interpretation mem_registry: registry mem_register
  by unfold_locales (auto simp: mem_register_def find_Some_iff split: option.splits)

text \<open>Collectors that share no series.\<close>

definition separate :: "AuthMetrics \<Rightarrow> DatabaseMetrics option \<Rightarrow> HTTPMetrics option \<Rightarrow> bool" where
  "separate a d h \<longleftrightarrow>
     au_sessionEvents a \<notin> {au_loginEvents a, au_refreshEvents a, au_logoutEvents a} \<and>
     (\<forall>db. d = Some db \<longrightarrow> au_sessionEvents a \<notin> {dm_cacheEvents db, dm_dependencyErrors db}) \<and>
     (\<forall>ht. h = Some ht \<longrightarrow> au_sessionEvents a \<noteq> hm_requests ht)"

definition balanced :: "AuthMetrics \<Rightarrow> samples \<Rightarrow> bool" where
  "balanced a s \<longleftrightarrow>
     sa_gauge s (au_activeSessionsGauge a) =
       sa_counter s (au_sessionEvents a) [''created''] - sa_counter s (au_sessionEvents a) [''revoked'']"

lemma balanced_record: "separate a d h \<Longrightarrow> balanced a s \<Longrightarrow> balanced a (record_event (Some a) d h e s)"
  by (cases e) (auto simp: balanced_def separate_def record_defs split: option.splits)

lemma counter_record:
  assumes "separate a d h"
  shows "sa_counter (record_event (Some a) d h e s) (au_sessionEvents a) [''created''] =
     sa_counter s (au_sessionEvents a) [''created''] + (if e = MSessionCreated then 1 else 0)"
    and "sa_counter (record_event (Some a) d h e s) (au_sessionEvents a) [''revoked''] =
     sa_counter s (au_sessionEvents a) [''revoked''] + (case e of MSessionRevoked n \<Rightarrow> max n 0 | _ \<Rightarrow> 0)"
  using assms by (cases e; auto simp: separate_def record_defs split: option.splits)+

lemma record_events_Cons: "record_events a d h (e # es) s = record_events a d h es (record_event a d h e s)"
  by (simp add: record_events_def)

definition sessions_created :: "metric_event list \<Rightarrow> int" where
  "sessions_created es = int (length (List.filter (\<lambda>e. e = MSessionCreated) es))"

definition sessions_revoked :: "metric_event list \<Rightarrow> int" where
  "sessions_revoked es = sum_list (map (\<lambda>e. case e of MSessionRevoked n \<Rightarrow> max n 0 | _ \<Rightarrow> 0) es)"

lemma record_events_invariant:
  assumes "separate a d h" "balanced a s"
  shows "balanced a (record_events (Some a) d h es s) \<and>
     sa_counter (record_events (Some a) d h es s) (au_sessionEvents a) [''created''] =
       sa_counter s (au_sessionEvents a) [''created''] + sessions_created es \<and>
     sa_counter (record_events (Some a) d h es s) (au_sessionEvents a) [''revoked''] =
       sa_counter s (au_sessionEvents a) [''revoked''] + sessions_revoked es"
  using assms(2)
proof (induction es arbitrary: s)
  case Nil
  then show ?case by (simp add: record_events_def sessions_created_def sessions_revoked_def)
next
  case (Cons e es)
  show ?case
    using Cons.IH [OF balanced_record [OF assms(1) Cons.prems], of e] counter_record [OF assms(1), of e s]
    by (simp add: record_events_Cons sessions_created_def sessions_revoked_def)
qed

section \<open>Properties\<close>

text \<open>
  The gauge of active sessions is what the recorded events make it: after any sequence of events
  recorded with the collectors that the process registers, it equals the number of sessions created
  minus the sum of the sessions revoked (counts that are not positive ignored), and both counters show
  these two numbers.
\<close>

lemma active_sessions_gauge:
  assumes reg: "registry reg"
    and a: "run_state (NewAuthMetrics reg ns) g = (Inr a, g1)"
    and d: "run_state (NewDatabaseMetrics reg ns') g1 = (Inr d, g2)"
    and h: "run_state (NewHTTPMetrics reg ns'') g2 = (Inr h, g3)"
  shows "let s = record_events (Some a) (Some d) (Some h) es no_samples
     in sa_gauge s (au_activeSessionsGauge a) = sessions_created es - sessions_revoked es \<and>
        sa_counter s (au_sessionEvents a) [''created''] = sessions_created es \<and>
        sa_counter s (au_sessionEvents a) [''revoked''] = sessions_revoked es"
proof -
  note names = registry.auth_collectors [OF reg a] registry.database_collectors [OF reg d] registry.http_collectors [OF reg h]
  have "separate a (Some d) (Some h)" using names by (auto simp: separate_def dest!: arg_cong [where f = co_Name])
  from record_events_invariant [OF this, of no_samples es] show ?thesis
    by (simp add: balanced_def no_samples_def Let_def)
qed

lemma mem_collectors_registered:
  "\<exists>a d h g1 g2 g3. run_state (NewAuthMetrics mem_register []) [] = (Inr a, g1) \<and>
     run_state (NewDatabaseMetrics mem_register []) g1 = (Inr d, g2) \<and> run_state (NewHTTPMetrics mem_register []) g2 = (Inr h, g3)"
  by (simp add: NewAuthMetrics_def NewDatabaseMetrics_def NewHTTPMetrics_def mem_register_def registerCounterVec_def
      registerHistogramVec_def register_as_def default_namespace_def Let_def)

lemma active_sessions_gauge_witness:
  "\<exists>a d h. sa_gauge (record_events (Some a) (Some d) (Some h) [MSessionCreated, MLogin True, MSessionCreated, MSessionRevoked 1] no_samples)
      (au_activeSessionsGauge a) = 1"
proof -
  obtain a d h g1 g2 g3 where run: "run_state (NewAuthMetrics mem_register []) [] = (Inr a, g1)"
    "run_state (NewDatabaseMetrics mem_register []) g1 = (Inr d, g2)" "run_state (NewHTTPMetrics mem_register []) g2 = (Inr h, g3)"
    using mem_collectors_registered by blast
  have "sa_gauge (record_events (Some a) (Some d) (Some h) [MSessionCreated, MLogin True, MSessionCreated, MSessionRevoked 1] no_samples)
      (au_activeSessionsGauge a) = 1"
    using active_sessions_gauge [OF mem_registry.registry_axioms run, of "[MSessionCreated, MLogin True, MSessionCreated, MSessionRevoked 1]"]
    by (simp add: Let_def sessions_created_def sessions_revoked_def)
  then show ?thesis by blast
qed

end
