(* ===== verification/Processes.thy ===== *)
theory Processes
  imports AuthSystem RouterProperties Migration Seed Logger Collectors
begin

text \<open>
  The three commands: \<open>cmd/api\<close> up to the router it serves, \<open>cmd/seed\<close> and \<open>cmd/migrate\<close>.

  Opening connections is external: \<open>mongo.Connect\<close> and the client's \<open>Ping\<close> and \<open>Disconnect\<close>, the
  files read for TLS, \<open>redis.NewClient\<close>. What a command prints is the result of its computation. The
  process state of the metrics registry is threaded through the registration of the collectors.
\<close>

section \<open>Connections\<close>

text \<open>The read preferences of the driver.\<close>

datatype readpref = Primary | PrimaryPreferred | Secondary | SecondaryPreferred | Nearest

definition readPreference :: "string \<Rightarrow> readpref" where
  "readPreference value =
     (if value = ''primaryPreferred'' then PrimaryPreferred
      else if value = ''secondary'' then Secondary
      else if value = ''secondaryPreferred'' then SecondaryPreferred
      else if value = ''nearest'' then Nearest
      else Primary)"

record client_options =
  cp_URI :: string
  cp_MaxPoolSize :: "64 word"
  cp_MinPoolSize :: "64 word"
  cp_ConnectTimeout :: duration
  cp_ReadPreference :: readpref

record 'm mongo_client =
  cl_Connect :: "client_options \<Rightarrow> ('m, err option) state"
  cl_Ping :: "ctx \<Rightarrow> ('m, err option) state"
  cl_Disconnect :: "ctx \<Rightarrow> ('m, err option) state"

definition client_options_of :: "Config \<Rightarrow> client_options" where
  "client_options_of cfg =
     \<lparr>cp_URI = mc_URI (cf_Mongo cfg), cp_MaxPoolSize = word_of_int (mc_MaxPoolSize (cf_Mongo cfg)),
      cp_MinPoolSize = word_of_int (mc_MinPoolSize (cf_Mongo cfg)), cp_ConnectTimeout = mc_ConnectTimeout (cf_Mongo cfg),
      cp_ReadPreference = readPreference (mc_ReadPreference (cf_Mongo cfg))\<rparr>"

definition connectMongo :: "'m mongo_client \<Rightarrow> ctx \<Rightarrow> Config \<Rightarrow> ('m, 'r, err option) M" where
  "connectMongo cl cx cfg = do {
     r \<leftarrow> on_mongo (cl_Connect cl (client_options_of cfg));
     case r of
       Some e \<Rightarrow> ret (Some (Errorf (''connect mongo: '' @ err_Error e) (Some e)))
     | None \<Rightarrow> do {
         p \<leftarrow> on_mongo (cl_Ping cl cx);
         case p of
           Some e \<Rightarrow> do {
             _ \<leftarrow> on_mongo (cl_Disconnect cl background);
             ret (Some (Errorf (''ping mongo: '' @ err_Error e) (Some e)))
           }
         | None \<Rightarrow> ret None
       }
   }"

text \<open>\<open>net.SplitHostPort\<close>, as far as the host: \<open>None\<close> is an error.\<close>

definition last_colon :: "string \<Rightarrow> (string \<times> string) option" where
  "last_colon s =
     (if CHR '':'' \<in> set s
      then Some (rev (tl (dropWhile (\<lambda>c. c \<noteq> CHR '':'') (rev s))), rev (takeWhile (\<lambda>c. c \<noteq> CHR '':'') (rev s)))
      else None)"

definition SplitHostPort :: "string \<Rightarrow> string option" where
  "SplitHostPort hostport =
     (case last_colon hostport of
        None \<Rightarrow> None
      | Some (before, port) \<Rightarrow>
          if hostport \<noteq> [] \<and> hd hostport = CHR ''['' then
            (let host = takeWhile (\<lambda>c. c \<noteq> CHR '']'') (tl hostport); rest = dropWhile (\<lambda>c. c \<noteq> CHR '']'') (tl hostport)
             in if rest \<noteq> [] \<and> before = CHR ''['' # host @ [CHR '']''] \<and> CHR ''['' \<notin> set (host @ port) \<and> CHR '']'' \<notin> set port
                then Some host else None)
          else if CHR '':'' \<in> set before \<or> CHR ''['' \<in> set hostport \<or> CHR '']'' \<in> set hostport then None
          else Some before)"

record tls_config =
  tl_ServerName :: string
  tl_RootCAs :: "bytes option"

record redis_options =
  ro_Addr :: string
  ro_Password :: string
  ro_DB :: int
  ro_TLSConfig :: "tls_config option"

record file_lib =
  fl_ReadFile :: "string \<Rightarrow> err + bytes"
  fl_AppendCertsFromPEM :: "bytes \<Rightarrow> bool"

definition redis_tls :: "file_lib \<Rightarrow> RedisConfig \<Rightarrow> err + tls_config option" where
  "redis_tls fl cfg =
     (if \<not> rs_TLSEnabled cfg then Inr None
      else
        let serverName = (if rs_TLSServerName cfg = []
                          then (case SplitHostPort (rs_Addr cfg) of None \<Rightarrow> [] | Some host \<Rightarrow> host) else rs_TLSServerName cfg)
        in if rs_TLSCACert cfg = [] then Inr (Some \<lparr>tl_ServerName = serverName, tl_RootCAs = None\<rparr>)
           else case fl_ReadFile fl (rs_TLSCACert cfg) of
             Inl e \<Rightarrow> Inl (Errorf (''read redis tls ca cert: '' @ err_Error e) (Some e))
           | Inr caCert \<Rightarrow>
               if \<not> fl_AppendCertsFromPEM fl caCert then Inl (Errorf ''parse redis tls ca cert: invalid pem'' None)
               else Inr (Some \<lparr>tl_ServerName = serverName, tl_RootCAs = Some caCert\<rparr>))"

definition NewRedis :: "file_lib \<Rightarrow> (redis_options \<Rightarrow> 'r redis_client) \<Rightarrow> RedisConfig \<Rightarrow> err + 'r RedisCache" where
  "NewRedis fl NewClient cfg =
     (let lockPrefix = (if rs_LockPrefix cfg = [] then defaultLockPrefix else rs_LockPrefix cfg)
      in case redis_tls fl cfg of
           Inl e \<Rightarrow> Inl e
         | Inr tls \<Rightarrow>
             Inr (NewRedisWithClient (NewClient \<lparr>ro_Addr = rs_Addr cfg, ro_Password = rs_Password cfg, ro_DB = rs_DB cfg, ro_TLSConfig = tls\<rparr>)
                    lockPrefix))"

section \<open>The API process\<close>

text \<open>The settings of the services, from the configuration; \<open>stack\<close> is what \<open>debug.Stack\<close> gives.\<close>

definition settings_of :: "string \<Rightarrow> Config \<Rightarrow> settings" where
  "settings_of stack cfg =
     \<lparr>st_LockPrefix = rs_LockPrefix (cf_Redis cfg), st_Production = (ap_Env (cf_App cfg) = ''production''),
      st_TransactionsEnabled = mc_TransactionsEnabled (cf_Mongo cfg), st_OutboxRetries = ox_DefaultMaxRetries (cf_Outbox cfg),
      st_OutboxRetryDelay = ox_RetryDelay (cf_Outbox cfg),
      st_Tokens = \<lparr>tc_CurrentKey = jw_AccessCurrentKey (cf_JWT cfg), tc_PreviousKey = jw_AccessPreviousKey (cf_JWT cfg),
                   tc_PreviousNotAfter = jw_PreviousNotAfter (cf_JWT cfg), tc_AccessTTL = jw_AccessTTL (cf_JWT cfg),
                   tc_RefreshTTL = jw_RefreshTTL (cf_JWT cfg)\<rparr>,
      st_BcryptCost = au_BcryptCost (cf_Auth cfg), st_LockoutMaxFailures = au_LockoutMaxFailures (cf_Auth cfg),
      st_LockoutDuration = au_LockoutDuration (cf_Auth cfg), st_RefreshIPAnomalyAction = au_RefreshIPAnomalyAction (cf_Auth cfg),
      st_Stack = (if er_IncludeStack (cf_Errors cfg) then stack else [])\<rparr>"

definition log_config :: "Config \<Rightarrow> LoggerConfig" where
  "log_config cfg =
     \<lparr>lgc_Level = lg_Level (cf_Log cfg), lgc_Format = lg_Format (cf_Log cfg), lgc_FilePath = lg_FilePath (cf_Log cfg),
      lgc_ToTerminal = lg_ToTerminal (cf_Log cfg), lgc_ToFile = lg_ToFile (cf_Log cfg), lgc_MaxSizeMB = lg_MaxSizeMB (cf_Log cfg),
      lgc_MaxBackups = lg_MaxBackups (cf_Log cfg), lgc_MaxAgeDays = lg_MaxAgeDays (cf_Log cfg), lgc_Compress = lg_Compress (cf_Log cfg)\<rparr>"

definition main_errorEventRepo :: "('m, 'r) platform \<Rightarrow> ('m, 'r, string) M \<Rightarrow> settings \<Rightarrow> ('m, 'r) ErrorEventRepository" where
  "main_errorEventRepo pf oid st =
     Outbox_NewErrorEventRepository (pf_json pf) (NewErrorEventRepository oid (main_db pf st)) (Some (mongo_outbox (main_mongoOutbox pf st)))"

definition main_userService :: "('m, 'r) platform \<Rightarrow> settings \<Rightarrow> ('m, 'r) UserService" where
  "main_userService pf st = \<lparr>us_users = Some (NewUserRepository (main_db pf st))\<rparr>"

definition main_readiness :: "('m, 'r) platform \<Rightarrow> settings \<Rightarrow> Config \<Rightarrow> ('m, 'r) DependencyChecker" where
  "main_readiness pf st cfg =
     Check (NewReadinessChecker (Some (db_Ping (main_db pf st))) (Some (ca_Ping (main_cache pf st)))
       \<lparr>rc_Timeout = rdc_Timeout (cf_Readiness cfg), rc_RequiresRedis = rdc_RequiresRedis (cf_Readiness cfg),
        rc_MongoDegradedThreshold = rdc_MongoDegradedThreshold (cf_Readiness cfg),
        rc_RedisDegradedThreshold = rdc_RedisDegradedThreshold (cf_Readiness cfg)\<rparr>)"

text \<open>The dependencies of the monitoring service; the source sets no cache.\<close>

definition main_monitoring_deps ::
  "('m, 'r) platform \<Rightarrow> ('m, 'r, string) M \<Rightarrow> settings \<Rightarrow> Config \<Rightarrow> time \<Rightarrow> ('m, 'r) MonitoringService" where
  "main_monitoring_deps pf oid st cfg startedAt =
     \<lparr>mo_serviceName = ap_Name (cf_App cfg), mo_version = ap_Version (cf_App cfg), mo_env = ap_Env (cf_App cfg),
      mo_startedAt = startedAt, mo_dependencyChecker = Some (main_readiness pf st cfg), mo_authStats = Some (GetAuthStats (main_db pf st)),
      mo_auditLogs = Some (main_auditLogRepo (pf_json pf) (main_db pf st) (main_mongoOutbox pf st)),
      mo_errorEvents = Some (main_errorEventRepo pf oid st), mo_cache = None,
      mo_authStatsTTL = mt_MetricsCollectInterval (cf_Monitoring cfg)\<rparr>"

text \<open>The dependencies of the router; the source leaves the sessions, the metrics and their handler unset.\<close>

definition main_deps ::
  "('m, 'r) platform \<Rightarrow> ('m, 'r, string) M \<Rightarrow> go_runtime \<Rightarrow> settings \<Rightarrow> Config \<Rightarrow> ('m, 'r) TokenService \<Rightarrow> ('m, 'r) MonitoringService
     \<Rightarrow> ('m, 'r) RouterDependencies" where
  "main_deps pf oid gr st cfg ts mon =
     \<lparr>dep_AuthService = Some (auth_interface (main_authService pf st ts)), dep_UserService = Some (GetMe (main_userService pf st)),
      dep_TokenService = Some (token_interface ts), dep_Sessions = None,
      dep_Monitoring = (if mt_Enabled (cf_Monitoring cfg) then Some (monitoring_interface gr mon) else None),
      dep_ErrorEvents = Some (er_Append (main_errorEventRepo pf oid st)), dep_HTTPMetrics = False,
      dep_RateLimiter = Some (Allow (NewRedisLimiter (ca_Increment (main_cache pf st)))), dep_MetricsHandler = None,
      dep_Readiness = Some (main_readiness pf st cfg)\<rparr>"

text \<open>What the process takes from outside, besides the platform.\<close>

record ('m, 'r, 'g) process =
  pr_time :: time_lib
  pr_mkdir :: "string \<Rightarrow> err option"
  pr_registerer :: "'g registerer"
  pr_registry :: 'g
  pr_client :: "'m mongo_client"
  pr_indexes :: "'m index_driver"
  pr_index_order :: "(string \<times> IndexModel list) list \<Rightarrow> (string \<times> IndexModel list) list"
  pr_files :: file_lib
  pr_NewClient :: "redis_options \<Rightarrow> 'r redis_client"
  pr_platform :: "('m, 'r) platform"
  pr_oid :: "('m, 'r, string) M"
  pr_runtime :: go_runtime
  pr_http :: http_lib
  pr_promhttp :: "('m, 'r) handler"
  pr_register :: "(string \<times> string) list \<Rightarrow> string option"

text \<open>Registration of the collectors; the HTTP collector is registered by the router, which only logs a failure.\<close>

definition register_collectors :: "'g registerer \<Rightarrow> Config \<Rightarrow> ('g, err + bool) state" where
  "register_collectors reg cfg = do {
     a \<leftarrow> NewAuthMetrics reg [];
     case a of
       Inl e \<Rightarrow> ret (Inl (Errorf (''init auth metrics: '' @ err_Error e) (Some e)))
     | Inr _ \<Rightarrow> do {
         d \<leftarrow> NewDatabaseMetrics reg [];
         case d of
           Inl e \<Rightarrow> ret (Inl (Errorf (''init database metrics: '' @ err_Error e) (Some e)))
         | Inr _ \<Rightarrow>
             if mx_Enabled (cf_Metrics cfg) then do { h \<leftarrow> NewHTTPMetrics reg []; ret (Inr (\<not> isl h)) } else ret (Inr False)
       }
   }"

text \<open>
  \<open>run\<close> from the loaded configuration to the router. The deferred functions close what is open when a
  later step fails, also by the panic of a route that the framework refuses to register.
\<close>

definition build_router :: "('m, 'r, 'g) process \<Rightarrow> Config \<Rightarrow> bool \<Rightarrow> 'r RedisCache \<Rightarrow> ('m, 'r, err + ('m, 'r) handler) M" where
  "build_router p cfg registered redisCache =
     (let pf = (pr_platform p)\<lparr>pf_redis := rd_client redisCache\<rparr>; st = settings_of (hl_stack (pr_http p)) cfg
      in case main_tokenService pf st of
           Inl e \<Rightarrow> do {
             _ \<leftarrow> Redis_Close redisCache;
             _ \<leftarrow> on_mongo (cl_Disconnect (pr_client p) background);
             ret (Inl (Errorf (''init token service: '' @ err_Error e) (Some e)))
           }
         | Inr ts \<Rightarrow> do {
             startedAt \<leftarrow> time_Now;
             mon \<leftarrow> NewMonitoringService (main_monitoring_deps pf (pr_oid p) st cfg startedAt);
             let hl = (pr_http p)\<lparr>hl_stack := st_Stack st\<rparr>;
             let deps = main_deps pf (pr_oid p) (pr_runtime p) st cfg ts mon;
             case pr_register p (registered_routes hl (pr_promhttp p) cfg deps) of
               Some conflict \<Rightarrow> do {
                 _ \<leftarrow> Redis_Close redisCache;
                 _ \<leftarrow> on_mongo (cl_Disconnect (pr_client p) background);
                 ret (Inl (GoPanic conflict))
               }
             | None \<Rightarrow> ret (Inr (NewRouterWithDependencies hl (pr_promhttp p) registered cfg deps))
           })"

definition api_run :: "('m, 'r, 'g) process \<Rightarrow> environ \<Rightarrow> ('m, 'r, err + ('m, 'r) handler) M" where
  "api_run p env = do {
     l \<leftarrow> Load (pr_time p) env;
     case l of
       Inl e \<Rightarrow> ret (Inl (Errorf (''load config: '' @ err_Error e) (Some e)))
     | Inr cfg \<Rightarrow>
         (case logger_New (pr_mkdir p) (log_config cfg) of
            Inl e \<Rightarrow> ret (Inl (Errorf (''init logger: '' @ err_Error e) (Some e)))
          | Inr _ \<Rightarrow>
         (case fst (run_state (register_collectors (pr_registerer p) cfg) (pr_registry p)) of
            Inl e \<Rightarrow> ret (Inl e)
          | Inr registered \<Rightarrow> do {
              m \<leftarrow> connectMongo (pr_client p) background cfg;
              case m of
                Some e \<Rightarrow> ret (Inl e)
              | None \<Rightarrow> do {
                  i \<leftarrow> EnsureIndexes (pr_index_order p) (pr_indexes p) background;
                  case i of
                    Some e \<Rightarrow> do {
                      _ \<leftarrow> on_mongo (cl_Disconnect (pr_client p) background);
                      ret (Inl (Errorf (''ensure indexes: '' @ err_Error e) (Some e)))
                    }
                  | None \<Rightarrow>
                      (case NewRedis (pr_files p) (pr_NewClient p) (cf_Redis cfg) of
                         Inl e \<Rightarrow> do {
                           _ \<leftarrow> on_mongo (cl_Disconnect (pr_client p) background);
                           ret (Inl (Errorf (''init redis cache: '' @ err_Error e) (Some e)))
                         }
                       | Inr redisCache \<Rightarrow> build_router p cfg registered redisCache)
                }
            }))
   }"

section \<open>The seed command\<close>

record ('m, 'r) adminSeederHandle =
  ah_Seeder :: "(ctx \<Rightarrow> AdminInput \<Rightarrow> ('m, 'r, err + AdminResult) M) option"
  ah_Close :: "('m, 'r, err option) M option"

type_synonym ('m, 'r) adminSeederBuilder = "ctx \<Rightarrow> Config \<Rightarrow> ('m, 'r, err + ('m, 'r) adminSeederHandle option) M"

definition seed_line :: "AdminResult \<Rightarrow> string" where
  "seed_line result =
     (if ad_Created result then ''admin user created: '' @ ad_Email result @ [CHR 10]
      else if ad_Updated result then ''admin role granted: '' @ ad_Email result @ [CHR 10]
      else ''admin user already present: '' @ ad_Email result @ [CHR 10])"

definition run_deferred :: "('m, 'r, err option) M option \<Rightarrow> ('m, 'r, unit) M" where
  "run_deferred close = (case close of None \<Rightarrow> ret () | Some f \<Rightarrow> do { _ \<leftarrow> f; ret () })"

definition runSeed :: "ctx \<Rightarrow> Config \<Rightarrow> AdminInput \<Rightarrow> ('m, 'r) adminSeederBuilder \<Rightarrow> ('m, 'r, err + string) M" where
  "runSeed cx cfg input build = do {
     b \<leftarrow> build cx cfg;
     case b of
       Inl e \<Rightarrow> ret (Inl e)
     | Inr None \<Rightarrow> ret (Inl (Errorf ''admin seeder is required'' None))
     | Inr (Some h) \<Rightarrow>
         (case ah_Seeder h of
            None \<Rightarrow> ret (Inl (Errorf ''admin seeder is required'' None))
          | Some seed \<Rightarrow> do {
              r \<leftarrow> seed cx input;
              run_deferred (ah_Close h);
              ret (map_sum id seed_line r)
            })
   }"

definition seed_buildAdminSeeder ::
  "('m, 'r, 'g) process \<Rightarrow> ('m, 'r) adminSeederBuilder" where
  "seed_buildAdminSeeder p cx cfg = do {
     m \<leftarrow> connectMongo (pr_client p) cx cfg;
     case m of
       Some e \<Rightarrow> ret (Inl e)
     | None \<Rightarrow> do {
         i \<leftarrow> EnsureIndexes (pr_index_order p) (pr_indexes p) cx;
         case i of
           Some e \<Rightarrow> do {
             _ \<leftarrow> on_mongo (cl_Disconnect (pr_client p) background);
             ret (Inl (Errorf (''ensure indexes: '' @ err_Error e) (Some e)))
           }
         | None \<Rightarrow>
             ret (Inr (Some \<lparr>ah_Seeder = Some (SeedAdmin (buildAdminSeeder (pf_driver (pr_platform p)) (pf_bcrypt (pr_platform p))
                                                    (au_BcryptCost (cf_Auth cfg)))),
                             ah_Close = Some (on_mongo (cl_Disconnect (pr_client p) background))\<rparr>))
       }
   }"

definition seed_run :: "('m, 'r, 'g) process \<Rightarrow> environ \<Rightarrow> ('m, 'r, err + string) M" where
  "seed_run p env = do {
     l \<leftarrow> Load (pr_time p) env;
     case l of
       Inl e \<Rightarrow> ret (Inl (Errorf (''load config: '' @ err_Error e) (Some e)))
     | Inr cfg \<Rightarrow>
         (let input = \<lparr>ai_Email = TrimSpace (env ''ADMIN_EMAIL''), ai_Password = env ''ADMIN_PASSWORD'', ai_Name = TrimSpace (env ''ADMIN_NAME'')\<rparr>
          in if ai_Email input = [] then ret (Inl (Errorf ''ADMIN_EMAIL is required'' None))
             else if TrimSpace (ai_Password input) = [] then ret (Inl (Errorf ''ADMIN_PASSWORD is required'' None))
             else runSeed background cfg input (seed_buildAdminSeeder p))
   }"

section \<open>The migrate command\<close>

record ('m, 'r) migrationRunnerHandle =
  mh_Runner :: "(ctx \<Rightarrow> ('m, 'r) Migration list \<Rightarrow> ('m, 'r, err + AppliedMigration list) M) option"
  mh_Database :: "'m index_driver option"
  mh_Close :: "('m, 'r, err option) M option"

type_synonym ('m, 'r) migrationRunnerBuilder = "ctx \<Rightarrow> Config \<Rightarrow> ('m, 'r, err + ('m, 'r) migrationRunnerHandle option) M"

definition migrate_text :: "AppliedMigration list \<Rightarrow> string" where
  "migrate_text applied =
     ''migrations applied: '' @ Itoa (int (length applied)) @ [CHR 10] @
     concat (map (\<lambda>item. ''- '' @ am_Version item @ '' '' @ am_Name item @ [CHR 10]) applied)"

definition runMigrations ::
  "((string \<times> IndexModel list) list \<Rightarrow> (string \<times> IndexModel list) list) \<Rightarrow> ctx \<Rightarrow> Config \<Rightarrow> ('m, 'r) migrationRunnerBuilder
     \<Rightarrow> ('m, 'r, err + string) M" where
  "runMigrations order cx cfg build = do {
     b \<leftarrow> build cx cfg;
     case b of
       Inl e \<Rightarrow> ret (Inl e)
     | Inr None \<Rightarrow> ret (Inl (Errorf ''migration runner is required'' None))
     | Inr (Some h) \<Rightarrow>
         (case mh_Runner h of
            None \<Rightarrow> ret (Inl (Errorf ''migration runner is required'' None))
          | Some run \<Rightarrow>
              (case mh_Database h of
                 None \<Rightarrow> do { run_deferred (mh_Close h); ret (Inl (Errorf ''migration database is required'' None)) }
               | Some db \<Rightarrow> do {
                   r \<leftarrow> run cx (migrations order db);
                   run_deferred (mh_Close h);
                   ret (map_sum id migrate_text r)
                 }))
   }"

definition buildMigrationRunner ::
  "('m, 'r, 'g) process \<Rightarrow> (('m, 'r) Migration list \<Rightarrow> ('m, 'r) Migration list) \<Rightarrow> ('m, 'r) migrationRunnerBuilder" where
  "buildMigrationRunner p sort_Slice cx cfg = do {
     m \<leftarrow> connectMongo (pr_client p) cx cfg;
     ret (case m of
            Some e \<Rightarrow> Inl e
          | None \<Rightarrow>
              Inr (Some \<lparr>mh_Runner = Some (Runner_Run sort_Slice (NewRunner (NewMongoStore (pr_oid p) (pf_driver (pr_platform p)) (pr_indexes p)))),
                         mh_Database = Some (pr_indexes p), mh_Close = Some (on_mongo (cl_Disconnect (pr_client p) background))\<rparr>))
   }"

definition migrate_run ::
  "('m, 'r, 'g) process \<Rightarrow> (('m, 'r) Migration list \<Rightarrow> ('m, 'r) Migration list) \<Rightarrow> environ \<Rightarrow> ('m, 'r, err + string) M" where
  "migrate_run p sort_Slice env = do {
     l \<leftarrow> Load (pr_time p) env;
     case l of
       Inl e \<Rightarrow> ret (Inl (Errorf (''load config: '' @ err_Error e) (Some e)))
     | Inr cfg \<Rightarrow> runMigrations (pr_index_order p) background cfg (buildMigrationRunner p sort_Slice)
   }"

end
