(* ===== verification/ProcessProperties.thy ===== *)
theory ProcessProperties
  imports Processes
begin

text \<open>
  What the processes guarantee: a configuration that loads is one the API process can start with, the
  routes of the API process are guarded by signed tokens, and the places where its wiring departs from
  the documentation.
\<close>

section \<open>Accepted configurations\<close>

lemma Load_accepted:
  assumes "run_state (Load tm env) w = (Inr cfg, w')"
  shows "cfg = read_config tm env" "validate_server cfg = None" "validate_rest cfg = None"
    "\<exists>w1. run_state (validate_keys cfg) w = (None, w1)"
  using assms by (auto simp: Load_def Config_Validate_def Let_def split: option.splits prod.splits)

lemma accepted_keys:
  assumes "run_state (validate_keys cfg) w = (None, w1)"
  shows "\<exists>k. ParseJWTKey (jw_AccessCurrentKey (cf_JWT cfg)) 0 = Inr k"
    and "TrimSpace (jw_AccessPreviousKey (cf_JWT cfg)) \<noteq> [] \<Longrightarrow>
      (\<exists>k. ParseJWTKey (jw_AccessPreviousKey (cf_JWT cfg)) (jw_PreviousNotAfter (cf_JWT cfg)) = Inr k) \<and>
      w_clock w (w_tick w) < jw_PreviousNotAfter (cf_JWT cfg)"
  using assms validateJWTKey_ParseJWTKey [of "jw_AccessCurrentKey (cf_JWT cfg)" "''JWT_ACCESS_CURRENT_KEY''" 0]
    validateJWTKey_ParseJWTKey [of "jw_AccessPreviousKey (cf_JWT cfg)" "''JWT_ACCESS_PREVIOUS_KEY''" "jw_PreviousNotAfter (cf_JWT cfg)"]
  by (auto simp: validate_keys_def time_defs split: option.splits if_splits)

lemma ParseJWTKey_sel: "ParseJWTKey value na = Inr k \<Longrightarrow> jk_NotAfter k = na \<and> 16 \<le> length (jk_Secret k) \<and> jk_ID k \<noteq> []"
  by (auto simp: ParseJWTKey_def Let_def split: option.splits if_splits)

lemma accepted_ttls:
  "validate_rest cfg = None \<Longrightarrow> 0 < jw_AccessTTL (cf_JWT cfg) \<and> 0 < jw_RefreshTTL (cf_JWT cfg)"
  unfolding validate_rest_def first_of_None by simp

lemma accepted_tokens:
  assumes "run_state (Load tm env) w = (Inr cfg, w')"
  shows "\<exists>ts. main_tokenService pf (settings_of stack cfg) = Inr ts \<and> 0 < ts_accessTTL ts \<and> 0 < ts_refreshTTL ts \<and>
     16 \<le> length (jk_Secret (ts_current ts)) \<and>
     (\<forall>k. ts_previous ts = Some k \<longrightarrow> 16 \<le> length (jk_Secret k) \<and> w_clock w (w_tick w) < jk_NotAfter k)"
proof -
  obtain w1 where keys: "run_state (validate_keys cfg) w = (None, w1)" using Load_accepted(4) [OF assms] by blast
  obtain cur where cur: "ParseJWTKey (jw_AccessCurrentKey (cf_JWT cfg)) 0 = Inr cur" using accepted_keys(1) [OF keys] by blast
  note ttl = accepted_ttls [OF Load_accepted(3) [OF assms]]
  show ?thesis
  proof (cases "TrimSpace (jw_AccessPreviousKey (cf_JWT cfg)) = []")
    case True
    then show ?thesis using cur ttl ParseJWTKey_sel [OF cur]
      by (simp add: main_tokenService_def NewTokenService_def settings_of_def)
  next
    case False
    then obtain prev where prev: "ParseJWTKey (jw_AccessPreviousKey (cf_JWT cfg)) (jw_PreviousNotAfter (cf_JWT cfg)) = Inr prev"
      and n: "w_clock w (w_tick w) < jw_PreviousNotAfter (cf_JWT cfg)" using accepted_keys(2) [OF keys] by blast
    show ?thesis using False cur prev n ttl ParseJWTKey_sel [OF cur] ParseJWTKey_sel [OF prev]
      by (auto simp: main_tokenService_def NewTokenService_def settings_of_def)
  qed
qed

lemma accepted_logger:
  assumes "validate_server cfg = None" and "lg_ToFile (cf_Log cfg) \<longrightarrow> mkdir (lg_FilePath (cf_Log cfg)) = None"
  shows "\<exists>l. logger_New mkdir (log_config cfg) = Inr l"
  using assms unfolding validate_server_def first_of_None by (auto simp: logger_New_def log_config_def Let_def split: option.splits)

text \<open>The paths of the process's own GET routes, besides that of the metrics.\<close>

definition get_paths :: "bool \<Rightarrow> string list" where
  "get_paths monitoring =
     [''/healthz'', ''/readyz'', ''/v1/auth/devices'', ''/v1/auth/login-history'', ''/v1/users/me''] @
     (if monitoring then [''/v1/admin/monitoring/status'', ''/v1/admin/monitoring/dependencies'', ''/v1/admin/monitoring/runtime'',
        ''/v1/admin/monitoring/auth-stats'', ''/v1/admin/monitoring/errors'', ''/v1/admin/monitoring/audit-logs''] else [])"

lemma plain_get_paths: "path \<in> set (get_paths monitoring) \<Longrightarrow> plain_path path"
proof -
  have "list_all plain_path (get_paths True)" "list_all plain_path (get_paths False)" by code_simp+
  then show "path \<in> set (get_paths monitoring) \<Longrightarrow> plain_path path" by (cases monitoring) (auto simp: list_all_iff)
qed

lemma main_routes:
  "registered_routes hl promhttp cfg (main_deps pf oid gr st cfg ts mon) =
     [(''GET'', ''/healthz''), (''GET'', ''/readyz'')] @ (if mx_Enabled (cf_Metrics cfg) then [(''GET'', mx_Path (cf_Metrics cfg))] else []) @
     [(''POST'', ''/v1/auth/register''), (''POST'', ''/v1/auth/login''), (''POST'', ''/v1/auth/refresh''), (''POST'', ''/v1/auth/logout''),
      (''POST'', ''/v1/auth/logout-all'')] @ map (Pair ''GET'') (drop 2 (get_paths (mt_Enabled (cf_Monitoring cfg))))"
  by (simp add: registered_routes_def system_routes_def v1_routes_def main_deps_def auth_routes_def user_routes_def monitoring_routes_def
      get_paths_def Let_def)

lemma main_routes_plain:
  assumes "mx_Enabled (cf_Metrics cfg) \<longrightarrow> plain_path (mx_Path (cf_Metrics cfg))"
  shows "list_all (\<lambda>r. plain_path (snd r)) (registered_routes hl promhttp cfg (main_deps pf oid gr st cfg ts mon))"
proof -
  have "list_all plain_path [''/healthz'', ''/readyz'', ''/v1/auth/register'', ''/v1/auth/login'', ''/v1/auth/refresh'', ''/v1/auth/logout'',
      ''/v1/auth/logout-all'']" by code_simp
  then show ?thesis using assms plain_get_paths by (auto simp: main_routes list_all_iff dest: in_set_dropD)
qed

lemma main_routes_distinct:
  "distinct (registered_routes hl promhttp cfg (main_deps pf oid gr st cfg ts mon)) \<longleftrightarrow>
     \<not> (mx_Enabled (cf_Metrics cfg) \<and> mx_Path (cf_Metrics cfg) \<in> set (get_paths (mt_Enabled (cf_Monitoring cfg))))"
proof -
  let ?m = "mt_Enabled (cf_Monitoring cfg)" and ?path = "mx_Path (cf_Metrics cfg)"
  let ?pre = "[(''GET'', ''/healthz''), (''GET'', ''/readyz'')]"
  let ?post = "[(''POST'', ''/v1/auth/register''), (''POST'', ''/v1/auth/login''), (''POST'', ''/v1/auth/refresh''), (''POST'', ''/v1/auth/logout''),
      (''POST'', ''/v1/auth/logout-all'')] @ map (Pair ''GET'') (drop 2 (get_paths ?m))"
  have own: "distinct (?pre @ ?post)" by (cases ?m; simp only:; code_simp)
  have path: "(''GET'', ?path) \<in> set (?pre @ ?post) \<longleftrightarrow> ?path \<in> set (get_paths ?m)"
    by (cases ?m) (simp_all add: get_paths_def)
  have "distinct (xs @ [x] @ ys) \<longleftrightarrow> distinct (xs @ ys) \<and> x \<notin> set (xs @ ys)" for x xs and ys :: "(string \<times> string) list" by auto
  from this [of ?pre "(''GET'', ?path)" ?post] own path show ?thesis
    unfolding main_routes by (cases "mx_Enabled (cf_Metrics cfg)") (simp_all only: if_True if_False append_Nil simp_thms)
qed

text \<open>
  C19. A configuration that \<open>Load\<close> accepts is one the API process gets to its router with, unless the
  outside fails it (the directory of the log file, the metrics registry, MongoDB, its indexes, the
  certificates for Redis), with one exception that \<open>Load\<close> does not see: the path of the metrics. With
  metrics disabled, or at a plain path (no parameter, wildcard, dot or empty segment) that no other GET
  route has, the process builds its router; with metrics at the path of another GET route, such as
  \<open>/healthz\<close>, the process panics at the registration of the second route. The token service of the
  router has positive lifetimes, secrets of at least 16 bytes, and a previous key only when that has
  not expired at the clock's reading during the start. (Listening on the configured address comes
  after the router.)
\<close>

theorem accepted_config_starts:
  assumes load: "run_state (Load (pr_time p) env) w = (Inr cfg, w1)"
    and mkdir: "lg_ToFile (cf_Log cfg) \<longrightarrow> pr_mkdir p (lg_FilePath (cf_Log cfg)) = None"
    and reg: "fst (run_state (register_collectors (pr_registerer p) cfg) (pr_registry p)) = Inr b"
    and mongo: "run_state (connectMongo (pr_client p) background cfg) w1 = (None, w2)"
    and idx: "run_state (EnsureIndexes (pr_index_order p) (pr_indexes p) background) w2 = (None, w3)"
    and redis: "NewRedis (pr_files p) (pr_NewClient p) (cf_Redis cfg) = Inr rc"
    and gin: "gin_registration (pr_register p)" "mx_Enabled (cf_Metrics cfg) \<longrightarrow> plain_path (mx_Path (cf_Metrics cfg))"
  shows "if mx_Enabled (cf_Metrics cfg) \<and> mx_Path (cf_Metrics cfg) \<in> set (get_paths (mt_Enabled (cf_Monitoring cfg)))
     then \<exists>msg w4. run_state (api_run p env) w = (Inl (GoPanic msg), w4)
     else \<exists>ts mon w4. run_state (api_run p env) w =
      (Inr (NewRouterWithDependencies ((pr_http p)\<lparr>hl_stack := st_Stack (settings_of (hl_stack (pr_http p)) cfg)\<rparr>) (pr_promhttp p) b cfg
         (main_deps ((pr_platform p)\<lparr>pf_redis := rd_client rc\<rparr>) (pr_oid p) (pr_runtime p) (settings_of (hl_stack (pr_http p)) cfg) cfg ts mon)), w4) \<and>
     0 < ts_accessTTL ts \<and> 0 < ts_refreshTTL ts \<and> 16 \<le> length (jk_Secret (ts_current ts)) \<and>
     (\<forall>k. ts_previous ts = Some k \<longrightarrow> 16 \<le> length (jk_Secret k) \<and> w_clock w (w_tick w) < jk_NotAfter k)"
proof -
  let ?pf = "(pr_platform p)\<lparr>pf_redis := rd_client rc\<rparr>" and ?st = "settings_of (hl_stack (pr_http p)) cfg"
  obtain ts where ts: "main_tokenService ?pf ?st = Inr ts" and good: "0 < ts_accessTTL ts" "0 < ts_refreshTTL ts"
    "16 \<le> length (jk_Secret (ts_current ts))"
    "\<forall>k. ts_previous ts = Some k \<longrightarrow> 16 \<le> length (jk_Secret k) \<and> w_clock w (w_tick w) < jk_NotAfter k"
    using accepted_tokens [OF load] by blast
  obtain l where l: "logger_New (pr_mkdir p) (log_config cfg) = Inr l"
    using accepted_logger [where mkdir = "pr_mkdir p", OF Load_accepted(2) [OF load] mkdir] by blast
  have start: "run_state (api_run p env) w = run_state (build_router p cfg b rc) w3"
    using load l reg mongo idx redis by (simp add: api_run_def)
  obtain mon w4 where mon: "run_state (NewMonitoringService (main_monitoring_deps ?pf (pr_oid p) ?st cfg (w_clock w3 (w_tick w3))))
      (w3\<lparr>w_tick := Suc (w_tick w3)\<rparr>) = (mon, w4)" by fastforce
  let ?routes = "registered_routes ((pr_http p)\<lparr>hl_stack := st_Stack ?st\<rparr>) (pr_promhttp p) cfg (main_deps ?pf (pr_oid p) (pr_runtime p) ?st cfg ts mon)"
  note run = start build_router_def Let_def ts mon
  show ?thesis
  proof (cases "mx_Enabled (cf_Metrics cfg) \<and> mx_Path (cf_Metrics cfg) \<in> set (get_paths (mt_Enabled (cf_Monitoring cfg)))")
    case True
    then obtain msg where "pr_register p ?routes = Some msg"
      using gin_registration.duplicate_panics [OF gin(1)] main_routes_distinct by blast
    then show ?thesis using True by (auto simp: run split: prod.splits)
  next
    case False
    then have "pr_register p ?routes = None"
      using gin_registration.plain_routes [OF gin(1) main_routes_plain [OF gin(2)]] main_routes_distinct by blast
    then show ?thesis using False good by (auto simp: run)
  qed
qed

section \<open>A process in memory\<close>

text \<open>An environment with \<open>APP_ENV\<close> only.\<close>

definition only_env :: "string \<Rightarrow> environ" where
  "only_env e = (\<lambda>k. if k = ''APP_ENV'' then e else [])"

definition no_parse :: time_lib where
  "no_parse = \<lparr>tl_ParseDuration = (\<lambda>_. None), tl_ParseRFC3339 = (\<lambda>_. None)\<rparr>"

lemma only_env_reads:
  "k \<noteq> ''APP_ENV'' \<Longrightarrow> getString (only_env e) k d = d" "k \<noteq> ''APP_ENV'' \<Longrightarrow> getBool (only_env e) k b = b"
  "k \<noteq> ''APP_ENV'' \<Longrightarrow> getInt64 (only_env e) k i = i" "k \<noteq> ''APP_ENV'' \<Longrightarrow> getDuration tm (only_env e) k t = t"
  "k \<noteq> ''APP_ENV'' \<Longrightarrow> getCSV (only_env e) k xs = xs" "k \<noteq> ''APP_ENV'' \<Longrightarrow> getTime tm (only_env e) k t = t"
  "k \<noteq> ''APP_ENV'' \<Longrightarrow> k' \<noteq> ''APP_ENV'' \<Longrightarrow> getBoolAny (only_env e) k k' b = b"
  by (simp_all add: only_env_def getString_def getBool_def getInt64_def getDuration_def getCSV_def getTime_def getBoolAny_def
      set_bool_def TrimSpace_def)

definition production_config :: Config where
  "production_config = read_config no_parse (only_env ''production'')"

lemma read_production: "read_config tm (only_env ''production'') = production_config"
  by (simp add: production_config_def read_config_def only_env_reads)

lemma production_server: "validate_server production_config = None"
  by code_simp

lemma production_rest: "validate_rest production_config = None"
  by code_simp

lemma production_keys: "run_state (validate_keys production_config) w = (None, w)"
proof -
  have "validateJWTKey (jw_AccessCurrentKey (cf_JWT production_config)) ''JWT_ACCESS_CURRENT_KEY'' = None" by code_simp
  moreover have "TrimSpace (jw_AccessPreviousKey (cf_JWT production_config)) = []" by code_simp
  ultimately show ?thesis by (simp add: validate_keys_def)
qed

lemma Load_production: "run_state (Load tm (only_env ''production'')) w = (Inr production_config, w)"
  by (simp add: Load_def Config_Validate_def read_production production_server production_rest production_keys Let_def)

text \<open>Reading a setting other than the name of the environment does not depend on that name.\<close>

lemma other_settings:
  "k \<noteq> ''APP_ENV'' \<Longrightarrow> getString (env(''APP_ENV'' := e)) k d = getString env k d"
  "k \<noteq> ''APP_ENV'' \<Longrightarrow> getBool (env(''APP_ENV'' := e)) k b = getBool env k b"
  "k \<noteq> ''APP_ENV'' \<Longrightarrow> getInt64 (env(''APP_ENV'' := e)) k i = getInt64 env k i"
  "k \<noteq> ''APP_ENV'' \<Longrightarrow> getDuration tm (env(''APP_ENV'' := e)) k t = getDuration tm env k t"
  "k \<noteq> ''APP_ENV'' \<Longrightarrow> getCSV (env(''APP_ENV'' := e)) k xs = getCSV env k xs"
  "k \<noteq> ''APP_ENV'' \<Longrightarrow> getTime tm (env(''APP_ENV'' := e)) k t = getTime tm env k t"
  "k \<noteq> ''APP_ENV'' \<Longrightarrow> k' \<noteq> ''APP_ENV'' \<Longrightarrow> getBoolAny (env(''APP_ENV'' := e)) k k' b = getBoolAny env k k' b"
  by (simp_all add: getString_def getBool_def getInt64_def getDuration_def getCSV_def getTime_def getBoolAny_def set_bool_def split: option.split)

lemma fallback_valid: "ToLower (getString env ''RATE_LIMIT_FALLBACK'' (rateLimitFallbackDefault e)) \<in> {''allow'', ''block''} \<longleftrightarrow>
    TrimSpace (env ''RATE_LIMIT_FALLBACK'') = [] \<or> ToLower (TrimSpace (env ''RATE_LIMIT_FALLBACK'')) \<in> {''allow'', ''block''}"
proof -
  have "ToLower ''allow'' = ''allow''" "ToLower ''block'' = ''block''" by code_simp+
  then show ?thesis by (auto simp: getString_def rateLimitFallbackDefault_def Let_def)
qed

definition local_origins :: "string list" where
  "local_origins = [''http://localhost:3000'', ''http://localhost:5173'', ''http://127.0.0.1:3000'', ''http://127.0.0.1:5173'']"

lemma local_origins: "\<not> list_ex (\<lambda>origin. Contains origin ''*'') local_origins" "local_origins \<noteq> []"
  by code_simp+

text \<open>Validation depends on the name of the environment only through the origins.\<close>

lemma validate_server_env:
  assumes "cf_HTTP c2 = cf_HTTP c1" "cf_Log c2 = cf_Log c1" "cf_Mongo c2 = cf_Mongo c1" "cf_JWT c2 = cf_JWT c1"
    "ap_Name (cf_App c2) = ap_Name (cf_App c1)" "hc_CORSAllowOrigins (cf_HTTP c1) = local_origins"
  shows "validate_server c2 = validate_server c1"
  unfolding validate_server_def by (simp only: assms local_origins simp_thms first_of.simps if_False)

lemma validate_rest_env:
  assumes "cf_JWT c2 = cf_JWT c1" "cf_Mongo c2 = cf_Mongo c1" "cf_Redis c2 = cf_Redis c1" "cf_Auth c2 = cf_Auth c1"
    "cf_Monitoring c2 = cf_Monitoring c1" "cf_Outbox c2 = cf_Outbox c1" "cf_Metrics c2 = cf_Metrics c1"
    "rlc_LoginPerMinute (cf_RateLimit c2) = rlc_LoginPerMinute (cf_RateLimit c1)"
    "rlc_RefreshPerMinute (cf_RateLimit c2) = rlc_RefreshPerMinute (cf_RateLimit c1)"
    "rlc_RegisterPerMinute (cf_RateLimit c2) = rlc_RegisterPerMinute (cf_RateLimit c1)"
    "rlc_Fallback (cf_RateLimit c2) \<in> {''allow'', ''block''} \<longleftrightarrow> rlc_Fallback (cf_RateLimit c1) \<in> {''allow'', ''block''}"
    "rdc_Timeout (cf_Readiness c2) = rdc_Timeout (cf_Readiness c1)"
    "rdc_MongoDegradedThreshold (cf_Readiness c2) = rdc_MongoDegradedThreshold (cf_Readiness c1)"
    "rdc_RedisDegradedThreshold (cf_Readiness c2) = rdc_RedisDegradedThreshold (cf_Readiness c1)"
  shows "validate_rest c2 = validate_rest c1"
  unfolding validate_rest_def by (simp only: assms)

text \<open>
  C34. Production requires no more than development: when \<open>CORS_ALLOWED_ORIGINS\<close> is blank, \<open>Load\<close> gives
  the same answer, acceptance or the same error, whatever \<open>APP_ENV\<close> names, although it is documented to
  require the origins in production; a configuration it accepts allows exactly the four local origins
  of development and, when \<open>JWT_ACCESS_CURRENT_KEY\<close> is blank as well, signs tokens with the key that
  stands in the source.
\<close>

theorem production_not_stricter:
  assumes "TrimSpace (env ''CORS_ALLOWED_ORIGINS'') = []"
  shows "map_sum id (\<lambda>_. ()) (fst (run_state (Load tm (env(''APP_ENV'' := ''production''))) w)) =
         map_sum id (\<lambda>_. ()) (fst (run_state (Load tm (env(''APP_ENV'' := e))) w)) \<and>
     (\<forall>cfg. fst (run_state (Load tm (env(''APP_ENV'' := e))) w) = Inr cfg \<longrightarrow>
        hc_CORSAllowOrigins (cf_HTTP cfg) = local_origins \<and>
        (TrimSpace (env ''JWT_ACCESS_CURRENT_KEY'') = [] \<longrightarrow>
           jw_AccessCurrentKey (cf_JWT cfg) = ''local/'' @ base64Secret ''local-access-secret-change-me''))"
proof -
  define c where "c e = read_config tm (env(''APP_ENV'' := e))" for e
  have origins: "hc_CORSAllowOrigins (cf_HTTP (c e)) = local_origins" for e
    using assms by (simp add: c_def read_config_def other_settings getCSV_def local_origins_def)
  have server: "validate_server (c ''production'') = validate_server (c e)"
    by (rule validate_server_env [OF _ _ _ _ _ origins]; simp add: c_def read_config_def other_settings)
  have "rlc_Fallback (cf_RateLimit (c e)) =
      ToLower (getString env ''RATE_LIMIT_FALLBACK'' (rateLimitFallbackDefault (getString (env(''APP_ENV'' := e)) ''APP_ENV'' ''local'')))" for e
    by (simp add: c_def read_config_def other_settings)
  then have fallback: "rlc_Fallback (cf_RateLimit (c ''production'')) \<in> {''allow'', ''block''} \<longleftrightarrow>
      rlc_Fallback (cf_RateLimit (c e)) \<in> {''allow'', ''block''}"
    by (simp only: fallback_valid)
  have rest: "validate_rest (c ''production'') = validate_rest (c e)"
    by (rule validate_rest_env [OF _ _ _ _ _ _ _ _ _ _ fallback]; simp add: c_def read_config_def other_settings)
  have keys: "validate_keys (c ''production'') = (validate_keys (c e) :: ('a, 'b, err option) M)"
  proof -
    have jwt: "cf_JWT (c ''production'') = cf_JWT (c e)" by (simp add: c_def read_config_def other_settings)
    show ?thesis unfolding validate_keys_def jwt by (rule refl)
  qed
  have "fst (run_state (Load tm (env(''APP_ENV'' := e))) w) =
      (case validate_server (c e) of
         Some x \<Rightarrow> Inl x
       | None \<Rightarrow> (case fst (run_state (validate_keys (c e)) w) of
           Some x \<Rightarrow> Inl x
         | None \<Rightarrow> (case validate_rest (c e) of Some x \<Rightarrow> Inl x | None \<Rightarrow> Inr (c e))))" for e
    by (auto simp: Load_def Config_Validate_def c_def Let_def split: option.splits prod.splits)
  note load = this
  have "TrimSpace (env ''JWT_ACCESS_CURRENT_KEY'') = [] \<longrightarrow>
      jw_AccessCurrentKey (cf_JWT (c e)) = ''local/'' @ base64Secret ''local-access-secret-change-me''"
    by (simp add: c_def read_config_def other_settings getString_def)
  then show ?thesis using origins unfolding load server rest keys by (auto split: option.splits)
qed

text \<open>In production the process gets its configuration from an environment that sets nothing else.\<close>

theorem production_not_stricter_witness:
  "\<exists>cfg. run_state (Load no_parse (only_env ''production'')) (start_world (\<lambda>_. []) () 0 :: (mem, unit) world) =
       (Inr cfg, start_world (\<lambda>_. []) () 0) \<and> ap_Env (cf_App cfg) = ''production'' \<and>
     hc_CORSAllowOrigins (cf_HTTP cfg) = local_origins \<and>
     jw_AccessCurrentKey (cf_JWT cfg) = ''local/'' @ base64Secret ''local-access-secret-change-me''"
proof -
  have env: "(\<lambda>_. [])(''APP_ENV'' := ''production'') = only_env ''production''" by (simp add: only_env_def fun_eq_iff)
  have "ap_Env (cf_App production_config) = ''production''" by code_simp
  moreover have "TrimSpace [] = []" by code_simp
  moreover note Load_production [of no_parse "start_world (\<lambda>_. []) () 0 :: (mem, unit) world"]
  ultimately show ?thesis
    using production_not_stricter [of "\<lambda>_. []" no_parse "start_world (\<lambda>_. []) () 0 :: (mem, unit) world" "''production''"]
    unfolding env by simp
qed

definition mem_process :: "(mem, mem_kv, collector list) process" where
  "mem_process =
     \<lparr>pr_time = no_parse, pr_mkdir = (\<lambda>_. None), pr_registerer = mem_register, pr_registry = [],
      pr_client = \<lparr>cl_Connect = (\<lambda>_. ret None), cl_Ping = (\<lambda>_. ret None), cl_Disconnect = (\<lambda>_. ret None)\<rparr>, pr_indexes = mem_indexes,
      pr_index_order = (\<lambda>x. x), pr_files = \<lparr>fl_ReadFile = (\<lambda>_. Inl (Errorf ''no file'' None)), fl_AppendCertsFromPEM = (\<lambda>_. False)\<rparr>,
      pr_NewClient = (\<lambda>_. mem_redis), pr_platform = mem_platform, pr_oid = ret ''o1'',
      pr_runtime = \<lparr>gr_NumGoroutine = 1, gr_Alloc = 0, gr_HeapAlloc = 0, gr_NumGC = 0, gr_Seconds = (\<lambda>d. d div second)\<rparr>,
      pr_http = example_lib, pr_promhttp = not_found, pr_register = mem_gin\<rparr>"

definition mem_start :: "(mem, mem_kv) world" where
  "mem_start = start_world (\<lambda>_. []) (\<lambda>_. None) 0"

lemma mem_create_indexes: "create_indexes mem_indexes cx cs = ret None"
proof (induction cs)
  case (Cons c cs)
  then show ?case by (cases c) (simp add: mem_indexes_def on_mongo_def state.expand fun_eq_iff)
qed simp

lemma mem_registered: "fst (run_state (register_collectors mem_register cfg) []) = Inr (mx_Enabled (cf_Metrics cfg))"
  by (simp add: register_collectors_def NewAuthMetrics_def NewDatabaseMetrics_def NewHTTPMetrics_def mem_register_def registerCounterVec_def
      registerHistogramVec_def register_as_def default_namespace_def Let_def)

lemma mem_NewRedis: "\<exists>rc. NewRedis fl (\<lambda>_. mem_redis) (cf_Redis production_config) = Inr rc \<and> rd_client rc = mem_redis"
proof -
  have "\<not> rs_TLSEnabled (cf_Redis production_config)" by code_simp
  then show ?thesis by (simp add: NewRedis_def redis_tls_def NewRedisWithClient_def Let_def)
qed

lemma production_path: "plain_path (mx_Path (cf_Metrics production_config))"
    "mx_Path (cf_Metrics production_config) \<notin> set (get_paths (mt_Enabled (cf_Monitoring production_config)))"
  by code_simp+

text \<open>The same environment with the metrics at the path of the health check.\<close>

definition clash_env :: environ where
  "clash_env = (only_env ''production'')(''METRICS_PATH'' := ''/healthz'')"

definition clash_config :: Config where
  "clash_config = read_config no_parse clash_env"

lemma clash_path:
  "mx_Enabled (cf_Metrics clash_config)" "mx_Path (cf_Metrics clash_config) = ''/healthz''" "\<not> rs_TLSEnabled (cf_Redis clash_config)"
  "plain_path ''/healthz''"
  by code_simp+

lemma Load_clash: "run_state (Load no_parse clash_env) w = (Inr clash_config, w)"
proof -
  have "validate_server clash_config = None" "validate_rest clash_config = None" by code_simp+
  moreover have "validateJWTKey (jw_AccessCurrentKey (cf_JWT clash_config)) ''JWT_ACCESS_CURRENT_KEY'' = None"
    "TrimSpace (jw_AccessPreviousKey (cf_JWT clash_config)) = []" by code_simp+
  ultimately show ?thesis by (simp add: Load_def Config_Validate_def validate_keys_def clash_config_def [symmetric] Let_def)
qed

lemma mem_process_connects:
  "run_state (connectMongo (pr_client mem_process) background cfg) w = (None, w)"
  "run_state (EnsureIndexes (pr_index_order mem_process) (pr_indexes mem_process) background) w = (None, w)"
  "fst (run_state (register_collectors (pr_registerer mem_process) cfg) (pr_registry mem_process)) = Inr (mx_Enabled (cf_Metrics cfg))"
  "pr_mkdir mem_process path = None" "pr_time mem_process = no_parse" "gin_registration (pr_register mem_process)"
  by (simp_all add: connectMongo_def EnsureIndexes_def mem_process_def run_on_mongo mem_create_indexes mem_registered
      mem_gin.gin_registration_axioms)

theorem accepted_config_starts_witness:
  "(\<exists>h w'. run_state (api_run mem_process (only_env ''production'')) mem_start = (Inr h, w')) \<and>
   (\<exists>msg w'. run_state (api_run mem_process clash_env) mem_start = (Inl (GoPanic msg), w'))"
proof
  obtain rc where "NewRedis (pr_files mem_process) (pr_NewClient mem_process) (cf_Redis production_config) = Inr rc"
    using mem_NewRedis [of "pr_files mem_process"] by (auto simp: mem_process_def)
  note start = accepted_config_starts [where p = mem_process, OF Load_production _ mem_process_connects(3,1,2) this mem_process_connects(6)]
  show "\<exists>h w'. run_state (api_run mem_process (only_env ''production'')) mem_start = (Inr h, w')"
    using start production_path mem_process_connects(4) by (simp only: simp_thms if_False) blast
  obtain rc where "NewRedis (pr_files mem_process) (pr_NewClient mem_process) (cf_Redis clash_config) = Inr rc"
    using clash_path(3) by (auto simp: NewRedis_def redis_tls_def NewRedisWithClient_def Let_def)
  note start = accepted_config_starts [where p = mem_process and env = clash_env, unfolded mem_process_connects(5),
      OF Load_clash _ mem_process_connects(3,1,2) this mem_process_connects(6)]
  have "''/healthz'' \<in> set (get_paths (mt_Enabled (cf_Monitoring clash_config)))" by (simp add: get_paths_def)
  then show "\<exists>msg w'. run_state (api_run mem_process clash_env) mem_start = (Inl (GoPanic msg), w')"
    using start clash_path mem_process_connects(4) by (simp only: simp_thms if_True)
qed

section \<open>The guarded routes of the process\<close>

text \<open>The token's claims under a key that the service accepts.\<close>

definition accepted_claims ::
  "(string \<Rightarrow> jtoken \<Rightarrow> bytes \<Rightarrow> bool) \<Rightarrow> ('m, 'r) TokenService \<Rightarrow> string \<Rightarrow> AccessClaims \<Rightarrow> bool" where
  "accepted_claims verifies ts raw claims \<longleftrightarrow>
     (\<exists>t key. verifies raw t (jk_Secret key) \<and> (key = ts_current ts \<or> ts_previous ts = Some key) \<and>
        mapAccessClaims (jt_Header t) (jt_Claims t) = Inr claims)"

lemma Validate_accepted:
  assumes "jwt_contract (ts_jwt ts) verifies" "fst (run_state (ValidateAccessToken ts cx raw) w) = Inr (Some claims)"
  shows "accepted_claims verifies ts raw claims"
proof -
  obtain w' where "run_state (ValidateAccessToken ts cx raw) w = (Inr (Some claims), w')"
    using assms(2) by (metis prod.collapse)
  from jwt_contract.Validate_verified [OF assms(1) refl this] show ?thesis by (auto simp: accepted_claims_def)
qed

lemma main_never_passes:
  assumes "jwt_contract (ts_jwt ts) verifies"
    and "\<forall>claims. accepted_claims verifies ts (presented c) claims \<longrightarrow>
           \<not> may_pass cfg (rq_Method (g_Request c), rq_FullPath (g_Request c)) claims"
  shows "never_passes cfg (dep_TokenService (main_deps pf oid gr st cfg ts mon)) c"
  using assms Validate_accepted by (fastforce simp: never_passes_def main_deps_def token_interface_def)

text \<open>With monitoring disabled the router has no monitoring routes, with or without the service.\<close>

lemma main_router_services:
  "NewRouterWithDependencies hl promhttp b cfg (main_deps pf oid gr st cfg ts mon) =
     NewRouterWithDependencies hl promhttp b cfg
       (with_services (auth_interface (main_authService pf st ts)) (GetMe (main_userService pf st)) (monitoring_interface gr mon)
         (main_deps pf oid gr st cfg ts mon))"
  by (rule ext) (simp add: NewRouterWithDependencies_def v1_routes_def with_services_def main_deps_def system_routes_def
      global_middleware_def Let_def del: map_of_append)

text \<open>
  C6. On the API process, a request on a protected route whose token is not signed with a configured
  key, or names no user, or on an admin route names no admin role, reaches no service: answer and
  effects of the router are exactly those of a router with any other authentication, user and
  monitoring services in their place.
\<close>

theorem main_guarded_routes:
  assumes jwt: "jwt_contract (pf_jwt pf) verifies" and ts: "main_tokenService pf st = Inr ts"
    and route: "(rq_Method (g_Request c), rq_FullPath (g_Request c)) \<in> protected_routes"
    and claims: "\<forall>claims. accepted_claims verifies ts (presented c) claims \<longrightarrow>
           \<not> may_pass cfg (rq_Method (g_Request c), rq_FullPath (g_Request c)) claims"
  shows "NewRouterWithDependencies hl promhttp b cfg (main_deps pf oid gr st cfg ts mon) c =
         NewRouterWithDependencies hl promhttp b cfg (with_services a u m (main_deps pf oid gr st cfg ts mon)) c"
proof -
  have "ts_jwt ts = pf_jwt pf" using ts by (auto simp: main_tokenService_def NewTokenService_def split: sum.splits if_splits)
  then have "never_passes cfg (dep_TokenService (main_deps pf oid gr st cfg ts mon)) c"
    using main_never_passes [OF _ claims] jwt by simp
  from guarded_routes [OF route this] show ?thesis by (subst main_router_services) 
qed

definition mem_deps :: "(mem, mem_kv) RouterDependencies" where
  "mem_deps = main_deps mem_platform (ret ''o1'') (pr_runtime mem_process) mem_settings production_config mem_tokens
     (main_monitoring_deps mem_platform (ret ''o1'') mem_settings production_config 0)"

definition other_services :: "(mem, mem_kv) RouterDependencies \<Rightarrow> (mem, mem_kv) RouterDependencies" where
  "other_services = with_services (auth_interface (main_authService mem_platform mem_settings mem_tokens)) (\<lambda>cx i. ret (Inr None))
     (monitoring_interface (pr_runtime mem_process) (main_monitoring_deps mem_platform (ret ''o1'') mem_settings production_config 0))"

theorem main_guarded_routes_witness:
  "NewRouterWithDependencies example_lib not_found True production_config mem_deps (get_request ''/v1/users/me'' ''Bearer forged'') =
   NewRouterWithDependencies example_lib not_found True production_config (other_services mem_deps) (get_request ''/v1/users/me'' ''Bearer forged'')"
proof -
  have "presented (get_request ''/v1/users/me'' ''Bearer forged'') = ''forged''" by code_simp
  moreover have "(''GET'', ''/v1/users/me'') \<in> protected_routes" by (simp add: protected_routes_def)
  moreover have "jwt_contract (pf_jwt mem_platform) (\<lambda>raw t' k'. raw = ''token'' \<and> t' = demo_token\<lparr>jt_Valid := True\<rparr> \<and> k' = replicate 16 0)"
    by (rule mem_api.jwt)
  ultimately show ?thesis
    unfolding mem_deps_def other_services_def
    by (intro main_guarded_routes [OF _ mem_tokenService]) (auto simp: get_request_def accepted_claims_def)
qed

section \<open>Departures of the wiring from the documentation\<close>

text \<open>
  C35. The router of the API process has no session repository, so \<open>Authenticate\<close> lets a valid token pass
  whatever has become of its session; a router with the repository would answer 401 once the session
  is gone.
\<close>

theorem session_not_checked:
  assumes "presented c \<noteq> []" "ac_UserID claims \<noteq> []"
    and "run_state (ValidateAccessToken ts (g_ctx c) (presented c)) w = (Inr (Some claims), w1)"
    and "run_state (sr_FindActiveByID sr (g_ctx c) (ac_SessionID claims)) w1 = (Inl e, w2)" "errors_Is e DbErrNotFound"
  shows "run_state (Authenticate stk (dep_TokenService (main_deps pf oid gr st cfg ts mon)) (dep_Sessions (main_deps pf oid gr st cfg ts mon)) h c) w =
           run_state (h (setAuthContext claims c)) w1 \<and>
         run_state (Authenticate stk (dep_TokenService (main_deps pf oid gr st cfg ts mon)) (Some sr) h c) w =
           (writeError c (New CodeUnauthorized ''Unauthorized'' 401), w2)"
  using assms by (simp add: Authenticate_def main_deps_def token_interface_def presented_def unauthorized_def)

lemma mem_token_claims:
  "case run_state (ValidateAccessToken mem_tokens background ''token'') mem_start of
     (Inr (Some claims), w1) \<Rightarrow>
       ac_UserID claims \<noteq> [] \<and> ac_SessionID claims = ''s1'' \<and>
       (case run_state (Session_FindActiveByID (main_db mem_platform mem_settings) background (ac_SessionID claims)) w1 of
          (Inl e, w2) \<Rightarrow> errors_Is e DbErrNotFound
        | _ \<Rightarrow> False)
   | _ \<Rightarrow> False"
  by code_simp

theorem session_not_checked_witness:
  "\<exists>claims w1. run_state (Authenticate [] (dep_TokenService mem_deps) (dep_Sessions mem_deps) not_found (get_request ''/v1/users/me'' ''Bearer token''))
      mem_start = run_state (not_found (setAuthContext claims (get_request ''/v1/users/me'' ''Bearer token''))) w1 \<and> ac_SessionID claims = ''s1''"
proof -
  let ?c = "get_request ''/v1/users/me'' ''Bearer token''" and ?sr = "NewSessionRepository (main_db mem_platform mem_settings)"
  obtain claims w1 where v: "run_state (ValidateAccessToken mem_tokens background ''token'') mem_start = (Inr (Some claims), w1)"
    using mem_token_claims by (auto split: prod.splits sum.splits option.splits)
  obtain r w2 where f: "run_state (Session_FindActiveByID (main_db mem_platform mem_settings) background (ac_SessionID claims)) w1 = (r, w2)"
    by fastforce
  obtain e where e: "r = Inl e" "errors_Is e DbErrNotFound" and cl: "ac_UserID claims \<noteq> []" "ac_SessionID claims = ''s1''"
    using mem_token_claims v f by (cases r) auto
  have "run_state (sr_FindActiveByID ?sr background (ac_SessionID claims)) w1 = (Inl e, w2)"
    using f e(1) by (simp add: NewSessionRepository_def)
  moreover note v e(2) cl
  moreover have "presented ?c = ''token''" by code_simp
  moreover have "g_ctx ?c = background" by (simp add: get_request_def)
  ultimately show ?thesis unfolding mem_deps_def
    using session_not_checked [of ?c claims mem_tokens mem_start w1 ?sr e w2 "[]"] by (metis list.distinct(1))
qed

text \<open>
  The monitoring service of the API process has no cache: the statistics are computed anew for every
  request, and \<open>METRICS_COLLECT_INTERVAL\<close> has no effect on them.
\<close>

lemma auth_stats_not_cached:
  assumes "run_state (NewMonitoringService (main_monitoring_deps pf oid st cfg startedAt)) w = (mon, w')"
  shows "Monitoring_GetAuthStats mon cx from to = GetAuthStats (main_db pf st) cx from to"
proof -
  have "mo_cache mon = None" "mo_authStats mon = Some (GetAuthStats (main_db pf st))"
    using assms by (auto simp: NewMonitoringService_def main_monitoring_deps_def split: if_splits)
  moreover have "State_Monad.bind m (\<lambda>r. case r of Inl e \<Rightarrow> ret (Inl e) | Inr x \<Rightarrow> ret (Inr x)) = m" for m :: "('a, 'b, err + 'c) M"
    by (rule state.expand) (auto simp: fun_eq_iff split: sum.splits prod.splits)
  ultimately show ?thesis by (simp add: Monitoring_GetAuthStats_def fresh_auth_stats_def)
qed


section \<open>The seed command\<close>

text \<open>Connecting, pinging and disconnecting change no collection.\<close>

locale mongo_connection =
  fixes cl :: "'m mongo_client"
    and colls :: "'m \<Rightarrow> string \<Rightarrow> doc list"
  assumes connect_frame: "run_state (cl_Connect cl opts) m = (e, m') \<Longrightarrow> colls m' = colls m"
    and ping_frame: "run_state (cl_Ping cl cx) m = (e, m') \<Longrightarrow> colls m' = colls m"
    and disconnect_frame: "run_state (cl_Disconnect cl cx) m = (e, m') \<Longrightarrow> colls m' = colls m"
begin

lemma keeps_client:
  "keeps (\<lambda>w. I (colls (w_mongo w))) (on_mongo (cl_Connect cl opts))" "keeps (\<lambda>w. I (colls (w_mongo w))) (on_mongo (cl_Ping cl cx))"
  "keeps (\<lambda>w. I (colls (w_mongo w))) (on_mongo (cl_Disconnect cl cx))"
  by (rule keepsI, auto simp: run_on_mongo split: prod.splits dest: connect_frame ping_frame disconnect_frame)+

lemma keeps_connectMongo: "keeps (\<lambda>w. I (colls (w_mongo w))) (connectMongo cl cx cfg)"
  unfolding connectMongo_def by (intro keeps_intros keeps_client)

end

interpretation mem_connection: mongo_connection "pr_client mem_process" "\<lambda>m. m"
  by unfold_locales (auto simp: mem_process_def)

definition seed_input_of :: "environ \<Rightarrow> AdminInput" where
  "seed_input_of env = \<lparr>ai_Email = TrimSpace (env ''ADMIN_EMAIL''), ai_Password = env ''ADMIN_PASSWORD'', ai_Name = TrimSpace (env ''ADMIN_NAME'')\<rparr>"

lemma Load_frame: "run_state (Load tm env) w = (l, w') \<Longrightarrow> w_mongo w' = w_mongo w"
  by (auto simp: Load_def Config_Validate_def validate_keys_def Let_def split: option.splits if_splits prod.splits)

lemma seed_build_run:
  assumes con: "mongo_connection (pr_client p) colls" and idx: "index_creation (pr_indexes p) colls"
    and run: "run_state (seed_buildAdminSeeder p cx cfg) w = (Inr b, w')"
  shows "colls (w_mongo w') = colls (w_mongo w) \<and>
     b = Some \<lparr>ah_Seeder = Some (SeedAdmin (buildAdminSeeder (pf_driver (pr_platform p)) (pf_bcrypt (pr_platform p)) (au_BcryptCost (cf_Auth cfg)))),
               ah_Close = Some (on_mongo (cl_Disconnect (pr_client p) background))\<rparr>"
proof -
  obtain m w1 where m: "run_state (connectMongo (pr_client p) cx cfg) w = (m, w1)" by fastforce
  obtain i w2 where i: "run_state (EnsureIndexes (pr_index_order p) (pr_indexes p) cx) w1 = (i, w2)" by fastforce
  note eqD = keeps_eqD [where f = "\<lambda>w. colls (w_mongo w)"]
  have "colls (w_mongo w1) = colls (w_mongo w)" by (rule eqD [OF mongo_connection.keeps_connectMongo [OF con] m])
  moreover have "colls (w_mongo w2) = colls (w_mongo w1)"
    using eqD [OF index_creation.keeps_create_indexes [OF idx] i [unfolded EnsureIndexes_def]] .
  ultimately show ?thesis using run m i by (auto simp: seed_buildAdminSeeder_def split: option.splits prod.splits)
qed

text \<open>A successful run of the command is a run of the seeder between a connection and a disconnection.\<close>

lemma seed_run_success:
  assumes con: "mongo_connection (pr_client p) colls" and idx: "index_creation (pr_indexes p) colls"
    and run: "run_state (seed_run p env) w = (Inr out, w')"
  shows "\<exists>cost w1 r w2. colls (w_mongo w1) = colls (w_mongo w) \<and>
     run_state (SeedAdmin (buildAdminSeeder (pf_driver (pr_platform p)) (pf_bcrypt (pr_platform p)) cost) background (seed_input_of env)) w1 = (Inr r, w2) \<and>
     colls (w_mongo w') = colls (w_mongo w2) \<and> out = seed_line r"
proof -
  obtain l w0 where l: "run_state (Load (pr_time p) env) w = (l, w0)" by fastforce
  then obtain cfg where cfg: "l = Inr cfg"
    and rs: "run_state (runSeed background cfg (seed_input_of env) (seed_buildAdminSeeder p)) w0 = (Inr out, w')"
    using run by (cases l) (auto simp: seed_run_def seed_input_of_def Let_def split: if_splits)
  obtain b w1 where b: "run_state (seed_buildAdminSeeder p background cfg) w0 = (b, w1)" by fastforce
  then obtain b' where b': "b = Inr b'" using rs by (cases b) (auto simp: runSeed_def)
  note built = seed_build_run [OF con idx b [unfolded b']]
  let ?s = "buildAdminSeeder (pf_driver (pr_platform p)) (pf_bcrypt (pr_platform p)) (au_BcryptCost (cf_Auth cfg))"
  obtain r w2 where r: "run_state (SeedAdmin ?s background (seed_input_of env)) w1 = (r, w2)" by fastforce
  obtain e w3 where e: "run_state (on_mongo (cl_Disconnect (pr_client p) background)) w2 = (e, w3)" by fastforce
  have "colls (w_mongo w3) = colls (w_mongo w2)"
    by (rule keeps_eqD [where f = "\<lambda>w. colls (w_mongo w)", OF mongo_connection.keeps_client(3) [OF con] e])
  moreover obtain r' where "r = Inr r'" "w' = w3" "out = seed_line r'"
    using rs b b' built r e by (cases r) (auto simp: runSeed_def run_deferred_def)
  ultimately show ?thesis using built Load_frame [OF l] r by (metis)
qed

text \<open>
  C39. Running the seed command is idempotent: a run that prints its result has given exactly the
  account with the normalised address the administrator's role, either because it had it, or by
  granting it (nothing else of the collection changed), or by creating it; and every later run that
  prints its result reports the account as present and changes no account.
\<close>

theorem seed_command_idempotent:
  assumes srv: "mongo_server (pf_driver (pr_platform p)) colls" "mongo_connection (pr_client p) colls" "index_creation (pr_indexes p) colls"
    and bc: "\<And>I pw c. keeps (\<lambda>w. I (w_mongo w)) (bc_GenerateFromPassword (pf_bcrypt (pr_platform p)) pw c)"
    and keyed: "well_keyed (colls (w_mongo w) ''users'')"
    and run: "run_state (seed_run p env) w = (Inr out, w')"
  shows "\<exists>r. out = seed_line r \<and> seeded (seed_input_of env) r (colls (w_mongo w) ''users'') (colls (w_mongo w') ''users'') \<and>
     (\<exists>d \<in> set (colls (w_mongo w') ''users''). with_email (NormalizeEmail (env ''ADMIN_EMAIL'')) d \<and> is_admin d) \<and>
     (\<forall>again w''. run_state (seed_run p env) w' = (Inr again, w'') \<longrightarrow>
        (\<exists>email. again = ''admin user already present: '' @ email @ [CHR 10]) \<and> colls (w_mongo w'') ''users'' = colls (w_mongo w') ''users'')"
proof -
  have email: "NormalizeEmail (ai_Email (seed_input_of env)) = NormalizeEmail (env ''ADMIN_EMAIL'')"
    by (simp add: seed_input_of_def NormalizeEmail_def)
  obtain cost w1 r w2 where 1: "colls (w_mongo w1) = colls (w_mongo w)" "colls (w_mongo w') = colls (w_mongo w2)" "out = seed_line r"
    and s: "run_state (SeedAdmin (buildAdminSeeder (pf_driver (pr_platform p)) (pf_bcrypt (pr_platform p)) cost) background (seed_input_of env)) w1 = (Inr r, w2)"
    using seed_run_success [OF srv(2,3) run] by blast
  have first: "seeded (seed_input_of env) r (colls (w_mongo w) ''users'') (colls (w_mongo w') ''users'')"
    "\<exists>d \<in> set (colls (w_mongo w') ''users''). with_email (NormalizeEmail (env ''ADMIN_EMAIL'')) d \<and> is_admin d"
    using seed_admin_idempotent [OF srv(1) bc _ s] keyed 1 email by auto
  have "(\<exists>email. again = ''admin user already present: '' @ email @ [CHR 10]) \<and> colls (w_mongo w'') ''users'' = colls (w_mongo w') ''users''"
    if run': "run_state (seed_run p env) w' = (Inr again, w'')" for again w''
  proof -
    obtain cost' w3 r' w4 where "colls (w_mongo w3) = colls (w_mongo w')" "colls (w_mongo w'') = colls (w_mongo w4)" "again = seed_line r'"
      and s': "run_state (SeedAdmin (buildAdminSeeder (pf_driver (pr_platform p)) (pf_bcrypt (pr_platform p)) cost') background (seed_input_of env)) w3 = (Inr r', w4)"
      using seed_run_success [OF srv(2,3) run'] by blast
    moreover have keyed': "well_keyed (colls (w_mongo w') ''users'')" by (rule well_keyed_seeded [OF first(1) keyed])
    ultimately have "seeded (seed_input_of env) r' (colls (w_mongo w') ''users'') (colls (w_mongo w'') ''users'')" "again = seed_line r'"
      using seed_admin_idempotent [OF srv(1) bc _ s'] by auto
    then show ?thesis using seeded_again [OF first(1) _ keyed'] by (auto simp: seed_line_def)
  qed
  with first 1(3) show ?thesis by blast
qed

definition seed_env :: environ where
  "seed_env = (only_env ''production'')(''ADMIN_EMAIL'' := '' Root@Example.com'', ''ADMIN_PASSWORD'' := ''pw'')"

lemma mem_seed_run: "\<not> isl (fst (run_state (seed_run mem_process seed_env) mem_start))"
  by code_simp

theorem seed_command_idempotent_witness:
  "\<exists>out w' d. run_state (seed_run mem_process seed_env) mem_start = (Inr out, w') \<and> d \<in> set (w_mongo w' ''users'') \<and> is_admin d"
proof -
  obtain out w' where run: "run_state (seed_run mem_process seed_env) mem_start = (Inr out, w')"
    using mem_seed_run by (metis isl_def sum.exhaust_sel surjective_pairing)
  have "well_keyed (w_mongo mem_start ''users'')" by (simp add: well_keyed_def uniq_def mem_start_def)
  moreover have "mongo_server (pf_driver (pr_platform mem_process)) (\<lambda>m. m)" "index_creation (pr_indexes mem_process) (\<lambda>m. m)"
    by (simp_all add: mem_process_def mem_platform_def mem_mongo.mongo_server_axioms mem_index.index_creation_axioms)
  moreover have "keeps (\<lambda>w. I (w_mongo w)) (bc_GenerateFromPassword (pf_bcrypt (pr_platform mem_process)) pw c)" for I pw c
    by (simp add: mem_process_def mem_platform_def plain_bcrypt_def keeps_ret)
  ultimately show ?thesis
    using seed_command_idempotent [where p = mem_process, OF _ mem_connection.mongo_connection_axioms _ _ _ run] run by blast
qed

end
