(* ===== verification/Runs.thy ===== *)
theory Runs
  imports Main
begin

text \<open>
  Infinite runs of a step relation whose steps are labelled with the actor that makes them, fairness
  towards some of the actors, and termination of fair runs by a rank.
\<close>

text \<open>A run may also pause, so that it can go on after the system has ended.\<close>

definition is_run :: "('s \<Rightarrow> 'a \<Rightarrow> 's \<Rightarrow> bool) \<Rightarrow> (nat \<Rightarrow> 's) \<Rightarrow> (nat \<Rightarrow> 'a option) \<Rightarrow> bool" where
  "is_run step st act \<longleftrightarrow> (\<forall>i. case act i of None \<Rightarrow> st (Suc i) = st i | Some a \<Rightarrow> step (st i) a (st (Suc i)))"

text \<open>Until the system has ended, one of the driving actors acts again and again.\<close>

definition is_fair :: "('a \<Rightarrow> bool) \<Rightarrow> ('s \<Rightarrow> bool) \<Rightarrow> (nat \<Rightarrow> 's) \<Rightarrow> (nat \<Rightarrow> 'a option) \<Rightarrow> bool" where
  "is_fair drives final st act \<longleftrightarrow> (\<forall>i. \<exists>j\<ge>i. final (st j) \<or> (\<exists>a. act j = Some a \<and> drives a))"

locale ranked_steps =
  fixes step :: "'s \<Rightarrow> 'a \<Rightarrow> 's \<Rightarrow> bool"
    and drives :: "'a \<Rightarrow> bool"
    and committed :: "'s \<Rightarrow> bool"
    and rank :: "'s \<Rightarrow> nat"
  assumes committed_step: "step s a s' \<Longrightarrow> committed s \<Longrightarrow> committed s'"
    and rank_step: "step s a s' \<Longrightarrow> committed s \<Longrightarrow> rank s' \<le> rank s"
    and rank_drives: "step s a s' \<Longrightarrow> committed s \<Longrightarrow> drives a \<Longrightarrow> rank s' < rank s"
begin

lemma run_rank:
  assumes run: "is_run step st act" and c: "committed (st k)"
  shows "committed (st (k + n)) \<and> rank (st (k + n)) \<le> rank (st k)"
proof (induction n)
  case (Suc n)
  have "case act (k + n) of None \<Rightarrow> st (Suc (k + n)) = st (k + n) | Some a \<Rightarrow> step (st (k + n)) a (st (Suc (k + n)))"
    using run unfolding is_run_def by blast
  then show ?case using Suc committed_step rank_step le_trans by (cases "act (k + n)") fastforce+
qed (use c in simp)

lemma fair_run_ends:
  assumes "is_run step st act" "is_fair drives final st act" "committed (st k)"
  shows "\<exists>n\<ge>k. final (st n)"
  using assms(3)
proof (induction "rank (st k)" arbitrary: k rule: less_induct)
  case less
  obtain j where j: "k \<le> j" "final (st j) \<or> (\<exists>a. act j = Some a \<and> drives a)"
    using assms(2) unfolding is_fair_def by blast
  show ?case
  proof (cases "final (st j)")
    case False
    then obtain a where "act j = Some a" "drives a" using j by blast
    then have step: "step (st j) a (st (Suc j))" using assms(1) by (auto simp: is_run_def dest: spec [of _ j])
    have before: "committed (st j) \<and> rank (st j) \<le> rank (st k)"
      using run_rank [OF assms(1) less.prems, of "j - k"] j(1) by simp
    then have "rank (st (Suc j)) < rank (st k)" using rank_drives [OF step] \<open>drives a\<close> by fastforce
    moreover have "committed (st (Suc j))" using committed_step [OF step] before by blast
    ultimately obtain n where "n \<ge> Suc j" "final (st n)" using less.hyps by blast
    then show ?thesis using j(1) by (intro exI [of _ n]) simp
  qed (use j in blast)
qed

end

text \<open>A finite list of moves, each with its actor and its effect, played from a state.\<close>

fun plays :: "('s \<Rightarrow> 'a \<Rightarrow> 's \<Rightarrow> bool) \<Rightarrow> 's \<Rightarrow> ('a \<times> ('s \<Rightarrow> 's)) list \<Rightarrow> bool" where
  "plays step s [] = True"
| "plays step s (m # ms) = (step s (fst m) (snd m s) \<and> plays step (snd m s) ms)"

definition played :: "'s \<Rightarrow> ('a \<times> ('s \<Rightarrow> 's)) list \<Rightarrow> nat \<Rightarrow> 's" where
  "played s ms i = fold snd (take i ms) s"

definition player :: "('a \<times> ('s \<Rightarrow> 's)) list \<Rightarrow> nat \<Rightarrow> 'a option" where
  "player ms i = (if i < length ms then Some (fst (ms ! i)) else None)"

lemma plays_nth:
  assumes "plays step s ms" "i < length ms"
  shows "step (played s ms i) (fst (ms ! i)) (played s ms (Suc i))"
  using assms
proof (induction ms arbitrary: s i)
  case (Cons m ms)
  then show ?case by (cases i) (auto simp: played_def)
qed simp

lemma plays_is_run: "plays step s ms \<Longrightarrow> is_run step (played s ms) (player ms)"
  using plays_nth by (auto simp: is_run_def player_def played_def split: option.splits)

lemma played_all: "length ms \<le> i \<Longrightarrow> played s ms i = fold snd ms s"
  by (simp add: played_def)

text \<open>A play that reaches the end is fair.\<close>

lemma played_is_fair:
  assumes "final (fold snd ms s)"
  shows "is_fair drives final (played s ms) act"
  unfolding is_fair_def
proof (intro allI)
  fix i
  have "final (played s ms (max i (length ms)))" using assms by (simp add: played_all)
  then show "\<exists>j\<ge>i. final (played s ms j) \<or> (\<exists>a. act j = Some a \<and> drives a)" by (meson max.cobounded1)
qed

end
