(* ===== verification/Lifecycle.thy ===== *)
theory Lifecycle
  imports Processes Runs
begin

text \<open>
  The API process from the moment its router is built (\<open>cmd/api/main.go\<close>, \<open>run\<close> and \<open>main\<close>): the
  goroutine of the HTTP server, the goroutine of the outbox worker, the select of the main goroutine,
  the shutdown after a signal and the deferred functions.

  Each goroutine is an inductive step relation over the state they share; a step of the process is a
  step of one of them, a request that begins or ends, a signal, or time that passes. What a call into
  a server answers is left open, so the steps allow every outcome. Computation takes no time: the
  clock moves only while the main goroutine waits, and at most to the deadline it waits for. The
  package \<open>net/http\<close> is modelled as documented: \<open>ListenAndServe\<close> never returns \<open>nil\<close>, it returns
  \<open>ErrServerClosed\<close> after \<open>Shutdown\<close> and only then; after \<open>Shutdown\<close> no request begins, and \<open>Shutdown\<close>
  returns \<open>nil\<close> only once none is in flight. \<open>Disconnect\<close> of the driver returns by the deadline of its
  context.
\<close>

section \<open>The state of the process\<close>

text \<open>The functions that \<open>run\<close> defers, from the last deferred to the first.\<close>

datatype cleanup = CancelShutdown | CloseRedis | DisconnectMongo | StopSignals | CloseLog

definition deferred_at_serve :: "cleanup list" where
  "deferred_at_serve = [CloseRedis, DisconnectMongo, StopSignals, CloseLog]"

text \<open>Where the main goroutine is; \<open>Returning\<close> has the result of \<open>run\<close> and the deferred functions left.\<close>

datatype main_pc =
    Selecting
  | InShutdown time
  | AwaitingWorker time
  | Returning "err option" "cleanup list"
  | Disconnecting time "err option" "cleanup list"
  | Exited "err option"

datatype server_pc = ServerStarting | ListenCalled | Accepting | ListenReturned err | ServerEnded

datatype worker_pc = Draining | Sleeping | RunReturned "err option" | WorkerEnded

text \<open>A line of the log with its level and fields, or a line on the standard error output.\<close>

datatype line = Log int string "Field list" | Stderr string

record process_state =
  ps_main :: main_pc
  ps_server :: server_pc
  ps_worker :: worker_pc
  ps_now :: time
  ps_ctx_done :: bool
  ps_signalled :: "time option"
  ps_errCh :: "err option list"
  ps_outboxDone :: "bool option"
  ps_listener :: bool
  ps_inShutdown :: bool
  ps_inflight :: nat
  ps_redis_open :: bool
  ps_mongo_open :: bool
  ps_lines :: "line list"

definition write_lines :: "line list \<Rightarrow> process_state \<Rightarrow> process_state" where
  "write_lines ls s = s\<lparr>ps_lines := ps_lines s @ ls\<rparr>"

text \<open>\<open>http.Server\<close> as \<open>run\<close> builds it; its handler is the router.\<close>

record http_server =
  hs_Addr :: string
  hs_ReadTimeout :: duration
  hs_WriteTimeout :: duration
  hs_IdleTimeout :: duration

definition main_server :: "Config \<Rightarrow> http_server" where
  "main_server cfg =
     \<lparr>hs_Addr = hc_Addr (cf_HTTP cfg), hs_ReadTimeout = hc_ReadTimeout (cf_HTTP cfg), hs_WriteTimeout = hc_WriteTimeout (cf_HTTP cfg),
      hs_IdleTimeout = hc_IdleTimeout (cf_HTTP cfg)\<rparr>"

definition ErrServerClosed :: err where
  "ErrServerClosed = External ''http: Server closed'' None False None None"

definition error_field :: "err \<Rightarrow> Field" where
  "error_field e = logger_Any ''error'' (AOther (err_Error e))"

text \<open>
  The state in which the main goroutine reaches its select: the channel \<open>outboxDone\<close> is nil (\<open>None\<close>)
  unless the outbox is enabled.
\<close>

definition serving :: "Config \<Rightarrow> time \<Rightarrow> process_state" where
  "serving cfg now =
     (let enabled = ox_Enabled (cf_Outbox cfg)
      in \<lparr>ps_main = Selecting, ps_server = ServerStarting, ps_worker = (if enabled then Draining else WorkerEnded), ps_now = now,
          ps_ctx_done = False, ps_signalled = None, ps_errCh = [], ps_outboxDone = (if enabled then Some False else None),
          ps_listener = False, ps_inShutdown = False, ps_inflight = 0, ps_redis_open = True, ps_mongo_open = True,
          ps_lines = (if enabled then [] else [Log LevelWarn ''outbox worker disabled'' []])\<rparr>)"

section \<open>The deferred functions\<close>

definition close_logger :: "err option \<Rightarrow> process_state \<Rightarrow> process_state" where
  "close_logger r = write_lines (case r of None \<Rightarrow> [] | Some e \<Rightarrow> [Stderr (''close logger: '' @ err_Error e @ [CHR 10])])"

definition mongo_disconnected :: "err option \<Rightarrow> process_state \<Rightarrow> process_state" where
  "mongo_disconnected r s =
     write_lines (case r of None \<Rightarrow> [] | Some e \<Rightarrow> [Log LevelWarn ''mongo disconnect failed'' [error_field e]]) (s\<lparr>ps_mongo_open := False\<rparr>)"

definition close_redis :: "err option \<Rightarrow> process_state \<Rightarrow> process_state" where
  "close_redis r s =
     write_lines (case r of None \<Rightarrow> [] | Some e \<Rightarrow> [Log LevelWarn ''redis close failed'' [error_field e]]) (s\<lparr>ps_redis_open := False\<rparr>)"

text \<open>\<open>main\<close>: an error of \<open>run\<close> is printed and the status is 1.\<close>

definition exit_process :: "err option \<Rightarrow> process_state \<Rightarrow> process_state" where
  "exit_process r s =
     write_lines (case r of None \<Rightarrow> [] | Some e \<Rightarrow> [Stderr (''api failed: '' @ err_Error e @ [CHR 10])]) (s\<lparr>ps_main := Exited r\<rparr>)"

definition exit_status :: "err option \<Rightarrow> int" where
  "exit_status r = (case r of None \<Rightarrow> 0 | Some _ \<Rightarrow> 1)"

inductive cleanup_step :: "process_state \<Rightarrow> process_state \<Rightarrow> bool" where
  cancel: "ps_main s = Returning r (CancelShutdown # ds) \<Longrightarrow> cleanup_step s (s\<lparr>ps_main := Returning r ds\<rparr>)"
| redis: "ps_main s = Returning r (CloseRedis # ds) \<Longrightarrow> cleanup_step s (close_redis e (s\<lparr>ps_main := Returning r ds\<rparr>))"
| disconnect: "ps_main s = Returning r (DisconnectMongo # ds) \<Longrightarrow>
    cleanup_step s (s\<lparr>ps_main := Disconnecting (ps_now s + 5 * second) r ds\<rparr>)"
| disconnected: "ps_main s = Disconnecting dl r ds \<Longrightarrow> cleanup_step s (mongo_disconnected e (s\<lparr>ps_main := Returning r ds\<rparr>))"
| stop: "ps_main s = Returning r (StopSignals # ds) \<Longrightarrow> cleanup_step s (s\<lparr>ps_main := Returning r ds, ps_ctx_done := True\<rparr>)"
| close_log: "ps_main s = Returning r (CloseLog # ds) \<Longrightarrow> cleanup_step s (close_logger e (s\<lparr>ps_main := Returning r ds\<rparr>))"
| return: "ps_main s = Returning r [] \<Longrightarrow> cleanup_step s (exit_process r s)"

section \<open>The main goroutine\<close>

definition serve_error :: "err option \<Rightarrow> err option" where
  "serve_error r = map_option (\<lambda>e. Errorf (''serve http: '' @ err_Error e) (Some e)) r"

definition stopped :: "process_state \<Rightarrow> process_state" where
  "stopped s = write_lines [Log LevelInfo ''api server stopped'' []] (s\<lparr>ps_main := Returning None (CancelShutdown # deferred_at_serve)\<rparr>)"

text \<open>
  The select of \<open>run\<close> and what follows it. Shutdown returns an error when its deadline has passed, or
  when closing the listener failed and no request is in flight.
\<close>

inductive main_step :: "process_state \<Rightarrow> process_state \<Rightarrow> bool" where
  select_done: "ps_main s = Selecting \<Longrightarrow> ps_ctx_done s \<Longrightarrow>
    main_step s (write_lines [Log LevelInfo ''api shutdown requested'' []]
                  (s\<lparr>ps_main := InShutdown (ps_now s + 10 * second), ps_inShutdown := True\<rparr>))"
| select_err: "ps_main s = Selecting \<Longrightarrow> ps_errCh s = r # rest \<Longrightarrow>
    main_step s (s\<lparr>ps_main := Returning (serve_error r) deferred_at_serve, ps_errCh := rest\<rparr>)"
| shutdown_error: "ps_main s = InShutdown dl \<Longrightarrow> dl \<le> ps_now s \<or> ps_inflight s = 0 \<Longrightarrow>
    main_step s (s\<lparr>ps_main := Returning (Some (Errorf (''shutdown http server: '' @ err_Error e) (Some e))) (CancelShutdown # deferred_at_serve)\<rparr>)"
| shutdown_await: "ps_main s = InShutdown dl \<Longrightarrow> ps_inflight s = 0 \<Longrightarrow> ps_outboxDone s \<noteq> None \<Longrightarrow>
    main_step s (s\<lparr>ps_main := AwaitingWorker (ps_now s + 5 * second)\<rparr>)"
| shutdown_stopped: "ps_main s = InShutdown dl \<Longrightarrow> ps_inflight s = 0 \<Longrightarrow> ps_outboxDone s = None \<Longrightarrow> main_step s (stopped s)"
| worker_done: "ps_main s = AwaitingWorker dl \<Longrightarrow> ps_outboxDone s = Some True \<Longrightarrow> main_step s (stopped s)"
| worker_timeout: "ps_main s = AwaitingWorker dl \<Longrightarrow> dl \<le> ps_now s \<Longrightarrow>
    main_step s (stopped (write_lines [Log LevelWarn ''outbox worker shutdown timed out'' []] s))"
| deferred: "cleanup_step s s' \<Longrightarrow> main_step s s'"

section \<open>The goroutines of the server and the worker\<close>

inductive server_step :: "Config \<Rightarrow> process_state \<Rightarrow> process_state \<Rightarrow> bool" for cfg where
  starting: "ps_server s = ServerStarting \<Longrightarrow>
    server_step cfg s (write_lines [Log LevelInfo ''api server starting'' [logger_String ''app'' (ap_Name (cf_App cfg)),
                               logger_String ''env'' (ap_Env (cf_App cfg)), logger_String ''addr'' (hc_Addr (cf_HTTP cfg))]]
                         (s\<lparr>ps_server := ListenCalled\<rparr>))"
| listening: "ps_server s = ListenCalled \<Longrightarrow> \<not> ps_inShutdown s \<Longrightarrow> server_step cfg s (s\<lparr>ps_server := Accepting, ps_listener := True\<rparr>)"
| failed: "ps_server s = ListenCalled \<or> ps_server s = Accepting \<Longrightarrow> \<not> ps_inShutdown s \<Longrightarrow> e \<noteq> ErrServerClosed \<Longrightarrow>
    server_step cfg s (s\<lparr>ps_server := ListenReturned e\<rparr>)"
| closed: "ps_server s = ListenCalled \<or> ps_server s = Accepting \<Longrightarrow> ps_inShutdown s \<Longrightarrow>
    server_step cfg s (s\<lparr>ps_server := ListenReturned ErrServerClosed\<rparr>)"
| send: "ps_server s = ListenReturned e \<Longrightarrow> length (ps_errCh s) < 1 \<Longrightarrow>
    server_step cfg s (s\<lparr>ps_server := ServerEnded, ps_errCh := ps_errCh s @ [if e \<noteq> ErrServerClosed then Some e else None]\<rparr>)"

text \<open>
  The worker runs \<open>Worker.Run\<close> on the context of the signals, logs its error unless that context is
  done, and closes \<open>outboxDone\<close>.
\<close>

inductive worker_step :: "process_state \<Rightarrow> process_state \<Rightarrow> bool" where
  drained: "ps_worker s = Draining \<Longrightarrow> worker_step s (s\<lparr>ps_worker := Sleeping\<rparr>)"
| drain_error: "ps_worker s = Draining \<Longrightarrow> worker_step s (s\<lparr>ps_worker := RunReturned (Some e)\<rparr>)"
| tick: "ps_worker s = Sleeping \<Longrightarrow> worker_step s (s\<lparr>ps_worker := Draining\<rparr>)"
| ctx_done: "ps_worker s = Sleeping \<Longrightarrow> ps_ctx_done s \<Longrightarrow> worker_step s (s\<lparr>ps_worker := RunReturned (Some (Sentinel Canceled))\<rparr>)"
| ended: "ps_worker s = RunReturned r \<Longrightarrow>
    worker_step s (write_lines (case r of Some e \<Rightarrow> if ps_ctx_done s then [] else [Log LevelError ''outbox worker stopped'' [error_field e]] | None \<Rightarrow> [])
                    (s\<lparr>ps_worker := WorkerEnded, ps_outboxDone := Some True\<rparr>))"

section \<open>The process\<close>

datatype actor = Main | Server | OutboxWorker | Client | Signal | Clock

definition exited :: "process_state \<Rightarrow> bool" where
  "exited s = (case ps_main s of Exited _ \<Rightarrow> True | _ \<Rightarrow> False)"

text \<open>Whether the main goroutine may still be waiting at the time \<open>t\<close>.\<close>

fun waits_until :: "process_state \<Rightarrow> main_pc \<Rightarrow> time \<Rightarrow> bool" where
  "waits_until s Selecting t = (\<not> ps_ctx_done s \<and> ps_errCh s = [])"
| "waits_until s (InShutdown dl) t = (t \<le> dl)"
| "waits_until s (AwaitingWorker dl) t = (ps_outboxDone s \<noteq> Some True \<and> t \<le> dl)"
| "waits_until s (Disconnecting dl r ds) t = (t \<le> dl)"
| "waits_until s (Returning r ds) t = False"
| "waits_until s (Exited r) t = False"

text \<open>
  The process ends with its main goroutine, so no goroutine steps after that. A signal is received
  until the context is done; the default action of a signal after \<open>stop\<close> is not modelled.
\<close>

inductive api_step :: "Config \<Rightarrow> process_state \<Rightarrow> actor \<Rightarrow> process_state \<Rightarrow> bool" for cfg where
  Main: "main_step s s' \<Longrightarrow> api_step cfg s Main s'"
| Server: "\<not> exited s \<Longrightarrow> server_step cfg s s' \<Longrightarrow> api_step cfg s Server s'"
| Worker: "\<not> exited s \<Longrightarrow> worker_step s s' \<Longrightarrow> api_step cfg s OutboxWorker s'"
| begins: "\<not> exited s \<Longrightarrow> ps_listener s \<Longrightarrow> \<not> ps_inShutdown s \<Longrightarrow> api_step cfg s Client (s\<lparr>ps_inflight := Suc (ps_inflight s)\<rparr>)"
| ends: "\<not> exited s \<Longrightarrow> ps_inflight s = Suc n \<Longrightarrow> api_step cfg s Client (s\<lparr>ps_inflight := n\<rparr>)"
| Signal: "\<not> exited s \<Longrightarrow> \<not> ps_ctx_done s \<Longrightarrow> api_step cfg s Signal (s\<lparr>ps_ctx_done := True, ps_signalled := Some (ps_now s)\<rparr>)"
| Clock: "0 < d \<Longrightarrow> waits_until s (ps_main s) (ps_now s + d) \<Longrightarrow> api_step cfg s Clock (s\<lparr>ps_now := ps_now s + d\<rparr>)"

inductive reachable :: "Config \<Rightarrow> process_state \<Rightarrow> bool" for cfg where
  start: "reachable cfg (serving cfg now)"
| step: "reachable cfg s \<Longrightarrow> api_step cfg s a s' \<Longrightarrow> reachable cfg s'"

section \<open>Rule inversion\<close>

lemma write_lines_simps [simp]:
  "ps_main (write_lines ls s) = ps_main s" "ps_server (write_lines ls s) = ps_server s" "ps_worker (write_lines ls s) = ps_worker s"
  "ps_now (write_lines ls s) = ps_now s" "ps_ctx_done (write_lines ls s) = ps_ctx_done s" "ps_signalled (write_lines ls s) = ps_signalled s"
  "ps_errCh (write_lines ls s) = ps_errCh s" "ps_outboxDone (write_lines ls s) = ps_outboxDone s" "ps_listener (write_lines ls s) = ps_listener s"
  "ps_inShutdown (write_lines ls s) = ps_inShutdown s" "ps_inflight (write_lines ls s) = ps_inflight s" "ps_redis_open (write_lines ls s) = ps_redis_open s"
  "ps_mongo_open (write_lines ls s) = ps_mongo_open s" "ps_lines (write_lines ls s) = ps_lines s @ ls"
  by (simp_all add: write_lines_def)

lemmas main_defs = close_logger_def mongo_disconnected_def close_redis_def exit_process_def stopped_def

inductive_cases main_stepE: "main_step s s'"
inductive_cases cleanup_stepE: "cleanup_step s s'"
inductive_cases server_stepE: "server_step cfg s s'"
inductive_cases worker_stepE: "worker_step s s'"

inductive_simps api_step_simps:
  "api_step cfg s Main s'" "api_step cfg s Server s'" "api_step cfg s OutboxWorker s'" "api_step cfg s Client s'" "api_step cfg s Signal s'"
  "api_step cfg s Clock s'"

lemmas other_stepE = server_stepE worker_stepE

text \<open>The main goroutine owns its position, and only the clock moves the time.\<close>

lemma api_step_frame:
  assumes "api_step cfg s a s'" "a \<noteq> Main"
  shows "ps_main s' = ps_main s" "a \<noteq> Clock \<Longrightarrow> ps_now s' = ps_now s" "ps_inShutdown s' = ps_inShutdown s"
    "ps_redis_open s' = ps_redis_open s" "ps_mongo_open s' = ps_mongo_open s" "\<exists>ls. ps_lines s' = ps_lines s @ ls"
    "a \<noteq> Server \<Longrightarrow> ps_errCh s' = ps_errCh s" "a \<noteq> Signal \<Longrightarrow> ps_ctx_done s' = ps_ctx_done s \<and> ps_signalled s' = ps_signalled s"
  using assms by (auto elim!: api_step.cases other_stepE)

section \<open>Termination\<close>

text \<open>
  The process is bound to end once its context is done, the server has failed or \<open>run\<close> has returned.
  The rank counts the nanoseconds and the steps the main goroutine has left at most.
\<close>

definition ending :: "process_state \<Rightarrow> bool" where
  "ending s \<longleftrightarrow> ps_ctx_done s \<or> ps_errCh s \<noteq> [] \<or> ps_main s \<noteq> Selecting"

definition cleanup_rank :: "cleanup list \<Rightarrow> nat" where
  "cleanup_rank ds = (\<Sum>d\<leftarrow>ds. if d = DisconnectMongo then nat (5 * second) + 2 else 1)"

fun main_rank :: "time \<Rightarrow> main_pc \<Rightarrow> nat" where
  "main_rank now Selecting = nat (20 * second) + 10"
| "main_rank now (InShutdown dl) = nat (dl - now) + nat (10 * second) + 9"
| "main_rank now (AwaitingWorker dl) = nat (dl - now) + nat (5 * second) + 8"
| "main_rank now (Returning r ds) = cleanup_rank ds + 1"
| "main_rank now (Disconnecting dl r ds) = nat (dl - now) + cleanup_rank ds + 2"
| "main_rank now (Exited r) = 0"

definition process_rank :: "process_state \<Rightarrow> nat" where
  "process_rank s = main_rank (ps_now s) (ps_main s)"

definition main_or_clock :: "actor \<Rightarrow> bool" where
  "main_or_clock a \<longleftrightarrow> a = Main \<or> a = Clock"

lemmas rank_defs = process_rank_def cleanup_rank_def deferred_at_serve_def second_def

lemma main_step_rank: "main_step s s' \<Longrightarrow> process_rank s' < process_rank s"
  by (auto elim!: main_stepE cleanup_stepE simp: main_defs rank_defs)

lemma clock_step_rank: "api_step cfg s Clock s' \<Longrightarrow> ending s \<Longrightarrow> process_rank s' < process_rank s"
  by (cases "ps_main s") (auto simp: api_step_simps process_rank_def ending_def)

lemma ending_step: "api_step cfg s a s' \<Longrightarrow> ending s \<Longrightarrow> ending s'"
  by (auto simp: ending_def main_defs elim!: api_step.cases main_stepE cleanup_stepE other_stepE)

lemma process_rank_step:
  assumes "api_step cfg s a s'" "ending s"
  shows "process_rank s' \<le> process_rank s" "main_or_clock a \<Longrightarrow> process_rank s' < process_rank s"
proof -
  have drive: "process_rank s' < process_rank s" if "main_or_clock a"
    using that assms main_step_rank clock_step_rank by (auto simp: main_or_clock_def api_step_simps(1))
  then show "main_or_clock a \<Longrightarrow> process_rank s' < process_rank s" .
  show "process_rank s' \<le> process_rank s"
  proof (cases "main_or_clock a")
    case False
    then show ?thesis using api_step_frame(1,2) [OF assms(1)] by (simp add: process_rank_def main_or_clock_def)
  qed (use drive in simp)
qed

interpretation api_runs: ranked_steps "api_step cfg" main_or_clock ending process_rank for cfg
  by unfold_locales (auto intro: ending_step process_rank_step)

text \<open>Neither the main goroutine nor the clock is ever held up by the other goroutines.\<close>

lemma main_progress:
  assumes "\<not> exited s"
  shows "\<exists>a s'. main_or_clock a \<and> api_step cfg s a s'"
proof (cases "waits_until s (ps_main s) (ps_now s + 1)")
  case True
  then have "api_step cfg s Clock (s\<lparr>ps_now := ps_now s + 1\<rparr>)" by (intro api_step.Clock) auto
  then show ?thesis by (auto simp: main_or_clock_def)
next
  case False
  have "\<exists>s'. main_step s s'"
  proof (cases "ps_main s")
    case Selecting
    then show ?thesis using False by (cases "ps_errCh s") (auto intro: main_step.intros)
  next
    case (InShutdown dl)
    moreover have "dl \<le> ps_now s" using False InShutdown by simp
    ultimately show ?thesis using main_step.shutdown_error by blast
  next
    case (AwaitingWorker dl)
    then show ?thesis using False by (cases "ps_outboxDone s = Some True") (force intro: main_step.intros)+
  next
    case (Returning r ds)
    then show ?thesis
      by (cases ds; cases "hd ds") (auto intro: main_step.deferred cleanup_step.intros)
  qed (use False assms in \<open>auto simp: exited_def intro: main_step.intros cleanup_step.intros\<close>)
  then show ?thesis by (auto simp: main_or_clock_def intro: api_step.Main)
qed

section \<open>Graceful shutdown\<close>

text \<open>What holds once \<open>run\<close> has returned without an error.\<close>

definition graceful :: "process_state \<Rightarrow> bool" where
  "graceful s \<longleftrightarrow>
     ps_signalled s \<noteq> None \<and> ps_inShutdown s \<and> ps_inflight s = 0 \<and> Log LevelInfo ''api server stopped'' [] \<in> set (ps_lines s) \<and>
     (ps_worker s = WorkerEnded \<or> Log LevelWarn ''outbox worker shutdown timed out'' [] \<in> set (ps_lines s))"

text \<open>The result of \<open>run\<close>, once it has one.\<close>

fun result_of :: "main_pc \<Rightarrow> err option option" where
  "result_of (Returning r ds) = Some r"
| "result_of (Disconnecting dl r ds) = Some r"
| "result_of (Exited r) = Some r"
| "result_of _ = None"

text \<open>The connections are open exactly as long as the function that closes them is still to be called.\<close>

fun connections_inv :: "bool \<Rightarrow> bool \<Rightarrow> main_pc \<Rightarrow> bool" where
  "connections_inv redis mongo (Returning r ds) =
     (ds \<in> set (suffixes (CancelShutdown # deferred_at_serve)) \<and> redis = (CloseRedis \<in> set ds) \<and> mongo = (DisconnectMongo \<in> set ds))"
| "connections_inv redis mongo (Disconnecting dl r ds) = (ds = [StopSignals, CloseLog] \<and> \<not> redis \<and> mongo)"
| "connections_inv redis mongo (Exited r) = (\<not> redis \<and> \<not> mongo)"
| "connections_inv redis mongo _ = (redis \<and> mongo)"

definition open_inv :: "process_state \<Rightarrow> bool" where
  "open_inv s \<longleftrightarrow> connections_inv (ps_redis_open s) (ps_mongo_open s) (ps_main s)"

text \<open>The channels: a nil error is sent only after \<open>Shutdown\<close>, and \<open>outboxDone\<close> is closed by the worker as it ends.\<close>

definition channels_inv :: "process_state \<Rightarrow> bool" where
  "channels_inv s \<longleftrightarrow>
     (None \<in> set (ps_errCh s) \<longrightarrow> ps_inShutdown s) \<and> (ps_server s \<noteq> ServerEnded \<longrightarrow> ps_errCh s = []) \<and>
     (ps_server s = ListenReturned ErrServerClosed \<longrightarrow> ps_inShutdown s) \<and>
     (ps_outboxDone s = Some True \<longrightarrow> ps_worker s = WorkerEnded) \<and> (ps_outboxDone s = None \<longrightarrow> ps_worker s = WorkerEnded)"

fun phase_inv :: "process_state \<Rightarrow> main_pc \<Rightarrow> bool" where
  "phase_inv s Selecting = (\<not> ps_inShutdown s \<and> (ps_ctx_done s \<longrightarrow> ps_signalled s \<noteq> None))"
| "phase_inv s (InShutdown dl) = (ps_inShutdown s \<and> ps_signalled s \<noteq> None)"
| "phase_inv s (AwaitingWorker dl) = (ps_inShutdown s \<and> ps_signalled s \<noteq> None \<and> ps_inflight s = 0)"
| "phase_inv s pc = (result_of pc = Some None \<longrightarrow> graceful s)"

lemma open_inv_step: "api_step cfg s a s' \<Longrightarrow> open_inv s \<Longrightarrow> open_inv s'"
  by (cases "a = Main")
    (auto simp: open_inv_def api_step_frame api_step_simps main_defs deferred_at_serve_def elim!: main_stepE cleanup_stepE)

lemma channels_inv_step:
  assumes "api_step cfg s a s'" "channels_inv s"
  shows "channels_inv s'"
  using assms(1)
proof cases
  case Main
  then show ?thesis using assms(2) by (elim main_stepE cleanup_stepE; simp add: channels_inv_def main_defs)
next
  case Server
  then show ?thesis using assms(2) by (elim server_stepE; auto simp: channels_inv_def)
next
  case Worker
  then show ?thesis using assms(2) by (elim worker_stepE; simp add: channels_inv_def)
qed (use assms(2) in \<open>simp_all add: channels_inv_def\<close>)

lemma serve_error_None [simp]: "serve_error r = None \<longleftrightarrow> r = None"
  by (simp add: serve_error_def)

lemma phase_inv_main_step:
  assumes "main_step s s'" "phase_inv s (ps_main s)" "channels_inv s"
  shows "phase_inv s' (ps_main s')"
  using assms by (elim main_stepE cleanup_stepE; (simp add: channels_inv_def graceful_def main_defs; fail)?)
    (auto simp: channels_inv_def)

text \<open>A step of the others keeps what the main goroutine has established.\<close>

lemma established_step:
  assumes "api_step cfg s a s'" "a \<noteq> Main"
  shows "ps_inShutdown s \<Longrightarrow> ps_inflight s = 0 \<Longrightarrow> ps_inflight s' = 0" "ps_signalled s \<noteq> None \<Longrightarrow> ps_signalled s' \<noteq> None"
    "ps_worker s = WorkerEnded \<Longrightarrow> ps_worker s' = WorkerEnded" "ps_ctx_done s' \<Longrightarrow> \<not> ps_ctx_done s \<Longrightarrow> ps_signalled s' \<noteq> None"
  using assms by (auto elim!: api_step.cases other_stepE)

lemma phase_inv_other_step:
  assumes "api_step cfg s a s'" "a \<noteq> Main" "phase_inv s (ps_main s)"
  shows "phase_inv s' (ps_main s')"
proof -
  note frame = api_step_frame [OF assms(1,2)] established_step [OF assms(1,2)]
  have "graceful s \<Longrightarrow> graceful s'" using frame by (auto simp: graceful_def)
  then show ?thesis using assms(3) frame by (cases "ps_main s") auto
qed

definition lifecycle_inv :: "process_state \<Rightarrow> bool" where
  "lifecycle_inv s \<longleftrightarrow> open_inv s \<and> channels_inv s \<and> phase_inv s (ps_main s)"

lemma reachable_inv: "reachable cfg s \<Longrightarrow> lifecycle_inv s"
proof (induction rule: reachable.induct)
  case (step s a s')
  then have "phase_inv s' (ps_main s')"
    using phase_inv_main_step phase_inv_other_step by (cases "a = Main") (auto simp: lifecycle_inv_def api_step_simps(1))
  then show ?case using step open_inv_step channels_inv_step by (auto simp: lifecycle_inv_def)
qed (auto simp: lifecycle_inv_def serving_def open_inv_def channels_inv_def Let_def)

section \<open>The time a shutdown takes\<close>

text \<open>The latest time at which the main goroutine can be where it is, after a signal at \<open>t\<close>.\<close>

fun timely :: "time \<Rightarrow> time \<Rightarrow> main_pc \<Rightarrow> bool" where
  "timely now t Selecting = (now = t)"
| "timely now t (InShutdown dl) = (now \<le> dl \<and> dl \<le> t + 10 * second)"
| "timely now t (AwaitingWorker dl) = (now \<le> dl \<and> dl \<le> t + 15 * second)"
| "timely now t (Returning r ds) = (now \<le> t + (if DisconnectMongo \<in> set ds then 15 else 20) * second)"
| "timely now t (Disconnecting dl r ds) = (now \<le> dl \<and> dl \<le> t + 20 * second)"
| "timely now t (Exited r) = (now \<le> t + 20 * second)"

fun disconnect_by :: "time \<Rightarrow> main_pc \<Rightarrow> bool" where
  "disconnect_by now (Disconnecting dl r ds) = (now \<le> dl \<and> dl \<le> now + 5 * second)"
| "disconnect_by now _ = True"

definition time_inv :: "process_state \<Rightarrow> bool" where
  "time_inv s \<longleftrightarrow>
     (\<forall>t. ps_signalled s = Some t \<longrightarrow> t \<le> ps_now s \<and> ps_ctx_done s \<and> timely (ps_now s) t (ps_main s)) \<and>
     disconnect_by (ps_now s) (ps_main s)"

lemmas time_simps = time_inv_def second_def

lemma time_inv_main_step:
  assumes "main_step s s'" "time_inv s" "lifecycle_inv s"
  shows "time_inv s'"
  using assms
  by (elim main_stepE cleanup_stepE; simp add: time_simps main_defs deferred_at_serve_def lifecycle_inv_def open_inv_def)
    (auto split: if_splits)

lemma time_inv_clock_step: "api_step cfg s Clock s' \<Longrightarrow> time_inv s \<Longrightarrow> time_inv s'"
  by (cases "ps_main s") (auto simp: api_step_simps time_simps)

lemma time_inv_other_step:
  assumes "api_step cfg s a s'" "\<not> main_or_clock a" "time_inv s" "lifecycle_inv s"
  shows "time_inv s'"
proof (cases "a = Signal")
  case True
  then show ?thesis using assms(1,3,4)
    by (cases "ps_main s") (auto simp: api_step_simps time_simps lifecycle_inv_def)
next
  case False
  then show ?thesis using assms api_step_frame [OF assms(1)] by (simp add: time_inv_def main_or_clock_def)
qed

lemma reachable_time_inv: "reachable cfg s \<Longrightarrow> time_inv s"
proof (induction rule: reachable.induct)
  case (step s a s')
  then show ?case
    using time_inv_main_step time_inv_clock_step time_inv_other_step reachable_inv [OF step.hyps(1)]
    by (cases "a = Main \<or> a = Clock") (auto simp: api_step_simps(1) main_or_clock_def)
qed (simp add: time_inv_def serving_def Let_def)

section \<open>A shutdown without the worker\<close>

text \<open>A process with the outbox disabled receives a signal while it serves no request.\<close>

definition demo_config :: Config where
  "demo_config = read_config \<lparr>tl_ParseDuration = (\<lambda>_. None), tl_ParseRFC3339 = (\<lambda>_. None)\<rparr> (\<lambda>k. if k = ''OUTBOX_ENABLED'' then ''false'' else [])"

definition demo_shutdown :: "(actor \<times> (process_state \<Rightarrow> process_state)) list" where
  "demo_shutdown =
     [(Signal, \<lambda>s. s\<lparr>ps_ctx_done := True, ps_signalled := Some (ps_now s)\<rparr>),
      (Main, \<lambda>s. write_lines [Log LevelInfo ''api shutdown requested'' []] (s\<lparr>ps_main := InShutdown (ps_now s + 10 * second), ps_inShutdown := True\<rparr>)),
      (Clock, \<lambda>s. s\<lparr>ps_now := ps_now s + second\<rparr>),
      (Main, stopped),
      (Main, \<lambda>s. s\<lparr>ps_main := Returning None deferred_at_serve\<rparr>),
      (Main, \<lambda>s. close_redis None (s\<lparr>ps_main := Returning None [DisconnectMongo, StopSignals, CloseLog]\<rparr>)),
      (Main, \<lambda>s. s\<lparr>ps_main := Disconnecting (ps_now s + 5 * second) None [StopSignals, CloseLog]\<rparr>),
      (Main, \<lambda>s. mongo_disconnected None (s\<lparr>ps_main := Returning None [StopSignals, CloseLog]\<rparr>)),
      (Main, \<lambda>s. s\<lparr>ps_main := Returning None [CloseLog], ps_ctx_done := True\<rparr>),
      (Main, \<lambda>s. close_logger None (s\<lparr>ps_main := Returning None []\<rparr>)),
      (Main, exit_process None)]"

abbreviation demo_states :: "nat \<Rightarrow> process_state" where
  "demo_states \<equiv> played (serving demo_config 0) demo_shutdown"

lemma demo_outbox: "ox_Enabled (cf_Outbox demo_config) = False"
  by code_simp

lemmas demo_start_simps = serving_def Let_def demo_outbox

lemma demo_plays: "plays (api_step demo_config) (serving demo_config 0) demo_shutdown"
  unfolding demo_shutdown_def plays.simps fst_conv snd_conv
  by (intro conjI TrueI;
      (rule api_step.Signal api_step.Clock
         | (rule api_step.Main, (rule main_step.select_done main_step.shutdown_stopped
              | (rule main_step.deferred, rule cleanup_step.intros))))?)
    (simp_all add: demo_start_simps exited_def main_defs deferred_at_serve_def second_def)

lemma demo_exited: "exited (fold snd demo_shutdown (serving demo_config 0))"
  by (simp add: demo_shutdown_def exited_def main_defs)

lemma reachable_run: "is_run (api_step cfg) st act \<Longrightarrow> reachable cfg (st 0) \<Longrightarrow> reachable cfg (st i)"
  by (induction i) (auto simp: is_run_def split: option.splits intro: reachable.step, metis option.exhaust reachable.step)

lemma demo_reachable: "reachable demo_config (demo_states i)"
  using reachable_run [OF plays_is_run [OF demo_plays]] reachable.start by (simp add: played_def)

section \<open>Guarantees\<close>

text \<open>
  C13. The API process ends. Once a signal has arrived, the server has failed or \<open>run\<close> is past its
  select, every run in which the main goroutine and the clock are not held up forever reaches the end
  of the process, whatever the server, its requests and the outbox worker do; and in every state
  before the end one of the two can step, so no goroutine can block the main goroutine.
\<close>

theorem api_process_ends:
  assumes "is_run (api_step cfg) st act" "is_fair main_or_clock exited st act" "ending (st k)"
  shows "(\<exists>n\<ge>k. exited (st n)) \<and> (\<forall>i. exited (st i) \<or> (\<exists>a s'. main_or_clock a \<and> api_step cfg (st i) a s'))"
  using api_runs.fair_run_ends [OF assms] main_progress by blast

theorem api_process_ends_witness:
  "\<exists>n\<ge>1. exited (demo_states n)"
  using api_process_ends [OF plays_is_run [OF demo_plays] played_is_fair [of exited, OF demo_exited], of 1]
  by (simp add: ending_def played_def demo_shutdown_def)

text \<open>
  C14. Shutdown is graceful. When \<open>run\<close> has returned \<open>nil\<close>, a signal had arrived, the server was shut
  down with no request in flight, and the outbox worker had ended unless its time-out was logged; and
  the connections to Redis and MongoDB are closed only after \<open>run\<close> has returned, both of them before
  the process ends. The goroutine of the server never blocks on the channel of its error.
\<close>

theorem graceful_shutdown:
  assumes "reachable cfg s"
  shows "(result_of (ps_main s) = Some None \<longrightarrow> graceful s) \<and>
    (\<not> ps_redis_open s \<or> \<not> ps_mongo_open s \<longrightarrow> result_of (ps_main s) \<noteq> None) \<and>
    (exited s \<longrightarrow> \<not> ps_redis_open s \<and> \<not> ps_mongo_open s) \<and>
    (\<forall>e. ps_server s = ListenReturned e \<longrightarrow> ps_errCh s = [])"
  using reachable_inv [OF assms] by (cases "ps_main s") (auto simp: lifecycle_inv_def open_inv_def channels_inv_def exited_def)

theorem graceful_shutdown_witness:
  "ps_main (demo_states 11) = Exited None \<and> graceful (demo_states 11) \<and> \<not> ps_mongo_open (demo_states 11)"
proof -
  have "ps_main (demo_states 11) = Exited None" by (simp add: played_def demo_shutdown_def main_defs)
  then show ?thesis using graceful_shutdown [OF demo_reachable, of 11] by (simp add: exited_def)
qed

text \<open>
  C15. A shutdown takes at most twenty seconds: ten for the requests in flight, five for the outbox
  worker and five to disconnect from MongoDB.
\<close>

theorem shutdown_time_bound:
  assumes "reachable cfg s" "ps_signalled s = Some t"
  shows "t \<le> ps_now s \<and> ps_now s \<le> t + 20 * second"
  using reachable_time_inv [OF assms(1)] assms(2) by (cases "ps_main s") (auto simp: time_simps split: if_splits)

theorem shutdown_time_bound_witness:
  "ps_signalled (demo_states 11) = Some 0 \<and> ps_now (demo_states 11) \<le> 20 * second"
proof -
  have "ps_signalled (demo_states 11) = Some 0" by (simp add: played_def demo_shutdown_def main_defs demo_start_simps)
  then show ?thesis using shutdown_time_bound [OF demo_reachable, of 11 0] by simp
qed

end
