(* ===== verification/RequestLog.thy ===== *)
theory RequestLog
  imports Router Logger
begin

text \<open>
  The lines that the middleware logs for a request (\<open>internal/middleware\<close>): the fields of the request's
  logger, of the access line, of the line for a failed request and of the line for a panic. The line
  for a failed request can be matched with the answer the client got.
\<close>

section \<open>Fields\<close>

text \<open>The fields that \<open>RequestID\<close> gives the logger of a request.\<close>

definition request_fields :: "string \<Rightarrow> string \<Rightarrow> string \<Rightarrow> Field list" where
  "request_fields requestID traceID spanID =
     [logger_String ''request_id'' requestID, logger_String ''trace_id'' traceID] @
     (if spanID \<noteq> [] then [logger_String ''span_id'' spanID] else [])"

text \<open>The access line of \<open>Logging\<close>; the raw query is the framework's, the latency is measured.\<close>

definition access_fields :: "gctx \<Rightarrow> string \<Rightarrow> int \<Rightarrow> Field list" where
  "access_fields c rawQuery latency =
     [logger_String ''method'' (rq_Method (g_Request c)), logger_String ''path'' (rq_FullPath (g_Request c)),
      logger_String ''query'' rawQuery, logger_Int ''status'' (Writer_Status c), logger_Int ''latency_ms'' latency,
      logger_String ''ip'' (rq_ClientIP (g_Request c)), logger_String ''user_agent'' (rq_UserAgent (g_Request c))]"

text \<open>What both lines about a failure say of the request.\<close>

definition failure_fields :: "gctx \<Rightarrow> AppError \<Rightarrow> int \<Rightarrow> Field list" where
  "failure_fields c appErr status =
     [logger_String ''request_id'' (RequestID c), logger_String ''user_id'' (contextString c key_UserID),
      logger_String ''session_id'' (contextString c key_SessionID), logger_String ''operation'' (Op appErr),
      logger_String ''method'' (rq_Method (g_Request c)), logger_String ''path'' (rq_Path (g_Request c)),
      logger_Int ''status'' status, logger_String ''error_code'' (code_string (Code appErr))]"

definition any_error :: "err option \<Rightarrow> any_value" where
  "any_error e = (case e of None \<Rightarrow> AOther ''<nil>'' | Some e \<Rightarrow> AOther (err_Error e))"

definition errorLogFields :: "gctx \<Rightarrow> AppError \<Rightarrow> err \<Rightarrow> int \<Rightarrow> Field list" where
  "errorLogFields c appErr e latency =
     failure_fields c appErr (error_status appErr) @
     [logger_Any ''error'' (any_error (Some e)), logger_Any ''cause'' (any_error (Cause appErr)),
      logger_Any ''retryable'' (AOther (if Retryable appErr then ''true'' else ''false''))] @
     (if latency \<ge> 0 then [logger_Int ''latency_ms'' latency] else []) @
     (if Stack appErr \<noteq> [] then [logger_String ''stack'' (Stack appErr)] else [])"

definition panic_fields :: "gctx \<Rightarrow> any_value \<Rightarrow> AppError \<Rightarrow> string \<Rightarrow> Field list" where
  "panic_fields c recovered appErr stack =
     logger_Any ''panic'' recovered # failure_fields c appErr (HTTPStatus appErr) @ [logger_String ''stack'' stack]"

text \<open>The level of the line for a failed request.\<close>

definition failure_level :: "AppError \<Rightarrow> int" where
  "failure_level appErr = (if isClientError (HTTPStatus appErr) then LevelWarn else LevelError)"

section \<open>Small operations\<close>

definition WriteRequestIDHeader :: "(string \<Rightarrow> string) \<Rightarrow> string \<Rightarrow> string \<Rightarrow> string" where
  "WriteRequestIDHeader header requestID = (if requestID \<noteq> [] then header(''X-Request-ID'' := requestID) else header)"

definition metricsEndpoint :: "('m, 'r) handler \<Rightarrow> ('m, 'r) handler option \<Rightarrow> ('m, 'r) handler" where
  "metricsEndpoint promhttp h = (case h of Some h \<Rightarrow> h | None \<Rightarrow> promhttp)"

definition no_deps :: "('m, 'r) RouterDependencies" where
  "no_deps = \<lparr>dep_AuthService = None, dep_UserService = None, dep_TokenService = None, dep_Sessions = None, dep_Monitoring = None,
     dep_ErrorEvents = None, dep_HTTPMetrics = False, dep_RateLimiter = None, dep_MetricsHandler = None, dep_Readiness = None\<rparr>"

definition NewRouter :: "http_lib \<Rightarrow> ('m, 'r) handler \<Rightarrow> bool \<Rightarrow> Config \<Rightarrow> ('m, 'r) handler" where
  "NewRouter hl promhttp registered cfg = NewRouterWithDependencies hl promhttp registered cfg no_deps"

section \<open>A line can be matched with its answer\<close>

lemma request_id_not_redacted [simp]: "redact ''request_id'' v = v" "redact ''status'' v = v" "redact ''error_code'' v = v"
  by (simp_all add: redact_def sensitive_markers_def ToLower_def lower_char_def)

text \<open>
  The line for a failed request shows, whatever the logger carries already, the request identifier,
  the status and the code of the answer that \<open>writeError\<close> gives.
\<close>

lemma error_line_matches_answer:
  defines "line l c appErr e latency now \<equiv> log_entry l (failure_level appErr) ''request failed'' now (errorLogFields c appErr e latency)"
  shows "\<exists>status body env. g_out (writeError c appErr) = g_out c @ [OJSON status env] \<and> en_Error env = Some body \<and>
    map_of (line l c appErr e latency now) ''request_id'' = map_option AString (en_RequestID env) \<and>
    map_of (line l c appErr e latency now) ''status'' = Some (AOther (Itoa status)) \<and>
    map_of (line l c appErr e latency now) ''error_code'' = Some (AString (code_string (eb_Code body)))"
  unfolding line_def log_entry_def map_of_add_fields writeError_def emit_def
  by (simp add: errorLogFields_def failure_fields_def logger_String_def logger_Int_def logger_Any_def)

end
