(* ===== verification/Spec2Isabelle.thy ===== *)
theory Spec2Isabelle
  imports AuthGuarantees ProcessProperties Lifecycle RequestLog
begin

text \<open>
  A verification development for the backend template under \<open>src/\<close>: a Go service with password
  login, rotating refresh tokens, JWT access tokens, a MongoDB store behind a Redis cache, and an
  outbox for audit events.

  \<^bold>\<open>The model.\<close> A Go function is a HOL function of the same name; one that talks to a server, reads
  the clock or draws random bytes is a computation of the state monad over the record \<open>world\<close> of
  \<open>Prelude\<close> (state of MongoDB, state of Redis, clock readings, random draws, invalidation buffers of
  transactions, recorded metrics). An \<open>error\<close> result is \<open>err option\<close>, a value with an error is
  \<open>err + 'a\<close>; an interface is a record of computations, \<open>None\<close> where the code may find \<open>nil\<close>.
  \<open>time.Time\<close> and \<open>time.Duration\<close> are nanoseconds; arithmetic wraps at 64 bits where it can reach the
  limit. Recorded metrics are kept as a trace.

  \<^bold>\<open>The HTTP side.\<close> A handler is a computation over the record \<open>gctx\<close> of \<open>Http\<close>: the request with what
  the framework computes of it, the values set for later handlers, and in order what was handed to the
  framework (headers, statuses, bodies, attached errors). A middleware takes the rest of the chain as
  an argument, so \<open>c.Next()\<close> is a call and \<open>c.Abort()\<close> leaves it out; a panic is a flag that skips
  whatever would follow, up to \<open>Recovery\<close>. The router is the table of routes with their chains; the
  matching of a path to a route is the framework's.

  \<^bold>\<open>External code.\<close> The MongoDB driver, the Redis client, the JWT library, bcrypt, SHA-256, JSON
  encoding, the metrics registry and the parsing of durations and dates are parameters. What the
  program relies on is stated as the locales \<open>mongo_server\<close> and \<open>go_mongo_driver\<close> (\<open>Mongo_Server\<close>),
  \<open>redis_server\<close> (\<open>Cache\<close>), \<open>window_counter\<close> (\<open>RateLimit\<close>), \<open>jwt_contract\<close> (\<open>TokenService\<close>),
  \<open>mongo_sessions\<close> (\<open>AuthSystem\<close>), \<open>index_creation\<close> and \<open>slice_sort\<close> (\<open>Migration\<close>), \<open>registry\<close>
  (\<open>Collectors\<close>), \<open>gin_registration\<close> (\<open>Router\<close>) and \<open>mongo_connection\<close> (\<open>ProcessProperties\<close>), each interpreted on an
  implementation in memory.

  \<^bold>\<open>Theories.\<close>
  \<^item> \<open>Prelude\<close>, \<open>Base64\<close>, \<open>Formats\<close>, \<open>Parsing\<close>: the world, a Hoare calculus for the monad, the parts of the
    standard library in use.
  \<^item> \<open>Errors\<close>: \<open>internal/platform/errors\<close>; \<open>FromError\<close> gives consistent statuses and fixed texts, and
    keeps the identity of the sentinels below.
  \<^item> \<open>Domain\<close>: \<open>internal/domain\<close>; bounds of pagination, identifiers, normalisation.
  \<^item> \<open>Database\<close>, \<open>Mongo_Server\<close>: \<open>internal/platform/database\<close> without the cache, the contract of the
    server.
  \<^item> \<open>Cache\<close>: \<open>internal/platform/cache\<close>; locks exclude.
  \<^item> \<open>CachedDatabase\<close>, \<open>Store\<close>: \<open>cached_database.go\<close>, and the contract \<open>store\<close> of the \<open>Database\<close>
    interface, which \<open>MongoDatabase\<close> meets and \<open>CachedDatabase\<close> hands on (a refinement); coherence of
    reads, invalidation by writes, locks, transactions.
  \<^item> \<open>Repositories\<close>, \<open>SessionStore\<close>: \<open>internal/repository/mongo\<close>; round trips of the document codecs,
    the effect of each operation on the collections.
  \<^item> \<open>TokenService\<close>, \<open>AuthService\<close>: \<open>internal/app/auth\<close>, every operation.
  \<^item> \<open>AuthProperties\<close>, \<open>AuthGuarantees\<close>: the locale \<open>auth_env\<close> is the contract of the service's
    environment, and the guarantees of the service (rotation, single use also among
    concurrent requests, reuse detection, finality of revocation,
    login, registration, logout, lockout) hold in it.
  \<^item> \<open>Outbox\<close>, \<open>OutboxProperties\<close>: \<open>internal/platform/outbox\<close> and \<open>internal/app/outbox\<close>; enqueueing is
    idempotent, claims are exclusive, a delivered batch is settled, and why the worker of the API process
    delivers none.
  \<^item> \<open>AuthSystem\<close>: how \<open>cmd/api/main.go\<close> composes them; the composed service meets \<open>auth_env\<close>.
  \<^item> \<open>RateLimit\<close>: \<open>internal/platform/ratelimit\<close>; at most the limit passes in a window of the counter.
  \<^item> \<open>Monitoring\<close>: \<open>internal/platform/health\<close>, \<open>internal/app/monitoring\<close>, \<open>internal/app/user\<close>.
  \<^item> \<open>Migration\<close>, \<open>Seed\<close>: \<open>internal/platform/migration\<close>, \<open>internal/bootstrap\<close>, \<open>internal/app/seed\<close>;
    migrations are applied in order and once (read off a trace of their effects), the indexes are the ones the contract of the server speaks of,
    seeding grants the role to one account and changes nothing else.
  \<^item> \<open>Logger\<close>, \<open>Collectors\<close>: \<open>internal/platform/logger\<close> and \<open>internal/platform/metrics\<close>; a line does not
    depend on the values of sensitive fields, the gauge of sessions is the balance of the events.
  \<^item> \<open>Http\<close>, \<open>Middleware\<close>, \<open>Handlers\<close>, \<open>Router\<close>: \<open>internal/handler/http\<close> and \<open>internal/middleware\<close>.
  \<^item> \<open>RouterProperties\<close>: every request is answered once, errors and panics included; two routers that
    differ in the guarded services agree on requests that the guards refuse.
  \<^item> \<open>RequestLog\<close>: the fields of the lines the middleware logs; the line for a failed request shows the
    identifier, status and code of its answer.
  \<^item> \<open>Config\<close>: \<open>internal/config\<close>, every check in the order of the source.
  \<^item> \<open>Processes\<close>, \<open>ProcessProperties\<close>: \<open>run\<close> of \<open>cmd/api\<close>, \<open>cmd/seed\<close> and \<open>cmd/migrate\<close>; an accepted
    configuration gets to the router unless its metrics path repeats a route, the guarded routes of the process, the seed command is idempotent, and where
    the wiring departs from the documentation.
  \<^item> \<open>Runs\<close>, \<open>Lifecycle\<close>: the rest of \<open>run\<close> of \<open>cmd/api\<close>, from the router to the exit, as a step relation
    of its goroutines, the requests, a signal and the clock; the locale \<open>ranked_steps\<close> gives termination
    of fair runs, and the process ends, shuts down gracefully and within twenty seconds.

  \<^bold>\<open>Loops.\<close> All loops of the modelled code run over lists and are structural recursions, so no fuel
  is used; the outbox worker's endless loop is a recursion over the wake-ups it receives. The
  process as a whole is a transition system, and that it ends is a theorem about its infinite runs.

  \<^bold>\<open>Not modelled.\<close> The matching of paths and the wire format are the framework's; of \<open>net/http\<close> only what
  \<open>run\<close> relies on is modelled. A request is a single computation: the interleaving of the operations of two
  requests is not modelled in general; for refresh, whose only write to the sessions is the rotation,
  single use also speaks of a request that had passed its lookup before.
  The log calls of the other components are not threaded through their computations (the clock
  readings they make are kept); the fields of the middleware's lines are in \<open>RequestLog\<close>.
  Only handlers panic: a service's computation gives a value or an error. Function arguments are never
  nil (\<open>RunInTransaction\<close>), reading the body for a rate limit leaves the body in place as the source
  restores it, and the framework's 404 is written as the innermost step of the chain.
  Contract \<open>store\<close> is exact for writes without a lock or with a strict one; a locked write that is not
  strict may run twice, and for those the contract says what such a repetition can leave behind.
  Deadlines of contexts are left to the servers, which answer with an
  error when one has passed. The connection code of \<open>cmd/seed\<close> and \<open>cmd/migrate\<close> repeats that of
  \<open>cmd/api\<close> and is modelled once.
\<close>

end
